(* ===== verification/Py_Prelude.thy ===== *)
theory Py_Prelude
  imports Main "HOL-Library.List_Lexorder"
begin

text \<open>
  Shared vocabulary of the development: Python strings as lists of code points, results
  that are either a raised exception or a value, dictionaries as association lists in
  insertion order, and the lemma collections the component theories rely on.
\<close>

named_theorems res_simps \<open>rules that push case analysis through results\<close>
named_theorems dict_simps \<open>lookup and membership rules for dictionaries\<close>
named_theorems str_eval \<open>definitions that evaluate string operations on literals\<close>

section \<open>Strings\<close>

text \<open>
  A Python \<open>str\<close> is a sequence of Unicode code points, and comparison of strings is the
  lexicographic order on code points, which is the order of \<open>List_Lexorder\<close> on \<open>nat list\<close>.
  \<open>lit\<close> embeds an ASCII literal.
\<close>

type_synonym pystr = "nat list"
type_synonym bytes = "nat list"

definition lit :: "string \<Rightarrow> pystr" where
  "lit s = map of_char s"

lemma lit_Nil [simp]: "lit [] = []"
  by (simp add: lit_def)

lemma lit_eq_iff [simp]: "lit s = lit t \<longleftrightarrow> s = t"
  by (simp add: lit_def inj_map_eq_map inj_on_def)

lemma lit_eq_Nil_iff [simp]: "lit s = [] \<longleftrightarrow> s = []" "[] = lit s \<longleftrightarrow> s = []"
  by (auto simp: lit_def)

lemma length_lit [simp]: "length (lit s) = length s"
  by (simp add: lit_def)

lemma lit_append: "lit (s @ t) = lit s @ lit t"
  by (simp add: lit_def)

lemma set_lit_less: "c \<in> set (lit s) \<Longrightarrow> c < 256"
  by (auto simp: lit_def)

declare lit_def [str_eval]

section \<open>Results: an exception or a value\<close>

text \<open>
  \<open>Inl e\<close> is a raised exception, \<open>Inr x\<close> a normal return. \<open>bind_res\<close> is sequencing: the
  first exception ends the computation.
\<close>

definition bind_res :: "'e + 'a \<Rightarrow> ('a \<Rightarrow> 'e + 'b) \<Rightarrow> 'e + 'b" where
  "bind_res m f = (case m of Inl e \<Rightarrow> Inl e | Inr x \<Rightarrow> f x)"

text \<open>\<open>raise_if b e\<close> is the statement \<open>if b: raise e\<close>.\<close>

definition raise_if :: "bool \<Rightarrow> 'e \<Rightarrow> 'e + unit" where
  "raise_if b e = (if b then Inl e else Inr ())"

text \<open>\<open>except_res m h\<close> is \<open>try: m except ...\<close> where \<open>h e\<close> is the handler's outcome for \<open>e\<close>.\<close>

definition except_res :: "'e + 'a \<Rightarrow> ('e \<Rightarrow> 'f + 'a) \<Rightarrow> 'f + 'a" where
  "except_res m h = (case m of Inl e \<Rightarrow> h e | Inr x \<Rightarrow> Inr x)"

fun map_res :: "('a \<Rightarrow> 'e + 'b) \<Rightarrow> 'a list \<Rightarrow> 'e + 'b list" where
  "map_res f [] = Inr []"
| "map_res f (x # xs) = bind_res (f x) (\<lambda>y. bind_res (map_res f xs) (\<lambda>ys. Inr (y # ys)))"

lemma bind_res_simps [simp]:
  "bind_res (Inl e) f = Inl e"
  "bind_res (Inr x) f = f x"
  by (simp_all add: bind_res_def)

lemma bind_res_Inr_iff [res_simps]:
  "bind_res m f = Inr y \<longleftrightarrow> (\<exists>x. m = Inr x \<and> f x = Inr y)"
  by (cases m) auto

lemma bind_res_Inl_iff:
  "bind_res m f = Inl e \<longleftrightarrow> m = Inl e \<or> (\<exists>x. m = Inr x \<and> f x = Inl e)"
  by (cases m) auto

lemma bind_res_cong [fundef_cong]:
  "m = m' \<Longrightarrow> (\<And>x. m' = Inr x \<Longrightarrow> f x = f' x) \<Longrightarrow> bind_res m f = bind_res m' f'"
  by (cases m') auto

lemma bind_res_assoc: "bind_res (bind_res m f) g = bind_res m (\<lambda>x. bind_res (f x) g)"
  by (cases m) auto

lemma raise_if_simps [simp]:
  "raise_if True e = Inl e"
  "raise_if False e = Inr ()"
  by (simp_all add: raise_if_def)

lemma raise_if_Inr_iff [simp]: "raise_if b e = Inr u \<longleftrightarrow> \<not> b"
  by (simp add: raise_if_def)

lemma raise_if_Inl_iff [simp]: "raise_if b e = Inl e' \<longleftrightarrow> b \<and> e' = e"
  by (auto simp: raise_if_def)

lemma except_res_simps [simp]:
  "except_res (Inl e) h = h e"
  "except_res (Inr x) h = Inr x"
  by (simp_all add: except_res_def)

lemma except_res_Inr_iff [res_simps]:
  "except_res m h = Inr x \<longleftrightarrow> m = Inr x \<or> (\<exists>e. m = Inl e \<and> h e = Inr x)"
  by (cases m) auto

lemma map_res_Inr_iff: "map_res f xs = Inr ys \<longleftrightarrow> list_all2 (\<lambda>x y. f x = Inr y) xs ys"
  by (induction xs arbitrary: ys) (auto simp: res_simps list_all2_Cons1)

lemma map_res_all: "(\<And>x. x \<in> set xs \<Longrightarrow> f x = Inr (g x)) \<Longrightarrow> map_res f xs = Inr (map g xs)"
  by (induction xs) auto

section \<open>Dictionaries\<close>

text \<open>
  A \<open>dict\<close> is an association list in insertion order. Assignment to a present key keeps its
  position, assignment to a new key appends it; keys stay distinct.
\<close>

type_synonym ('k, 'v) dict = "('k \<times> 'v) list"

definition dict_get :: "('k, 'v) dict \<Rightarrow> 'k \<Rightarrow> 'v option" where
  "dict_get d k = map_of d k"

fun dict_set :: "('k, 'v) dict \<Rightarrow> 'k \<Rightarrow> 'v \<Rightarrow> ('k, 'v) dict" where
  "dict_set [] k v = [(k, v)]"
| "dict_set ((k', v') # d) k v = (if k' = k then (k, v) # d else (k', v') # dict_set d k v)"

abbreviation dict_keys :: "('k, 'v) dict \<Rightarrow> 'k list" where
  "dict_keys d \<equiv> map fst d"

lemma dict_get_Nil [simp, dict_simps]: "dict_get [] k = None"
  by (simp add: dict_get_def)

lemma dict_get_Cons [simp, dict_simps]:
  "dict_get ((k', v) # d) k = (if k = k' then Some v else dict_get d k)"
  by (simp add: dict_get_def)

lemma dict_get_set [simp, dict_simps]:
  "dict_get (dict_set d k v) k' = (if k' = k then Some v else dict_get d k')"
  by (induction d) auto

lemma dict_keys_set [simp]: "fst ` set (dict_set d k v) = insert k (fst ` set d)"
proof (induction d)
  case (Cons kv d)
  then show ?case by (cases kv) (simp add: insert_commute)
qed simp

lemma distinct_dict_set [simp]:
  "distinct (dict_keys d) \<Longrightarrow> distinct (dict_keys (dict_set d k v))"
proof (induction d)
  case (Cons kv d)
  then show ?case by (cases kv) auto
qed simp

lemma dict_get_SomeD: "dict_get d k = Some v \<Longrightarrow> (k, v) \<in> set d"
  by (simp add: dict_get_def map_of_SomeD)

lemma dict_get_filter:
  "dict_get (filter (\<lambda>(k, v). P k) d) k = (if P k then dict_get d k else None)"
  by (induction d) auto

text \<open>
  The mapping contract every keyed store of the program relies on: what a lookup returns
  after an assignment. A client proves its lemmas once from it.
\<close>

locale keyed_store =
  fixes empty :: 'd
    and get :: "'d \<Rightarrow> 'k \<Rightarrow> 'v option"
    and put :: "'d \<Rightarrow> 'k \<Rightarrow> 'v \<Rightarrow> 'd"
  assumes get_empty: "get empty k = None"
    and get_put: "get (put d k v) k' = (if k' = k then Some v else get d k')"
begin

lemma get_put_same: "get (put d k v) k = Some v"
  by (simp add: get_put)

lemma get_put_other: "k' \<noteq> k \<Longrightarrow> get (put d k v) k' = get d k'"
  by (simp add: get_put)

lemma get_fold_put:
  "get (fold (\<lambda>(k, v) d. put d k v) kvs d) k =
     (case map_of (rev kvs) k of None \<Rightarrow> get d k | Some v \<Rightarrow> Some v)"
  by (induction kvs arbitrary: d)
     (auto simp: get_put map_add_def split: option.splits)

lemma get_fold_put_in:
  "get (fold (\<lambda>(k, v) d. put d k v) kvs empty) k = Some v \<Longrightarrow> (k, v) \<in> set kvs"
  by (auto simp: get_fold_put get_empty split: option.splits dest: map_of_SomeD)

end

interpretation dict: keyed_store "[]" dict_get dict_set
  by unfold_locales auto

section \<open>Encoders and decoders\<close>

text \<open>
  The contract between a renderer and the parser that reads its output back. Every
  \<open>to_dict\<close>/\<open>from_dict\<close>, \<open>hex\<close>/\<open>fromhex\<close> and \<open>isoformat\<close>/\<open>fromisoformat\<close> pair of the
  program is an instance.
\<close>

locale codec =
  fixes encode :: "'a \<Rightarrow> 'b"
    and decode :: "'b \<Rightarrow> 'e + 'a"
    and valid :: "'a \<Rightarrow> bool"
  assumes decode_encode: "valid x \<Longrightarrow> decode (encode x) = Inr x"
begin

lemma encode_inj: "valid x \<Longrightarrow> valid y \<Longrightarrow> encode x = encode y \<Longrightarrow> x = y"
  by (metis decode_encode sum.inject(2))

lemma decode_encode_not_error: "valid x \<Longrightarrow> decode (encode x) \<noteq> Inl e"
  by (simp add: decode_encode)

end

section \<open>Small list facts\<close>

fun join :: "'a list \<Rightarrow> 'a list list \<Rightarrow> 'a list" where
  "join sep [] = []"
| "join sep [x] = x"
| "join sep (x # y # ys) = x @ sep @ join sep (y # ys)"

lemma join_Cons: "join sep (x # xs) = x @ (if xs = [] then [] else sep @ join sep xs)"
  by (cases xs) auto

lemma set_join: "set (join sep xs) \<subseteq> set sep \<union> \<Union> (set ` set xs)"
  by (induction sep xs rule: join.induct) auto

lemma list_all2_right: "list_all2 P xs ys \<Longrightarrow> y \<in> set ys \<Longrightarrow> \<exists>x \<in> set xs. P x y"
  by (induction rule: list_all2_induct) auto

lemma list_all2_left: "list_all2 P xs ys \<Longrightarrow> x \<in> set xs \<Longrightarrow> \<exists>y. P x y"
  by (induction rule: list_all2_induct) auto

lemma distinct_keys_sort [simp]: "distinct (map fst (sort_key f d)) \<longleftrightarrow> distinct (map fst d)"
  by (simp add: distinct_map)

lemma keys_map_snd [simp]: "map fst (map (\<lambda>(k, v). (k, f k v)) d) = map fst d"
  by (induction d) auto

lemma sort_key_map_snd:
  "sort_key fst (map (\<lambda>(k, v). (k, f k v)) d) = map (\<lambda>(k, v). (k, f k v)) (sort_key fst d)"
proof (induction d)
  case (Cons kv d)
  have "insort_key fst (fst kv, f (fst kv) (snd kv)) (map (\<lambda>(k, v). (k, f k v)) xs) =
      map (\<lambda>(k, v). (k, f k v)) (insort_key fst kv xs)" for xs
    by (induction xs) (auto split: prod.splits)
  then show ?case using Cons by (cases kv) simp
qed simp

lemma map_of_sort_key:
  "distinct (map fst d) \<Longrightarrow> map_of (sort_key fst d) = map_of d"
  by (rule map_of_eqI) (auto simp: distinct_map map_of_inject_set[symmetric] intro!: map_of_eqI)

end
