(* ===== verification/Py_Str.thy ===== *)
theory Py_Str
  imports Py_Prelude "HOL-Library.Word"
begin

text \<open>
  The string and byte operations of the Python standard library the program calls:
  \<open>strip\<close>, \<open>startswith\<close>, \<open>in\<close>, \<open>replace\<close>, decimal rendering, \<open>encode("utf-8")\<close>,
  \<open>bytes.hex\<close>, \<open>bytes.fromhex\<close> and the URL-safe base64 behind \<open>secrets.token_urlsafe\<close>.
\<close>

section \<open>Whitespace, prefixes, substrings, replacement\<close>

text \<open>\<open>str.isspace\<close> code points, the set \<open>str.strip\<close> removes.\<close>

definition is_space :: "nat \<Rightarrow> bool" where
  "is_space c \<longleftrightarrow> 9 \<le> c \<and> c \<le> 13 \<or> 28 \<le> c \<and> c \<le> 32 \<or> c = 0x85 \<or> c = 0xA0 \<or> c = 0x1680
     \<or> 0x2000 \<le> c \<and> c \<le> 0x200A \<or> c = 0x2028 \<or> c = 0x2029 \<or> c = 0x202F \<or> c = 0x205F \<or> c = 0x3000"

definition py_strip :: "pystr \<Rightarrow> pystr" where
  "py_strip s = rev (dropWhile is_space (rev (dropWhile is_space s)))"

definition starts_with :: "'a list \<Rightarrow> 'a list \<Rightarrow> bool" where
  "starts_with s p \<longleftrightarrow> take (length p) s = p"

fun contains :: "'a list \<Rightarrow> 'a list \<Rightarrow> bool" where
  "contains [] p = (p = [])"
| "contains (c # s) p = (starts_with (c # s) p \<or> contains s p)"

text \<open>\<open>s.replace(old, new)\<close> for a non-empty \<open>old\<close>: left to right, no overlaps.\<close>

function py_replace :: "'a list \<Rightarrow> 'a list \<Rightarrow> 'a list \<Rightarrow> 'a list" where
  "py_replace old new [] = []"
| "py_replace old new (c # s) =
     (if old \<noteq> [] \<and> starts_with (c # s) old
      then new @ py_replace old new (drop (length old) (c # s))
      else c # py_replace old new s)"
  by pat_completeness auto
termination
proof (relation "measure (\<lambda>(old, new, s). length s)")
  fix old new s :: "'a list" and c
  assume "old \<noteq> [] \<and> starts_with (c # s) old"
  then have "0 < length old" by simp
  then show "((old, new, drop (length old) (c # s)), old, new, c # s)
      \<in> measure (\<lambda>(old, new, s). length s)"
    by (cases "length old") auto
qed auto

declare is_space_def [str_eval] py_strip_def [str_eval] starts_with_def [str_eval]

lemma py_strip_Nil [simp]: "py_strip [] = []"
  by (simp add: py_strip_def)

lemma dropWhile_all: "dropWhile P xs = [] \<longleftrightarrow> (\<forall>x \<in> set xs. P x)"
  by (induction xs) auto

lemma py_strip_empty_iff: "py_strip s = [] \<longleftrightarrow> (\<forall>c \<in> set s. is_space c)"
proof -
  have "py_strip s = [] \<longleftrightarrow> (\<forall>c \<in> set (dropWhile is_space s). is_space c)"
    by (simp add: py_strip_def dropWhile_all)
  also have "\<dots> \<longleftrightarrow> (\<forall>c \<in> set s. is_space c)"
    by (induction s) auto
  finally show ?thesis .
qed

lemma py_strip_nonspace: "c \<in> set s \<Longrightarrow> \<not> is_space c \<Longrightarrow> py_strip s \<noteq> []"
  by (auto simp: py_strip_empty_iff)

lemma starts_with_append [simp]: "starts_with (p @ s) p"
  by (simp add: starts_with_def)

lemma starts_with_iff: "starts_with s p \<longleftrightarrow> (\<exists>r. s = p @ r)"
  by (metis append_take_drop_id starts_with_append starts_with_def)

lemma starts_with_Cons:
  "starts_with s []" "starts_with (c # s) (d # p) \<longleftrightarrow> c = d \<and> starts_with s p" "\<not> starts_with [] (d # p)"
  by (auto simp: starts_with_def)

lemma starts_with_lit [simp]: "starts_with (lit s) (lit p) \<longleftrightarrow> starts_with s p"
  by (simp add: starts_with_def lit_def take_map inj_map_eq_map inj_on_def)

lemma starts_with_nonempty: "starts_with s p \<Longrightarrow> p \<noteq> [] \<Longrightarrow> s \<noteq> []"
  by (auto simp: starts_with_iff)

lemma contains_iff: "contains s p \<longleftrightarrow> (\<exists>a b. s = a @ p @ b)"
proof (induction s)
  case (Cons c s)
  have "(\<exists>a b. c # s = a @ p @ b) \<longleftrightarrow> starts_with (c # s) p \<or> (\<exists>a b. s = a @ p @ b)"
    by (metis (no_types, opaque_lifting) append_Cons append_Nil append_eq_Cons_conv starts_with_iff)
  then show ?case using Cons by simp
qed simp

lemma py_replace_absent: "\<not> contains s old \<Longrightarrow> py_replace old new s = s"
  by (induction s) auto

section \<open>Decimal and hexadecimal rendering\<close>

fun nat_digits :: "nat \<Rightarrow> nat list" where
  "nat_digits n = (if n < 10 then [48 + n] else nat_digits (n div 10) @ [48 + n mod 10])"

declare nat_digits.simps [simp del]

definition str_int :: "int \<Rightarrow> pystr" where
  "str_int i = (if i < 0 then 45 # nat_digits (nat (- i)) else nat_digits (nat i))"

text \<open>\<open>pad_digits w n\<close> is \<open>"%0wd" % n\<close> for \<open>n < 10 ^ w\<close>.\<close>

fun pad_digits :: "nat \<Rightarrow> nat \<Rightarrow> nat list" where
  "pad_digits 0 n = []"
| "pad_digits (Suc w) n = pad_digits w (n div 10) @ [48 + n mod 10]"

definition is_digit :: "nat \<Rightarrow> bool" where
  "is_digit c \<longleftrightarrow> 48 \<le> c \<and> c \<le> 57"

definition hex_char :: "nat \<Rightarrow> nat" where
  "hex_char n = (if n < 10 then 48 + n else 87 + n)"

fun hex_digits :: "nat \<Rightarrow> nat \<Rightarrow> nat list" where
  "hex_digits 0 n = []"
| "hex_digits (Suc w) n = hex_digits w (n div 16) @ [hex_char (n mod 16)]"

declare is_digit_def [str_eval] hex_char_def [str_eval] str_int_def [str_eval]

lemma nat_digits_digit: "c \<in> set (nat_digits n) \<Longrightarrow> is_digit c"
proof (induction n rule: nat_digits.induct)
  case (1 n)
  then show ?case
    by (subst (asm) (2) nat_digits.simps) (auto simp: is_digit_def split: if_splits)
qed

lemma nat_digits_not_Nil [simp]: "nat_digits n \<noteq> []"
  by (subst nat_digits.simps) simp

lemma length_pad_digits [simp]: "length (pad_digits w n) = w"
  by (induction w n rule: pad_digits.induct) auto

lemma pad_digits_digit: "c \<in> set (pad_digits w n) \<Longrightarrow> is_digit c"
  by (induction w n rule: pad_digits.induct) (auto simp: is_digit_def)

lemma pad_digits_numeral [str_eval]:
  "pad_digits (numeral w) n = pad_digits (pred_numeral w) (n div 10) @ [48 + n mod 10]"
  by (subst numeral_eq_Suc) (rule pad_digits.simps)

lemma hex_digits_numeral [str_eval]:
  "hex_digits (numeral w) n = hex_digits (pred_numeral w) (n div 16) @ [hex_char (n mod 16)]"
  by (subst numeral_eq_Suc) (rule hex_digits.simps)

lemma length_hex_digits [simp]: "length (hex_digits w n) = w"
  by (induction w n rule: hex_digits.induct) auto

definition digits_val :: "nat list \<Rightarrow> nat" where
  "digits_val ds = foldl (\<lambda>v d. v * 10 + (d - 48)) 0 ds"

lemma digits_val_append1: "digits_val (ds @ [d]) = digits_val ds * 10 + (d - 48)"
  by (simp add: digits_val_def)

lemma digits_val_nat_digits [simp]: "digits_val (nat_digits n) = n"
proof (induction n rule: nat_digits.induct)
  case (1 n)
  then show ?case
    by (subst nat_digits.simps) (auto simp: digits_val_append1 digits_val_def)
qed

lemma digits_val_pad_digits: "n < 10 ^ w \<Longrightarrow> digits_val (pad_digits w n) = n"
proof (induction w n rule: pad_digits.induct)
  case (2 w n)
  then have "n div 10 < 10 ^ w" by (simp add: less_mult_imp_div_less mult.commute)
  with 2 show ?case by (simp add: digits_val_append1)
qed (simp add: digits_val_def)

lemma nat_digits_inj: "nat_digits m = nat_digits n \<longleftrightarrow> m = n"
  by (metis digits_val_nat_digits)

lemma str_int_inj: "str_int i = str_int j \<longleftrightarrow> i = j"
proof -
  have "45 # a \<noteq> nat_digits k" for a k
  proof
    assume "45 # a = nat_digits k"
    then have "45 \<in> set (nat_digits k)" by (metis list.set_intros(1))
    then show False using nat_digits_digit [of 45 k] by (simp add: is_digit_def)
  qed
  moreover from this have "nat_digits k \<noteq> 45 # a" for a k by metis
  ultimately show ?thesis by (auto simp: str_int_def nat_digits_inj)
qed

section \<open>UTF-8\<close>

text \<open>
  \<open>s.encode("utf-8")\<close>: \<open>None\<close> is the \<open>UnicodeEncodeError\<close> that a lone surrogate raises.
\<close>

definition is_surrogate :: "nat \<Rightarrow> bool" where
  "is_surrogate c \<longleftrightarrow> 0xD800 \<le> c \<and> c < 0xE000"

definition utf8_char :: "nat \<Rightarrow> bytes" where
  "utf8_char c =
     (if c < 0x80 then [c]
      else if c < 0x800 then [0xC0 + c div 64, 0x80 + c mod 64]
      else if c < 0x10000 then [0xE0 + c div 4096, 0x80 + c div 64 mod 64, 0x80 + c mod 64]
      else [0xF0 + c div 262144, 0x80 + c div 4096 mod 64, 0x80 + c div 64 mod 64, 0x80 + c mod 64])"

definition encode_utf8 :: "pystr \<Rightarrow> bytes option" where
  "encode_utf8 s = (if \<exists>c \<in> set s. is_surrogate c then None else Some (concat (map utf8_char s)))"

declare is_surrogate_def [str_eval] utf8_char_def [str_eval] encode_utf8_def [str_eval]

definition is_ascii :: "pystr \<Rightarrow> bool" where
  "is_ascii s \<longleftrightarrow> (\<forall>c \<in> set s. c < 128)"

lemma encode_utf8_ascii: "is_ascii s \<Longrightarrow> encode_utf8 s = Some s"
proof -
  assume a: "is_ascii s"
  then have "\<forall>c \<in> set s. \<not> is_surrogate c" by (auto simp: is_ascii_def is_surrogate_def)
  moreover from a have "concat (map utf8_char s) = s"
    by (induction s) (auto simp: is_ascii_def utf8_char_def)
  ultimately show ?thesis by (simp add: encode_utf8_def)
qed

lemma is_ascii_append [simp]: "is_ascii (s @ t) \<longleftrightarrow> is_ascii s \<and> is_ascii t"
  by (auto simp: is_ascii_def)

lemma is_ascii_Cons [simp]: "is_ascii (c # s) \<longleftrightarrow> c < 128 \<and> is_ascii s"
  by (auto simp: is_ascii_def)

lemma is_ascii_Nil [simp]: "is_ascii []"
  by (simp add: is_ascii_def)

section \<open>Bytes as hexadecimal\<close>

definition bytes_hex :: "bytes \<Rightarrow> pystr" where
  "bytes_hex bs = concat (map (hex_digits 2) bs)"

definition hex_val :: "nat \<Rightarrow> nat option" where
  "hex_val c =
     (if 48 \<le> c \<and> c \<le> 57 then Some (c - 48)
      else if 97 \<le> c \<and> c \<le> 102 then Some (c - 87)
      else if 65 \<le> c \<and> c \<le> 70 then Some (c - 55)
      else None)"

definition is_ascii_space :: "nat \<Rightarrow> bool" where
  "is_ascii_space c \<longleftrightarrow> c = 32 \<or> 9 \<le> c \<and> c \<le> 13"

text \<open>
  \<open>bytes.fromhex\<close>: ASCII whitespace is skipped between bytes, both letter cases are read,
  anything else (an odd digit, a non-hexadecimal character) is a \<open>ValueError\<close>, here \<open>None\<close>.
\<close>

fun fromhex :: "pystr \<Rightarrow> bytes option" where
  "fromhex [] = Some []"
| "fromhex [c] = (if is_ascii_space c then Some [] else None)"
| "fromhex (c # d # s) =
     (if is_ascii_space c then fromhex (d # s)
      else case (hex_val c, hex_val d, fromhex s) of
        (Some h, Some l, Some bs) \<Rightarrow> Some ((16 * h + l) # bs)
      | _ \<Rightarrow> None)"

declare hex_val_def [str_eval] is_ascii_space_def [str_eval] bytes_hex_def [str_eval]

definition is_bytes :: "bytes \<Rightarrow> bool" where
  "is_bytes bs \<longleftrightarrow> (\<forall>b \<in> set bs. b < 256)"

lemma hex_val_char: "n < 16 \<Longrightarrow> hex_val (hex_char n) = Some n"
  by (auto simp: hex_val_def hex_char_def)

lemma hex_char_not_space: "\<not> is_ascii_space (hex_char n)"
  by (auto simp: is_ascii_space_def hex_char_def)

lemma fromhex_bytes_hex: "is_bytes bs \<Longrightarrow> fromhex (bytes_hex bs) = Some bs"
proof (induction bs)
  case (Cons b bs)
  then have "b div 16 mod 16 = b div 16" "is_bytes bs" by (auto simp: is_bytes_def)
  then show ?case using Cons
    by (simp add: bytes_hex_def hex_digits_numeral hex_char_not_space hex_val_char)
qed (simp add: bytes_hex_def)

lemma length_bytes_hex [simp]: "length (bytes_hex bs) = 2 * length bs"
  by (induction bs) (auto simp: bytes_hex_def)

lemma hex_char_ascii: "n < 16 \<Longrightarrow> hex_char n < 128"
  by (simp add: hex_char_def)

text \<open>The lowercase hexadecimal alphabet of the schemas' patterns \<open>[0-9a-f]\<close>.\<close>

definition is_lower_hex :: "nat \<Rightarrow> bool" where
  "is_lower_hex c \<longleftrightarrow> 48 \<le> c \<and> c \<le> 57 \<or> 97 \<le> c \<and> c \<le> 102"

lemma hex_char_lower: "n < 16 \<Longrightarrow> is_lower_hex (hex_char n)"
  by (auto simp: is_lower_hex_def hex_char_def)

lemma hex_digits_lower: "c \<in> set (hex_digits w n) \<Longrightarrow> is_lower_hex c"
  by (induction w n rule: hex_digits.induct) (auto simp: hex_char_lower)

lemma bytes_hex_lower: "c \<in> set (bytes_hex bs) \<Longrightarrow> is_lower_hex c"
  by (auto simp: bytes_hex_def hex_digits_lower)

definition fromhex_res :: "pystr \<Rightarrow> unit + bytes" where
  "fromhex_res s = (case fromhex s of None \<Rightarrow> Inl () | Some bs \<Rightarrow> Inr bs)"

interpretation hex: codec bytes_hex fromhex_res is_bytes
  by unfold_locales (simp add: fromhex_res_def fromhex_bytes_hex)

section \<open>URL-safe base64 without padding\<close>

text \<open>
  \<open>secrets.token_urlsafe(n)\<close> is the URL-safe base64 text of \<open>n\<close> random bytes with the
  padding removed; the random bytes are an argument of the model.
\<close>

definition b64_char :: "nat \<Rightarrow> nat" where
  "b64_char n =
     (if n < 26 then 65 + n else if n < 52 then 71 + n else if n < 62 then n - 4
      else if n = 62 then 45 else 95)"

fun b64url :: "bytes \<Rightarrow> pystr" where
  "b64url [] = []"
| "b64url [a] = [b64_char (a div 4), b64_char (a mod 4 * 16)]"
| "b64url [a, b] = [b64_char (a div 4), b64_char (a mod 4 * 16 + b div 16), b64_char (b mod 16 * 4)]"
| "b64url (a # b # c # s) =
     [b64_char (a div 4), b64_char (a mod 4 * 16 + b div 16),
      b64_char (b mod 16 * 4 + c div 64), b64_char (c mod 64)] @ b64url s"

declare b64_char_def [str_eval]

lemma b64_char_inj: "m < 64 \<Longrightarrow> n < 64 \<Longrightarrow> b64_char m = b64_char n \<longleftrightarrow> m = n"
  by (auto simp: b64_char_def split: if_splits)

lemma b64_char_ascii: "n < 64 \<Longrightarrow> b64_char n < 128"
  by (auto simp: b64_char_def)

lemma b64url_ascii: "is_bytes bs \<Longrightarrow> is_ascii (b64url bs)"
  by (induction bs rule: b64url.induct) (auto simp: is_bytes_def intro!: b64_char_ascii)

lemma b64url_Nil_iff [simp]: "b64url bs = [] \<longleftrightarrow> bs = []"
  by (cases bs rule: b64url.cases) auto

end
