(* ===== verification/Py_Errors.thy ===== *)
theory Py_Errors
  imports Py_Prelude
begin

text \<open>
  Every exception the program raises or lets through. One constructor per \<open>raise\<close> statement,
  grouped by the exception class, with the values the message interpolates; the second half
  are the exceptions of the language and its library the code can meet.
\<close>

section \<open>The program's own exceptions\<close>

text \<open>\<open>protocol.NlbootError\<close>\<close>

datatype nlboot_msg =
    NotAString pystr                    \<comment> \<open>\<open>{key} must be a non-empty string\<close>\<close>
  | NotIsoTime pystr                    \<comment> \<open>\<open>{key} must be an ISO-8601 datetime\<close>\<close>
  | NoTimezone pystr                    \<comment> \<open>\<open>{key} must include timezone information\<close>\<close>
  | EntryBootMode pystr                 \<comment> \<open>\<open>unsupported boot_menu entry boot_mode=...\<close>\<close>
  | EntryRole pystr                     \<comment> \<open>\<open>unsupported boot_menu entry role=...\<close>\<close>
  | EntryDefaultNotBool                 \<comment> \<open>\<open>boot_menu entry default must be boolean\<close>\<close>
  | EntryRollbackNotBool                \<comment> \<open>\<open>boot_menu entry rollback_eligible must be boolean\<close>\<close>
  | RollbackNotEligible                 \<comment> \<open>\<open>boot_menu rollback entries must be rollback_eligible\<close>\<close>
  | EntriesNotArray                     \<comment> \<open>\<open>boot_menu entries must be a non-empty array\<close>\<close>
  | EntryNotObject                      \<comment> \<open>\<open>boot_menu entries must be objects\<close>\<close>
  | DuplicateEntry pystr                \<comment> \<open>\<open>duplicate boot_menu entry_id=...\<close>\<close>
  | DefaultNotListed                    \<comment> \<open>\<open>boot_menu default_entry_id must reference an entry\<close>\<close>
  | ManyDefaults                        \<comment> \<open>\<open>boot_menu must not mark more than one entry as default\<close>\<close>
  | DefaultMarkMismatch                 \<comment> \<open>\<open>boot_menu marked default must match default_entry_id\<close>\<close>
  | DefaultMissing                      \<comment> \<open>\<open>boot_menu default entry is missing\<close>\<close>
  | DefaultNotForManifest               \<comment> \<open>\<open>boot_menu default entry must match manifest ...\<close>\<close>
  | BadAlgorithm                        \<comment> \<open>\<open>signature_algorithm must be rsa-pss-sha256\<close>\<close>
  | BadProfile                          \<comment> \<open>\<open>crypto_profile must be fips-140-3-compatible\<close>\<close>
  | ManifestBootMode pystr              \<comment> \<open>\<open>unsupported boot_mode=...\<close>\<close>
  | ArtifactsNotObject                  \<comment> \<open>\<open>artifacts must be an object\<close>\<close>
  | ArtifactsMissing "pystr list"       \<comment> \<open>\<open>artifacts missing required refs: ...\<close>\<close>
  | BadSignatureRef                     \<comment> \<open>\<open>signature_ref must be a SourceOS signature URN\<close>\<close>
  | MenuNotObject                       \<comment> \<open>\<open>boot_menu must be an object when present\<close>\<close>
  | UnsupportedPurpose pystr            \<comment> \<open>\<open>unsupported purpose=...\<close>\<close>
  | AudienceNotObject                   \<comment> \<open>\<open>audience must be an object\<close>\<close>
  | SubjectIdNotString                  \<comment> \<open>\<open>audience.subject_id must be null or string\<close>\<close>
  | OneTimeUseNotBool                   \<comment> \<open>\<open>one_time_use must be boolean\<close>\<close>
  | UnsupportedStatus pystr             \<comment> \<open>\<open>unsupported status=...\<close>\<close>
  | TokenNotIssued pystr                \<comment> \<open>\<open>token status must be issued, got ...\<close>\<close>
  | TokenExpired                        \<comment> \<open>\<open>token is expired\<close>\<close>
  | TokenNotOneTime                     \<comment> \<open>\<open>token must be one-time use\<close>\<close>
  | TokenBootRefMismatch                \<comment> \<open>\<open>token boot_release_set_ref does not match manifest\<close>\<close>
  | TokenReleaseRefMismatch             \<comment> \<open>\<open>token release_set_ref does not match manifest base release\<close>\<close>
  | TokenPurposeInvalid pystr pystr     \<comment> \<open>\<open>token purpose ... is not valid for boot_mode ...\<close>\<close>
  | NotJsonObject                       \<comment> \<open>\<open>expected JSON object in {path}\<close>\<close>

text \<open>\<open>verify.VerificationError\<close>\<close>

datatype verify_msg =
    KeyTimeNotIso pystr | KeyTimeNoTimezone pystr
  | KeyRefMissing                       \<comment> \<open>\<open>trusted key requires key_ref\<close>\<close>
  | KeyAlgorithm                        \<comment> \<open>\<open>trusted key must use rsa-pss-sha256\<close>\<close>
  | KeyPemMissing                       \<comment> \<open>\<open>trusted key requires PEM public key\<close>\<close>
  | KeyStatus                           \<comment> \<open>\<open>trusted key status must be active, retired, or revoked\<close>\<close>
  | RevocationReasonNotString
  | KeyRevoked pystr | KeyNotActive pystr | KeyNotYetActive pystr | KeyExpired pystr
  | SignatureNotHex                     \<comment> \<open>\<open>signature_hex must be hex\<close>\<close>
  | KeyNotRsa                           \<comment> \<open>\<open>trusted key must be RSA\<close>\<close>
  | KeyTooSmall                         \<comment> \<open>\<open>RSA key must be at least 2048 bits\<close>\<close>
  | SignatureInvalid                    \<comment> \<open>\<open>signature verification failed\<close>\<close>
  | KeysNotArray | KeyEntryNotObject
  | BundleIdMissing | BundleSignerMissing | BundleSignatureMissing
  | BundleAlgorithm | BundleProfile
  | NoRootKey pystr                     \<comment> \<open>\<open>no trusted root key for signer_ref=...\<close>\<close>
  | RequireFips                         \<comment> \<open>\<open>require-fips requires rsa-pss-sha256 and ...\<close>\<close>
  | SignerRefNotString | SignatureNotString
  | NoTrustedKey pystr                  \<comment> \<open>\<open>no trusted key for signer_ref=...\<close>\<close>
  | KeyAlgorithmMismatch                \<comment> \<open>\<open>trusted key algorithm does not match manifest\<close>\<close>

text \<open>\<open>device.DeviceError\<close>\<close>

datatype device_msg =
    DevNotAString pystr | DevNotIsoTime pystr | DevNoTimezone pystr
  | DevNotPem                           \<comment> \<open>\<open>device public key must be a PEM SubjectPublicKeyInfo block\<close>\<close>
  | DevPemInvalid                       \<comment> \<open>\<open>device public key is not valid PEM\<close>\<close>
  | DevNotRsa                           \<comment> \<open>\<open>device key must be RSA\<close>\<close>
  | DevKeyTooSmall                      \<comment> \<open>\<open>device RSA key must be at least 2048 bits\<close>\<close>
  | DevPrivatePemInvalid | DevPrivateNotRsa
  | DevNonceEmpty                       \<comment> \<open>\<open>nonce must be a non-empty string\<close>\<close>
  | DevAlgorithm | DevProfile
  | DevIdNotUrn                         \<comment> \<open>\<open>device_id must be a SourceOS device URN\<close>\<close>
  | DevFingerprintMismatch              \<comment> \<open>\<open>device_id does not match presented public key fingerprint\<close>\<close>
  | DevNonceMismatch                    \<comment> \<open>\<open>device claim nonce does not match expected nonce\<close>\<close>
  | DevSignatureNotHex | DevSignatureInvalid

text \<open>\<open>enrollment.EnrollmentError\<close>\<close>

datatype enroll_msg =
    EnrPurpose | EnrTtl | EnrReleaseRef | EnrBootReleaseRef | EnrArtifactRefs
  | EnrClaimInvalid device_msg          \<comment> \<open>\<open>device claim is invalid: {exc}\<close>\<close>
  | EnrCodeEmpty                        \<comment> \<open>\<open>code must be a non-empty string\<close>\<close>
  | EnrCodeUnknown                      \<comment> \<open>\<open>enrollment code is unknown\<close>\<close>
  | EnrCodeSpent                        \<comment> \<open>\<open>enrollment code has already been redeemed\<close>\<close>
  | EnrCodeExpired                      \<comment> \<open>\<open>enrollment code is expired\<close>\<close>
  | EnrReleaseMismatch                  \<comment> \<open>\<open>release_set_ref does not match the issued enrollment code\<close>\<close>
  | EnrDeviceMismatch                   \<comment> \<open>\<open>device claim does not match the device ...\<close>\<close>

section \<open>All exceptions\<close>

datatype exn =
    NlbootError nlboot_msg
  | VerificationError verify_msg
  | DeviceError device_msg
  | EnrollmentError enroll_msg
  | ValueErr            \<comment> \<open>a plain \<open>ValueError\<close>, \<open>JSONDecodeError\<close> or \<open>UnicodeError\<close>\<close>
  | TypeErr
  | KeyErr pystr
  | AttributeErr
  | OverflowErr         \<comment> \<open>\<open>OverflowError\<close>, an \<open>ArithmeticError\<close> and not a \<open>ValueError\<close>\<close>
  | UnsupportedAlgorithm \<comment> \<open>of the \<open>cryptography\<close> package, a plain \<open>Exception\<close>\<close>
  | RecursionErr        \<comment> \<open>\<open>RecursionError\<close>, a \<open>RuntimeError\<close>\<close>
  | OsErr               \<comment> \<open>a file that cannot be read\<close>

text \<open>\<open>isinstance(e, ValueError)\<close>: the four classes of the program derive from \<open>ValueError\<close>.\<close>

fun is_value_error :: "exn \<Rightarrow> bool" where
  "is_value_error (NlbootError m) = True"
| "is_value_error (VerificationError m) = True"
| "is_value_error (DeviceError m) = True"
| "is_value_error (EnrollmentError m) = True"
| "is_value_error ValueErr = True"
| "is_value_error e = False"

type_synonym 'a res = "exn + 'a"

text \<open>An operation of the library that fails with \<open>None\<close> becomes the exception \<open>e\<close>.\<close>

definition or_raise :: "'a option \<Rightarrow> exn \<Rightarrow> 'a res" where
  "or_raise x e = (case x of None \<Rightarrow> Inl e | Some y \<Rightarrow> Inr y)"

lemma or_raise_simps [simp]: "or_raise None e = Inl e" "or_raise (Some x) e = Inr x"
  by (simp_all add: or_raise_def)

lemma or_raise_Inr_iff [res_simps]: "or_raise x e = Inr y \<longleftrightarrow> x = Some y"
  by (cases x) auto

lemma or_raise_Inl_iff: "or_raise x e = Inl e' \<longleftrightarrow> x = None \<and> e' = e"
  by (cases x) auto

end
