(* ===== verification/Py_Calendar.thy ===== *)
theory Py_Calendar
  imports Py_Prelude
begin

text \<open>
  The proleptic Gregorian calendar of Python's \<open>datetime\<close>: day ordinals (1 is the first of
  January of year 1) and their inverse, with the proof that converting an ordinal to a date
  and back is the identity for every day of the supported years 1 to 9999.
\<close>

definition is_leap :: "nat \<Rightarrow> bool" where
  "is_leap y \<longleftrightarrow> y mod 4 = 0 \<and> (y mod 100 \<noteq> 0 \<or> y mod 400 = 0)"

definition month_days :: "nat list" where
  "month_days = [0, 31, 28, 31, 30, 31, 30, 31, 31, 30, 31, 30, 31]"

definition month_start :: "nat list" where
  "month_start = [0, 0, 31, 59, 90, 120, 151, 181, 212, 243, 273, 304, 334]"

definition days_before_year :: "nat \<Rightarrow> nat" where
  "days_before_year y = (y - 1) * 365 + (y - 1) div 4 + (y - 1) div 400 - (y - 1) div 100"

definition days_in_month :: "bool \<Rightarrow> nat \<Rightarrow> nat" where
  "days_in_month leap m = (if m = 2 \<and> leap then 29 else month_days ! m)"

definition days_before_month :: "bool \<Rightarrow> nat \<Rightarrow> nat" where
  "days_before_month leap m = month_start ! m + (if 2 < m \<and> leap then 1 else 0)"

definition valid_date :: "nat \<Rightarrow> nat \<Rightarrow> nat \<Rightarrow> bool" where
  "valid_date y m d \<longleftrightarrow> 1 \<le> y \<and> y \<le> 9999 \<and> 1 \<le> m \<and> m \<le> 12 \<and> 1 \<le> d \<and> d \<le> days_in_month (is_leap y) m"

definition ymd_to_ord :: "nat \<Rightarrow> nat \<Rightarrow> nat \<Rightarrow> nat" where
  "ymd_to_ord y m d = days_before_year y + days_before_month (is_leap y) m + d"

definition max_ordinal :: nat where
  "max_ordinal = 3652059"

text \<open>The day of the year (from 0) as month and day, by the estimate that may be one too large.\<close>

definition day_to_md :: "bool \<Rightarrow> nat \<Rightarrow> nat \<times> nat" where
  "day_to_md leap n =
     (let m = (n + 50) div 32;
          m' = (if n < days_before_month leap m then m - 1 else m)
      in (m', n - days_before_month leap m' + 1))"

definition ord_to_ymd :: "nat \<Rightarrow> nat \<times> nat \<times> nat" where
  "ord_to_ymd n =
     (let n0 = n - 1;
          n400 = n0 div 146097; r400 = n0 mod 146097;
          n100 = r400 div 36524; r100 = r400 mod 36524;
          n4 = r100 div 1461; r4 = r100 mod 1461;
          n1 = r4 div 365; r1 = r4 mod 365;
          y = n400 * 400 + n100 * 100 + n4 * 4 + n1 + 1
      in if n1 = 4 \<or> n100 = 4 then (y - 1, 12, 31)
         else (case day_to_md (n1 = 3 \<and> (n4 \<noteq> 24 \<or> n100 = 3)) r1 of (m, d) \<Rightarrow> (y, m, d)))"

section \<open>Ordinals and dates are inverse\<close>

definition md_ok :: "bool \<Rightarrow> nat \<Rightarrow> bool" where
  "md_ok leap n = (case day_to_md leap n of (m, d) \<Rightarrow>
     1 \<le> m \<and> m \<le> 12 \<and> 1 \<le> d \<and> d \<le> days_in_month leap m \<and> days_before_month leap m + d = n + 1)"

lemma md_ok_all:
  assumes "n < 365 \<or> leap \<and> n < 366"
  shows "md_ok leap n"
proof -
  define m where "m = (n + 50) div 32"
  have m: "32 * m \<le> n + 50" "n + 50 < 32 * m + 32" unfolding m_def by linarith+
  with assms have "1 \<le> m" "m \<le> 12" by auto
  then have "m = 1 \<or> m = 2 \<or> m = 3 \<or> m = 4 \<or> m = 5 \<or> m = 6 \<or> m = 7 \<or> m = 8 \<or> m = 9
      \<or> m = 10 \<or> m = 11 \<or> m = 12" by presburger
  moreover have "(n + 50) div 32 = m" by (simp add: m_def)
  ultimately show ?thesis
    using m(1) m(2) assms
    by (elim disjE)
       (auto simp: md_ok_def day_to_md_def Let_def days_before_month_def days_in_month_def
          month_start_def month_days_def)
qed

lemma div_mod_qr: "r < k \<Longrightarrow> (q * k + r) div k = (q::nat)" "r < k \<Longrightarrow> (q * k + r) mod k = (r::nat)"
  by simp_all

lemma cycle_divs:
  fixes a b c e :: nat
  assumes "b \<le> 3" "c \<le> 24" "e \<le> 3"
  shows "(a * 400 + b * 100 + c * 4 + e) div 4 = a * 100 + b * 25 + c"
    and "(a * 400 + b * 100 + c * 4 + e) div 100 = a * 4 + b"
    and "(a * 400 + b * 100 + c * 4 + e) div 400 = a"
  using div_mod_qr(1) [of e 4 "a * 100 + b * 25 + c"]
    div_mod_qr(1) [of "c * 4 + e" 100 "a * 4 + b"]
    div_mod_qr(1) [of "b * 100 + c * 4 + e" 400 a] assms
  by (simp_all add: algebra_simps)

lemma days_before_cycle:
  assumes "b \<le> 3" "c \<le> 24" "e \<le> 3"
  shows "days_before_year (a * 400 + b * 100 + c * 4 + e + 1) = a * 146097 + b * 36524 + c * 1461 + e * 365"
  using cycle_divs [OF assms, of a] by (simp add: days_before_year_def)

lemma is_leap_cycle:
  assumes "b \<le> 3" "c \<le> 24" "e \<le> 3"
  shows "is_leap (a * 400 + b * 100 + c * 4 + e + 1) \<longleftrightarrow> e = 3 \<and> (c \<noteq> 24 \<or> b = 3)"
proof -
  let ?y = "a * 400 + b * 100 + c * 4 + e + 1"
  have "?y mod 4 = (e + 1) mod 4" "?y mod 100 = (c * 4 + e + 1) mod 100"
    "?y mod 400 = (b * 100 + c * 4 + e + 1) mod 400"
  proof -
    have "?y = (a * 100 + b * 25 + c) * 4 + (e + 1)" "?y = (a * 4 + b) * 100 + (c * 4 + e + 1)"
      "?y = a * 400 + (b * 100 + c * 4 + e + 1)" by simp_all
    then show "?y mod 4 = (e + 1) mod 4" "?y mod 100 = (c * 4 + e + 1) mod 100"
      "?y mod 400 = (b * 100 + c * 4 + e + 1) mod 400"
      by (metis mod_mult_self3)+
  qed
  moreover have "(e + 1) mod 4 = 0 \<longleftrightarrow> e = 3"
    using assms(3) by (cases "e = 3") simp_all
  moreover have "(c * 4 + e + 1) mod 100 = 0 \<longleftrightarrow> c = 24 \<and> e = 3"
  proof -
    have "(c * 4 + e + 1) mod 100 = 0 \<longleftrightarrow> c * 4 + e + 1 = 100"
      using assms(2,3) by (cases "c * 4 + e + 1 = 100") auto
    also have "\<dots> \<longleftrightarrow> c = 24 \<and> e = 3"
      using assms(2,3) by (intro iffI conjI; linarith)
    finally show ?thesis .
  qed
  moreover have "(b * 100 + c * 4 + e + 1) mod 400 = 0 \<longleftrightarrow> b = 3 \<and> c = 24 \<and> e = 3"
  proof -
    have "(b * 100 + c * 4 + e + 1) mod 400 = 0 \<longleftrightarrow> b * 100 + c * 4 + e + 1 = 400"
      using assms by (cases "b * 100 + c * 4 + e + 1 = 400") auto
    also have "\<dots> \<longleftrightarrow> b = 3 \<and> c = 24 \<and> e = 3"
      using assms by (intro iffI conjI; linarith)
    finally show ?thesis .
  qed
  ultimately show ?thesis using assms by (auto simp: is_leap_def)
qed

lemma ord_to_ymd_cases:
  fixes n :: nat
  assumes "1 \<le> n"
  obtains a b c e r where
      "ord_to_ymd n = (let (m, d) = day_to_md (e = 3 \<and> (c \<noteq> 24 \<or> b = 3)) r
                       in (a * 400 + b * 100 + c * 4 + e + 1, m, d))"
      "b \<le> 3" "c \<le> 24" "e \<le> 3" "r < 365"
      "n = a * 146097 + b * 36524 + c * 1461 + e * 365 + r + 1"
    | a b c where
      "ord_to_ymd n = (a * 400 + b * 100 + c * 4 + 4, 12, 31)" "b \<le> 3" "c \<le> 24"
      "c \<noteq> 24 \<or> b = 3"
      "n = a * 146097 + b * 36524 + c * 1461 + 4 * 365 + 1"
proof -
  define a where "a = (n - 1) div 146097"
  define ra where "ra = (n - 1) mod 146097"
  define b where "b = ra div 36524"
  define rb where "rb = ra mod 36524"
  define c where "c = rb div 1461"
  define rc where "rc = rb mod 1461"
  define e where "e = rc div 365"
  define r where "r = rc mod 365"
  note ds = a_def ra_def b_def rb_def c_def rc_def e_def r_def
  have n: "n - 1 = a * 146097 + ra" "ra = b * 36524 + rb" "rb = c * 1461 + rc" "rc = e * 365 + r"
    unfolding ds by simp_all
  have bnd: "ra < 146097" "rb < 36524" "rc < 1461" "r < 365"
    unfolding ds by simp_all
  have bs: "b \<le> 4" "c \<le> 24" "e \<le> 4"
    using bnd n by linarith+
  have o: "ord_to_ymd n =
      (if e = 4 \<or> b = 4 then (a * 400 + b * 100 + c * 4 + e, 12, 31)
       else (let (m, d) = day_to_md (e = 3 \<and> (c \<noteq> 24 \<or> b = 3)) r
             in (a * 400 + b * 100 + c * 4 + e + 1, m, d)))"
    by (simp add: ord_to_ymd_def Let_def ds)
  show thesis
  proof (cases "e = 4 \<or> b = 4")
    case False
    with o bs bnd n assms show thesis by (intro that(1) [of e c b r a]) auto
  next
    case True
    show thesis
    proof (cases "b = 4")
      case True
      with n bnd have "rb = 0" by simp
      with n True have "c = 0" "e = 0" "r = 0" by auto
      with True o n assms \<open>rb = 0\<close> show thesis by (intro that(2) [of a 3 24]) auto
    next
      case False
      with True have "e = 4" by simp
      with n bnd have "r = 0" "rc = 1460" by auto
      with False \<open>e = 4\<close> o bs n bnd assms show thesis by (intro that(2) [of a b c]) auto
    qed
  qed
qed

theorem ord_to_ymd_inverse:
  assumes "1 \<le> n" "n \<le> max_ordinal" "ord_to_ymd n = (y, m, d)"
  shows "valid_date y m d \<and> ymd_to_ord y m d = n"
proof (rule ord_to_ymd_cases [OF assms(1)])
  fix a b c e r
  assume o: "ord_to_ymd n = (let (m, d) = day_to_md (e = 3 \<and> (c \<noteq> 24 \<or> b = 3)) r
      in (a * 400 + b * 100 + c * 4 + e + 1, m, d))"
    and bs: "b \<le> 3" "c \<le> 24" "e \<le> 3" and r: "r < 365"
    and n: "n = a * 146097 + b * 36524 + c * 1461 + e * 365 + r + 1"
  let ?leap = "e = 3 \<and> (c \<noteq> 24 \<or> b = 3)"
  have y: "y = a * 400 + b * 100 + c * 4 + e + 1" and md: "day_to_md ?leap r = (m, d)"
    using o assms(3) by (auto simp: Let_def split: prod.splits)
  have "md_ok ?leap r" using r by (intro md_ok_all) simp
  with md have ok: "1 \<le> m" "m \<le> 12" "1 \<le> d" "d \<le> days_in_month ?leap m"
    "days_before_month ?leap m + d = r + 1"
    by (auto simp: md_ok_def)
  have "y \<le> 9999"
    using n assms(2) bs unfolding y max_ordinal_def by linarith
  with ok show ?thesis
    using days_before_cycle [OF bs, of a] is_leap_cycle [OF bs, of a] n
    by (simp add: valid_date_def ymd_to_ord_def y)
next
  fix a b c
  assume o: "ord_to_ymd n = (a * 400 + b * 100 + c * 4 + 4, 12, 31)"
    and bs: "b \<le> 3" "c \<le> 24" and l: "c \<noteq> 24 \<or> b = 3"
    and n: "n = a * 146097 + b * 36524 + c * 1461 + 4 * 365 + 1"
  have y: "y = a * 400 + b * 100 + c * 4 + 3 + 1" "m = 12" "d = 31"
    using o assms(3) by auto
  have "is_leap y" using is_leap_cycle [OF bs, of 3 a] l by (simp add: y)
  moreover have "y \<le> 9999"
    using n assms(2) bs unfolding y max_ordinal_def by linarith
  ultimately show ?thesis
    using days_before_cycle [OF bs, of 3 a] n
    by (simp add: valid_date_def ymd_to_ord_def y days_before_month_def days_in_month_def
        month_start_def month_days_def)
qed

end
