(* ===== verification/Py_Time.thy ===== *)
theory Py_Time
  imports Py_Calendar Py_Str
begin

text \<open>
  \<open>datetime\<close> as the program uses it: instants in UTC, \<open>datetime.fromisoformat\<close> (the
  grammar of Python 3.11: calendar and week dates, basic and extended forms, fractions,
  offsets), \<open>astimezone(timezone.utc)\<close>, \<open>isoformat\<close> and the addition of seconds.
\<close>

section \<open>Instants and datetimes\<close>

text \<open>
  An aware datetime after \<open>astimezone(timezone.utc)\<close> is the number of microseconds since
  0001-01-01T00:00:00Z. Comparison of such datetimes is comparison of instants.
\<close>

datatype instant = Instant (micros: int)

instantiation instant :: linorder
begin

definition less_eq_instant :: "instant \<Rightarrow> instant \<Rightarrow> bool" where
  "less_eq_instant s t \<longleftrightarrow> micros s \<le> micros t"

definition less_instant :: "instant \<Rightarrow> instant \<Rightarrow> bool" where
  "less_instant s t \<longleftrightarrow> micros s < micros t"

instance
  by standard (auto simp: less_eq_instant_def less_instant_def instant.expand)

end

lemma instant_le [simp]: "Instant a \<le> Instant b \<longleftrightarrow> a \<le> b"
  by (simp add: less_eq_instant_def)

lemma instant_less [simp]: "Instant a < Instant b \<longleftrightarrow> a < b"
  by (simp add: less_instant_def)

definition max_micros :: int where
  "max_micros = 315537897600000000"

definition in_range :: "int \<Rightarrow> bool" where
  "in_range u \<longleftrightarrow> 0 \<le> u \<and> u < max_micros"

definition valid_instant :: "instant \<Rightarrow> bool" where
  "valid_instant t \<longleftrightarrow> in_range (micros t)"

lemma max_micros_days: "max_micros = int max_ordinal * 86400000000"
  by (simp add: max_micros_def max_ordinal_def)

text \<open>
  A datetime as the caller has it: naive wall-clock fields, or wall-clock fields with an
  offset from UTC, both in microseconds.
\<close>

datatype datetime = Naive int | Aware int int

text \<open>
  \<open>d.astimezone(timezone.utc)\<close> of an aware datetime. \<open>None\<close> is the \<open>OverflowError\<close> of a
  result outside years 1 to 9999.
\<close>

definition to_utc :: "int \<Rightarrow> int \<Rightarrow> instant option" where
  "to_utc l off = (if in_range (l - off) then Some (Instant (l - off)) else None)"

text \<open>\<open>t + timedelta(seconds=n)\<close>; \<open>None\<close> is the \<open>OverflowError\<close>.\<close>

definition add_seconds :: "instant \<Rightarrow> int \<Rightarrow> instant option" where
  "add_seconds t n =
     (let u = micros t + n * 1000000 in if in_range u then Some (Instant u) else None)"

lemma add_seconds_Some: "add_seconds t n = Some u \<Longrightarrow> micros u = micros t + n * 1000000 \<and> valid_instant u"
  by (auto simp: add_seconds_def Let_def valid_instant_def split: if_splits)

lemma add_seconds_later: "add_seconds t n = Some u \<Longrightarrow> 0 < n \<Longrightarrow> t < u"
  by (cases t; cases u) (auto dest: add_seconds_Some)

section \<open>Fields and microseconds\<close>

definition fields_to_micros :: "nat \<Rightarrow> nat \<Rightarrow> nat \<Rightarrow> nat \<Rightarrow> nat \<Rightarrow> nat \<Rightarrow> nat \<Rightarrow> int" where
  "fields_to_micros y mo d h mi s us =
     int ((((ymd_to_ord y mo d - 1) * 24 + h) * 60 + mi) * 60 + s) * 1000000 + int us"

section \<open>fromisoformat\<close>

text \<open>
  The scanner works on the UTF-8 bytes and reads a zero byte past the end, as the C
  implementation does; positions are explicit. \<open>None\<close> is \<open>ValueError\<close>.
\<close>

definition byte_at :: "bytes \<Rightarrow> nat \<Rightarrow> nat" where
  "byte_at s i = (if i < length s then s ! i else 0)"

fun parse_digits :: "bytes \<Rightarrow> nat \<Rightarrow> nat \<Rightarrow> nat \<Rightarrow> (nat \<times> nat) option" where
  "parse_digits s p 0 v = Some (v, p)"
| "parse_digits s p (Suc n) v =
     (if is_digit (byte_at s p) then parse_digits s (Suc p) n (v * 10 + (byte_at s p - 48)) else None)"

text \<open>A surrogate in a position where the date/time separator can be is replaced by \<open>T\<close>.\<close>

definition sanitize :: "pystr \<Rightarrow> pystr" where
  "sanitize s =
     (case filter (\<lambda>i. i < length s \<and> is_surrogate (s ! i)) [7, 8, 10] of
        [] \<Rightarrow> s | i # _ \<Rightarrow> s[i := 84])"

definition find_separator :: "bytes \<Rightarrow> nat option" where
  "find_separator s =
     (let n = length s in
      if n = 7 then Some 7
      else if byte_at s 4 = 45 then
        (if byte_at s 5 = 87 then
           (if n < 8 then None
            else if 8 < n \<and> byte_at s 8 = 45 then
              (if n = 9 then None
               else if 10 < n \<and> is_digit (byte_at s 10) then Some 8
               else Some 10)
            else Some 8)
         else Some 10)
      else if byte_at s 4 = 87 then
        (let i = 7 + length (takeWhile is_digit (drop 7 s)) in
         if i < 9 then Some i else if even i then Some 7 else Some 8)
      else Some 8)"

definition iso_to_ymd :: "nat \<Rightarrow> nat \<Rightarrow> nat \<Rightarrow> (nat \<times> nat \<times> nat) option" where
  "iso_to_ymd y w d =
     (if \<not> (1 \<le> y \<and> y \<le> 9999) then None
      else
        (let first = ymd_to_ord y 1 1; fw = first mod 7 in
         if w = 0 \<or> 53 < w \<or> w = 53 \<and> \<not> (fw = 4 \<or> fw = 3 \<and> is_leap y) then None
         else if d = 0 \<or> 7 < d then None
         else
           (let wd = (first + 6) mod 7;
                monday1 = int first - int wd + (if 3 < wd then 7 else 0);
                ord = monday1 + (int w - 1) * 7 + int d - 1
            in if 1 \<le> ord \<and> ord \<le> int max_ordinal then Some (ord_to_ymd (nat ord)) else None)))"

definition parse_date :: "bytes \<Rightarrow> nat \<Rightarrow> (nat \<times> nat \<times> nat) option" where
  "parse_date s len =
     (case parse_digits s 0 4 0 of None \<Rightarrow> None | Some (y, p) \<Rightarrow>
        (let sep = byte_at s p = 45; p = (if sep then p + 1 else p) in
         if byte_at s p = 87 then
           (case parse_digits s (p + 1) 2 0 of None \<Rightarrow> None | Some (w, p) \<Rightarrow>
              if p < len then
                (if sep \<and> byte_at s p \<noteq> 45 then None
                 else (case parse_digits s (if sep then p + 1 else p) 1 0 of
                         None \<Rightarrow> None | Some (d, _) \<Rightarrow> iso_to_ymd y w d))
              else iso_to_ymd y w 1)
         else
           (case parse_digits s p 2 0 of None \<Rightarrow> None | Some (m, p) \<Rightarrow>
              if sep \<and> byte_at s p \<noteq> 45 then None
              else (case parse_digits s (if sep then p + 1 else p) 2 0 of None \<Rightarrow> None | Some (d, p) \<Rightarrow>
                      if p = len then Some (y, m, d) else None))))"

text \<open>The microseconds that start at \<open>p\<close>, up to position \<open>e\<close>; the flag says that text is left over.\<close>

definition parse_frac :: "bytes \<Rightarrow> nat \<Rightarrow> nat \<Rightarrow> (nat \<times> bool) option" where
  "parse_frac s e p =
     (let k = min 6 (e - p) in
      case parse_digits s p k 0 of None \<Rightarrow> None | Some (us, q) \<Rightarrow>
        Some (us * 10 ^ (6 - k),
              byte_at s (q + length (takeWhile is_digit (drop q s))) \<noteq> 0))"

text \<open>
  \<open>HH[:?MM[:?SS]]\<close> with a fraction, from \<open>p\<close> to \<open>e\<close>: the components, the microseconds, and
  whether text is left over. \<open>k\<close> counts the components still to read.
\<close>

lemma parse_digits_numeral:
  "parse_digits s p (numeral k) v =
     (if is_digit (byte_at s p) then parse_digits s (Suc p) (pred_numeral k) (v * 10 + (byte_at s p - 48)) else None)"
  by (simp only: numeral_eq_Suc parse_digits.simps)

fun parse_hms :: "bytes \<Rightarrow> nat \<Rightarrow> nat \<Rightarrow> bool \<Rightarrow> nat list \<Rightarrow> nat \<Rightarrow> (nat list \<times> nat \<times> bool) option" where
  "parse_hms s e 0 has vs p = map_option (\<lambda>(us, more). (vs, us, more)) (parse_frac s e p)"
| "parse_hms s e (Suc k) has vs p =
     (case parse_digits s p 2 0 of None \<Rightarrow> None | Some (v, q) \<Rightarrow>
        (let c = byte_at s q;
             has' = (if vs = [] then c = 58 else has);
             vs' = vs @ [v]
         in if e \<le> q + 1 then Some (vs', 0, c \<noteq> 0)
            else if has' \<and> c = 58 then parse_hms s e k has' vs' (q + 1)
            else if c = 46 \<or> c = 44 then
              map_option (\<lambda>(us, more). (vs', us, more)) (parse_frac s e (q + 1))
            else if \<not> has' then parse_hms s e k has' vs' q
            else None))"

definition component :: "nat list \<Rightarrow> nat \<Rightarrow> nat" where
  "component vs i = (if i < length vs then vs ! i else 0)"

text \<open>
  The time of day and the offset, both with microseconds: the offset is \<open>None\<close> for a naive
  time, otherwise whole seconds and microseconds as the C code keeps them apart.
\<close>

definition parse_time_of_day ::
    "bytes \<Rightarrow> nat \<Rightarrow> ((nat list \<times> nat) \<times> (int \<times> int) option) option" where
  "parse_time_of_day s p =
     (let e = length s;
          z = p + length (takeWhile (\<lambda>c. c \<notin> {43, 45, 90}) (drop p s))
      in case parse_hms s z 3 True [] p of None \<Rightarrow> None | Some (vs, us, more) \<Rightarrow>
           if z = e then (if more then None else Some ((vs, us), None))
           else if byte_at s z = 90 then
             (if byte_at s (z + 1) \<noteq> 0 then None else Some ((vs, us), Some (0, 0)))
           else
             (case parse_hms s e 3 True [] (z + 1) of None \<Rightarrow> None | Some (ovs, ous, omore) \<Rightarrow>
                if omore then None
                else
                  (let sg = (if byte_at s z = 45 then - 1 else 1) in
                   Some ((vs, us), Some
                     (sg * int (component ovs 0 * 3600 + component ovs 1 * 60 + component ovs 2),
                      sg * int ous)))))"

definition make_datetime ::
    "nat \<times> nat \<times> nat \<Rightarrow> nat list \<times> nat \<Rightarrow> (int \<times> int) option \<Rightarrow> datetime option" where
  "make_datetime ymd t off =
     (case (ymd, t) of ((y, mo, d), (vs, us)) \<Rightarrow>
        if \<not> (valid_date y mo d \<and> component vs 0 < 24 \<and> component vs 1 < 60 \<and> component vs 2 < 60
              \<and> us < 1000000) then None
        else
          (let l = fields_to_micros y mo d (component vs 0) (component vs 1) (component vs 2) us in
           case off of
             None \<Rightarrow> Some (Naive l)
           | Some (os, ous) \<Rightarrow>
               if os = 0 then Some (Aware l 0)
               else if \<bar>os * 1000000 + ous\<bar> < 86400000000 then Some (Aware l (os * 1000000 + ous))
               else None))"

definition utf8_width :: "nat \<Rightarrow> nat" where
  "utf8_width b = (if b < 0x80 then 1 else if b div 16 = 14 then 3 else if b div 16 = 15 then 4 else 2)"

definition fromisoformat :: "pystr \<Rightarrow> datetime option" where
  "fromisoformat str =
     (if length str < 7 then None
      else case encode_utf8 (sanitize str) of None \<Rightarrow> None | Some s \<Rightarrow>
        (case find_separator s of None \<Rightarrow> None | Some sep \<Rightarrow>
           (case parse_date s sep of None \<Rightarrow> None | Some ymd \<Rightarrow>
              if sep < length s then
                (case parse_time_of_day s (sep + utf8_width (byte_at s sep)) of
                   None \<Rightarrow> None | Some (t, off) \<Rightarrow> make_datetime ymd t off)
              else make_datetime ymd ([], 0) None)))"

section \<open>isoformat\<close>

text \<open>\<open>t.isoformat()\<close> of an aware UTC datetime; the fraction is omitted when it is zero.\<close>

definition isoformat :: "instant \<Rightarrow> pystr" where
  "isoformat t =
     (let n = nat (micros t);
          us = n mod 1000000; secs = n div 1000000;
          tod = secs mod 86400
      in case ord_to_ymd (secs div 86400 + 1) of (y, mo, d) \<Rightarrow>
        pad_digits 4 y @ 45 # pad_digits 2 mo @ 45 # pad_digits 2 d @ 84 #
        pad_digits 2 (tod div 3600) @ 58 # pad_digits 2 (tod div 60 mod 60) @ 58 # pad_digits 2 (tod mod 60) @
        (if us = 0 then [] else 46 # pad_digits 6 us) @ lit ''+00:00'')"

text \<open>The program's rendering \<open>isoformat().replace("+00:00", "Z")\<close>, and the text its parsers
  normalise with \<open>replace("Z", "+00:00")\<close> before \<open>fromisoformat\<close>.\<close>

definition isoformat_z :: "instant \<Rightarrow> pystr" where
  "isoformat_z t = py_replace (lit ''+00:00'') (lit ''Z'') (isoformat t)"

definition normalize_z :: "pystr \<Rightarrow> pystr" where
  "normalize_z s = py_replace (lit ''Z'') (lit ''+00:00'') s"

end
