(* ===== verification/Py_Time_Roundtrip.thy ===== *)
theory Py_Time_Roundtrip
  imports Py_Time
begin

text \<open>
  Every timestamp the program writes is read back by its parsers as the same instant:
  \<open>fromisoformat (isoformat t)\<close> is \<open>t\<close> for all instants of years 1 to 9999, with and without
  a fraction, and the two \<open>replace\<close> calls around them cancel.
\<close>

section \<open>Reading digits\<close>

lemma byte_at_drop: "drop p s = c # t \<Longrightarrow> byte_at s p = c"
  by (metis byte_at_def hd_drop_conv_nth list.discI list.sel(1) drop_all not_le)

lemma parse_digits_foldl:
  assumes "take n (drop p s) = ds" "length ds = n" "\<forall>d \<in> set ds. is_digit d"
  shows "parse_digits s p n v = Some (foldl (\<lambda>v d. v * 10 + (d - 48)) v ds, p + n)"
  using assms
proof (induction n arbitrary: p ds v)
  case (Suc n)
  then obtain d ds' where ds: "ds = d # ds'" by (cases ds) auto
  with Suc.prems obtain t where t: "drop p s = d # t" "take n t = ds'"
    by (cases "drop p s") auto
  then have "drop (Suc p) s = t" by (metis drop_Suc list.sel(3) tl_drop)
  with t ds Suc show ?case by (auto simp: byte_at_drop [OF t(1)])
qed simp

lemma parse_digits_pad:
  "take w (drop p s) = pad_digits w v \<Longrightarrow> v < 10 ^ w \<Longrightarrow> parse_digits s p w 0 = Some (v, p + w)"
  using parse_digits_foldl [of w p s "pad_digits w v" 0] digits_val_pad_digits [of v w]
  by (auto simp: digits_val_def pad_digits_digit)

lemma byte_at_append: "byte_at (a @ b) p = (if p < length a then byte_at a p else byte_at b (p - length a))"
  by (auto simp: byte_at_def nth_append)

lemma byte_at_Cons: "byte_at (c # s) p = (if p = 0 then c else byte_at s (p - 1))"
  by (cases p) (auto simp: byte_at_def)

lemma byte_at_pad: "i < w \<Longrightarrow> is_digit (byte_at (pad_digits w n) i)"
  by (simp add: byte_at_def) (metis length_pad_digits nth_mem pad_digits_digit)

section \<open>The text of an instant\<close>

definition utc_suffix :: pystr where
  "utc_suffix = [43, 48, 48, 58, 48, 48]"

lemma lit_utc [simp]: "lit ''+00:00'' = utc_suffix"
  by (simp add: lit_def utc_suffix_def)

lemma lit_Z [simp]: "lit ''Z'' = [90]"
  by (simp add: lit_def)

definition frac_text :: "nat \<Rightarrow> pystr" where
  "frac_text us = (if us = 0 then [] else 46 # pad_digits 6 us)"

definition date_text :: "nat \<Rightarrow> nat \<Rightarrow> nat \<Rightarrow> pystr" where
  "date_text y mo d = pad_digits 4 y @ 45 # pad_digits 2 mo @ 45 # pad_digits 2 d"

definition clock_text :: "nat \<Rightarrow> nat \<Rightarrow> nat \<Rightarrow> nat \<Rightarrow> pystr" where
  "clock_text h mi s us = pad_digits 2 h @ 58 # pad_digits 2 mi @ 58 # pad_digits 2 s @ frac_text us"

lemma length_date_text [simp]: "length (date_text y mo d) = 10"
  by (simp add: date_text_def)

lemma set_date_text: "set (date_text y mo d) \<subseteq> {c. is_digit c} \<union> {45}"
  by (auto simp: date_text_def pad_digits_digit)

lemma set_clock_text: "set (clock_text h mi s us) \<subseteq> {c. is_digit c} \<union> {46, 58}"
  by (auto simp: clock_text_def frac_text_def pad_digits_digit split: if_splits)

lemma parse_date_text:
  assumes "y \<le> 9999" "mo \<le> 12" "d \<le> 31"
  shows "parse_date (date_text y mo d @ r) 10 = Some (y, mo, d)"
proof -
  let ?s = "date_text y mo d @ r"
  have "parse_digits ?s 0 4 0 = Some (y, 4)"
    using assms parse_digits_pad [of 4 0 ?s y] by (simp add: date_text_def)
  moreover have "parse_digits ?s 5 2 0 = Some (mo, 7)"
    using assms parse_digits_pad [of 2 5 ?s mo] by (simp add: date_text_def)
  moreover have "parse_digits ?s 8 2 0 = Some (d, 10)"
    using assms parse_digits_pad [of 2 8 ?s d] by (simp add: date_text_def)
  moreover have "byte_at ?s 4 = 45" "byte_at ?s 7 = 45"
    by (simp_all add: date_text_def byte_at_append byte_at_Cons)
  moreover have "byte_at ?s 5 \<noteq> 87"
    using byte_at_pad [of 0 2 mo] by (auto simp: date_text_def byte_at_append byte_at_Cons is_digit_def)
  ultimately show ?thesis by (simp add: parse_date_def)
qed

lemma find_separator_text: "find_separator (date_text y mo d @ 84 # r) = Some 10"
proof -
  let ?s = "date_text y mo d @ 84 # r"
  have "byte_at ?s 4 = 45" by (simp add: date_text_def byte_at_append byte_at_Cons)
  moreover have "byte_at ?s 5 \<noteq> 87"
    using byte_at_pad [of 0 2 mo] by (auto simp: date_text_def byte_at_append byte_at_Cons is_digit_def)
  ultimately show ?thesis by (simp add: find_separator_def)
qed

lemma byte_at_add: "byte_at s (p + k) = byte_at (drop p s) k"
  by (auto simp: byte_at_def)

lemma parse_hms_colon:
  "parse_digits s p 2 0 = Some (v, q) \<Longrightarrow> byte_at s q = 58 \<Longrightarrow> q + 1 < e \<Longrightarrow> vs = [] \<or> has
     \<Longrightarrow> k = Suc k' \<Longrightarrow> r = q + 1
     \<Longrightarrow> parse_hms s e k has vs p = parse_hms s e k' True (vs @ [v]) r"
  by auto

lemma parse_hms_dot:
  "parse_digits s p 2 0 = Some (v, q) \<Longrightarrow> byte_at s q = 46 \<Longrightarrow> q + 1 < e \<Longrightarrow> vs \<noteq> []
     \<Longrightarrow> r = q + 1 \<Longrightarrow> parse_hms s e (Suc k) has vs p =
       map_option (\<lambda>(us, more). (vs @ [v], us, more)) (parse_frac s e r)"
  by auto

lemma parse_hms_last:
  "parse_digits s p 2 0 = Some (v, q) \<Longrightarrow> e \<le> q + 1
     \<Longrightarrow> parse_hms s e (Suc k) has vs p = Some (vs @ [v], 0, byte_at s q \<noteq> 0)"
  by (simp add: Let_def)

lemma parse_hms_clock:
  assumes d: "drop p s = clock_text h mi sec us @ 43 # r"
    and e: "e = p + length (clock_text h mi sec us)"
    and bnd: "h < 100" "mi < 100" "sec < 100" "us < 1000000"
  shows "\<exists>more. parse_hms s e 3 True [] p = Some ([h, mi, sec], us, more)"
proof -
  have at: "byte_at s (p + k) = byte_at (clock_text h mi sec us @ 43 # r) k" for k
    by (simp add: byte_at_add d)
  have dr: "drop (p + k) s = drop k (clock_text h mi sec us @ 43 # r)" for k
    by (simp add: d [symmetric] add.commute)
  have h: "parse_digits s p 2 0 = Some (h, p + 2)"
    using parse_digits_pad [of 2 p s h] bnd d by (simp add: clock_text_def)
  have mi: "parse_digits s (p + 3) 2 0 = Some (mi, p + 5)"
    using parse_digits_pad [of 2 "p + 3" s mi] bnd dr [of 3] by (simp add: clock_text_def)
  have sec: "parse_digits s (p + 6) 2 0 = Some (sec, p + 8)"
    using parse_digits_pad [of 2 "p + 6" s sec] bnd dr [of 6] by (simp add: clock_text_def)
  have c: "byte_at s (p + 2) = 58" "byte_at s (p + 5) = 58"
    using at [of 2] at [of 5] by (simp_all add: clock_text_def byte_at_append byte_at_Cons)
  have len: "p + 8 \<le> e" using e by (simp add: clock_text_def)
  have "parse_hms s e 3 True [] p = parse_hms s e 2 True [h] (p + 3)"
    using parse_hms_colon [OF h c(1), of e "[]" True 3 2 "p + 3"] len by simp
  also have "\<dots> = parse_hms s e (Suc 0) True [h, mi] (p + 6)"
    using parse_hms_colon [OF mi c(2), of e "[h]" True 2 "Suc 0" "p + 6"] len
    by (simp del: parse_hms.simps)
  finally have two: "parse_hms s e 3 True [] p = parse_hms s e (Suc 0) True [h, mi] (p + 6)" .
  show ?thesis
  proof (cases "us = 0")
    case True
    with e have "e = p + 8" by (simp add: clock_text_def frac_text_def)
    then show ?thesis unfolding two using True parse_hms_last [OF sec, of e 0 True "[h, mi]"]
      by (simp del: parse_hms.simps)
  next
    case False
    with e have e: "e = p + 15" by (simp add: clock_text_def frac_text_def)
    have "byte_at s (p + 8) = 46"
      using at [of 8] False by (simp add: clock_text_def frac_text_def byte_at_append byte_at_Cons)
    then have "parse_hms s e (Suc 0) True [h, mi] (p + 6) =
        map_option (\<lambda>(us, more). ([h, mi, sec], us, more)) (parse_frac s e (p + 9))"
      using parse_hms_dot [OF sec, of e "[h, mi]" "p + 9" 0 True] e by (simp del: parse_hms.simps)
    moreover have "parse_digits s (p + 9) 6 0 = Some (us, p + 15)"
      using parse_digits_pad [of 6 "p + 9" s us] bnd dr [of 9] False
      by (simp add: clock_text_def frac_text_def)
    ultimately show ?thesis unfolding two using e by (simp add: parse_frac_def del: parse_hms.simps)
  qed
qed

lemma parse_hms_zero_offset:
  assumes "drop p s = [48, 48, 58, 48, 48]"
  shows "parse_hms s (length s) 3 True [] p = Some ([0, 0], 0, False)"
proof -
  have len: "length s = p + 5"
    using arg_cong [OF assms, of length] by simp
  have dr: "drop (p + k) s = drop k [48, 48, 58, 48, 48]" for k
    by (simp add: assms [symmetric] add.commute)
  have d: "parse_digits s p 2 0 = Some (0, p + 2)" "parse_digits s (p + 3) 2 0 = Some (0, p + 5)"
    using parse_digits_foldl [of 2 p s "[48, 48]" 0] parse_digits_foldl [of 2 "p + 3" s "[48, 48]" 0]
      assms dr [of 3] by (simp_all add: is_digit_def numeral_eq_Suc)
  moreover have at: "byte_at s (p + 2) = 58" "byte_at s (p + 5) = 0"
    using byte_at_add [of s p 2] len by (simp_all add: assms byte_at_def)
  ultimately have "parse_hms s (length s) 3 True [] p = parse_hms s (length s) 2 True [0] (p + 3)"
    using parse_hms_colon [of s p 0 "p + 2" "length s" "[]" True 3 2 "p + 3"] len by simp
  also have "\<dots> = parse_hms s (length s) (Suc 1) True [0] (p + 3)"
    by (simp only: Suc_1)
  also have "\<dots> = Some ([0, 0], 0, False)"
    using parse_hms_last [OF d(2), of "length s" 1 True "[0]"] len at
    by (simp del: parse_hms.simps)
  finally show ?thesis .
qed

section \<open>Round trip\<close>

lemma takeWhile_append_stop: "\<forall>x \<in> set a. P x \<Longrightarrow> \<not> P b \<Longrightarrow> takeWhile P (a @ b # c) = a"
  by (induction a) auto

lemma parse_time_of_day_text:
  assumes "drop p s = clock_text h mi sec us @ utc_suffix"
    and bnd: "h < 100" "mi < 100" "sec < 100" "us < 1000000"
  shows "parse_time_of_day s p = Some (([h, mi, sec], us), Some (0, 0))"
proof -
  let ?c = "clock_text h mi sec us"
  let ?z = "p + length ?c"
  have d: "drop p s = ?c @ 43 # [48, 48, 58, 48, 48]"
    using assms(1) by (simp add: utc_suffix_def)
  have "\<forall>x \<in> set ?c. x \<notin> {43, 45, 90}"
    using set_clock_text [of h mi sec us] by (auto simp: is_digit_def)
  then have z: "p + length (takeWhile (\<lambda>c. c \<notin> {43, 45, 90}) (drop p s)) = ?z"
    using takeWhile_append_stop [of ?c "\<lambda>c. c \<notin> {43, 45, 90}" 43 "[48, 48, 58, 48, 48]"]
    by (simp add: d)
  have len: "length s = ?z + 6" using arg_cong [OF d, of length] by simp
  have "drop (?z + 1) s = drop (length ?c + 1) (drop p s)" by (simp add: add.commute add.left_commute)
  also have "\<dots> = [48, 48, 58, 48, 48]" by (simp add: d)
  finally have off: "parse_hms s (length s) 3 True [] (?z + 1) = Some ([0, 0], 0, False)"
    by (rule parse_hms_zero_offset)
  have "byte_at s ?z = 43" by (simp add: byte_at_add d byte_at_append byte_at_Cons)
  moreover obtain more where "parse_hms s ?z 3 True [] p = Some ([h, mi, sec], us, more)"
    using parse_hms_clock [OF d refl bnd] by blast
  ultimately show ?thesis
    unfolding parse_time_of_day_def Let_def z
    using off len by (simp add: component_def numeral_2_eq_2)
qed

definition iso_text :: "nat \<Rightarrow> nat \<Rightarrow> nat \<Rightarrow> nat \<Rightarrow> nat \<Rightarrow> nat \<Rightarrow> nat \<Rightarrow> pystr" where
  "iso_text y mo d h mi sec us = date_text y mo d @ 84 # clock_text h mi sec us"

lemma is_ascii_iso_text: "is_ascii (iso_text y mo d h mi sec us @ utc_suffix)"
  using set_date_text [of y mo d] set_clock_text [of h mi sec us]
  by (fastforce simp: is_ascii_def iso_text_def utc_suffix_def is_digit_def)

lemma sanitize_ascii: "is_ascii s \<Longrightarrow> sanitize s = s"
proof -
  assume "is_ascii s"
  then have "\<not> is_surrogate (s ! i)" if "i < length s" for i
  proof -
    have "s ! i < 128" using that \<open>is_ascii s\<close> by (simp add: is_ascii_def)
    then show ?thesis by (simp add: is_surrogate_def)
  qed
  then have "filter (\<lambda>i. i < length s \<and> is_surrogate (s ! i)) [7, 8, 10] = []"
    by (auto simp: filter_empty_conv)
  then show ?thesis by (simp add: sanitize_def)
qed

lemma fromisoformat_text:
  assumes v: "valid_date y mo d" and bnd: "h < 24" "mi < 60" "sec < 60" "us < 1000000"
  shows "fromisoformat (iso_text y mo d h mi sec us @ utc_suffix) =
    Some (Aware (fields_to_micros y mo d h mi sec us) 0)"
proof -
  let ?s = "iso_text y mo d h mi sec us @ utc_suffix"
  have s: "?s = date_text y mo d @ 84 # clock_text h mi sec us @ utc_suffix"
    by (simp add: iso_text_def)
  have "d \<le> 31"
  proof -
    have "month_days ! mo \<le> 31" if "mo \<le> 12"
      using nth_mem [of mo month_days] that by (auto simp: month_days_def)
    with v show ?thesis by (auto simp: valid_date_def days_in_month_def split: if_splits)
  qed
  then have date: "parse_date ?s 10 = Some (y, mo, d)"
    unfolding s using v by (intro parse_date_text) (auto simp: valid_date_def)
  have sep: "find_separator ?s = Some 10" unfolding s by (rule find_separator_text)
  have tod: "parse_time_of_day ?s 11 = Some (([h, mi, sec], us), Some (0, 0))"
    using bnd by (intro parse_time_of_day_text) (simp_all add: s)
  have "byte_at ?s 10 = 84" by (simp add: s byte_at_append byte_at_Cons)
  then have "utf8_width (byte_at ?s 10) = 1" by (simp add: utf8_width_def)
  moreover have "10 < length ?s" "\<not> length ?s < 7" by (simp_all add: s)
  moreover have "encode_utf8 (sanitize ?s) = Some ?s"
    by (simp only: sanitize_ascii [OF is_ascii_iso_text] encode_utf8_ascii [OF is_ascii_iso_text])
  ultimately show ?thesis
    using date sep tod v bnd
    by (simp add: fromisoformat_def make_datetime_def component_def)
qed

text \<open>The fields of an instant, and that they are the instant's fields.\<close>

lemma time_fields_combine:
  "tod = h * 3600 + m * 60 + c \<Longrightarrow> s = d * 86400 + tod \<Longrightarrow> s = ((d * 24 + h) * 60 + m) * 60 + (c::nat)"
  by simp

lemma isoformat_fields:
  assumes "valid_instant t"
  obtains y mo d h mi sec us where
    "isoformat t = iso_text y mo d h mi sec us @ utc_suffix" "valid_date y mo d"
    "h < 24" "mi < 60" "sec < 60" "us < 1000000"
    "fields_to_micros y mo d h mi sec us = micros t"
proof -
  define n where "n = nat (micros t)"
  define secs where "secs = n div 1000000"
  define tod where "tod = secs mod 86400"
  define ord where "ord = secs div 86400 + 1"
  obtain y mo d where ymd: "ord_to_ymd ord = (y, mo, d)" by (metis prod_cases3)
  have n: "int n = micros t" "n < 315537897600000000"
    using assms by (auto simp: n_def valid_instant_def in_range_def max_micros_def)
  then have "secs < 315537897600" by (simp add: secs_def less_mult_imp_div_less)
  then have "secs div 86400 < 3652059" by (simp add: less_mult_imp_div_less)
  then have inv: "valid_date y mo d" "ymd_to_ord y mo d = ord"
    using ord_to_ymd_inverse [OF _ _ ymd] by (auto simp: ord_def max_ordinal_def)
  have fields: "isoformat t = iso_text y mo d (tod div 3600) (tod div 60 mod 60) (tod mod 60)
      (n mod 1000000) @ utc_suffix"
    using ymd
    by (simp add: isoformat_def Let_def n_def secs_def tod_def ord_def iso_text_def date_text_def
        clock_text_def frac_text_def)
  have "((ord - 1) * 24 + tod div 3600) * 60 + tod div 60 mod 60 = secs div 60"
    and "(secs div 60) * 60 + tod mod 60 = secs"
  proof -
    have tod: "tod = tod div 3600 * 3600 + tod div 60 mod 60 * 60 + tod mod 60"
    proof -
      have "tod div 60 = tod div 3600 * 60 + tod div 60 mod 60"
        using div_mult_mod_eq [of "tod div 60" 60] by (simp add: div_mult2_eq [symmetric])
      then show ?thesis using div_mult_mod_eq [of tod 60] by linarith
    qed
    have secs: "secs = (ord - 1) * 86400 + tod" by (simp add: ord_def tod_def)
    let ?q = "((ord - 1) * 24 + tod div 3600) * 60 + tod div 60 mod 60"
    have eq: "secs = ?q * 60 + tod mod 60" by (rule time_fields_combine [OF tod secs])
    have r: "tod mod 60 < 60" by simp
    show q: "?q = secs div 60"
      by (subst eq) (rule div_mod_qr(1) [OF r, symmetric])
    show "(secs div 60) * 60 + tod mod 60 = secs"
      using eq unfolding q by (rule sym)
  qed
  then have "fields_to_micros y mo d (tod div 3600) (tod div 60 mod 60) (tod mod 60) (n mod 1000000)
      = int secs * 1000000 + int (n mod 1000000)"
    by (simp only: fields_to_micros_def inv(2))
  also have "\<dots> = int n"
    unfolding secs_def using div_mult_mod_eq [of n 1000000] by (metis of_nat_add of_nat_mult of_nat_numeral)
  finally have m: "fields_to_micros y mo d (tod div 3600) (tod div 60 mod 60) (tod mod 60)
      (n mod 1000000) = micros t" using n by simp
  have "tod < 86400" by (simp add: tod_def)
  then have "tod div 3600 < 24" by (simp add: less_mult_imp_div_less)
  with that [OF fields inv(1) _ _ _ _ m] show thesis by simp
qed

theorem fromisoformat_isoformat:
  "valid_instant t \<Longrightarrow> fromisoformat (isoformat t) = Some (Aware (micros t) 0)"
  by (erule isoformat_fields) (simp add: fromisoformat_text)

lemma starts_with_hd: "starts_with (c # s) p \<Longrightarrow> p \<noteq> [] \<Longrightarrow> hd p = c"
  by (cases p) (auto simp: starts_with_def)

lemma py_replace_prefix: "hd old \<notin> set a \<Longrightarrow> old \<noteq> [] \<Longrightarrow> py_replace old new (a @ b) = a @ py_replace old new b"
  by (induction a) (auto dest: starts_with_hd)

lemma isoformat_z_text: "valid_instant t \<Longrightarrow> \<exists>a. isoformat t = a @ utc_suffix \<and> isoformat_z t = a @ [90] \<and>
    43 \<notin> set a \<and> 90 \<notin> set a \<and> is_ascii a \<and> \<not> is_space (hd (a @ [90]))"
proof (erule isoformat_fields)
  fix y mo d h mi sec us
  assume iso: "isoformat t = iso_text y mo d h mi sec us @ utc_suffix"
  let ?a = "iso_text y mo d h mi sec us"
  have set: "43 \<notin> set ?a" "90 \<notin> set ?a"
    using set_date_text [of y mo d] set_clock_text [of h mi sec us]
    by (auto simp: iso_text_def is_digit_def)
  have "py_replace utc_suffix [90] utc_suffix = [90]"
    by (simp add: utc_suffix_def starts_with_def)
  then have "isoformat_z t = ?a @ [90]"
    using py_replace_prefix [of utc_suffix ?a "[90]" utc_suffix] set
    by (simp add: isoformat_z_def iso utc_suffix_def)
  moreover have "\<not> is_space (hd (?a @ [90]))"
  proof -
    have "hd (?a @ [90]) \<in> {c. is_digit c} \<union> {45}"
      using set_date_text [of y mo d] length_date_text [of y mo d]
      by (cases "date_text y mo d") (auto simp: iso_text_def)
    then show ?thesis by (auto simp: is_digit_def is_space_def)
  qed
  ultimately show ?thesis using iso set is_ascii_iso_text [of y mo d h mi sec us] by (auto simp: utc_suffix_def)
qed

theorem normalize_isoformat_z: "valid_instant t \<Longrightarrow> normalize_z (isoformat_z t) = isoformat t"
proof -
  assume "valid_instant t"
  then obtain a where a: "isoformat t = a @ utc_suffix" "isoformat_z t = a @ [90]" "90 \<notin> set a"
    using isoformat_z_text by blast
  then show ?thesis
    using py_replace_prefix [of "[90]" a utc_suffix "[90]"]
    by (simp add: normalize_z_def starts_with_def)
qed

section \<open>A timestamp before the calendar\<close>

text \<open>
  The text \<open>0001-01-01T00:00:00+01:00\<close> denotes the last hour of the year before year 1: it is a
  correct ISO-8601 text, but no UTC datetime is the instant it names.
\<close>

definition early_text :: pystr where
  "early_text = lit ''0001-01-01T00:00:00+01:00''"

lemma early_text_codes: "early_text = [48, 48, 48, 49, 45, 48, 49, 45, 48, 49, 84, 48, 48, 58, 48, 48, 58,
    48, 48, 43, 48, 49, 58, 48, 48]"
  by (simp add: early_text_def lit_def)

lemma parse_hms_numeral:
  "parse_hms s e (numeral k) has vs p =
     (case parse_digits s p 2 0 of None \<Rightarrow> None | Some (v, q) \<Rightarrow>
        (let c = byte_at s q;
             has' = (if vs = [] then c = 58 else has);
             vs' = vs @ [v]
         in if e \<le> q + 1 then Some (vs', 0, c \<noteq> 0)
            else if has' \<and> c = 58 then parse_hms s e (pred_numeral k) has' vs' (q + 1)
            else if c = 46 \<or> c = 44 then
              map_option (\<lambda>(us, more). (vs', us, more)) (parse_frac s e (q + 1))
            else if \<not> has' then parse_hms s e (pred_numeral k) has' vs' q
            else None))"
  by (simp only: numeral_eq_Suc parse_hms.simps)

lemmas scan_eval = parse_digits_numeral parse_hms_numeral byte_at_def early_text_codes is_digit_def

lemma early_text_parts:
  "length early_text = 25" "is_ascii early_text" "find_separator early_text = Some 10"
  "parse_date early_text 10 = Some (1, 1, 1)" "byte_at early_text 10 = 84" "byte_at early_text 19 = 43"
  "length (takeWhile (\<lambda>c. c \<noteq> 43 \<and> c \<noteq> 45 \<and> c \<noteq> 90) (drop 11 early_text)) = 8"
  by (simp_all add: scan_eval find_separator_def parse_date_def)

lemma early_text_hms:
  "parse_hms early_text 19 3 True [] 11 = Some ([0, 0, 0], 0, True)"
  "parse_hms early_text 25 3 True [] 20 = Some ([1, 0], 0, False)"
  by (simp_all add: scan_eval)

lemma early_text_time: "parse_time_of_day early_text 11 = Some (([0, 0, 0], 0), Some (3600, 0))"
  by (simp add: parse_time_of_day_def early_text_parts early_text_hms Let_def component_def)

lemma early_text_datetime: "make_datetime (1, 1, 1) ([0, 0, 0], 0) (Some (3600, 0)) = Some (Aware 0 3600000000)"
  by (simp add: make_datetime_def component_def fields_to_micros_def valid_date_def days_in_month_def
      month_days_def month_start_def ymd_to_ord_def days_before_year_def days_before_month_def)

lemma fromisoformat_early: "fromisoformat early_text = Some (Aware 0 3600000000)"
  by (simp add: fromisoformat_def sanitize_ascii encode_utf8_ascii early_text_parts early_text_time
      early_text_datetime [simplified] utf8_width_def)

lemma normalize_early: "normalize_z early_text = early_text"
  using py_replace_prefix [of "[90]" early_text utc_suffix "[]"]
  by (simp add: normalize_z_def early_text_codes)

end
