(* ===== verification/Py_Fields.thy ===== *)
theory Py_Fields
  imports Py_Json Py_Errors Py_Time_Roundtrip
begin

text \<open>
  The two interfaces every parser of the program rests on, each implemented more than once in
  the source: a required string field (\<open>_require_string\<close> in \<open>protocol.py\<close> and \<open>device.py\<close>) and
  a timestamp field (\<open>_parse_time\<close> in \<open>protocol.py\<close>, \<open>verify.py\<close> and \<open>device.py\<close>). Their
  clients' lemmas are proved once here and reach the components by interpretation.
\<close>

text \<open>A string with a visible character: what \<open>value.strip()\<close> is truthy for.\<close>

definition nonblank :: "pystr \<Rightarrow> bool" where
  "nonblank s \<longleftrightarrow> py_strip s \<noteq> []"

lemma nonblank_Nil [simp]: "\<not> nonblank []"
  by (simp add: nonblank_def)

lemma nonblank_hd: "s \<noteq> [] \<Longrightarrow> \<not> is_space (hd s) \<Longrightarrow> nonblank s"
  by (cases s) (auto simp: nonblank_def py_strip_empty_iff)

lemma nonblank_lit [simp]: "\<not> is_space (of_char c) \<Longrightarrow> nonblank (lit (c # s))"
  by (rule nonblank_hd) (simp_all add: lit_def)

text \<open>\<open>isinstance(v, bool)\<close>, \<open>isinstance(v, dict)\<close>, \<open>isinstance(v, list)\<close> with the value on success.\<close>

fun expect_bool :: "exn \<Rightarrow> json \<Rightarrow> bool res" where
  "expect_bool e (JBool b) = Inr b"
| "expect_bool e v = Inl e"

fun expect_obj :: "exn \<Rightarrow> json \<Rightarrow> obj res" where
  "expect_obj e (JObj d) = Inr d"
| "expect_obj e v = Inl e"

fun expect_list :: "exn \<Rightarrow> json \<Rightarrow> json list res" where
  "expect_list e (JList xs) = Inr xs"
| "expect_list e v = Inl e"

text \<open>\<open>v is not None and not isinstance(v, str)\<close> is refused.\<close>

fun expect_opt_string :: "exn \<Rightarrow> json \<Rightarrow> pystr option res" where
  "expect_opt_string e JNull = Inr None"
| "expect_opt_string e (JStr s) = Inr (Some s)"
| "expect_opt_string e v = Inl e"

text \<open>\<open>not isinstance(v, str)\<close> is refused, and \<open>not isinstance(v, str) or not v\<close> is refused.\<close>

fun expect_string :: "exn \<Rightarrow> json \<Rightarrow> pystr res" where
  "expect_string e (JStr s) = Inr s"
| "expect_string e v = Inl e"

fun expect_nonempty :: "exn \<Rightarrow> json \<Rightarrow> pystr res" where
  "expect_nonempty e (JStr s) = (if s = [] then Inl e else Inr s)"
| "expect_nonempty e v = Inl e"

lemma expect_string_iffs [res_simps]:
  "expect_string e v = Inr s \<longleftrightarrow> v = JStr s"
  "expect_nonempty e v = Inr s \<longleftrightarrow> v = JStr s \<and> s \<noteq> []"
  by (cases v; auto)+

lemma expect_string_Inl:
  "expect_string e v = Inl e' \<Longrightarrow> e' = e" "expect_nonempty e v = Inl e' \<Longrightarrow> e' = e"
  by (cases v; auto split: if_splits)+

lemma expect_opt_string_Inl: "expect_opt_string e v = Inl e' \<Longrightarrow> e' = e"
  by (cases v) auto

lemma expect_Inr_iff [res_simps]:
  "expect_bool e v = Inr b \<longleftrightarrow> v = JBool b"
  "expect_obj e v = Inr d \<longleftrightarrow> v = JObj d"
  "expect_list e v = Inr xs \<longleftrightarrow> v = JList xs"
  by (cases v; simp)+

lemma expect_Inl_iff:
  "expect_bool e v = Inl e' \<longleftrightarrow> e' = e \<and> (\<forall>b. v \<noteq> JBool b)"
  "expect_obj e v = Inl e' \<longleftrightarrow> e' = e \<and> (\<forall>d. v \<noteq> JObj d)"
  "expect_list e v = Inl e' \<longleftrightarrow> e' = e \<and> (\<forall>xs. v \<noteq> JList xs)"
  by (cases v; auto)+

section \<open>Required strings\<close>

locale string_field =
  fixes require :: "obj \<Rightarrow> pystr \<Rightarrow> pystr res"
    and missing :: "pystr \<Rightarrow> exn"
  assumes require_law: "require d k =
    (case py_get d k of JStr s \<Rightarrow> if nonblank s then Inr s else Inl (missing k) | _ \<Rightarrow> Inl (missing k))"
begin

lemma require_Inr_iff [res_simps]: "require d k = Inr s \<longleftrightarrow> py_get d k = JStr s \<and> nonblank s"
  by (auto simp: require_law split: json.splits if_splits)

lemma require_Inl_iff: "require d k = Inl e \<longleftrightarrow> e = missing k \<and> \<not> (\<exists>s. py_get d k = JStr s \<and> nonblank s)"
  by (auto simp: require_law split: json.splits if_splits)

lemma require_found: "py_get d k = JStr s \<Longrightarrow> nonblank s \<Longrightarrow> require d k = Inr s"
  by (simp add: require_law)

end

section \<open>Timestamps\<close>

text \<open>
  What a run takes from its surroundings: the wall clock, the system time zone that a naive
  datetime is read in (it may fail near the ends of the calendar), the \<open>repr\<close> of the \<open>float\<close> a
  decimal text denotes, and what \<open>json.loads\<close> of a text raises because of a limit of the
  interpreter. The limits are settings of the interpreter: nesting beyond the recursion limit is a
  \<open>RecursionError\<close>, an integer of more digits than \<open>sys.get_int_max_str_digits()\<close> a \<open>ValueError\<close>.
\<close>

record runtime =
  wall_clock :: instant
  local_zone :: "int \<Rightarrow> instant res"
  float_repr :: "pystr \<Rightarrow> pystr"
  limit_error :: "pystr \<Rightarrow> exn option"

text \<open>\<open>(now or datetime.now(timezone.utc)).astimezone(timezone.utc)\<close>\<close>

definition current_utc :: "runtime \<Rightarrow> datetime option \<Rightarrow> instant res" where
  "current_utc rt now =
     (case now of
        None \<Rightarrow> Inr (wall_clock rt)
      | Some (Naive l) \<Rightarrow> local_zone rt l
      | Some (Aware l off) \<Rightarrow> or_raise (to_utc l off) OverflowErr)"

text \<open>A caller's aware UTC datetime.\<close>

abbreviation utc_now :: "instant \<Rightarrow> datetime option" where
  "utc_now t \<equiv> Some (Aware (micros t) 0)"

lemma current_utc_simps [simp]:
  "current_utc rt None = Inr (wall_clock rt)"
  "valid_instant t \<Longrightarrow> current_utc rt (utc_now t) = Inr t"
  by (cases t; simp add: current_utc_def to_utc_def valid_instant_def)+

locale time_field =
  fixes parse :: "pystr \<Rightarrow> instant res"
    and not_iso no_zone :: exn
  assumes parse_law: "parse s =
    (case fromisoformat (normalize_z s) of
       None \<Rightarrow> Inl not_iso
     | Some (Naive l) \<Rightarrow> Inl no_zone
     | Some (Aware l off) \<Rightarrow> or_raise (to_utc l off) OverflowErr)"
begin

lemma parse_isoformat_z: "valid_instant t \<Longrightarrow> parse (isoformat_z t) = Inr t"
  by (cases t) (simp add: parse_law to_utc_def normalize_isoformat_z fromisoformat_isoformat valid_instant_def)

lemma parse_valid: "parse s = Inr t \<Longrightarrow> valid_instant t"
  by (auto simp: parse_law to_utc_def or_raise_def valid_instant_def
      split: option.splits datetime.splits if_splits)

lemma parse_errors: "parse s = Inl e \<Longrightarrow> e \<in> {not_iso, no_zone, OverflowErr}"
  by (auto simp: parse_law or_raise_Inl_iff split: option.splits datetime.splits)

text \<open>The instant is the one the text denotes, whatever its offset.\<close>

lemma parse_instant:
  "parse s = Inr t \<Longrightarrow> \<exists>l off. fromisoformat (normalize_z s) = Some (Aware l off) \<and> micros t = l - off"
  by (auto simp: parse_law to_utc_def or_raise_def split: option.splits datetime.splits if_splits)

lemma parse_overflow:
  "fromisoformat (normalize_z s) = Some (Aware l off) \<Longrightarrow> \<not> in_range (l - off) \<Longrightarrow>
     parse s = Inl OverflowErr"
  by (simp add: parse_law to_utc_def)

end

section \<open>A concrete run\<close>

text \<open>The surroundings the witnesses use: a fixed clock, UTC as the system zone.\<close>

definition sample_time :: instant where
  "sample_time = Instant 63870000000000000"

definition sample_runtime :: runtime where
  "sample_runtime = \<lparr>wall_clock = sample_time, local_zone = (\<lambda>l. or_raise (to_utc l 0) OverflowErr),
     float_repr = (\<lambda>t. lit ''inf''), limit_error = (\<lambda>s. None)\<rparr>"

end
