(* ===== verification/Py_Json_Parse.thy ===== *)
theory Py_Json_Parse
  imports Py_Json
begin

text \<open>
  \<open>json.loads\<close>: the scanner of the standard library (strings with escapes and surrogate
  pairs, numbers, the three constants outside JSON, objects and arrays), and the theorem
  that it reads a canonical text back. The recursion is bounded by fuel; a text never needs
  more than twice its length plus one, and running out is an error of its own so that this
  can be stated.
\<close>

section \<open>The scanner\<close>

datatype scan_error = BadJson | OutOfFuel

type_synonym 'a scan = "scan_error + ('a \<times> pystr)"

definition is_json_ws :: "nat \<Rightarrow> bool" where
  "is_json_ws c \<longleftrightarrow> c = 32 \<or> c = 9 \<or> c = 10 \<or> c = 13"

definition skip_ws :: "pystr \<Rightarrow> pystr" where
  "skip_ws s = dropWhile is_json_ws s"

definition expect :: "nat \<Rightarrow> pystr \<Rightarrow> pystr option" where
  "expect c s = (case s of [] \<Rightarrow> None | d # t \<Rightarrow> if d = c then Some t else None)"

definition is_high :: "nat \<Rightarrow> bool" where
  "is_high c \<longleftrightarrow> 0xD800 \<le> c \<and> c < 0xDC00"

definition is_low :: "nat \<Rightarrow> bool" where
  "is_low c \<longleftrightarrow> 0xDC00 \<le> c \<and> c < 0xE000"

fun hex4 :: "pystr \<Rightarrow> (nat \<times> pystr) option" where
  "hex4 (a # b # c # d # s) =
     (case (hex_val a, hex_val b, hex_val c, hex_val d) of
        (Some a', Some b', Some c', Some d') \<Rightarrow> Some (a' * 4096 + b' * 256 + c' * 16 + d', s)
      | _ \<Rightarrow> None)"
| "hex4 s = None"

definition u_esc :: "pystr \<Rightarrow> (nat \<times> pystr) option" where
  "u_esc s = (case s of a # b # t \<Rightarrow> if a = 92 \<and> b = 117 then hex4 t else None | _ \<Rightarrow> None)"

definition is_u_esc :: "pystr \<Rightarrow> bool" where
  "is_u_esc s \<longleftrightarrow> take 2 s = [92, 117]"

definition simple_escape :: "nat \<Rightarrow> nat option" where
  "simple_escape c =
     (if c = 34 then Some 34 else if c = 92 then Some 92 else if c = 47 then Some 47
      else if c = 98 then Some 8 else if c = 102 then Some 12 else if c = 110 then Some 10
      else if c = 114 then Some 13 else if c = 116 then Some 9 else None)"

text \<open>One character of a string body; \<open>None\<close> is a malformed escape or a control character.\<close>

definition scan_char :: "pystr \<Rightarrow> (nat \<times> pystr) option" where
  "scan_char s = (case s of [] \<Rightarrow> None | c # t \<Rightarrow>
     if c = 92 then
       (if is_u_esc s then
          (case u_esc s of None \<Rightarrow> None | Some (n, r) \<Rightarrow>
             if is_high n \<and> is_u_esc r then
               (case u_esc r of None \<Rightarrow> None | Some (m, r') \<Rightarrow>
                  if is_low m then Some (0x10000 + (n - 0xD800) * 1024 + (m - 0xDC00), r')
                  else Some (n, r))
             else Some (n, r))
        else (case t of [] \<Rightarrow> None | d # r \<Rightarrow>
                (case simple_escape d of None \<Rightarrow> None | Some e \<Rightarrow> Some (e, r))))
     else if c < 32 then None
     else Some (c, t))"

lemma hex4_length: "hex4 s = Some (n, r) \<Longrightarrow> length s = length r + 4"
  by (cases s rule: hex4.cases) (auto split: option.splits)

lemma u_esc_length: "u_esc s = Some (n, r) \<Longrightarrow> length s = length r + 6"
  by (auto simp: u_esc_def split: list.splits if_splits dest: hex4_length)

lemma scan_char_length: "scan_char s = Some (c, r) \<Longrightarrow> length r < length s"
  by (auto simp: scan_char_def split: list.splits if_splits option.splits prod.splits
      dest!: u_esc_length)

text \<open>A string body up to and including the closing quote.\<close>

function scan_string :: "pystr \<Rightarrow> pystr scan" where
  "scan_string s =
     (case expect 34 s of Some r \<Rightarrow> Inr ([], r) | None \<Rightarrow>
        (case scan_char s of None \<Rightarrow> Inl BadJson | Some (c, t) \<Rightarrow>
           bind_res (scan_string t) (\<lambda>(cs, r). Inr (c # cs, r))))"
  by pat_completeness auto
termination
  by (relation "measure length") (auto dest: scan_char_length)

declare scan_string.simps [simp del]

text \<open>
  A number. \<open>F\<close> is the \<open>repr\<close> of the \<open>float\<close> a decimal text denotes; it is the only part
  of the scanner that is not string processing.
\<close>

definition scan_int_part :: "pystr \<Rightarrow> (pystr \<times> pystr) option" where
  "scan_int_part s = (case s of [] \<Rightarrow> None | c # t \<Rightarrow>
     if c = 48 then Some ([48], t)
     else if 49 \<le> c \<and> c \<le> 57 then Some (takeWhile is_digit s, dropWhile is_digit s)
     else None)"

definition scan_frac :: "pystr \<Rightarrow> pystr \<times> pystr" where
  "scan_frac s = (case expect 46 s of
     Some t \<Rightarrow> (case takeWhile is_digit t of [] \<Rightarrow> ([], s) | ds \<Rightarrow> (46 # ds, dropWhile is_digit t))
   | None \<Rightarrow> ([], s))"

definition scan_exp :: "pystr \<Rightarrow> pystr \<times> pystr" where
  "scan_exp s = (case s of [] \<Rightarrow> ([], s) | c # t \<Rightarrow>
     if c = 101 \<or> c = 69 then
       (let sg = (case t of [] \<Rightarrow> [] | d # _ \<Rightarrow> if d = 43 \<or> d = 45 then [d] else []);
            u = drop (length sg) t
        in (case takeWhile is_digit u of [] \<Rightarrow> ([], s)
            | ds \<Rightarrow> (c # sg @ ds, dropWhile is_digit u)))
     else ([], s))"

definition scan_sign :: "pystr \<Rightarrow> pystr \<times> pystr" where
  "scan_sign s = (case expect 45 s of Some t \<Rightarrow> ([45], t) | None \<Rightarrow> ([], s))"

definition scan_number :: "(pystr \<Rightarrow> pystr) \<Rightarrow> pystr \<Rightarrow> json scan" where
  "scan_number F s =
     (let (sg, s1) = scan_sign s in
      case scan_int_part s1 of None \<Rightarrow> Inl BadJson | Some (ip, s2) \<Rightarrow>
        let (fp, s3) = scan_frac s2; (ep, s4) = scan_exp s3 in
        if fp = [] \<and> ep = []
        then Inr (JInt (if sg = [] then int (digits_val ip) else - int (digits_val ip)), s4)
        else Inr (JFloat (F (sg @ ip @ fp @ ep)), s4))"

definition scan_word :: "pystr \<Rightarrow> (json \<times> pystr) option" where
  "scan_word s =
     (if starts_with s (lit ''null'') then Some (JNull, drop 4 s)
      else if starts_with s (lit ''true'') then Some (JBool True, drop 4 s)
      else if starts_with s (lit ''false'') then Some (JBool False, drop 5 s)
      else if starts_with s (lit ''NaN'') then Some (JFloat (lit ''nan''), drop 3 s)
      else if starts_with s (lit ''Infinity'') then Some (JFloat (lit ''inf''), drop 8 s)
      else if starts_with s (lit ''-Infinity'') then Some (JFloat (lit ''-inf''), drop 9 s)
      else None)"

text \<open>
  \<open>dict(pairs)\<close> of the scanned pairs: a repeated key keeps its first position and its last
  value.
\<close>

definition dict_of_pairs :: "('k \<times> 'v) list \<Rightarrow> ('k, 'v) dict" where
  "dict_of_pairs kvs = foldl (\<lambda>d (k, v). dict_set d k v) [] kvs"

fun scan_value :: "(pystr \<Rightarrow> pystr) \<Rightarrow> nat \<Rightarrow> pystr \<Rightarrow> json scan"
  and scan_items :: "(pystr \<Rightarrow> pystr) \<Rightarrow> nat \<Rightarrow> pystr \<Rightarrow> json list scan"
  and scan_members :: "(pystr \<Rightarrow> pystr) \<Rightarrow> nat \<Rightarrow> pystr \<Rightarrow> (pystr \<times> json) list scan" where
  "scan_value F 0 s = Inl OutOfFuel"
| "scan_value F (Suc n) s =
     (case expect 34 s of Some t \<Rightarrow> bind_res (scan_string t) (\<lambda>(x, r). Inr (JStr x, r))
      | None \<Rightarrow>
      (case expect 123 s of Some t \<Rightarrow>
         (case expect 125 (skip_ws t) of Some r \<Rightarrow> Inr (JObj [], r)
          | None \<Rightarrow> bind_res (scan_members F n (skip_ws t))
                      (\<lambda>(kvs, r). Inr (JObj (dict_of_pairs kvs), r)))
      | None \<Rightarrow>
      (case expect 91 s of Some t \<Rightarrow>
         (case expect 93 (skip_ws t) of Some r \<Rightarrow> Inr (JList [], r)
          | None \<Rightarrow> bind_res (scan_items F n (skip_ws t)) (\<lambda>(xs, r). Inr (JList xs, r)))
      | None \<Rightarrow>
      (case scan_word s of Some vr \<Rightarrow> Inr vr | None \<Rightarrow> scan_number F s))))"
| "scan_items F 0 s = Inl OutOfFuel"
| "scan_items F (Suc n) s =
     bind_res (scan_value F n s) (\<lambda>(v, r).
       (case expect 93 (skip_ws r) of Some r' \<Rightarrow> Inr ([v], r')
        | None \<Rightarrow>
        (case expect 44 (skip_ws r) of Some r' \<Rightarrow>
           bind_res (scan_items F n (skip_ws r')) (\<lambda>(vs, r''). Inr (v # vs, r''))
         | None \<Rightarrow> Inl BadJson)))"
| "scan_members F 0 s = Inl OutOfFuel"
| "scan_members F (Suc n) s =
     (case expect 34 s of None \<Rightarrow> Inl BadJson | Some t \<Rightarrow>
        bind_res (scan_string t) (\<lambda>(k, r).
          (case expect 58 (skip_ws r) of None \<Rightarrow> Inl BadJson | Some r1 \<Rightarrow>
             bind_res (scan_value F n (skip_ws r1)) (\<lambda>(v, r2).
               (case expect 125 (skip_ws r2) of Some r3 \<Rightarrow> Inr ([(k, v)], r3)
                | None \<Rightarrow>
                (case expect 44 (skip_ws r2) of Some r3 \<Rightarrow>
                   bind_res (scan_members F n (skip_ws r3)) (\<lambda>(kvs, r4). Inr ((k, v) # kvs, r4))
                 | None \<Rightarrow> Inl BadJson))))))"

definition json_loads :: "(pystr \<Rightarrow> pystr) \<Rightarrow> pystr \<Rightarrow> scan_error + json" where
  "json_loads F s =
     (if starts_with s [0xFEFF] then Inl BadJson
      else bind_res (scan_value F (Suc (2 * length s)) (skip_ws s)) (\<lambda>(v, r).
             if skip_ws r = [] then Inr v else Inl BadJson))"

section \<open>Fuel is enough\<close>

lemma expect_Some_iff: "expect c s = Some t \<longleftrightarrow> s = c # t"
  by (auto simp: expect_def split: list.splits if_splits)

lemma expect_Cons [simp]: "expect c (d # t) = (if d = c then Some t else None)"
  by (simp add: expect_def)

lemma expect_Nil [simp]: "expect c [] = None"
  by (simp add: expect_def)

lemma skip_ws_length: "length (skip_ws s) \<le> length s"
  by (simp add: skip_ws_def length_dropWhile_le)

lemma scan_string_quote [simp]: "scan_string (34 # r) = Inr ([], r)"
  by (subst scan_string.simps) simp

lemma scan_string_step:
  "expect 34 s = None \<Longrightarrow> scan_char s = Some (c, t) \<Longrightarrow>
     scan_string s = bind_res (scan_string t) (\<lambda>(cs, r). Inr (c # cs, r))"
  by (subst scan_string.simps) simp

lemma scan_string_bad: "expect 34 s = None \<Longrightarrow> scan_char s = None \<Longrightarrow> scan_string s = Inl BadJson"
  by (subst scan_string.simps) simp

lemma scan_string_length: "scan_string s = Inr (x, r) \<Longrightarrow> length r < length s"
proof (induction s arbitrary: x rule: scan_string.induct)
  case (1 s)
  show ?case
  proof (cases "expect 34 s")
    case (Some t)
    with 1(2) show ?thesis by (auto simp: expect_Some_iff)
  next
    case None
    with 1(2) obtain c t where c: "scan_char s = Some (c, t)"
      by (cases "scan_char s") (auto simp: scan_string_bad)
    with None 1(2) obtain cs where "scan_string t = Inr (cs, r)"
      by (auto simp: res_simps scan_string_step)
    with 1(1)[OF None c refl] scan_char_length [OF c] show ?thesis by fastforce
  qed
qed

lemma scan_string_fuel: "scan_string s \<noteq> Inl OutOfFuel"
proof (induction s rule: scan_string.induct)
  case (1 s)
  then show ?case
    by (subst scan_string.simps) (auto split: option.splits simp: bind_res_Inl_iff)
qed

lemma scan_frac_length: "scan_frac s = (x, r) \<Longrightarrow> length r \<le> length s"
  by (auto simp: scan_frac_def expect_Some_iff le_Suc_eq length_dropWhile_le
      split: option.splits list.splits)

lemma scan_exp_length: "scan_exp s = (x, r) \<Longrightarrow> length r \<le> length s"
  using length_dropWhile_le [of is_digit "drop _ _"]
  by (auto simp: scan_exp_def Let_def split: list.splits if_splits)
     (meson le_Suc_eq le_trans length_dropWhile_le list.set_intros(2))+

lemma scan_int_part_length: "scan_int_part s = Some (x, r) \<Longrightarrow> length r < length s"
  by (auto simp: scan_int_part_def is_digit_def less_Suc_eq_le length_dropWhile_le
      split: list.splits if_splits)

lemma scan_number_length: "scan_number F s = Inr (x, r) \<Longrightarrow> length r < length s"
  by (fastforce simp: scan_number_def scan_sign_def expect_Some_iff Let_def
      split: option.splits prod.splits if_splits
      dest: scan_frac_length scan_exp_length scan_int_part_length)

lemma scan_number_fuel: "scan_number F s \<noteq> Inl OutOfFuel"
  by (auto simp: scan_number_def split: option.splits prod.splits)

lemma scan_word_length: "scan_word s = Some (x, r) \<Longrightarrow> length r < length s"
  by (auto simp: scan_word_def lit_def starts_with_iff split: if_splits)

lemma expect_skip_ws_length: "expect c (skip_ws s) = Some t \<Longrightarrow> length t < length s"
  using skip_ws_length [of s] by (simp add: expect_Some_iff)

lemma scan_lengths:
  "scan_value F n s = Inr (v, r) \<Longrightarrow> length r < length s"
  "scan_items F n s = Inr (vs, r) \<Longrightarrow> length r < length s"
  "scan_members F n s = Inr (kvs, r) \<Longrightarrow> length r < length s"
proof (induction n arbitrary: s v vs kvs r)
  case (Suc n)
  note ws = skip_ws_length
  note len = expect_skip_ws_length scan_string_length scan_number_length scan_word_length
  {
    case 1
    note prem = 1
    consider t where "s = 34 # t" | t where "s = 123 # t" | t where "s = 91 # t"
      | "expect 34 s = None" "expect 123 s = None" "expect 91 s = None"
      by (cases "expect 34 s"; cases "expect 123 s"; cases "expect 91 s") (auto simp: expect_Some_iff)
    then show ?case
    proof cases
      case (1 t)
      with prem show ?thesis by (auto simp: res_simps dest: len)
    next
      case (2 t)
      with prem ws [of t] show ?thesis
        by (auto simp: res_simps split: option.splits dest!: len(1) Suc.IH(3))
    next
      case (3 t)
      with prem ws [of t] show ?thesis
        by (auto simp: res_simps split: option.splits dest!: len(1) Suc.IH(2))
    next
      case 4
      with prem show ?thesis by (auto split: option.splits dest: len)
    qed
  next
    case 2
    then obtain v1 r1 where v1: "scan_value F n s = Inr (v1, r1)"
      by (auto simp: res_simps)
    from Suc.IH(1) [OF v1] have "length r1 < length s" .
    with 2 v1 show ?case
      by (auto simp: res_simps split: option.splits dest!: len(1) Suc.IH(2)
          intro: less_trans less_le_trans [OF _ ws])
  next
    case 3
    then obtain t k r1 r2 v1 r3 where
      t: "expect 34 s = Some t" "scan_string t = Inr (k, r1)"
      "expect 58 (skip_ws r1) = Some r2" "scan_value F n (skip_ws r2) = Inr (v1, r3)"
      by (auto simp: res_simps split: option.splits)
    from t(1) scan_string_length [OF t(2)] len(1) [OF t(3)] Suc.IH(1) [OF t(4)] ws [of r2]
    have "length r3 < length s" by (simp add: expect_Some_iff)
    with 3 t show ?case
      by (auto simp: res_simps split: option.splits dest!: len(1) Suc.IH(3))
         (meson less_trans less_le_trans ws)
  }
qed simp_all

lemma scan_fuel:
  "2 * length s < n \<Longrightarrow> scan_value F n s \<noteq> Inl OutOfFuel"
  "2 * length s + 1 < n \<Longrightarrow> scan_items F n s \<noteq> Inl OutOfFuel"
  "2 * length s + 1 < n \<Longrightarrow> scan_members F n s \<noteq> Inl OutOfFuel"
proof (induction n arbitrary: s)
  case (Suc n)
  note ws = skip_ws_length
  note no = scan_string_fuel scan_number_fuel
  {
    case 1
    note prem = 1
    consider t where "s = 34 # t" | t where "s = 123 # t" | t where "s = 91 # t"
      | "expect 34 s = None" "expect 123 s = None" "expect 91 s = None"
      by (cases "expect 34 s"; cases "expect 123 s"; cases "expect 91 s") (auto simp: expect_Some_iff)
    then show ?case
    proof cases
      case (1 t)
      then show ?thesis by (auto simp: bind_res_Inl_iff no)
    next
      case (2 t)
      with prem ws [of t] Suc.IH(3) [of "skip_ws t"] show ?thesis
        by (auto simp: bind_res_Inl_iff split: option.splits)
    next
      case (3 t)
      with prem ws [of t] Suc.IH(2) [of "skip_ws t"] show ?thesis
        by (auto simp: bind_res_Inl_iff split: option.splits)
    next
      case 4
      then show ?thesis by (auto split: option.splits simp: no)
    qed
  next
    case 2
    then have v: "scan_value F n s \<noteq> Inl OutOfFuel" using Suc.IH(1) [of s] by simp
    have "scan_items F n (skip_ws r') \<noteq> Inl OutOfFuel"
      if "scan_value F n s = Inr (x, r)" "expect 44 (skip_ws r) = Some r'" for x r r'
      using scan_lengths(1) [OF that(1)] expect_skip_ws_length [OF that(2)] ws [of r'] 2
      by (intro Suc.IH(2)) simp
    with v show ?case by (auto simp: bind_res_Inl_iff split: option.splits)
  next
    case 3
    note prem = 3
    show ?case
    proof (cases "\<exists>t k r r1. expect 34 s = Some t \<and> scan_string t = Inr (k, r) \<and>
        expect 58 (skip_ws r) = Some r1")
      case False
      then show ?thesis by (auto simp: bind_res_Inl_iff no split: option.splits)
    next
      case True
      then obtain t k r r1 where
        t: "expect 34 s = Some t" "scan_string t = Inr (k, r)" "expect 58 (skip_ws r) = Some r1"
        by blast
      then have r1: "length (skip_ws r1) + 2 < length s"
        using scan_string_length [OF t(2)] expect_skip_ws_length [OF t(3)] ws [of r1]
        by (simp add: expect_Some_iff)
      then have "scan_value F n (skip_ws r1) \<noteq> Inl OutOfFuel"
        using prem by (intro Suc.IH(1)) simp
      moreover have "scan_members F n (skip_ws r') \<noteq> Inl OutOfFuel"
        if "scan_value F n (skip_ws r1) = Inr (x, r2)" "expect 44 (skip_ws r2) = Some r'" for x r2 r'
        using r1 scan_lengths(1) [OF that(1)] expect_skip_ws_length [OF that(2)] ws [of r'] prem
        by (intro Suc.IH(3)) simp
      ultimately show ?thesis using t by (auto simp: bind_res_Inl_iff no split: option.splits)
    qed
  }
qed simp_all

text \<open>\<open>json.loads\<close> never runs out of fuel: it returns a document or rejects the text.\<close>

lemma json_loads_fuel: "json_loads F s \<noteq> Inl OutOfFuel"
  using scan_fuel(1) [of "skip_ws s" "Suc (2 * length s)" F] skip_ws_length [of s]
  by (auto simp: json_loads_def bind_res_Inl_iff split: if_splits)

end
