(* ===== verification/Py_Json_Roundtrip.thy ===== *)
theory Py_Json_Roundtrip
  imports Py_Json_Parse
begin

text \<open>
  Reading back what \<open>json.dumps\<close> writes. \<open>wf_json\<close> describes the documents \<open>json.loads\<close>
  can return: distinct keys, strings of code points without an adjacent surrogate pair
  (the scanner joins one), floats whose text is their own \<open>repr\<close>.
\<close>

section \<open>Documents that come from a text\<close>

fun no_pair :: "pystr \<Rightarrow> bool" where
  "no_pair (a # b # s) = (\<not> (is_high a \<and> is_low b) \<and> no_pair (b # s))"
| "no_pair s = True"

definition wf_str :: "pystr \<Rightarrow> bool" where
  "wf_str s \<longleftrightarrow> list_all (\<lambda>c. c < 0x110000) s \<and> no_pair s"

definition wf_float :: "(pystr \<Rightarrow> pystr) \<Rightarrow> pystr \<Rightarrow> bool" where
  "wf_float F t \<longleftrightarrow> t = lit ''nan'' \<or> t = lit ''inf'' \<or> t = lit ''-inf''
     \<or> scan_number F t = Inr (JFloat t, [])"

fun wf_json :: "(pystr \<Rightarrow> pystr) \<Rightarrow> json \<Rightarrow> bool" where
  "wf_json F (JFloat t) = wf_float F t"
| "wf_json F (JStr s) = wf_str s"
| "wf_json F (JList xs) = list_all (wf_json F) xs"
| "wf_json F (JObj d) =
     (distinct (map fst d) \<and> list_all (\<lambda>(k, v). wf_str k \<and> wf_json F v) d)"
| "wf_json F v = True"

lemma wf_str_Cons: "wf_str (c # s) \<longleftrightarrow>
    c < 0x110000 \<and> wf_str s \<and> (s \<noteq> [] \<longrightarrow> \<not> (is_high c \<and> is_low (hd s)))"
  by (cases s) (auto simp: wf_str_def)

lemma wf_str_ascii: "is_ascii s \<Longrightarrow> wf_str s"
proof (induction s)
  case (Cons c s)
  then show ?case by (auto simp: wf_str_Cons is_high_def)
qed (simp add: wf_str_def)

section \<open>Strings\<close>

lemma hex4_hex_digits: "n < 0x10000 \<Longrightarrow> hex4 (hex_digits 4 n @ r) = Some (n, r)"
proof -
  assume n: "n < 0x10000"
  have d: "hex_digits 4 n = [hex_char (n div 4096 mod 16), hex_char (n div 256 mod 16),
      hex_char (n div 16 mod 16), hex_char (n mod 16)]"
    by (simp add: hex_digits_numeral div_mult2_eq [symmetric])
  have top: "n div 4096 mod 16 = n div 4096" using n by simp
  have "n div 16 = n div 256 * 16 + n div 16 mod 16" "n div 256 = n div 4096 * 16 + n div 256 mod 16"
    using div_mult_mod_eq [of "n div 16" 16] div_mult_mod_eq [of "n div 256" 16]
    by (simp_all add: div_mult2_eq [symmetric])
  then have "n div 4096 * 4096 + n div 256 mod 16 * 256 + n div 16 mod 16 * 16 + n mod 16 = n"
    using div_mult_mod_eq [of n 16] by linarith
  moreover have "n div 4096 < 16" using n by simp
  ultimately show ?thesis by (simp add: d top hex_val_char)
qed

lemma u_esc_u_escape: "n < 0x10000 \<Longrightarrow> u_esc (u_escape n @ r) = Some (n, r)"
  by (simp add: u_esc_def u_escape_def hex4_hex_digits)

lemma is_u_esc_u_escape [simp]: "is_u_esc (u_escape n @ r)"
  by (simp add: is_u_esc_def u_escape_def)

lemma hd_u_escape: "\<exists>t. u_escape n @ r = 92 # t"
  by (simp add: u_escape_def)

text \<open>What follows a character in a string body is never read as its low surrogate.\<close>

definition no_low :: "pystr \<Rightarrow> bool" where
  "no_low r \<longleftrightarrow> (is_u_esc r \<longrightarrow> (\<exists>m r'. u_esc r = Some (m, r') \<and> \<not> is_low m))"

lemma scan_char_u_escape:
  assumes "n < 0x10000" and "is_high n \<longrightarrow> no_low r"
  shows "scan_char (u_escape n @ r) = Some (n, r)"
proof -
  obtain t where t: "u_escape n @ r = 92 # t" using hd_u_escape by blast
  have "is_u_esc (92 # t)" "u_esc (92 # t) = Some (n, r)"
    using assms u_esc_u_escape [of n r] is_u_esc_u_escape [of n r] by (simp_all add: t)
  with assms(2) show ?thesis
    by (auto simp: t scan_char_def no_low_def split: option.splits)
qed

lemma scan_char_pair:
  assumes "0x10000 \<le> c" "c < 0x110000"
  shows "scan_char (u_escape (high_part c) @ u_escape (low_part c) @ r) = Some (c, r)"
proof -
  let ?r = "u_escape (low_part c) @ r"
  obtain t where t: "u_escape (high_part c) @ ?r = 92 # t" using hd_u_escape by blast
  have h: "high_part c < 0x10000" "is_high (high_part c)" "low_part c < 0x10000" "is_low (low_part c)"
    using assms by (auto simp: high_part_def low_part_def is_high_def is_low_def)
  have "is_u_esc (92 # t)" "u_esc (92 # t) = Some (high_part c, ?r)"
    using u_esc_u_escape [OF h(1), of ?r] is_u_esc_u_escape [of "high_part c" ?r]
    by (simp_all add: t)
  moreover have "0x10000 + (high_part c - 0xD800) * 1024 + (low_part c - 0xDC00) = c"
    using assms by (simp add: high_part_def low_part_def)
  ultimately show ?thesis using h
    by (simp add: t scan_char_def u_esc_u_escape [OF h(3)])
qed

lemma esc_char_cases:
  obtains "c \<in> {34, 92, 10, 13, 9, 12, 8}" | "32 \<le> c" "c \<le> 126" "c \<noteq> 34" "c \<noteq> 92"
    | "0x10000 \<le> c" "esc_char c = u_escape (high_part c) @ u_escape (low_part c)"
    | "c < 0x10000" "esc_char c = u_escape c"
proof -
  consider "c \<in> {34, 92, 10, 13, 9, 12, 8}" | "32 \<le> c" "c \<le> 126" "c \<noteq> 34" "c \<noteq> 92"
    | "0x10000 \<le> c"
    | "c < 0x10000" "\<not> (32 \<le> c \<and> c \<le> 126)" "c \<notin> {10, 13, 9, 12, 8}"
    by fastforce
  then show thesis by cases (auto simp: esc_char_def intro: that)
qed

lemma scan_char_esc_char:
  assumes "c < 0x110000" and "is_high c \<longrightarrow> no_low r"
  shows "scan_char (esc_char c @ r) = Some (c, r)"
proof (rule esc_char_cases [of c])
  assume "c \<in> {34, 92, 10, 13, 9, 12, 8}"
  then show ?thesis by (auto simp: esc_char_def scan_char_def is_u_esc_def simple_escape_def)
next
  assume "32 \<le> c" "c \<le> 126" "c \<noteq> 34" "c \<noteq> 92"
  then show ?thesis by (simp add: esc_char_def scan_char_def)
next
  assume "0x10000 \<le> c" "esc_char c = u_escape (high_part c) @ u_escape (low_part c)"
  with assms(1) scan_char_pair [of c r] show ?thesis by simp
next
  assume "c < 0x10000" "esc_char c = u_escape c"
  with assms show ?thesis by (simp add: scan_char_u_escape)
qed

lemma expect_esc_char: "expect 34 (esc_char c @ r) = None"
  by (simp add: esc_char_def u_escape_def)

lemma no_low_esc_char:
  assumes "\<not> is_low c" "c < 0x110000"
  shows "no_low (esc_char c @ r)"
proof (rule esc_char_cases [of c])
  assume "0x10000 \<le> c" "esc_char c = u_escape (high_part c) @ u_escape (low_part c)"
  moreover from this assms have "high_part c < 0xDC00" by (auto simp: high_part_def)
  moreover from this have "high_part c < 0x10000" "\<not> is_low (high_part c)" by (auto simp: is_low_def)
  ultimately show ?thesis by (auto simp: no_low_def u_esc_u_escape)
next
  assume "c < 0x10000" "esc_char c = u_escape c"
  with assms show ?thesis by (simp add: no_low_def u_esc_u_escape)
qed (auto simp: no_low_def is_u_esc_def esc_char_def)

lemma scan_string_esc_body: "wf_str s \<Longrightarrow> scan_string (esc_body s @ 34 # r) = Inr (s, r)"
proof (induction s)
  case (Cons c s)
  have "no_low (esc_body s @ 34 # r)" if "is_high c"
  proof (cases s)
    case Nil
    then show ?thesis by (simp add: esc_body_def no_low_def is_u_esc_def)
  next
    case (Cons d s')
    with Cons.prems that show ?thesis
      using no_low_esc_char [of d "esc_body s' @ 34 # r"]
      by (auto simp: wf_str_Cons esc_body_def)
  qed
  with Cons.prems have "scan_char (esc_char c @ esc_body s @ 34 # r) = Some (c, esc_body s @ 34 # r)"
    by (intro scan_char_esc_char) (auto simp: wf_str_Cons)
  then show ?case
    using Cons by (simp add: esc_body_def scan_string_step [OF expect_esc_char] wf_str_Cons)
qed (simp add: esc_body_def)

section \<open>Numbers\<close>

text \<open>What may follow a value inside a text: its end, a comma or a closing bracket.\<close>

definition delim :: "pystr \<Rightarrow> bool" where
  "delim r \<longleftrightarrow> r = [] \<or> hd r \<in> {44, 93, 125}"

lemma delim_simps [simp]: "delim []" "delim (c # r) \<longleftrightarrow> c \<in> {44, 93, 125}"
  by (simp_all add: delim_def)

lemma delim_cases: "delim r \<Longrightarrow> r = [] \<or> (\<exists>c t. r = c # t \<and> c \<in> {44, 93, 125})"
  by (cases r) auto

lemma digits_append_delim:
  "delim r \<Longrightarrow> takeWhile is_digit (s @ r) = takeWhile is_digit s"
  "delim r \<Longrightarrow> dropWhile is_digit (s @ r) = dropWhile is_digit s @ r"
  by (induction s) (auto dest!: delim_cases simp: is_digit_def)

lemma expect_append_delim:
  "delim r \<Longrightarrow> c \<notin> {44, 93, 125} \<Longrightarrow> expect c (s @ r) = map_option (\<lambda>t. t @ r) (expect c s)"
  by (cases s) (auto dest!: delim_cases)

lemma scan_int_part_append:
  "scan_int_part s = Some (x, u) \<Longrightarrow> delim r \<Longrightarrow> scan_int_part (s @ r) = Some (x, u @ r)"
  by (cases s) (auto simp: scan_int_part_def digits_append_delim split: if_splits)

lemma scan_frac_append:
  "scan_frac s = (x, u) \<Longrightarrow> delim r \<Longrightarrow> scan_frac (s @ r) = (x, u @ r)"
  by (auto simp: scan_frac_def expect_append_delim digits_append_delim
      split: option.splits list.splits)

lemma scan_exp_append:
  assumes "scan_exp s = (x, u)" "delim r"
  shows "scan_exp (s @ r) = (x, u @ r)"
proof (cases s)
  case Nil
  with assms show ?thesis by (auto simp: scan_exp_def dest!: delim_cases)
next
  case (Cons c t)
  show ?thesis
  proof (cases t)
    case Nil
    with assms Cons show ?thesis
      by (auto simp: scan_exp_def Let_def is_digit_def dest!: delim_cases split: if_splits)
  next
    case (Cons d t')
    with assms \<open>s = c # t\<close> show ?thesis
      using digits_append_delim [OF assms(2), of t'] digits_append_delim [OF assms(2), of t]
      by (auto simp: scan_exp_def Let_def split: if_splits list.splits)
  qed
qed

lemma scan_number_append:
  assumes "scan_number F s = Inr (x, u)" "delim r"
  shows "scan_number F (s @ r) = Inr (x, u @ r)"
proof -
  obtain sg s1 where sg: "scan_sign s = (sg, s1)"
    by fastforce
  then have "scan_sign (s @ r) = (sg, s1 @ r)"
    using assms(2) by (auto simp: scan_sign_def expect_append_delim split: option.splits)
  moreover obtain ip s2 where ip: "scan_int_part s1 = Some (ip, s2)"
    using assms(1) sg by (auto simp: scan_number_def split: option.splits)
  moreover obtain fp s3 where fp: "scan_frac s2 = (fp, s3)" by fastforce
  moreover obtain ep s4 where ep: "scan_exp s3 = (ep, s4)" by fastforce
  ultimately show ?thesis
    using assms(1) sg scan_int_part_append [OF ip assms(2)] scan_frac_append [OF fp assms(2)]
      scan_exp_append [OF ep assms(2)]
    by (auto simp: scan_number_def split: if_splits)
qed

lemma scan_number_head:
  "scan_number F s = Inr x \<Longrightarrow> (\<exists>d t. is_digit d \<and> s = d # t) \<or> (\<exists>d t. is_digit d \<and> s = 45 # d # t)"
  by (auto simp: scan_number_def scan_sign_def scan_int_part_def is_digit_def expect_Some_iff
      split: option.splits list.splits if_splits prod.splits)

lemma nat_digits_head: "0 < n \<Longrightarrow> \<exists>d t. nat_digits n = d # t \<and> 49 \<le> d \<and> d \<le> 57"
proof (induction n rule: nat_digits.induct)
  case (1 n)
  show ?case
  proof (cases "n < 10")
    case True
    with 1 show ?thesis by (subst nat_digits.simps) simp
  next
    case False
    then have "0 < n div 10" by (simp add: div_greater_zero_iff)
    with 1 False obtain d t where "nat_digits (n div 10) = d # t" "49 \<le> d" "d \<le> 57" by blast
    with False show ?thesis by (subst nat_digits.simps) simp
  qed
qed

lemma scan_int_part_nat: "scan_int_part (nat_digits n) = Some (nat_digits n, [])"
proof (cases "n = 0")
  case True
  then show ?thesis by (simp add: nat_digits.simps [of 0] scan_int_part_def)
next
  case False
  then obtain d t where d: "nat_digits n = d # t" "49 \<le> d" "d \<le> 57"
    using nat_digits_head [of n] by auto
  moreover have "\<forall>c \<in> set (d # t). is_digit c"
    using nat_digits_digit [of _ n] d(1) by metis
  ultimately show ?thesis
    by (auto simp: scan_int_part_def takeWhile_eq_all_conv dropWhile_eq_Nil_conv)
qed

lemma scan_number_int: "scan_number F (str_int i) = Inr (JInt i, [])"
proof -
  have "expect 45 (nat_digits n) = None" for n
    using nat_digits_digit [of 45 n]
    by (cases "nat_digits n") (auto simp: is_digit_def)
  then show ?thesis
    by (auto simp: scan_number_def scan_sign_def str_int_def scan_int_part_nat scan_frac_def scan_exp_def)
qed

section \<open>Values\<close>

lemma scan_value_number:
  assumes "scan_number F s = Inr (x, [])" "delim r"
  shows "scan_value F (Suc n) (s @ r) = Inr (x, r)"
proof -
  have "expect 34 (s @ r) = None" "expect 123 (s @ r) = None" "expect 91 (s @ r) = None"
    and "scan_word (s @ r) = None"
    using scan_number_head [OF assms(1)]
    by (auto simp: is_digit_def scan_word_def starts_with_iff lit_def)
  with scan_number_append [OF assms] show ?thesis by simp
qed

lemma scan_value_word:
  assumes "w \<in> {lit ''null'', lit ''true'', lit ''false'', lit ''NaN'', lit ''Infinity'', lit ''-Infinity''}"
  shows "scan_value F (Suc n) (w @ r) = (case scan_word (w @ r) of Some vr \<Rightarrow> Inr vr | None \<Rightarrow> Inl BadJson)"
  using assms by (auto simp: scan_word_def starts_with_def lit_def)

lemma scan_value_float:
  assumes "wf_float F t" "delim r"
  shows "scan_value F (Suc n) (dump_float t @ r) = Inr (JFloat t, r)"
proof -
  consider "t = lit ''nan''" | "t = lit ''inf''" | "t = lit ''-inf''"
    | "t \<notin> {lit ''nan'', lit ''inf'', lit ''-inf''}" "scan_number F t = Inr (JFloat t, [])"
    using assms(1) by (auto simp: wf_float_def)
  then show ?thesis
  proof cases
    case 4
    then show ?thesis using scan_value_number [OF 4(2) assms(2)] by (simp add: dump_float_def)
  qed (simp_all add: dump_float_def scan_word_def starts_with_def lit_def)
qed

lemma dump_str_append [simp]: "dump_str s @ r = 34 # esc_body s @ 34 # r"
  by (simp add: dump_str_def)

lemma str_int_head: "\<exists>c t. str_int i = c # t \<and> (c = 45 \<or> is_digit c)"
  using scan_number_head [OF scan_number_int [of undefined i]] by auto

lemma dump_head:
  assumes "wf_json F v"
  shows "\<exists>c t. dump v = c # t \<and> \<not> is_json_ws c \<and> c \<notin> {93, 125} \<and> c < 128"
proof (cases v)
  case (JInt i)
  then show ?thesis using str_int_head [of i] by (auto simp: is_json_ws_def is_digit_def)
next
  case (JFloat t)
  with assms show ?thesis
    by (auto simp: wf_float_def dump_float_def is_json_ws_def lit_def is_digit_def
        dest: scan_number_head)
qed (auto simp: is_json_ws_def lit_def dump_str_def)

lemma skip_ws_dump: "wf_json F v \<Longrightarrow> skip_ws (dump v @ r) = dump v @ r"
  using dump_head [of F v] by (auto simp: skip_ws_def)

lemma skip_ws_Cons [simp]: "\<not> is_json_ws c \<Longrightarrow> skip_ws (c # s) = c # s"
  by (simp add: skip_ws_def)

lemma not_json_ws [simp]: "\<not> is_json_ws 34" "\<not> is_json_ws 44" "\<not> is_json_ws 58"
  "\<not> is_json_ws 93" "\<not> is_json_ws 125"
  by (simp_all add: is_json_ws_def)

text \<open>Reading back one value, whatever delimiter follows it.\<close>

definition reads_back :: "(pystr \<Rightarrow> pystr) \<Rightarrow> json \<Rightarrow> bool" where
  "reads_back F v \<longleftrightarrow> (\<forall>r n. delim r \<longrightarrow> 2 * length (dump v) < n \<longrightarrow>
      scan_value F n (dump v @ r) = Inr (v, r))"

lemma reads_backI:
  "(\<And>r m. delim r \<Longrightarrow> 2 * length (dump v) \<le> m \<Longrightarrow> scan_value F (Suc m) (dump v @ r) = Inr (v, r))
     \<Longrightarrow> reads_back F v"
  unfolding reads_back_def by (metis Suc_leI Suc_le_mono Suc_pred gr0I not_less0)

lemma scan_items_dump:
  assumes "xs \<noteq> []" "\<forall>x \<in> set xs. wf_json F x \<and> reads_back F x"
    and "2 * length (join [44] (map dump xs)) + 1 < n"
  shows "scan_items F n (join [44] (map dump xs) @ 93 # r) = Inr (xs, r)"
  using assms
proof (induction xs arbitrary: n)
  case (Cons x xs)
  from Cons.prems(3) obtain m where n: "n = Suc m" by (cases n) auto
  have len: "0 < length (dump x)" using Cons.prems(2) dump_head [of F x] by auto
  show ?case
  proof (cases "xs = []")
    case True
    with Cons.prems n show ?thesis by (simp add: reads_back_def)
  next
    case False
    then obtain y ys where xs: "xs = y # ys" by (cases xs) auto
    from Cons.prems n xs
    have v: "scan_value F m (dump x @ 44 # join [44] (map dump xs) @ 93 # r) =
        Inr (x, 44 # join [44] (map dump xs) @ 93 # r)"
      by (simp add: reads_back_def)
    have "skip_ws (join [44] (map dump xs) @ 93 # r) = join [44] (map dump xs) @ 93 # r"
      using Cons.prems(2) skip_ws_dump [of F y] by (simp add: xs join_Cons)
    moreover have "scan_items F m (join [44] (map dump xs) @ 93 # r) = Inr (xs, r)"
      using Cons.prems n len False by (intro Cons.IH) (auto simp: join_Cons)
    ultimately show ?thesis using v by (simp add: n join_Cons False)
  qed
qed simp

definition dump_member :: "pystr \<times> json \<Rightarrow> pystr" where
  "dump_member kv = dump_str (fst kv) @ 58 # dump (snd kv)"

lemma dump_member_append: "dump_member (k, v) @ r = 34 # esc_body k @ 34 # 58 # dump v @ r"
  by (simp add: dump_member_def)

lemma length_dump_member: "length (dump v) + 3 \<le> length (dump_member (k, v))"
  by (simp add: dump_member_def dump_str_def)

lemma dump_obj: "dump (JObj d) = 123 # join [44] (map dump_member d) @ [125]"
proof -
  have "(\<lambda>(k, v). dump_str k @ 58 # dump v) = dump_member"
    by (auto simp: dump_member_def fun_eq_iff)
  then show ?thesis by (simp del: dump_str_append)
qed

lemma scan_members_dump:
  assumes "d \<noteq> []" "\<forall>(k, v) \<in> set d. wf_str k \<and> wf_json F v \<and> reads_back F v"
    and "2 * length (join [44] (map dump_member d)) + 1 < n"
  shows "scan_members F n (join [44] (map dump_member d) @ 125 # r) = Inr (d, r)"
  using assms
proof (induction d arbitrary: n)
  case (Cons kv d)
  obtain k v where kv: "kv = (k, v)" by fastforce
  from Cons.prems(3) obtain m where n: "n = Suc m" by (cases n) auto
  from Cons.prems(2) kv have wf: "wf_str k" "wf_json F v" "reads_back F v" by auto
  have ws: "skip_ws (dump v @ u) = dump v @ u" for u by (rule skip_ws_dump [OF wf(2)])
  from Cons.prems(3) n length_dump_member [of v k]
  have m: "2 * length (dump v) < m" by (simp add: kv join_Cons split: if_splits)
  show ?case
  proof (cases "d = []")
    case True
    with n kv wf m show ?thesis
      by (simp add: dump_member_append scan_string_esc_body ws reads_back_def)
  next
    case False
    then obtain k' v' ys where d: "d = (k', v') # ys" by (cases d) auto
    let ?rest = "join [44] (map dump_member d) @ 125 # r"
    from m wf have v: "scan_value F m (dump v @ 44 # ?rest) = Inr (v, 44 # ?rest)"
      by (simp add: reads_back_def)
    have "skip_ws ?rest = ?rest" by (simp add: d join_Cons dump_member_append)
    moreover have "scan_members F m ?rest = Inr (d, r)"
      using Cons.prems n False kv by (intro Cons.IH) (auto simp: join_Cons)
    ultimately show ?thesis using v wf
      by (simp add: n kv join_Cons False dump_member_append scan_string_esc_body ws)
  qed
qed simp

lemma foldl_dict_set_distinct:
  "distinct (map fst (d @ kvs)) \<Longrightarrow> foldl (\<lambda>d (k, v). dict_set d k v) d kvs = d @ kvs"
proof (induction kvs arbitrary: d)
  case (Cons kv kvs)
  obtain k v where kv: "kv = (k, v)" by fastforce
  have "dict_set d k v = d @ [(k, v)]" if "k \<notin> fst ` set d" for d :: "('a, 'b) dict"
    using that by (induction d) auto
  with Cons kv show ?case by simp
qed simp

lemma dict_of_pairs_distinct: "distinct (map fst kvs) \<Longrightarrow> dict_of_pairs kvs = kvs"
  using foldl_dict_set_distinct [of "[]" kvs] by (simp add: dict_of_pairs_def)

lemma wf_json_reads_back: "wf_json F v \<Longrightarrow> reads_back F v"
proof (induction v)
  case (JInt i)
  then show ?case
    by (auto intro!: reads_backI scan_value_number scan_number_int simp del: scan_value.simps)
next
  case (JFloat t)
  then show ?case by (auto intro!: reads_backI scan_value_float simp del: scan_value.simps)
next
  case (JList xs)
  then have *: "\<forall>x \<in> set xs. wf_json F x \<and> reads_back F x" by (auto simp: list_all_iff)
  show ?case
  proof (cases xs)
    case Nil
    then show ?thesis by (auto intro!: reads_backI)
  next
    case (Cons y ys)
    show ?thesis
    proof (rule reads_backI)
      fix r m assume "2 * length (dump (JList xs)) \<le> m"
      then have m: "2 * length (join [44] (map dump xs)) + 1 < m" by simp
      have "skip_ws (join [44] (map dump xs) @ 93 # r) = join [44] (map dump xs) @ 93 # r"
        using * skip_ws_dump [of F y] by (simp add: Cons join_Cons)
      moreover have "expect 93 (join [44] (map dump xs) @ 93 # r) = None"
        using * dump_head [of F y] by (auto simp: Cons join_Cons)
      ultimately show "scan_value F (Suc m) (dump (JList xs) @ r) = Inr (JList xs, r)"
        using scan_items_dump [OF _ * m, of r] Cons by simp
    qed
  qed
next
  case (JObj d)
  then have *: "\<forall>(k, v) \<in> set d. wf_str k \<and> wf_json F v \<and> reads_back F v"
    by (fastforce simp: list_all_iff)
  show ?case
  proof (cases d)
    case Nil
    then show ?thesis by (auto intro!: reads_backI)
  next
    case (Cons y ys)
    obtain k v where y: "y = (k, v)" by fastforce
    show ?thesis
    proof (rule reads_backI)
      fix r m assume "2 * length (dump (JObj d)) \<le> m"
      then have m: "2 * length (join [44] (map dump_member d)) + 1 < m"
        by (simp add: dump_obj del: dump.simps)
      have "skip_ws (join [44] (map dump_member d) @ 125 # r) = join [44] (map dump_member d) @ 125 # r"
        and "expect 125 (join [44] (map dump_member d) @ 125 # r) = None"
        by (simp_all add: Cons y join_Cons dump_member_append)
      then show "scan_value F (Suc m) (dump (JObj d) @ r) = Inr (JObj d, r)"
        using scan_members_dump [OF _ * m, of r] Cons JObj.prems
        by (simp add: dump_obj dict_of_pairs_distinct del: dump.simps)
    qed
  qed
qed (auto simp: scan_word_def starts_with_def lit_def scan_string_esc_body intro!: reads_backI)

section \<open>Canonical texts\<close>

lemma wf_json_canon: "wf_json F v \<Longrightarrow> wf_json F (canon v)"
proof (induction v)
  case (JObj d)
  then show ?case
    by (fastforce simp: list_all_iff simp del: map_map)
qed (auto simp: list_all_iff)

lemma starts_with_bom: "wf_json F v \<Longrightarrow> \<not> starts_with (dump v) [0xFEFF]"
  using dump_head [of F v] by (auto simp: starts_with_def)

theorem json_loads_dumps: "wf_json F v \<Longrightarrow> json_loads F (dumps v) = Inr (canon v)"
proof -
  assume "wf_json F v"
  then have wf: "wf_json F (canon v)" by (rule wf_json_canon)
  then have "scan_value F (Suc (2 * length (dump (canon v)))) (dump (canon v)) = Inr (canon v, [])"
    using wf_json_reads_back [OF wf]
    by (auto simp: reads_back_def dest: spec [where x = "[]"] simp del: scan_value.simps)
  then show ?thesis
    using starts_with_bom [OF wf] skip_ws_dump [OF wf, of "[]"]
    by (simp add: json_loads_def dumps_def skip_ws_def del: scan_value.simps)
qed

corollary dumps_eq_iff:
  "wf_json F v \<Longrightarrow> wf_json F w \<Longrightarrow> dumps v = dumps w \<longleftrightarrow> canon v = canon w"
  by (metis dumps_def json_loads_dumps sum.inject(2))

end
