(* ===== verification/Py_Utf8.thy ===== *)
theory Py_Utf8
  imports Py_Str
begin

text \<open>
  Reading text: strict UTF-8 decoding (\<open>bytes.decode("utf-8")\<close>) and the newline translation of
  \<open>Path.read_text\<close>. Decoding gives back every encodable string, and what it gives never holds
  a surrogate.
\<close>

definition is_cont :: "nat \<Rightarrow> bool" where
  "is_cont b \<longleftrightarrow> 0x80 \<le> b \<and> b < 0xC0"

text \<open>One character and the bytes after it; \<open>None\<close> is a \<open>UnicodeDecodeError\<close>.\<close>

fun decode_char :: "bytes \<Rightarrow> (nat \<times> bytes) option" where
  "decode_char [] = None"
| "decode_char (a # s) =
     (if a < 0x80 then Some (a, s)
      else if 0xC2 \<le> a \<and> a < 0xE0 then
        (case s of b # r \<Rightarrow>
           if is_cont b then Some ((a - 0xC0) * 64 + (b - 0x80), r) else None
         | _ \<Rightarrow> None)
      else if 0xE0 \<le> a \<and> a < 0xF0 then
        (case s of b # c # r \<Rightarrow>
           let n = (a - 0xE0) * 4096 + (b - 0x80) * 64 + (c - 0x80)
           in if is_cont b \<and> is_cont c \<and> 0x800 \<le> n \<and> \<not> is_surrogate n then Some (n, r) else None
         | _ \<Rightarrow> None)
      else if 0xF0 \<le> a \<and> a < 0xF5 then
        (case s of b # c # d # r \<Rightarrow>
           let n = (a - 0xF0) * 262144 + (b - 0x80) * 4096 + (c - 0x80) * 64 + (d - 0x80)
           in if is_cont b \<and> is_cont c \<and> is_cont d \<and> 0x10000 \<le> n \<and> n < 0x110000 then Some (n, r) else None
         | _ \<Rightarrow> None)
      else None)"

lemma decode_char_length: "decode_char s = Some (c, r) \<Longrightarrow> length r < length s"
  by (cases s) (auto simp: Let_def split: if_splits list.splits)

lemma decode_char_scalar: "decode_char s = Some (c, r) \<Longrightarrow> c < 0x110000 \<and> \<not> is_surrogate c"
  by (cases s) (auto simp: Let_def is_surrogate_def is_cont_def split: if_splits list.splits)

function decode_utf8 :: "bytes \<Rightarrow> pystr option" where
  "decode_utf8 s =
     (if s = [] then Some []
      else case decode_char s of
        None \<Rightarrow> None
      | Some (c, r) \<Rightarrow> map_option (Cons c) (decode_utf8 r))"
  by pat_completeness auto
termination by (relation "measure length") (auto dest: decode_char_length)

declare decode_utf8.simps [simp del]

lemma decode_utf8_Nil [simp]: "decode_utf8 [] = Some []"
  by (simp add: decode_utf8.simps)

lemma decode_utf8_step: "decode_char s = Some (c, r) \<Longrightarrow> decode_utf8 s = map_option (Cons c) (decode_utf8 r)"
  by (subst decode_utf8.simps) auto

lemma decode_utf8_scalar:
  "decode_utf8 s = Some t \<Longrightarrow> \<forall>c \<in> set t. c < 0x110000 \<and> \<not> is_surrogate c"
proof (induction s arbitrary: t rule: decode_utf8.induct)
  case (1 s)
  show ?case
  proof (cases "s = []")
    case False
    with "1.prems" obtain c r t' where "decode_char s = Some (c, r)" "decode_utf8 r = Some t'" "t = c # t'"
      by (subst (asm) decode_utf8.simps) (auto split: option.splits)
    with "1.IH" [OF False] decode_char_scalar [of s c r] show ?thesis by auto
  qed (use "1.prems" in simp)
qed

lemma split_64: "(n::nat) = n div 64 * 64 + n mod 64"
  by simp

lemma div_4096: "(n::nat) div 4096 = n div 64 div 64" "(n::nat) div 262144 = n div 64 div 64 div 64"
  by (simp_all add: div_mult2_eq [symmetric])

lemma decode_char_utf8_char:
  assumes "c < 0x110000" "\<not> is_surrogate c"
  shows "decode_char (utf8_char c @ r) = Some (c, r)"
proof -
  consider "c < 0x80" | "0x80 \<le> c" "c < 0x800" | "0x800 \<le> c" "c < 0x10000" | "0x10000 \<le> c"
    by linarith
  then show ?thesis
  proof cases
    case 2
    define q m where "q = c div 64" and "m = c mod 64"
    then have "utf8_char c = [0xC0 + q, 0x80 + m]" "c = q * 64 + m" "m < 64"
      using 2 by (simp_all add: utf8_char_def)
    moreover from this 2 have "2 \<le> q" "q < 32" by linarith+
    ultimately show ?thesis by (simp add: is_cont_def)
  next
    case 3
    define p q m where "p = c div 4096" and "q = c div 64 mod 64" and "m = c mod 64"
    then have "utf8_char c = [0xE0 + p, 0x80 + q, 0x80 + m]" "q < 64" "m < 64"
      using 3 by (simp_all add: utf8_char_def)
    moreover have c: "c = p * 4096 + q * 64 + m" unfolding p_def q_def m_def div_4096
      using split_64 [of c] split_64 [of "c div 64"] by linarith
    moreover from c 3 have "p < 16" by linarith
    ultimately show ?thesis using 3(1) assms(2) by (simp add: is_cont_def Let_def)
  next
    case 4
    define n p q m where "n = c div 262144" and "p = c div 4096 mod 64"
      and "q = c div 64 mod 64" and "m = c mod 64"
    then have "utf8_char c = [0xF0 + n, 0x80 + p, 0x80 + q, 0x80 + m]" "p < 64" "q < 64" "m < 64"
      using 4 by (simp_all add: utf8_char_def)
    moreover have c: "c = n * 262144 + p * 4096 + q * 64 + m"
      unfolding n_def p_def q_def m_def div_4096
      using split_64 [of c] split_64 [of "c div 64"] split_64 [of "c div 64 div 64"] by linarith
    moreover from c assms(1) have "n < 5" by linarith
    ultimately show ?thesis using 4 assms(1) by (simp add: is_cont_def Let_def)
  qed (simp add: utf8_char_def)
qed

definition is_text :: "pystr \<Rightarrow> bool" where
  "is_text s \<longleftrightarrow> (\<forall>c \<in> set s. c < 0x110000 \<and> \<not> is_surrogate c)"

definition encode_text :: "pystr \<Rightarrow> bytes" where
  "encode_text s = concat (map utf8_char s)"

lemma encode_utf8_text: "is_text s \<Longrightarrow> encode_utf8 s = Some (encode_text s)"
  by (auto simp: encode_utf8_def is_text_def encode_text_def)

lemma decode_encode_text: "is_text s \<Longrightarrow> decode_utf8 (encode_text s) = Some s"
  by (induction s) (auto simp: is_text_def encode_text_def decode_char_utf8_char
      intro!: trans [OF decode_utf8_step])

lemma is_text_ascii: "is_ascii s \<Longrightarrow> is_text s"
  by (auto simp: is_ascii_def is_text_def is_surrogate_def)

definition decode_utf8_res :: "bytes \<Rightarrow> unit + pystr" where
  "decode_utf8_res s = (case decode_utf8 s of None \<Rightarrow> Inl () | Some t \<Rightarrow> Inr t)"

interpretation utf8: codec encode_text decode_utf8_res is_text
  by unfold_locales (simp add: decode_utf8_res_def decode_encode_text)

lemma decode_utf8_ascii: "is_ascii s \<Longrightarrow> decode_utf8 s = Some s"
  using decode_encode_text [of s] encode_utf8_text [of s] encode_utf8_ascii [of s] is_text_ascii [of s]
  by simp

section \<open>Universal newlines\<close>

fun translate_newlines :: "pystr \<Rightarrow> pystr" where
  "translate_newlines [] = []"
| "translate_newlines [c] = [if c = 13 then 10 else c]"
| "translate_newlines (c # d # s) =
     (if c = 13 then 10 # (if d = 10 then translate_newlines s else translate_newlines (d # s))
      else c # translate_newlines (d # s))"

definition read_text :: "bytes \<Rightarrow> pystr option" where
  "read_text content = map_option translate_newlines (decode_utf8 content)"

lemma set_translate_newlines: "set (translate_newlines s) \<subseteq> insert 10 (set s)"
  by (induction s rule: translate_newlines.induct) auto

lemma translate_newlines_id: "13 \<notin> set s \<Longrightarrow> translate_newlines s = s"
  by (induction s rule: translate_newlines.induct) auto

lemma read_text_is_text: "read_text content = Some s \<Longrightarrow> is_text s"
  using set_translate_newlines
  by (fastforce simp: read_text_def is_text_def is_surrogate_def dest: decode_utf8_scalar)

end
