(* ===== verification/Py_Json_Wf.thy ===== *)
theory Py_Json_Wf
  imports Py_Json_Roundtrip Py_Utf8
begin

text \<open>
  The documents \<open>json.loads\<close> returns for decoded text are the ones the round trip of
  \<open>Py_Json_Roundtrip\<close> covers: keys are distinct, every string is free of unpaired escape
  sequences that would be read back as one character, every float is its own \<open>repr\<close>. Canonical
  texts are ASCII, so encoding them never fails.
\<close>

section \<open>What the scanner leaves of the text\<close>

lemma is_text_simps [simp]:
  "is_text []"
  "is_text (c # s) \<longleftrightarrow> c < 0x110000 \<and> \<not> is_surrogate c \<and> is_text s"
  by (auto simp: is_text_def)

lemma is_text_subset: "is_text s \<Longrightarrow> set r \<subseteq> set s \<Longrightarrow> is_text r"
  by (auto simp: is_text_def)

lemma is_text_drop: "is_text s \<Longrightarrow> is_text (drop n s)" "is_text s \<Longrightarrow> is_text (dropWhile P s)"
  by (auto elim!: is_text_subset dest: set_dropWhileD in_set_dropD)

lemma is_text_skip_ws: "is_text s \<Longrightarrow> is_text (skip_ws s)"
  by (simp add: skip_ws_def is_text_drop)

lemma is_text_expect: "expect c s = Some t \<Longrightarrow> is_text s \<Longrightarrow> is_text t"
  by (simp add: expect_Some_iff)

lemma hex4_text: "hex4 s = Some (n, r) \<Longrightarrow> is_text s \<Longrightarrow> is_text r"
  by (cases s rule: hex4.cases) (auto split: option.splits)

lemma hex_val_less: "hex_val c = Some n \<Longrightarrow> n < 16"
  by (auto simp: hex_val_def split: if_splits)

lemma hex4_less: "hex4 s = Some (n, r) \<Longrightarrow> n < 0x10000"
  by (cases s rule: hex4.cases) (auto split: option.splits dest!: hex_val_less)

lemma u_esc_text: "u_esc s = Some (n, r) \<Longrightarrow> is_text s \<Longrightarrow> is_text r \<and> n < 0x10000"
  by (auto simp: u_esc_def split: list.splits if_splits dest: hex4_text hex4_less)

lemma simple_escape_less: "simple_escape c = Some n \<Longrightarrow> n < 0x80"
  by (auto simp: simple_escape_def split: if_splits)

lemma scan_char_text: "scan_char s = Some (c, r) \<Longrightarrow> is_text s \<Longrightarrow> is_text r \<and> c < 0x110000"
  by (auto simp: scan_char_def is_high_def is_low_def
      split: list.splits if_splits option.splits prod.splits dest!: u_esc_text simple_escape_less)

text \<open>A high surrogate is never followed by a low one: the scanner would have joined them.\<close>

lemma surrogate_cases: "is_surrogate c \<longleftrightarrow> is_high c \<or> is_low c"
  by (auto simp: is_surrogate_def is_high_def is_low_def)

lemma is_u_esc_iff: "is_u_esc s \<longleftrightarrow> (\<exists>t. s = 92 # 117 # t)"
  by (cases s rule: remdups_adj.cases) (auto simp: is_u_esc_def)

lemma scan_char_high:
  assumes "scan_char s = Some (c, r)" "is_text s" "is_high c"
  shows "is_u_esc r \<longrightarrow> (\<exists>m r'. u_esc r = Some (m, r') \<and> \<not> is_low m)"
  using assms simple_escape_less
  by (auto simp: scan_char_def is_high_def is_low_def is_surrogate_def
      split: list.splits if_splits option.splits prod.splits) fastforce+

lemma scan_char_low:
  assumes "scan_char r = Some (d, r')" "is_text r" "is_low d"
  shows "is_u_esc r \<and> (\<exists>t. u_esc r = Some (d, t))"
  using assms simple_escape_less
  by (auto simp: scan_char_def is_high_def is_low_def is_surrogate_def
      split: list.splits if_splits option.splits prod.splits) fastforce+

lemma scan_string_cons:
  assumes "expect 34 s = None" "scan_char s = Some (c, t)" "scan_string s = Inr (cs, r)"
  shows "\<exists>cs'. scan_string t = Inr (cs', r) \<and> cs = c # cs'"
proof -
  from assms have "bind_res (scan_string t) (\<lambda>(cs, r). Inr (c # cs, r)) = Inr (cs, r)"
    using scan_string_step [OF assms(1,2)] by metis
  then show ?thesis by (cases "scan_string t") auto
qed

lemma scan_string_head:
  assumes "scan_string t = Inr (cs, r)" "cs \<noteq> []"
  shows "\<exists>r'. scan_char t = Some (hd cs, r')"
proof (cases "expect 34 t")
  case None
  show ?thesis
  proof (cases "scan_char t")
    case None': None
    with None have "scan_string t = Inl BadJson" by (rule scan_string_bad)
    with assms(1) show ?thesis by simp
  next
    case (Some ct)
    obtain c u where "ct = (c, u)" by (cases ct)
    with Some have c: "scan_char t = Some (c, u)" by simp
    from scan_string_cons [OF None c assms(1)] c show ?thesis by auto
  qed
next
  case (Some u)
  with assms show ?thesis by (simp add: expect_Some_iff)
qed

lemma scan_string_wf: "scan_string s = Inr (cs, r) \<Longrightarrow> is_text s \<Longrightarrow> wf_str cs \<and> is_text r"
proof (induction s arbitrary: cs r rule: scan_string.induct)
  case (1 s)
  show ?case
  proof (cases "expect 34 s")
    case (Some t)
    with "1.prems" show ?thesis by (auto simp: wf_str_def expect_Some_iff)
  next
    case None
    obtain c t where c: "scan_char s = Some (c, t)"
      using "1.prems"(1) scan_string_bad [OF None] by (cases "scan_char s") auto
    obtain cs' where rest: "scan_string t = Inr (cs', r)" and cs: "cs = c # cs'"
      using scan_string_cons [OF None c "1.prems"(1)] by blast
    from scan_char_text [OF c "1.prems"(2)] have t: "is_text t" "c < 0x110000" by auto
    from "1.IH" [OF None c refl rest t(1)] have IH: "wf_str cs'" "is_text r" by auto
    have "\<not> (is_high c \<and> is_low (hd cs'))" if "cs' \<noteq> []"
    proof
      assume sur: "is_high c \<and> is_low (hd cs')"
      from scan_string_head [OF rest that] obtain r' where "scan_char t = Some (hd cs', r')" by blast
      with scan_char_low [of t _ r'] scan_char_high [OF c "1.prems"(2)] sur t(1) show False
        by fastforce
    qed
    with IH t(2) show ?thesis by (simp add: cs wf_str_Cons)
  qed
qed

lemma set_drop_digits: "set (dropWhile is_digit s) \<subseteq> set s"
  by (auto dest: set_dropWhileD)

lemma scan_int_part_rest: "scan_int_part s = Some (x, r) \<Longrightarrow> set r \<subseteq> set s"
  using set_drop_digits [of s] by (cases s) (auto simp: scan_int_part_def split: if_splits)

lemma scan_frac_rest: "scan_frac s = (x, r) \<Longrightarrow> set r \<subseteq> set s"
  using set_drop_digits [of "tl s"]
  by (cases s) (auto simp: scan_frac_def split: if_splits list.splits)

lemma scan_exp_rest: "scan_exp s = (x, r) \<Longrightarrow> set r \<subseteq> set s"
proof (cases s)
  case (Cons c t)
  assume e: "scan_exp s = (x, r)"
  have "set (dropWhile is_digit (drop n t)) \<subseteq> set s" for n
    using set_drop_digits [of "drop n t"] set_drop_subset [of n t] Cons by auto
  from this [of 0] this [of 1] have "set (dropWhile is_digit t) \<subseteq> set s"
    "set (dropWhile is_digit (drop 1 t)) \<subseteq> set s" by simp_all
  moreover have "r = s \<or> r = dropWhile is_digit t \<or> r = dropWhile is_digit (drop 1 t)"
    using e by (auto simp: scan_exp_def Cons Let_def split: if_splits list.splits)
  ultimately show ?thesis by blast
qed (simp add: scan_exp_def)

lemma scan_number_rest: "scan_number F s = Inr (v, r) \<Longrightarrow> set r \<subseteq> set s"
proof -
  assume n: "scan_number F s = Inr (v, r)"
  obtain sg s1 where s1: "scan_sign s = (sg, s1)" by (cases "scan_sign s")
  with n obtain ip s2 where s2: "scan_int_part s1 = Some (ip, s2)"
    by (auto simp: scan_number_def split: option.splits)
  obtain fp s3 where s3: "scan_frac s2 = (fp, s3)" by (cases "scan_frac s2")
  obtain ep s4 where s4: "scan_exp s3 = (ep, s4)" by (cases "scan_exp s3")
  from n s1 s2 s3 s4 have "r = s4" by (simp add: scan_number_def split: if_splits)
  moreover have "set s1 \<subseteq> set s"
    using s1 by (auto simp: scan_sign_def expect_Some_iff split: option.splits)
  ultimately show ?thesis
    using scan_int_part_rest [OF s2] scan_frac_rest [OF s3] scan_exp_rest [OF s4] by blast
qed

lemma scan_word_rest: "scan_word s = Some (v, r) \<Longrightarrow> set r \<subseteq> set s"
  by (auto simp: scan_word_def split: if_splits dest: in_set_dropD)

section \<open>Scanned documents\<close>

text \<open>\<open>repr\<close> of a float is a text that reads as the same float.\<close>

definition float_repr_ok :: "(pystr \<Rightarrow> pystr) \<Rightarrow> bool" where
  "float_repr_ok F \<longleftrightarrow> (\<forall>t. wf_float F (F t))"

lemma scan_number_wf: "float_repr_ok F \<Longrightarrow> scan_number F s = Inr (v, r) \<Longrightarrow> wf_json F v"
  by (auto simp: scan_number_def float_repr_ok_def Let_def split: option.splits prod.splits if_splits)

lemma scan_word_wf: "scan_word s = Some (v, r) \<Longrightarrow> wf_json F v"
  by (auto simp: scan_word_def wf_float_def split: if_splits)

lemma set_dict_set: "set (dict_set d k v) \<subseteq> insert (k, v) (set d)"
  by (induction d k v rule: dict_set.induct) auto

lemma foldl_dict_set:
  "distinct (map fst d) \<Longrightarrow> distinct (map fst (foldl (\<lambda>d (k, v). dict_set d k v) d kvs)) \<and>
     set (foldl (\<lambda>d (k, v). dict_set d k v) d kvs) \<subseteq> set d \<union> set kvs"
proof (induction kvs arbitrary: d)
  case (Cons kv kvs)
  show ?case
    using Cons.IH [of "dict_set d (fst kv) (snd kv)"] Cons.prems set_dict_set [of d "fst kv" "snd kv"]
    by (cases kv) auto
qed simp

lemma dict_of_pairs_wf:
  "list_all (\<lambda>(k, v). wf_str k \<and> wf_json F v) kvs \<Longrightarrow> wf_json F (JObj (dict_of_pairs kvs))"
  using foldl_dict_set [of "[]" kvs] by (auto simp: dict_of_pairs_def list_all_iff)

lemma scan_wf:
  assumes F: "float_repr_ok F"
  shows "scan_value F n s = Inr (v, r) \<Longrightarrow> is_text s \<Longrightarrow> wf_json F v \<and> is_text r"
    and "scan_items F n s = Inr (vs, r) \<Longrightarrow> is_text s \<Longrightarrow> list_all (wf_json F) vs \<and> is_text r"
    and "scan_members F n s = Inr (kvs, r) \<Longrightarrow> is_text s \<Longrightarrow>
      list_all (\<lambda>(k, v). wf_str k \<and> wf_json F v) kvs \<and> is_text r"
proof (induction n arbitrary: s v vs kvs r)
  case (Suc n)
  {
    case 1
    note prem = 1
    consider t where "s = 34 # t" | t where "s = 123 # t" | t where "s = 91 # t"
      | "expect 34 s = None" "expect 123 s = None" "expect 91 s = None"
      by (cases "expect 34 s"; cases "expect 123 s"; cases "expect 91 s") (auto simp: expect_Some_iff)
    then show ?case
    proof cases
      case (1 t)
      with prem show ?thesis by (auto simp: res_simps dest: scan_string_wf)
    next
      case (2 t)
      with prem have t: "is_text (skip_ws t)" by (simp add: is_text_skip_ws)
      show ?thesis
      proof (cases "expect 125 (skip_ws t)")
        case None
        with prem(1) 2 obtain kvs where
          kvs: "scan_members F n (skip_ws t) = Inr (kvs, r)" and v: "v = JObj (dict_of_pairs kvs)"
          by (auto simp: res_simps)
        from Suc.IH(3) [OF kvs t] dict_of_pairs_wf [of F kvs] show ?thesis unfolding v by blast
      next
        case (Some r')
        with prem 2 is_text_expect [OF Some t] show ?thesis by auto
      qed
    next
      case (3 t)
      with prem have t: "is_text (skip_ws t)" by (simp add: is_text_skip_ws)
      show ?thesis
      proof (cases "expect 93 (skip_ws t)")
        case None
        with prem(1) 3 obtain vs where
          vs: "scan_items F n (skip_ws t) = Inr (vs, r)" and v: "v = JList vs"
          by (auto simp: res_simps)
        from Suc.IH(2) [OF vs t] show ?thesis by (simp add: v)
      next
        case (Some r')
        with prem 3 is_text_expect [OF Some t] show ?thesis by auto
      qed
    next
      case 4
      with prem show ?thesis
        by (auto split: option.splits dest: scan_word_wf scan_number_wf [OF F]
            elim: is_text_subset [OF _ scan_word_rest] is_text_subset [OF _ scan_number_rest])
    qed
  next
    case 2
    then obtain v1 r1 where v1: "scan_value F n s = Inr (v1, r1)"
      and tail: "(case expect 93 (skip_ws r1) of Some r' \<Rightarrow> Inr ([v1], r')
        | None \<Rightarrow> (case expect 44 (skip_ws r1) of Some r' \<Rightarrow>
           bind_res (scan_items F n (skip_ws r')) (\<lambda>(vs, r''). Inr (v1 # vs, r''))
         | None \<Rightarrow> Inl BadJson)) = Inr (vs, r)"
      by (auto simp: res_simps)
    from Suc.IH(1) [OF v1 2(2)] have w: "wf_json F v1" "is_text (skip_ws r1)"
      by (auto intro: is_text_skip_ws)
    show ?case
    proof (cases "expect 93 (skip_ws r1)")
      case None
      with tail obtain r' vs' where r': "expect 44 (skip_ws r1) = Some r'"
        "scan_items F n (skip_ws r') = Inr (vs', r)" "vs = v1 # vs'"
        by (auto simp: res_simps split: option.splits)
      from Suc.IH(2) [OF r'(2) is_text_skip_ws [OF is_text_expect [OF r'(1) w(2)]]] w(1) r'(3)
      show ?thesis by simp
    qed (use tail w is_text_expect [OF _ w(2)] in auto)
  next
    case 3
    then obtain t k r1 r2 v1 r3 where
      t: "expect 34 s = Some t" "scan_string t = Inr (k, r1)"
      "expect 58 (skip_ws r1) = Some r2" "scan_value F n (skip_ws r2) = Inr (v1, r3)"
      and tail: "(case expect 125 (skip_ws r3) of Some r3' \<Rightarrow> Inr ([(k, v1)], r3')
                | None \<Rightarrow> (case expect 44 (skip_ws r3) of Some r4 \<Rightarrow>
                   bind_res (scan_members F n (skip_ws r4)) (\<lambda>(kvs, r5). Inr ((k, v1) # kvs, r5))
                 | None \<Rightarrow> Inl BadJson)) = Inr (kvs, r)"
      by (auto simp: res_simps split: option.splits)
    from scan_string_wf [OF t(2) is_text_expect [OF t(1) 3(2)]] have k: "wf_str k" "is_text r1" by auto
    from Suc.IH(1) [OF t(4) is_text_skip_ws [OF is_text_expect [OF t(3) is_text_skip_ws [OF k(2)]]]]
    have w: "wf_json F v1" "is_text (skip_ws r3)" by (auto intro: is_text_skip_ws)
    show ?case
    proof (cases "expect 125 (skip_ws r3)")
      case None
      with tail obtain r4 kvs' where r4: "expect 44 (skip_ws r3) = Some r4"
        "scan_members F n (skip_ws r4) = Inr (kvs', r)" "kvs = (k, v1) # kvs'"
        by (auto simp: res_simps split: option.splits)
      from Suc.IH(3) [OF r4(2) is_text_skip_ws [OF is_text_expect [OF r4(1) w(2)]]] w(1) k(1) r4(3)
      show ?thesis by simp
    qed (use tail w k is_text_expect [OF _ w(2)] in auto)
  }
qed simp_all

theorem json_loads_wf:
  "float_repr_ok F \<Longrightarrow> is_text s \<Longrightarrow> json_loads F s = Inr v \<Longrightarrow> wf_json F v"
  by (auto simp: json_loads_def res_simps simp del: scan_value.simps
      split: if_splits dest!: scan_wf(1) intro: is_text_skip_ws)

section \<open>Canonical texts are ASCII\<close>

lemma is_ascii_subset: "is_ascii s \<Longrightarrow> set r \<subseteq> set s \<Longrightarrow> is_ascii r"
  by (auto simp: is_ascii_def)

lemma is_ascii_join: "is_ascii sep \<Longrightarrow> \<forall>x \<in> set xs. is_ascii x \<Longrightarrow> is_ascii (join sep xs)"
  by (induction sep xs rule: join.induct) auto

lemma hex_digits_ascii: "is_ascii (hex_digits w n)"
  using hex_digits_lower [of _ w n] by (fastforce simp: is_ascii_def is_lower_hex_def)

lemma dump_str_ascii: "is_ascii (dump_str s)"
proof -
  have "is_ascii (esc_char c)" for c
    by (auto simp: esc_char_def u_escape_def hex_digits_ascii)
  then have "is_ascii (esc_body s)" by (induction s) (simp_all add: esc_body_def)
  then show ?thesis by (simp add: dump_str_def)
qed

lemma is_digit_ascii: "\<forall>c \<in> set s. is_digit c \<Longrightarrow> is_ascii s"
  by (auto simp: is_ascii_def is_digit_def)

lemma takeWhile_digits_ascii: "is_ascii (takeWhile is_digit s)"
  by (rule is_digit_ascii) (auto dest: set_takeWhileD)

lemma dropWhile_digits_ascii: "is_ascii (dropWhile is_digit s) \<Longrightarrow> is_ascii s"
  using takeWhile_digits_ascii [of s] is_ascii_append [of "takeWhile is_digit s" "dropWhile is_digit s"]
  by simp

lemma scan_int_part_ascii: "scan_int_part s = Some (x, r) \<Longrightarrow> is_ascii r \<Longrightarrow> is_ascii s"
  by (auto simp: scan_int_part_def split: list.splits if_splits intro: dropWhile_digits_ascii)

lemma scan_frac_ascii: "scan_frac s = (x, r) \<Longrightarrow> is_ascii r \<Longrightarrow> is_ascii s"
  by (auto simp: scan_frac_def expect_Some_iff split: option.splits list.splits
      intro: dropWhile_digits_ascii)

lemma scan_exp_ascii: "scan_exp s = (x, r) \<Longrightarrow> is_ascii r \<Longrightarrow> is_ascii s"
  by (auto simp: scan_exp_def Let_def is_digit_def split: option.splits list.splits if_splits
      intro: dropWhile_digits_ascii)

lemma scan_number_ascii: "scan_number F t = Inr (v, []) \<Longrightarrow> is_ascii t"
  by (auto simp: scan_number_def scan_sign_def Let_def expect_Some_iff
      split: option.splits prod.splits if_splits
      dest!: scan_int_part_ascii scan_frac_ascii scan_exp_ascii)

lemma str_int_ascii: "is_ascii (str_int i)"
  by (auto simp: str_int_def intro!: is_digit_ascii nat_digits_digit)

lemma dump_ascii: "wf_json F v \<Longrightarrow> is_ascii (dump v)"
proof (induction v)
  case (JFloat t)
  then show ?case by (auto simp: wf_float_def dump_float_def is_ascii_def lit_def dest!: scan_number_ascii)
next
  case (JList xs)
  then show ?case by (auto simp: list_all_iff intro!: is_ascii_join)
next
  case (JObj d)
  then have "\<forall>kv \<in> set d. is_ascii (dump (snd kv))" by (auto simp: list_all_iff)
  then have "\<forall>x \<in> set (map (\<lambda>(k, v). dump_str k @ 58 # dump v) d). is_ascii x"
    by (auto simp: dump_str_ascii simp del: dump_str_append)
  then show ?case by (simp add: is_ascii_join)
qed (auto simp: is_ascii_def lit_def str_int_ascii [unfolded is_ascii_def]
    dump_str_ascii [unfolded is_ascii_def])

lemma dumps_ascii: "wf_json F v \<Longrightarrow> is_ascii (dumps v)"
  by (metis dumps_def dump_ascii wf_json_canon)

lemma encode_dumps: "wf_json F v \<Longrightarrow> encode_utf8 (dumps v) = Some (dumps v)"
  by (rule encode_utf8_ascii [OF dumps_ascii])

end
