(* ===== verification/Py_Sha256.thy ===== *)
theory Py_Sha256
  imports Py_Str
begin

text \<open>
  \<open>hashlib.sha256\<close> (FIPS 180-4) over 32-bit words, executable. The proofs of the program use
  only that a digest is 32 bytes, so that the rendered identifiers have a fixed shape; no
  collision resistance is assumed anywhere.
\<close>

unbundle bit_operations_syntax

type_synonym u32 = "32 word"

text \<open>
  The constants: the first 32 bits of the fractional parts of the cube roots of the first 64
  primes, and of the square roots of the first eight. \<open>int_root k n b r\<close> decides the low \<open>b\<close> bits
  of the largest integer whose \<open>k\<close>-th power is at most \<open>n\<close>.
\<close>

fun int_root :: "nat \<Rightarrow> nat \<Rightarrow> nat \<Rightarrow> nat \<Rightarrow> nat" where
  "int_root k n 0 r = r"
| "int_root k n (Suc b) r = int_root k n b (if (r + 2 ^ b) ^ k \<le> n then r + 2 ^ b else r)"

definition root_word :: "nat \<Rightarrow> nat \<Rightarrow> u32" where
  "root_word k p = word_of_nat (int_root k (p * 2 ^ (32 * k)) 36 0)"

definition sha_primes :: "nat list" where
  "sha_primes = filter (\<lambda>p. list_all (\<lambda>d. p mod d \<noteq> 0) [2..<p]) [2..<312]"

definition sha_k :: "u32 list" where
  "sha_k = map (root_word 3) sha_primes"

definition sha_init :: "u32 list" where
  "sha_init = map (root_word 2) [2, 3, 5, 7, 11, 13, 17, 19]"

text \<open>Padding: a one bit, zeros, and the length in bits as eight big-endian bytes.\<close>

definition be_bytes :: "nat \<Rightarrow> nat \<Rightarrow> bytes" where
  "be_bytes k n = map (\<lambda>i. n div 256 ^ (k - 1 - i) mod 256) [0..<k]"

definition sha_pad :: "bytes \<Rightarrow> bytes" where
  "sha_pad m = m @ 0x80 # replicate ((119 - length m mod 64) mod 64) 0 @ be_bytes 8 (8 * length m)"

fun words_of :: "bytes \<Rightarrow> u32 list" where
  "words_of (a # b # c # d # s) =
     word_of_nat (((a * 256 + b) * 256 + c) * 256 + d) # words_of s"
| "words_of s = []"

fun chunks :: "nat \<Rightarrow> 'a list \<Rightarrow> 'a list list" where
  "chunks 0 xs = []"
| "chunks (Suc n) xs = take 16 xs # chunks n (drop 16 xs)"

definition sigma0 :: "u32 \<Rightarrow> u32" where
  "sigma0 x = word_rotr 7 x XOR word_rotr 18 x XOR drop_bit 3 x"

definition sigma1 :: "u32 \<Rightarrow> u32" where
  "sigma1 x = word_rotr 17 x XOR word_rotr 19 x XOR drop_bit 10 x"

text \<open>The message schedule, newest word first.\<close>

fun extend_schedule :: "nat \<Rightarrow> u32 list \<Rightarrow> u32 list" where
  "extend_schedule 0 w = w"
| "extend_schedule (Suc n) w =
     extend_schedule n ((w ! 15 + sigma0 (w ! 14) + w ! 6 + sigma1 (w ! 1)) # w)"

definition schedule :: "u32 list \<Rightarrow> u32 list" where
  "schedule block = rev (extend_schedule 48 (rev block))"

fun sha_round :: "u32 list \<Rightarrow> u32 \<times> u32 \<Rightarrow> u32 list" where
  "sha_round [a, b, c, d, e, f, g, h] (k, w) =
     (let s1 = word_rotr 6 e XOR word_rotr 11 e XOR word_rotr 25 e;
          ch = (e AND f) XOR (NOT e AND g);
          t1 = h + s1 + ch + k + w;
          s0 = word_rotr 2 a XOR word_rotr 13 a XOR word_rotr 22 a;
          maj = (a AND b) XOR (a AND c) XOR (b AND c);
          t2 = s0 + maj
      in [t1 + t2, a, b, c, d + t1, e, f, g])"
| "sha_round st kw = st"

definition sha_block :: "u32 list \<Rightarrow> u32 list \<Rightarrow> u32 list" where
  "sha_block h block = map2 (+) h (foldl sha_round h (zip sha_k (schedule block)))"

definition word_bytes :: "u32 \<Rightarrow> bytes" where
  "word_bytes w = be_bytes 4 (unat w)"

definition sha256 :: "bytes \<Rightarrow> bytes" where
  "sha256 m =
     (let p = sha_pad m in
      concat (map word_bytes (foldl sha_block sha_init (chunks (length p div 64) (words_of p)))))"

section \<open>The shape of a digest\<close>

lemma length_sha_round: "length st = 8 \<Longrightarrow> length (sha_round st kw) = 8"
  by (cases "(st, kw)" rule: sha_round.cases) (auto simp: Let_def)

lemma length_foldl_sha_round: "length st = 8 \<Longrightarrow> length (foldl sha_round st kws) = 8"
  by (induction kws arbitrary: st) (auto simp: length_sha_round)

lemma length_sha_block: "length h = 8 \<Longrightarrow> length (sha_block h b) = 8"
  by (simp add: sha_block_def length_foldl_sha_round)

lemma length_foldl_sha_block: "length h = 8 \<Longrightarrow> length (foldl sha_block h bs) = 8"
  by (induction bs arbitrary: h) (auto simp: length_sha_block)

lemma length_be_bytes [simp]: "length (be_bytes k n) = k"
  by (simp add: be_bytes_def)

lemma is_bytes_be_bytes: "is_bytes (be_bytes k n)"
  by (auto simp: is_bytes_def be_bytes_def)

lemma length_sha256 [simp]: "length (sha256 m) = 32"
proof -
  have "length (concat (map word_bytes ws)) = 4 * length ws" for ws
    by (induction ws) (simp_all add: word_bytes_def)
  moreover have "length sha_init = 8" by (simp add: sha_init_def)
  ultimately show ?thesis by (simp add: sha256_def Let_def length_foldl_sha_block)
qed

lemma is_bytes_sha256: "is_bytes (sha256 m)"
  using is_bytes_be_bytes by (fastforce simp: sha256_def Let_def is_bytes_def word_bytes_def)

text \<open>\<open>hashlib.sha256(m).hexdigest()\<close>: 64 lowercase hexadecimal digits.\<close>

definition sha256_hex :: "bytes \<Rightarrow> pystr" where
  "sha256_hex m = bytes_hex (sha256 m)"

lemma length_sha256_hex [simp]: "length (sha256_hex m) = 64"
  by (simp add: sha256_hex_def)

lemma sha256_hex_lower: "c \<in> set (sha256_hex m) \<Longrightarrow> is_lower_hex c"
  by (auto simp: sha256_hex_def dest: bytes_hex_lower)

end
