(* ===== verification/Crypto_Lib.thy ===== *)
theory Crypto_Lib
  imports Py_Errors Py_Utf8
begin

text \<open>
  The \<open>cryptography\<close> package, which the program calls and does not contain: a record of
  functions that every definition that verifies or signs takes as an argument, and the documented
  behaviour the proofs rely on, as named predicates. A failed verification (\<open>InvalidSignature\<close>)
  is \<open>False\<close>, and randomness is an argument.
\<close>

section \<open>The operations the program calls\<close>

record ('pub, 'priv) crypto =
  load_pem_public_key :: "bytes \<Rightarrow> 'pub res"
  is_rsa_public :: "'pub \<Rightarrow> bool"
  key_size :: "'pub \<Rightarrow> nat"
  pss_verify :: "'pub \<Rightarrow> nat \<Rightarrow> bytes \<Rightarrow> bytes \<Rightarrow> bool"
  public_pem :: "'pub \<Rightarrow> bytes"
  public_der :: "'pub \<Rightarrow> bytes"
  generate_rsa :: "nat \<Rightarrow> nat \<Rightarrow> bytes \<Rightarrow> 'priv"
  public_of :: "'priv \<Rightarrow> 'pub"
  pss_sign :: "'priv \<Rightarrow> nat \<Rightarrow> bytes \<Rightarrow> bytes \<Rightarrow> bytes"
  load_pem_private_key :: "bytes \<Rightarrow> bytes option \<Rightarrow> 'priv res"
  is_rsa_private :: "'priv \<Rightarrow> bool"
  private_pem :: "'priv \<Rightarrow> bytes"

section \<open>Documented behaviour\<close>

definition pem_header :: pystr where
  "pem_header = lit ''BEGIN PUBLIC KEY''"

text \<open>\<open>load_pem_public_key\<close> raises \<open>ValueError\<close> or \<open>UnsupportedAlgorithm\<close>.\<close>

definition load_errors_ok :: "('pub, 'priv) crypto \<Rightarrow> bool" where
  "load_errors_ok c \<longleftrightarrow> (\<forall>s e. load_pem_public_key c s = Inl e \<longrightarrow> e \<in> {ValueErr, UnsupportedAlgorithm})"

lemma load_errors_okD:
  "load_pem_public_key c s = Inl e \<Longrightarrow> load_errors_ok c \<Longrightarrow> e = ValueErr \<or> e = UnsupportedAlgorithm"
  by (auto simp: load_errors_ok_def)

text \<open>PEM is ASCII text with the header, and loading it gives the key back.\<close>

definition public_pem_ok :: "('pub, 'priv) crypto \<Rightarrow> bool" where
  "public_pem_ok c \<longleftrightarrow> (\<forall>k. is_ascii (public_pem c k) \<and> contains (public_pem c k) pem_header
     \<and> load_pem_public_key c (public_pem c k) = Inr k)"

definition private_pem_ok :: "('pub, 'priv) crypto \<Rightarrow> bool" where
  "private_pem_ok c \<longleftrightarrow> (\<forall>p. is_ascii (private_pem c p)
     \<and> load_pem_private_key c (private_pem c p) None = Inr p)"

text \<open>A signature is a byte string that the public half accepts for the signed payload.\<close>

definition sign_ok :: "('pub, 'priv) crypto \<Rightarrow> bool" where
  "sign_ok c \<longleftrightarrow> (\<forall>p salt payload rnd. is_rsa_private c p \<longrightarrow>
     is_bytes (pss_sign c p salt payload rnd)
     \<and> pss_verify c (public_of c p) salt (pss_sign c p salt payload rnd) payload)"

definition key_pair_ok :: "('pub, 'priv) crypto \<Rightarrow> bool" where
  "key_pair_ok c \<longleftrightarrow> (\<forall>p. is_rsa_public c (public_of c p) \<longleftrightarrow> is_rsa_private c p)"

text \<open>A generated key is an RSA key of the size asked for; the program asks for 2048 bits.\<close>

definition generate_ok :: "('pub, 'priv) crypto \<Rightarrow> bool" where
  "generate_ok c \<longleftrightarrow> (\<forall>rnd. is_rsa_private c (generate_rsa c 65537 2048 rnd)
     \<and> key_size c (public_of c (generate_rsa c 65537 2048 rnd)) = 2048)"

text \<open>What signing and loading share; the randomness of the signature is arbitrary.\<close>

definition keys_ok :: "('pub, 'priv) crypto \<Rightarrow> bool" where
  "keys_ok c \<longleftrightarrow> public_pem_ok c \<and> sign_ok c \<and> key_pair_ok c"

section \<open>A concrete instance for evaluation\<close>

text \<open>
  Two keys; a signature is the key's tag in front of the payload's bytes. It satisfies the
  documented behaviour, so the hypotheses above can hold together.
\<close>

definition demo_tag :: "bool \<Rightarrow> nat" where
  "demo_tag k = (if k then 65 else 66)"

definition demo_pem :: "bool \<Rightarrow> bytes" where
  "demo_pem k = lit ''BEGIN PUBLIC KEY'' @ [demo_tag k]"

definition demo_load :: "(bool \<Rightarrow> bytes) \<Rightarrow> bytes \<Rightarrow> bool res" where
  "demo_load f s = (if s = f True then Inr True else if s = f False then Inr False else Inl ValueErr)"

definition demo_sign :: "bool \<Rightarrow> bytes \<Rightarrow> bytes" where
  "demo_sign k payload = demo_tag k # map (\<lambda>b. b mod 256) payload"

definition demo_crypto :: "(bool, bool) crypto" where
  "demo_crypto = \<lparr>load_pem_public_key = demo_load demo_pem, is_rsa_public = (\<lambda>k. True),
     key_size = (\<lambda>k. 2048), pss_verify = (\<lambda>k salt s payload. s = demo_sign k payload),
     public_pem = demo_pem, public_der = (\<lambda>k. [demo_tag k]),
     generate_rsa = (\<lambda>e n rnd. rnd = []), public_of = (\<lambda>p. p),
     pss_sign = (\<lambda>p salt payload rnd. demo_sign p payload),
     load_pem_private_key = (\<lambda>s pw. demo_load (\<lambda>k. [demo_tag k]) s),
     is_rsa_private = (\<lambda>p. True), private_pem = (\<lambda>p. [demo_tag p])\<rparr>"

lemma contains_prefix: "contains (p @ s) p"
  using starts_with_append [of p s] by (cases "p @ s") auto

lemma demo_pem_ascii: "is_ascii (demo_pem k)"
  by (simp add: demo_pem_def demo_tag_def lit_def)

lemma demo_pem_eq [simp]: "demo_pem k = demo_pem k' \<longleftrightarrow> k = k'"
  by (simp add: demo_pem_def demo_tag_def)

lemma demo_crypto_ok:
  "load_errors_ok demo_crypto" "public_pem_ok demo_crypto" "private_pem_ok demo_crypto"
  "sign_ok demo_crypto" "key_pair_ok demo_crypto" "generate_ok demo_crypto"
  by (auto simp: load_errors_ok_def public_pem_ok_def private_pem_ok_def sign_ok_def key_pair_ok_def
      generate_ok_def demo_crypto_def demo_load_def demo_pem_ascii pem_header_def demo_sign_def
      demo_tag_def is_bytes_def split: if_splits)
     (simp_all add: demo_pem_def contains_prefix)

lemma demo_keys_ok: "keys_ok demo_crypto"
  by (simp add: keys_ok_def demo_crypto_ok)

end
