(* ===== verification/Protocol_Menu.thy ===== *)
theory Protocol_Menu
  imports Py_Fields
begin

text \<open>
  \<open>protocol.py\<close>: the field readers, \<open>BootMenuEntry\<close> and \<open>BootMenu\<close>. A parsed menu has distinct
  entry ids, a default entry that exists, at most one entry marked as default, and rollback
  entries that are eligible; rendering a menu and parsing it gives the menu back.
\<close>

section \<open>Field readers\<close>

definition require_string :: "obj \<Rightarrow> pystr \<Rightarrow> pystr res" where
  "require_string data key =
     (case py_get data key of
        JStr value \<Rightarrow> if py_strip value = [] then Inl (NlbootError (NotAString key)) else Inr value
      | _ \<Rightarrow> Inl (NlbootError (NotAString key)))"

definition parse_time :: "pystr \<Rightarrow> pystr \<Rightarrow> instant res" where
  "parse_time key value =
     bind_res (or_raise (fromisoformat (normalize_z value)) (NlbootError (NotIsoTime key)))
       (\<lambda>parsed. case parsed of
          Naive l \<Rightarrow> Inl (NlbootError (NoTimezone key))
        | Aware l off \<Rightarrow> or_raise (to_utc l off) OverflowErr)"

interpretation proto_string: string_field require_string "\<lambda>k. NlbootError (NotAString k)"
  by unfold_locales (auto simp: require_string_def nonblank_def split: json.split)

interpretation proto_time: time_field "parse_time key" "NlbootError (NotIsoTime key)"
    "NlbootError (NoTimezone key)" for key
  by unfold_locales (auto simp: parse_time_def split: option.split datetime.split)

section \<open>Boot menu entries\<close>

record boot_menu_entry =
  entry_id :: pystr
  entry_label :: pystr
  entry_boot_release_set_id :: pystr
  entry_release_set_ref :: pystr
  entry_boot_mode :: pystr
  entry_role :: pystr
  entry_default :: bool
  entry_rollback_eligible :: bool

definition boot_modes :: "pystr list" where
  "boot_modes = [lit ''installer'', lit ''recovery'', lit ''ephemeral'', lit ''bootstrap'']"

definition entry_roles :: "pystr list" where
  "entry_roles = [lit ''normal'', lit ''recovery'', lit ''installer'', lit ''rollback'',
     lit ''ephemeral'', lit ''bootstrap'']"

definition entry_from_dict :: "obj \<Rightarrow> boot_menu_entry res" where
  "entry_from_dict data =
     bind_res (require_string data (lit ''entry_id'')) (\<lambda>eid.
     bind_res (require_string data (lit ''label'')) (\<lambda>label.
     bind_res (require_string data (lit ''boot_release_set_id'')) (\<lambda>boot_id.
     bind_res (require_string data (lit ''release_set_ref'')) (\<lambda>release.
     bind_res (require_string data (lit ''boot_mode'')) (\<lambda>mode.
     bind_res (raise_if (mode \<notin> set boot_modes) (NlbootError (EntryBootMode mode))) (\<lambda>_.
     bind_res (require_string data (lit ''role'')) (\<lambda>role.
     bind_res (raise_if (role \<notin> set entry_roles) (NlbootError (EntryRole role))) (\<lambda>_.
     bind_res (expect_bool (NlbootError EntryDefaultNotBool)
                 (get_or data (lit ''default'') (JBool False))) (\<lambda>dflt.
     bind_res (expect_bool (NlbootError EntryRollbackNotBool)
                 (get_or data (lit ''rollback_eligible'') (JBool False))) (\<lambda>eligible.
     bind_res (raise_if (role = lit ''rollback'' \<and> \<not> eligible) (NlbootError RollbackNotEligible)) (\<lambda>_.
     Inr \<lparr>entry_id = eid, entry_label = label, entry_boot_release_set_id = boot_id,
          entry_release_set_ref = release, entry_boot_mode = mode, entry_role = role,
          entry_default = dflt, entry_rollback_eligible = eligible\<rparr>)))))))))))"

definition entry_to_dict :: "boot_menu_entry \<Rightarrow> obj" where
  "entry_to_dict e =
     [(lit ''entry_id'', JStr (entry_id e)),
      (lit ''label'', JStr (entry_label e)),
      (lit ''boot_release_set_id'', JStr (entry_boot_release_set_id e)),
      (lit ''release_set_ref'', JStr (entry_release_set_ref e)),
      (lit ''boot_mode'', JStr (entry_boot_mode e)),
      (lit ''role'', JStr (entry_role e)),
      (lit ''default'', JBool (entry_default e)),
      (lit ''rollback_eligible'', JBool (entry_rollback_eligible e))]"

text \<open>What every parsed entry satisfies.\<close>

definition wf_entry :: "boot_menu_entry \<Rightarrow> bool" where
  "wf_entry e \<longleftrightarrow> nonblank (entry_id e) \<and> nonblank (entry_label e)
     \<and> nonblank (entry_boot_release_set_id e) \<and> nonblank (entry_release_set_ref e)
     \<and> nonblank (entry_boot_mode e) \<and> entry_boot_mode e \<in> set boot_modes
     \<and> nonblank (entry_role e) \<and> entry_role e \<in> set entry_roles
     \<and> (entry_role e = lit ''rollback'' \<longrightarrow> entry_rollback_eligible e)"

lemma entry_from_dict_wf: "entry_from_dict d = Inr e \<Longrightarrow> wf_entry e"
  by (auto simp: entry_from_dict_def wf_entry_def res_simps)

lemma entry_roundtrip: "wf_entry e \<Longrightarrow> entry_from_dict (entry_to_dict e) = Inr e"
  by (simp add: entry_from_dict_def entry_to_dict_def wf_entry_def proto_string.require_found
      raise_if_def)

lemma entry_from_dict_nlboot: "entry_from_dict d = Inl x \<Longrightarrow> \<exists>m. x = NlbootError m"
  by (auto simp: entry_from_dict_def bind_res_Inl_iff proto_string.require_Inl_iff expect_Inl_iff)

interpretation menu_entry: codec entry_to_dict entry_from_dict wf_entry
  by unfold_locales (rule entry_roundtrip)

section \<open>Boot menus\<close>

record boot_menu =
  menu_id :: pystr
  menu_default_entry_id :: pystr
  menu_entries :: "boot_menu_entry list"

text \<open>The loop over \<open>entries_raw\<close> with its two accumulators.\<close>

fun parse_entries :: "json list \<Rightarrow> pystr set \<Rightarrow> boot_menu_entry list
    \<Rightarrow> (pystr set \<times> boot_menu_entry list) res" where
  "parse_entries [] seen entries = Inr (seen, entries)"
| "parse_entries (item # items) seen entries =
     bind_res (expect_obj (NlbootError EntryNotObject) item) (\<lambda>d.
     bind_res (entry_from_dict d) (\<lambda>entry.
     bind_res (raise_if (entry_id entry \<in> seen) (NlbootError (DuplicateEntry (entry_id entry)))) (\<lambda>_.
     parse_entries items (insert (entry_id entry) seen) (entries @ [entry]))))"

definition marked_default :: "boot_menu_entry list \<Rightarrow> pystr list" where
  "marked_default entries = map entry_id (filter entry_default entries)"

definition menu_from_dict :: "obj \<Rightarrow> boot_menu res" where
  "menu_from_dict data =
     bind_res (require_string data (lit ''menu_id'')) (\<lambda>mid.
     bind_res (require_string data (lit ''default_entry_id'')) (\<lambda>did.
     bind_res (expect_list (NlbootError EntriesNotArray) (py_get data (lit ''entries''))) (\<lambda>raw.
     bind_res (raise_if (raw = []) (NlbootError EntriesNotArray)) (\<lambda>_.
     bind_res (parse_entries raw {} []) (\<lambda>(seen, entries).
     bind_res (raise_if (did \<notin> seen) (NlbootError DefaultNotListed)) (\<lambda>_.
     bind_res (raise_if (1 < length (marked_default entries)) (NlbootError ManyDefaults)) (\<lambda>_.
     bind_res (raise_if (marked_default entries \<noteq> [] \<and> hd (marked_default entries) \<noteq> did)
                 (NlbootError DefaultMarkMismatch)) (\<lambda>_.
     Inr \<lparr>menu_id = mid, menu_default_entry_id = did, menu_entries = entries\<rparr>))))))))"

fun find_entry :: "pystr \<Rightarrow> boot_menu_entry list \<Rightarrow> boot_menu_entry res" where
  "find_entry did [] = Inl (NlbootError DefaultMissing)"
| "find_entry did (e # es) = (if entry_id e = did then Inr e else find_entry did es)"

definition default_entry :: "boot_menu \<Rightarrow> boot_menu_entry res" where
  "default_entry m = find_entry (menu_default_entry_id m) (menu_entries m)"

definition menu_to_dict :: "boot_menu \<Rightarrow> obj" where
  "menu_to_dict m =
     [(lit ''menu_id'', JStr (menu_id m)),
      (lit ''default_entry_id'', JStr (menu_default_entry_id m)),
      (lit ''entries'', JList (map (\<lambda>e. JObj (entry_to_dict e)) (menu_entries m)))]"

definition wf_menu :: "boot_menu \<Rightarrow> bool" where
  "wf_menu m \<longleftrightarrow> nonblank (menu_id m) \<and> nonblank (menu_default_entry_id m)
     \<and> list_all wf_entry (menu_entries m) \<and> distinct (map entry_id (menu_entries m))
     \<and> menu_default_entry_id m \<in> entry_id ` set (menu_entries m)
     \<and> (\<forall>e \<in> set (menu_entries m). entry_default e \<longrightarrow> entry_id e = menu_default_entry_id m)"

section \<open>What a parsed menu satisfies\<close>

lemma parse_entries_Inr:
  "parse_entries items seen es = Inr (seen', es') \<Longrightarrow> seen = entry_id ` set es \<Longrightarrow>
     distinct (map entry_id es) \<Longrightarrow>
     \<exists>new. es' = es @ new \<and> length new = length items \<and> seen' = entry_id ` set es'
       \<and> distinct (map entry_id es') \<and> list_all wf_entry new
       \<and> list_all2 (\<lambda>v e. \<exists>d. v = JObj d \<and> entry_from_dict d = Inr e) items new"
proof (induction items arbitrary: seen es)
  case (Cons item items)
  from Cons.prems(1) obtain d e where d: "item = JObj d" "entry_from_dict d = Inr e" "entry_id e \<notin> seen"
    and rest: "parse_entries items (insert (entry_id e) seen) (es @ [e]) = Inr (seen', es')"
    by (auto simp: res_simps)
  have "\<exists>new. es' = (es @ [e]) @ new \<and> length new = length items \<and> seen' = entry_id ` set es'
      \<and> distinct (map entry_id es') \<and> list_all wf_entry new
      \<and> list_all2 (\<lambda>v e. \<exists>d. v = JObj d \<and> entry_from_dict d = Inr e) items new"
    using Cons.prems d by (intro Cons.IH [OF rest]) auto
  then obtain new where "es' = (es @ [e]) @ new" "length new = length items"
    "seen' = entry_id ` set es'" "distinct (map entry_id es')" "list_all wf_entry new"
    "list_all2 (\<lambda>v e. \<exists>d. v = JObj d \<and> entry_from_dict d = Inr e) items new"
    by blast
  with d show ?case
    by (intro exI [of _ "e # new"]) (auto dest: entry_from_dict_wf)
qed auto

lemma marked_default_ok:
  "length (marked_default es) \<le> 1 \<Longrightarrow> (marked_default es \<noteq> [] \<Longrightarrow> hd (marked_default es) = did) \<Longrightarrow>
     e \<in> set es \<Longrightarrow> entry_default e \<Longrightarrow> entry_id e = did"
proof -
  assume len: "length (marked_default es) \<le> 1" and hd: "marked_default es \<noteq> [] \<Longrightarrow> hd (marked_default es) = did"
    and e: "e \<in> set es" "entry_default e"
  then have "entry_id e \<in> set (marked_default es)" by (auto simp: marked_default_def)
  with len hd show ?thesis by (cases "marked_default es") auto
qed

lemma menu_from_dict_wf: "menu_from_dict d = Inr m \<Longrightarrow> wf_menu m"
proof -
  assume "menu_from_dict d = Inr m"
  then obtain raw seen es where
    "nonblank (menu_id m)" "nonblank (menu_default_entry_id m)" "menu_entries m = es"
    "parse_entries raw {} [] = Inr (seen, es)" "menu_default_entry_id m \<in> seen"
    "length (marked_default es) \<le> 1"
    "marked_default es \<noteq> [] \<longrightarrow> hd (marked_default es) = menu_default_entry_id m"
    by (auto simp: menu_from_dict_def res_simps not_less)
  moreover from this have "entry_id e = menu_default_entry_id m" if "e \<in> set es" "entry_default e" for e
    using that marked_default_ok [of es "menu_default_entry_id m" e] by blast
  ultimately show ?thesis using parse_entries_Inr [of raw "{}" "[]" seen es]
    by (auto simp: wf_menu_def)
qed

lemma parse_entries_to_dict:
  "list_all wf_entry es \<Longrightarrow> distinct (map entry_id (acc @ es)) \<Longrightarrow>
     parse_entries (map (\<lambda>e. JObj (entry_to_dict e)) es) (entry_id ` set acc) acc =
       Inr (entry_id ` set (acc @ es), acc @ es)"
proof (induction es arbitrary: acc)
  case (Cons e es)
  then show ?case
    using Cons.IH [of "acc @ [e]"] by (auto simp: entry_roundtrip raise_if_def)
qed simp

lemma filter_default_unique:
  "distinct (map entry_id es) \<Longrightarrow> \<forall>e \<in> set es. entry_default e \<longrightarrow> entry_id e = did \<Longrightarrow>
     marked_default es = [] \<or> marked_default es = [did]"
proof -
  assume "distinct (map entry_id es)" and "\<forall>e \<in> set es. entry_default e \<longrightarrow> entry_id e = did"
  then have "distinct (marked_default es)" "set (marked_default es) \<subseteq> {did}"
    by (auto simp: marked_default_def distinct_map_filter)
  then show ?thesis
    by (cases "marked_default es" rule: remdups_adj.cases) auto
qed

lemma filter_unique:
  "distinct xs \<Longrightarrow> e \<in> set xs \<Longrightarrow> P e \<Longrightarrow> (\<And>x. x \<in> set xs \<Longrightarrow> P x \<Longrightarrow> x = e) \<Longrightarrow> filter P xs = [e]"
proof -
  assume d: "distinct xs" and e: "e \<in> set xs" "P e" and u: "\<And>x. x \<in> set xs \<Longrightarrow> P x \<Longrightarrow> x = e"
  have "x \<in> set (filter P xs) \<longleftrightarrow> x = e" for x using e u [of x] by auto
  then have "set (filter P xs) = {e}" by blast
  then have "length (filter P xs) = 1"
    using distinct_card [OF distinct_filter [OF d, of P]] by simp
  then obtain y where "filter P xs = [y]" by (auto simp: length_Suc_conv)
  with \<open>set (filter P xs) = {e}\<close> show ?thesis by simp
qed

lemma wf_menuD:
  assumes "wf_menu m"
  shows "nonblank (menu_id m)" "nonblank (menu_default_entry_id m)"
    "list_all wf_entry (menu_entries m)" "distinct (map entry_id (menu_entries m))"
    "menu_default_entry_id m \<in> entry_id ` set (menu_entries m)"
    "\<forall>e \<in> set (menu_entries m). entry_default e \<longrightarrow> entry_id e = menu_default_entry_id m"
  using assms by (simp_all add: wf_menu_def)

lemma menu_roundtrip: "wf_menu m \<Longrightarrow> menu_from_dict (menu_to_dict m) = Inr m"
proof -
  assume wf: "wf_menu m"
  note w = wf_menuD [OF wf]
  have "parse_entries (map (\<lambda>e. JObj (entry_to_dict e)) (menu_entries m)) {} [] =
      Inr (entry_id ` set (menu_entries m), menu_entries m)"
    using parse_entries_to_dict [of "menu_entries m" "[]"] w(3,4) by simp
  moreover have "menu_entries m \<noteq> []" using w(5) by auto
  moreover have "marked_default (menu_entries m) = [] \<or>
      marked_default (menu_entries m) = [menu_default_entry_id m]"
    by (rule filter_default_unique [OF w(4,6)])
  then have "\<not> 1 < length (marked_default (menu_entries m))"
    "\<not> (marked_default (menu_entries m) \<noteq> [] \<and>
        hd (marked_default (menu_entries m)) \<noteq> menu_default_entry_id m)"
    by auto
  ultimately show ?thesis using w(1,2,5)
    by (simp add: menu_from_dict_def menu_to_dict_def proto_string.require_found raise_if_def)
qed

interpretation menu: codec menu_to_dict menu_from_dict wf_menu
  by unfold_locales (rule menu_roundtrip)

lemma parse_entries_nlboot: "parse_entries items seen es = Inl x \<Longrightarrow> \<exists>m. x = NlbootError m"
  by (induction items seen es rule: parse_entries.induct)
     (auto simp: bind_res_Inl_iff expect_Inl_iff dest: entry_from_dict_nlboot)

lemma menu_from_dict_nlboot: "menu_from_dict d = Inl x \<Longrightarrow> \<exists>m. x = NlbootError m"
  by (auto simp: menu_from_dict_def bind_res_Inl_iff proto_string.require_Inl_iff expect_Inl_iff
      dest: parse_entries_nlboot)

lemma find_entry_Inr: "find_entry did es = Inr e \<Longrightarrow> e \<in> set es \<and> entry_id e = did"
  by (induction es) (auto split: if_splits)

lemma find_entry_exists: "did \<in> entry_id ` set es \<Longrightarrow> \<exists>e. find_entry did es = Inr e"
  by (induction es) auto

lemma default_entry_wf: "wf_menu m \<Longrightarrow> \<exists>e. default_entry m = Inr e \<and> e \<in> set (menu_entries m)
    \<and> entry_id e = menu_default_entry_id m \<and> wf_entry e"
  using find_entry_exists [of "menu_default_entry_id m" "menu_entries m"]
  by (auto simp: wf_menu_def default_entry_def list_all_iff dest: find_entry_Inr)

section \<open>Properties\<close>

text \<open>A recovery menu with a rollback target, as the examples of the repository have.\<close>

definition sample_entry :: boot_menu_entry where
  "sample_entry = \<lparr>entry_id = lit ''recovery'', entry_label = lit ''Recovery'',
     entry_boot_release_set_id = lit ''urn:srcos:boot-release-set:m2'',
     entry_release_set_ref = lit ''urn:srcos:release-set:m2'',
     entry_boot_mode = lit ''recovery'', entry_role = lit ''recovery'',
     entry_default = True, entry_rollback_eligible = False\<rparr>"

definition sample_rollback_entry :: boot_menu_entry where
  "sample_rollback_entry = \<lparr>entry_id = lit ''rollback'', entry_label = lit ''Last known good'',
     entry_boot_release_set_id = lit ''urn:srcos:boot-release-set:m1'',
     entry_release_set_ref = lit ''urn:srcos:release-set:m1'',
     entry_boot_mode = lit ''recovery'', entry_role = lit ''rollback'',
     entry_default = False, entry_rollback_eligible = True\<rparr>"

definition sample_menu :: boot_menu where
  "sample_menu = \<lparr>menu_id = lit ''menu-1'', menu_default_entry_id = lit ''recovery'',
     menu_entries = [sample_entry, sample_rollback_entry]\<rparr>"

lemma wf_sample_entries: "wf_entry sample_entry" "wf_entry sample_rollback_entry"
  by (simp_all add: wf_entry_def sample_entry_def sample_rollback_entry_def is_space_def
      boot_modes_def entry_roles_def)

lemma wf_sample_menu: "wf_menu sample_menu"
  by (simp add: wf_menu_def sample_menu_def wf_sample_entries is_space_def)
     (simp add: sample_entry_def sample_rollback_entry_def)

text \<open>
  C16. A menu that parses has exactly one entry with the default id; \<open>default_entry\<close> returns it,
  no other entry is marked as default, and every entry of role rollback is rollback eligible.
\<close>

theorem parsed_menu_default:
  assumes "menu_from_dict d = Inr m"
  shows "\<exists>e. default_entry m = Inr e
    \<and> filter (\<lambda>x. entry_id x = menu_default_entry_id m) (menu_entries m) = [e]
    \<and> (\<forall>x \<in> set (menu_entries m). (entry_default x \<longrightarrow> x = e)
         \<and> (entry_role x = lit ''rollback'' \<longrightarrow> entry_rollback_eligible x))"
proof -
  note w = wf_menuD [OF menu_from_dict_wf [OF assms]]
  obtain e where e: "default_entry m = Inr e" "e \<in> set (menu_entries m)" "entry_id e = menu_default_entry_id m"
    using default_entry_wf [OF menu_from_dict_wf [OF assms]] by blast
  have same: "x = e" if "x \<in> set (menu_entries m)" "entry_id x = menu_default_entry_id m" for x
    using that e(2,3) w(4) by (metis distinct_map inj_onD)
  have "filter (\<lambda>x. entry_id x = menu_default_entry_id m) (menu_entries m) = [e]"
    by (rule filter_unique [where P = "\<lambda>x. entry_id x = menu_default_entry_id m",
          OF conjunct1 [OF iffD1 [OF distinct_map w(4)]] e(2,3) same])
  moreover have "entry_default x \<longrightarrow> x = e" if "x \<in> set (menu_entries m)" for x
    using that same w(6) by blast
  moreover have "entry_role x = lit ''rollback'' \<longrightarrow> entry_rollback_eligible x"
    if "x \<in> set (menu_entries m)" for x
    using that w(3) by (auto simp: list_all_iff wf_entry_def)
  ultimately show ?thesis using e(1) by blast
qed

theorem parsed_menu_default_witness:
  "\<exists>e. default_entry sample_menu = Inr e
    \<and> filter (\<lambda>x. entry_id x = menu_default_entry_id sample_menu) (menu_entries sample_menu) = [e]
    \<and> (\<forall>x \<in> set (menu_entries sample_menu). (entry_default x \<longrightarrow> x = e)
         \<and> (entry_role x = lit ''rollback'' \<longrightarrow> entry_rollback_eligible x))"
  by (rule parsed_menu_default [OF menu_roundtrip [OF wf_sample_menu]])

text \<open>
  C17. A menu that parses is rendered by \<open>to_dict\<close> to a document that parses to the same menu.
\<close>

theorem menu_render_parse:
  assumes "menu_from_dict d = Inr m"
  shows "menu_from_dict (menu_to_dict m) = Inr m"
  by (rule menu.decode_encode [OF menu_from_dict_wf [OF assms]])

theorem menu_render_parse_witness:
  "menu_from_dict (menu_to_dict sample_menu) = Inr sample_menu"
  by (rule menu_render_parse [OF menu_roundtrip [OF wf_sample_menu]])

end
