(* ===== verification/Protocol_Manifest.thy ===== *)
theory Protocol_Manifest
  imports Protocol_Menu Py_Repr
begin

text \<open>
  \<open>protocol.py\<close>: \<open>SignedBootManifest\<close>, with the two operations of the menu that read a manifest.
  A parsed manifest names the FIPS-ready algorithm and profile, a supported boot mode, the three
  artifacts, a signature URN, and a menu whose default entry is for this very manifest. Every
  such manifest has a document that parses to it, and parsing fails with \<open>NlbootError\<close> alone.
\<close>

section \<open>The manifest\<close>

definition fips_ready_algorithm :: pystr where
  "fips_ready_algorithm = lit ''rsa-pss-sha256''"

definition fips_ready_profile :: pystr where
  "fips_ready_profile = lit ''fips-140-3-compatible''"

record manifest =
  manifest_id :: pystr
  manifest_boot_release_set_id :: pystr
  manifest_base_release_set_ref :: pystr
  manifest_boot_mode :: pystr
  manifest_artifacts :: "(pystr, pystr) dict"
  manifest_signature_ref :: pystr
  manifest_signer_ref :: pystr
  manifest_signature_algorithm :: pystr
  manifest_crypto_profile :: pystr
  manifest_signature_hex :: pystr
  manifest_boot_menu :: "boot_menu option"

definition matches_manifest :: "boot_menu_entry \<Rightarrow> manifest \<Rightarrow> bool" where
  "matches_manifest e m \<longleftrightarrow>
     entry_boot_release_set_id e = manifest_boot_release_set_id m
     \<and> entry_release_set_ref e = manifest_base_release_set_ref m
     \<and> entry_boot_mode e = manifest_boot_mode m"

definition menu_validate_for_manifest :: "boot_menu \<Rightarrow> manifest \<Rightarrow> unit res" where
  "menu_validate_for_manifest menu m =
     bind_res (default_entry menu) (\<lambda>default.
     raise_if (\<not> matches_manifest default m) (NlbootError DefaultNotForManifest))"

definition required_artifacts :: "pystr list" where
  "required_artifacts = [lit ''kernel_ref'', lit ''initrd_ref'', lit ''rootfs_ref'']"

fun nonempty_str :: "json \<Rightarrow> bool" where
  "nonempty_str (JStr s) = (s \<noteq> [])"
| "nonempty_str v = False"

definition missing_artifacts :: "obj \<Rightarrow> pystr list" where
  "missing_artifacts artifacts =
     sort (filter (\<lambda>k. \<not> nonempty_str (py_get artifacts k)) required_artifacts)"

definition menu_field :: "obj \<Rightarrow> boot_menu option res" where
  "menu_field data =
     (case py_get data (lit ''boot_menu'') of
        JNull \<Rightarrow> Inr None
      | JObj d \<Rightarrow> bind_res (menu_from_dict d) (\<lambda>menu. Inr (Some menu))
      | _ \<Rightarrow> Inl (NlbootError MenuNotObject))"

definition manifest_from_dict :: "obj \<Rightarrow> manifest res" where
  "manifest_from_dict data =
     bind_res (require_string data (lit ''manifest_id'')) (\<lambda>mid.
     bind_res (require_string data (lit ''boot_release_set_id'')) (\<lambda>boot_id.
     bind_res (require_string data (lit ''base_release_set_ref'')) (\<lambda>base.
     bind_res (require_string data (lit ''signature_ref'')) (\<lambda>sig_ref.
     bind_res (require_string data (lit ''signer_ref'')) (\<lambda>signer.
     bind_res (require_string data (lit ''signature_algorithm'')) (\<lambda>alg.
     bind_res (require_string data (lit ''crypto_profile'')) (\<lambda>profile.
     bind_res (require_string data (lit ''signature_hex'')) (\<lambda>sig_hex.
     bind_res (raise_if (alg \<noteq> fips_ready_algorithm) (NlbootError BadAlgorithm)) (\<lambda>_.
     bind_res (raise_if (profile \<noteq> fips_ready_profile) (NlbootError BadProfile)) (\<lambda>_.
     bind_res (require_string data (lit ''boot_mode'')) (\<lambda>mode.
     bind_res (raise_if (mode \<notin> set boot_modes) (NlbootError (ManifestBootMode mode))) (\<lambda>_.
     bind_res (expect_obj (NlbootError ArtifactsNotObject) (py_get data (lit ''artifacts''))) (\<lambda>artifacts.
     bind_res (raise_if (missing_artifacts artifacts \<noteq> [])
                 (NlbootError (ArtifactsMissing (missing_artifacts artifacts)))) (\<lambda>_.
     bind_res (raise_if (\<not> starts_with sig_ref (lit ''urn:srcos:signature:'')) (NlbootError BadSignatureRef)) (\<lambda>_.
     bind_res (menu_field data) (\<lambda>menu.
     let m = \<lparr>manifest_id = mid, manifest_boot_release_set_id = boot_id,
              manifest_base_release_set_ref = base, manifest_boot_mode = mode,
              manifest_artifacts = map (\<lambda>(k, v). (k, py_str v)) artifacts,
              manifest_signature_ref = sig_ref, manifest_signer_ref = signer,
              manifest_signature_algorithm = alg, manifest_crypto_profile = profile,
              manifest_signature_hex = sig_hex, manifest_boot_menu = menu\<rparr>
     in bind_res (case menu of None \<Rightarrow> Inr () | Some bm \<Rightarrow> menu_validate_for_manifest bm m) (\<lambda>_.
     Inr m)))))))))))))))))"

section \<open>What a parsed manifest satisfies\<close>

definition wf_manifest_fields :: "manifest \<Rightarrow> bool" where
  "wf_manifest_fields m \<longleftrightarrow>
     nonblank (manifest_id m) \<and> nonblank (manifest_boot_release_set_id m)
     \<and> nonblank (manifest_base_release_set_ref m) \<and> nonblank (manifest_signer_ref m)
     \<and> nonblank (manifest_signature_hex m)
     \<and> manifest_signature_algorithm m = fips_ready_algorithm
     \<and> manifest_crypto_profile m = fips_ready_profile
     \<and> manifest_boot_mode m \<in> set boot_modes
     \<and> starts_with (manifest_signature_ref m) (lit ''urn:srcos:signature:'')"

definition wf_artifacts :: "(pystr, pystr) dict \<Rightarrow> bool" where
  "wf_artifacts a \<longleftrightarrow> (\<forall>k \<in> set required_artifacts. \<exists>ref. dict_get a k = Some ref \<and> ref \<noteq> [])"

definition wf_manifest_menu :: "manifest \<Rightarrow> bool" where
  "wf_manifest_menu m \<longleftrightarrow>
     (\<forall>menu. manifest_boot_menu m = Some menu \<longrightarrow> wf_menu menu \<and> menu_validate_for_manifest menu m = Inr ())"

definition wf_manifest :: "manifest \<Rightarrow> bool" where
  "wf_manifest m \<longleftrightarrow> wf_manifest_fields m \<and> wf_artifacts (manifest_artifacts m) \<and> wf_manifest_menu m"

lemma nonempty_str_iff: "nonempty_str v \<longleftrightarrow> (\<exists>s. v = JStr s \<and> s \<noteq> [])"
  by (cases v) auto

lemma sort_eq_Nil [simp]: "sort xs = [] \<longleftrightarrow> xs = []"
  by (metis length_0_conv length_sort)

lemma missing_artifacts_Nil:
  "missing_artifacts a = [] \<longleftrightarrow> (\<forall>k \<in> set required_artifacts. nonempty_str (py_get a k))"
  by (auto simp: missing_artifacts_def filter_empty_conv)

lemma dict_get_map: "dict_get (map (\<lambda>(k, v). (k, f v)) d) k = map_option f (dict_get d k)"
  by (induction d) auto

lemma wf_artifacts_map:
  "missing_artifacts a = [] \<Longrightarrow> wf_artifacts (map (\<lambda>(k, v). (k, py_str v)) a)"
  by (fastforce simp: missing_artifacts_Nil wf_artifacts_def dict_get_map nonempty_str_iff get_or_def
      split: option.splits)

lemma menu_validate_Inr_iff:
  "menu_validate_for_manifest menu m = Inr u \<longleftrightarrow>
     (\<exists>e. default_entry menu = Inr e \<and> matches_manifest e m)"
  by (auto simp: menu_validate_for_manifest_def res_simps)

lemma menu_field_wf: "menu_field d = Inr (Some menu) \<Longrightarrow> wf_menu menu"
  by (auto simp: menu_field_def res_simps split: json.splits dest: menu_from_dict_wf)

lemma menu_field_nlboot: "menu_field d = Inl x \<Longrightarrow> \<exists>m. x = NlbootError m"
  by (auto simp: menu_field_def bind_res_Inl_iff split: json.splits dest: menu_from_dict_nlboot)

text \<open>What success means, field by field.\<close>

definition menu_ok :: "manifest \<Rightarrow> bool" where
  "menu_ok m \<longleftrightarrow> (case manifest_boot_menu m of None \<Rightarrow> True | Some menu \<Rightarrow> menu_validate_for_manifest menu m = Inr ())"

definition artifacts_read :: "obj \<Rightarrow> manifest \<Rightarrow> bool" where
  "artifacts_read d m \<longleftrightarrow> (\<exists>a. py_get d (lit ''artifacts'') = JObj a \<and> missing_artifacts a = []
     \<and> manifest_artifacts m = map (\<lambda>(k, v). (k, py_str v)) a)"

lemma manifest_from_dict_iff:
  "manifest_from_dict d = Inr m \<longleftrightarrow>
     require_string d (lit ''manifest_id'') = Inr (manifest_id m)
     \<and> require_string d (lit ''boot_release_set_id'') = Inr (manifest_boot_release_set_id m)
     \<and> require_string d (lit ''base_release_set_ref'') = Inr (manifest_base_release_set_ref m)
     \<and> require_string d (lit ''signature_ref'') = Inr (manifest_signature_ref m)
     \<and> require_string d (lit ''signer_ref'') = Inr (manifest_signer_ref m)
     \<and> require_string d (lit ''signature_algorithm'') = Inr (manifest_signature_algorithm m)
     \<and> require_string d (lit ''crypto_profile'') = Inr (manifest_crypto_profile m)
     \<and> require_string d (lit ''signature_hex'') = Inr (manifest_signature_hex m)
     \<and> manifest_signature_algorithm m = fips_ready_algorithm
     \<and> manifest_crypto_profile m = fips_ready_profile
     \<and> require_string d (lit ''boot_mode'') = Inr (manifest_boot_mode m)
     \<and> manifest_boot_mode m \<in> set boot_modes
     \<and> artifacts_read d m
     \<and> starts_with (manifest_signature_ref m) (lit ''urn:srcos:signature:'')
     \<and> menu_field d = Inr (manifest_boot_menu m)
     \<and> menu_ok m" (is "_ \<longleftrightarrow> ?fields")
proof
  assume "manifest_from_dict d = Inr m"
  then show ?fields
    unfolding manifest_from_dict_def bind_res_Inr_iff raise_if_Inr_iff Let_def
    by (elim exE conjE) (auto simp: artifacts_read_def menu_ok_def expect_Inr_iff split: option.splits)
next
  assume ?fields
  then show "manifest_from_dict d = Inr m"
    by (cases m) (auto simp: manifest_from_dict_def artifacts_read_def menu_ok_def
        simp del: bind_res_Inr_iff split: option.splits)
qed

lemma manifest_from_dict_wf:
  assumes "manifest_from_dict d = Inr m"
  shows "wf_manifest m"
proof -
  note m = assms [unfolded manifest_from_dict_iff]
  from m have "wf_manifest_fields m" by (simp add: wf_manifest_fields_def proto_string.require_Inr_iff)
  moreover from m have "wf_artifacts (manifest_artifacts m)"
    by (auto simp: artifacts_read_def intro: wf_artifacts_map)
  moreover from m have "wf_manifest_menu m"
    by (auto simp: wf_manifest_menu_def menu_ok_def dest: menu_field_wf split: option.splits)
  ultimately show ?thesis by (simp add: wf_manifest_def)
qed

lemma find_entry_nlboot: "find_entry did es = Inl x \<Longrightarrow> \<exists>m. x = NlbootError m"
  by (induction es) (auto split: if_splits)

lemma menu_validate_nlboot: "menu_validate_for_manifest menu m = Inl x \<Longrightarrow> \<exists>msg. x = NlbootError msg"
  by (auto simp: menu_validate_for_manifest_def bind_res_Inl_iff default_entry_def dest: find_entry_nlboot)

lemma manifest_from_dict_nlboot: "manifest_from_dict d = Inl x \<Longrightarrow> \<exists>m. x = NlbootError m"
  by (auto simp: manifest_from_dict_def bind_res_Inl_iff proto_string.require_Inl_iff expect_Inl_iff
      Let_def split: option.splits dest: menu_field_nlboot menu_validate_nlboot)

lemma wf_manifestD:
  assumes "wf_manifest m"
  shows "wf_manifest_fields m" "wf_artifacts (manifest_artifacts m)"
    "manifest_boot_menu m = Some menu \<Longrightarrow> wf_menu menu"
    "manifest_boot_menu m = Some menu \<Longrightarrow> menu_validate_for_manifest menu m = Inr ()"
  using assms by (simp_all add: wf_manifest_def wf_manifest_menu_def)

section \<open>A document for every manifest\<close>

text \<open>
  The document shape a publisher signs: every field under its own key, the menu only when there
  is one. It is the reference against which the parser is complete.
\<close>

definition manifest_doc :: "manifest \<Rightarrow> obj" where
  "manifest_doc m =
     [(lit ''manifest_id'', JStr (manifest_id m)),
      (lit ''boot_release_set_id'', JStr (manifest_boot_release_set_id m)),
      (lit ''base_release_set_ref'', JStr (manifest_base_release_set_ref m)),
      (lit ''boot_mode'', JStr (manifest_boot_mode m)),
      (lit ''artifacts'', JObj (map (\<lambda>(k, v). (k, JStr v)) (manifest_artifacts m))),
      (lit ''signature_ref'', JStr (manifest_signature_ref m)),
      (lit ''signer_ref'', JStr (manifest_signer_ref m)),
      (lit ''signature_algorithm'', JStr (manifest_signature_algorithm m)),
      (lit ''crypto_profile'', JStr (manifest_crypto_profile m)),
      (lit ''signature_hex'', JStr (manifest_signature_hex m))] @
     (case manifest_boot_menu m of None \<Rightarrow> [] | Some menu \<Rightarrow> [(lit ''boot_menu'', JObj (menu_to_dict menu))])"

lemma boot_modes_nonblank: "mode \<in> set boot_modes \<Longrightarrow> nonblank mode"
  by (auto simp: boot_modes_def nonblank_def py_strip_empty_iff lit_def is_space_def)

lemma signature_urn_nonblank: "starts_with s (lit ''urn:srcos:signature:'') \<Longrightarrow> nonblank s"
  by (cases s) (auto simp: starts_with_def nonblank_def py_strip_empty_iff lit_def is_space_def)

lemma fips_ready_nonblank [simp]: "nonblank fips_ready_algorithm" "nonblank fips_ready_profile"
  by (simp_all add: fips_ready_algorithm_def fips_ready_profile_def nonblank_def py_strip_empty_iff
      lit_def is_space_def)

lemma missing_artifacts_doc:
  "wf_artifacts a \<Longrightarrow> missing_artifacts (map (\<lambda>(k, v). (k, JStr v)) a) = []"
  by (auto simp: missing_artifacts_Nil wf_artifacts_def get_or_def dict_get_map)

lemma artifacts_doc_str: "map (\<lambda>(k, v). (k, py_str v)) (map (\<lambda>(k, v). (k, JStr v)) a) = a"
  by (induction a) auto

lemma manifest_doc_gets:
  "py_get (manifest_doc m) (lit ''manifest_id'') = JStr (manifest_id m)"
  "py_get (manifest_doc m) (lit ''boot_release_set_id'') = JStr (manifest_boot_release_set_id m)"
  "py_get (manifest_doc m) (lit ''base_release_set_ref'') = JStr (manifest_base_release_set_ref m)"
  "py_get (manifest_doc m) (lit ''boot_mode'') = JStr (manifest_boot_mode m)"
  "py_get (manifest_doc m) (lit ''artifacts'') = JObj (map (\<lambda>(k, v). (k, JStr v)) (manifest_artifacts m))"
  "py_get (manifest_doc m) (lit ''signature_ref'') = JStr (manifest_signature_ref m)"
  "py_get (manifest_doc m) (lit ''signer_ref'') = JStr (manifest_signer_ref m)"
  "py_get (manifest_doc m) (lit ''signature_algorithm'') = JStr (manifest_signature_algorithm m)"
  "py_get (manifest_doc m) (lit ''crypto_profile'') = JStr (manifest_crypto_profile m)"
  "py_get (manifest_doc m) (lit ''signature_hex'') = JStr (manifest_signature_hex m)"
  "py_get (manifest_doc m) (lit ''boot_menu'') =
     (case manifest_boot_menu m of None \<Rightarrow> JNull | Some menu \<Rightarrow> JObj (menu_to_dict menu))"
  by (simp_all add: manifest_doc_def split: option.split)

lemma manifest_from_doc: "wf_manifest m \<Longrightarrow> manifest_from_dict (manifest_doc m) = Inr m"
proof -
  assume wf: "wf_manifest m"
  note w = wf_manifestD [OF wf]
  have parts: "nonblank (manifest_signature_ref m)" "nonblank (manifest_boot_mode m)"
    using w(1) by (auto simp: wf_manifest_fields_def intro: signature_urn_nonblank boot_modes_nonblank)
  show ?thesis
  proof (cases "manifest_boot_menu m")
    case None
    then show ?thesis using w(1,2) parts
      by (cases m) (simp add: manifest_from_dict_def menu_field_def manifest_doc_gets proto_string.require_found
          wf_manifest_fields_def missing_artifacts_doc artifacts_doc_str del: map_map)
  next
    case (Some menu)
    then have "menu_from_dict (menu_to_dict menu) = Inr menu" "menu_validate_for_manifest menu m = Inr ()"
      using w(3,4) by (auto intro: menu_roundtrip)
    then show ?thesis using w(1,2) parts Some
      by (cases m) (simp add: manifest_from_dict_def menu_field_def manifest_doc_gets proto_string.require_found
          wf_manifest_fields_def missing_artifacts_doc artifacts_doc_str del: map_map)
  qed
qed

interpretation manifest_document: codec manifest_doc manifest_from_dict wf_manifest
  by unfold_locales (rule manifest_from_doc)

section \<open>Properties\<close>

definition sample_manifest :: manifest where
  "sample_manifest = \<lparr>manifest_id = lit ''urn:srcos:boot-manifest:m2'',
     manifest_boot_release_set_id = lit ''urn:srcos:boot-release-set:m2'',
     manifest_base_release_set_ref = lit ''urn:srcos:release-set:m2'',
     manifest_boot_mode = lit ''recovery'',
     manifest_artifacts = [(lit ''kernel_ref'', lit ''k''), (lit ''initrd_ref'', lit ''i''),
       (lit ''rootfs_ref'', lit ''r'')],
     manifest_signature_ref = lit ''urn:srcos:signature:m2'',
     manifest_signer_ref = lit ''urn:srcos:key:root'',
     manifest_signature_algorithm = fips_ready_algorithm,
     manifest_crypto_profile = fips_ready_profile,
     manifest_signature_hex = lit ''00ff'', manifest_boot_menu = Some sample_menu\<rparr>"

lemma wf_sample_manifest: "wf_manifest sample_manifest"
proof -
  have "wf_manifest_fields sample_manifest"
    by (simp add: wf_manifest_fields_def sample_manifest_def is_space_def boot_modes_def
        starts_with_Cons)
  moreover have "wf_artifacts (manifest_artifacts sample_manifest)"
    by (simp add: wf_artifacts_def required_artifacts_def sample_manifest_def)
  moreover have "menu_validate_for_manifest sample_menu sample_manifest = Inr ()"
    by (simp add: menu_validate_Inr_iff default_entry_def sample_menu_def sample_entry_def
        matches_manifest_def sample_manifest_def)
  then have "wf_manifest_menu sample_manifest"
    by (simp add: wf_manifest_menu_def sample_manifest_def wf_sample_menu)
  ultimately show ?thesis by (simp add: wf_manifest_def)
qed

text \<open>
  C14. The parser is complete: every well-formed manifest has a document that parses to it, and
  what parses is well-formed, so the well-formed manifests are exactly the parser's range.
\<close>

theorem manifest_parser_range: "(\<exists>d. manifest_from_dict d = Inr m) \<longleftrightarrow> wf_manifest m"
  using manifest_from_dict_wf manifest_document.decode_encode by blast

text \<open>
  Parsing a manifest document either succeeds or raises \<open>NlbootError\<close>: no document makes it
  raise anything else.
\<close>

theorem manifest_parser_errors:
  "(\<exists>m. manifest_from_dict d = Inr m) \<or> (\<exists>msg. manifest_from_dict d = Inl (NlbootError msg))"
  using manifest_from_dict_nlboot by (cases "manifest_from_dict d") auto

end
