(* ===== verification/Device.thy ===== *)
theory Device
  imports Py_Fields Py_Json_Wf Py_Sha256 Crypto_Lib Protocol_Manifest
begin

text \<open>
  \<open>device.py\<close>: device identities, the fingerprint that names a device, and the self-signed claims a
  device presents. A claim made by an identity verifies; a claim that verifies was signed by the
  key its device id is the fingerprint of, over all its identifying fields.
\<close>

section \<open>Field readers\<close>

definition device_id_prefix :: pystr where
  "device_id_prefix = lit ''urn:srcos:device:''"

definition dev_require_string :: "obj \<Rightarrow> pystr \<Rightarrow> pystr res" where
  "dev_require_string data key =
     (case py_get data key of
        JStr value \<Rightarrow> if py_strip value = [] then Inl (DeviceError (DevNotAString key)) else Inr value
      | _ \<Rightarrow> Inl (DeviceError (DevNotAString key)))"

definition dev_parse_time :: "pystr \<Rightarrow> pystr \<Rightarrow> instant res" where
  "dev_parse_time key value =
     bind_res (or_raise (fromisoformat (normalize_z value)) (DeviceError (DevNotIsoTime key)))
       (\<lambda>parsed. case parsed of
          Naive l \<Rightarrow> Inl (DeviceError (DevNoTimezone key))
        | Aware l off \<Rightarrow> or_raise (to_utc l off) OverflowErr)"

interpretation dev_string: string_field dev_require_string "\<lambda>k. DeviceError (DevNotAString k)"
  by unfold_locales (auto simp: dev_require_string_def nonblank_def split: json.split)

interpretation dev_time: time_field "dev_parse_time key" "DeviceError (DevNotIsoTime key)"
    "DeviceError (DevNoTimezone key)" for key
  by unfold_locales (auto simp: dev_parse_time_def split: option.split datetime.split)

section \<open>Keys and fingerprints\<close>

definition public_key_pem_of :: "('pub, 'priv) crypto \<Rightarrow> 'pub \<Rightarrow> pystr res" where
  "public_key_pem_of c public_key = or_raise (decode_utf8 (public_pem c public_key)) ValueErr"

definition load_public_key :: "('pub, 'priv) crypto \<Rightarrow> pystr \<Rightarrow> 'pub res" where
  "load_public_key c pem =
     bind_res (raise_if (\<not> contains pem pem_header) (DeviceError DevNotPem)) (\<lambda>_.
     bind_res (except_res (bind_res (or_raise (encode_utf8 pem) ValueErr) (load_pem_public_key c))
                 (\<lambda>e. if is_value_error e then Inl (DeviceError DevPemInvalid) else Inl e)) (\<lambda>public_key.
     bind_res (raise_if (\<not> is_rsa_public c public_key) (DeviceError DevNotRsa)) (\<lambda>_.
     bind_res (raise_if (key_size c public_key < 2048) (DeviceError DevKeyTooSmall)) (\<lambda>_.
     Inr public_key))))"

definition device_fingerprint :: "('pub, 'priv) crypto \<Rightarrow> pystr \<Rightarrow> pystr res" where
  "device_fingerprint c pem =
     bind_res (load_public_key c pem) (\<lambda>public_key.
     Inr (device_id_prefix @ lit ''sha256:'' @ sha256_hex (public_der c public_key)))"

section \<open>Identities\<close>

record 'priv device_identity =
  identity_device_id :: pystr
  identity_public_key_pem :: pystr
  identity_private_key :: 'priv

text \<open>What both constructors do with the private key they obtain.\<close>

definition identity_of :: "('pub, 'priv) crypto \<Rightarrow> 'priv \<Rightarrow> 'priv device_identity res" where
  "identity_of c private_key =
     bind_res (public_key_pem_of c (public_of c private_key)) (\<lambda>pem.
     bind_res (device_fingerprint c pem) (\<lambda>did.
     Inr \<lparr>identity_device_id = did, identity_public_key_pem = pem, identity_private_key = private_key\<rparr>))"

definition generate_identity :: "('pub, 'priv) crypto \<Rightarrow> bytes \<Rightarrow> 'priv device_identity res" where
  "generate_identity c rnd = identity_of c (generate_rsa c 65537 2048 rnd)"

definition identity_from_private_key_pem ::
  "('pub, 'priv) crypto \<Rightarrow> pystr \<Rightarrow> bytes option \<Rightarrow> 'priv device_identity res" where
  "identity_from_private_key_pem c pem password =
     bind_res (except_res (bind_res (or_raise (encode_utf8 pem) ValueErr) (\<lambda>s. load_pem_private_key c s password))
                 (\<lambda>e. if is_value_error e \<or> e = TypeErr then Inl (DeviceError DevPrivatePemInvalid) else Inl e))
       (\<lambda>private_key.
     bind_res (raise_if (\<not> is_rsa_private c private_key) (DeviceError DevPrivateNotRsa)) (\<lambda>_.
     identity_of c private_key))"

definition private_key_pem :: "('pub, 'priv) crypto \<Rightarrow> 'priv device_identity \<Rightarrow> pystr res" where
  "private_key_pem c i = or_raise (decode_utf8 (private_pem c (identity_private_key i))) ValueErr"

definition identity_sign :: "('pub, 'priv) crypto \<Rightarrow> 'priv device_identity \<Rightarrow> bytes \<Rightarrow> bytes \<Rightarrow> pystr" where
  "identity_sign c i payload rnd = bytes_hex (pss_sign c (identity_private_key i) 32 payload rnd)"

section \<open>Claims\<close>

record device_claim =
  claim_device_id :: pystr
  claim_public_key_pem :: pystr
  claim_nonce :: pystr
  claim_claimed_at :: instant
  claim_signature_algorithm :: pystr
  claim_crypto_profile :: pystr
  claim_signature_hex :: pystr

definition signing_document :: "pystr \<Rightarrow> pystr \<Rightarrow> pystr \<Rightarrow> instant \<Rightarrow> json" where
  "signing_document did pem nonce claimed_at = JObj
     [(lit ''device_id'', JStr did), (lit ''public_key_pem'', JStr pem), (lit ''nonce'', JStr nonce),
      (lit ''claimed_at'', JStr (isoformat_z claimed_at))]"

definition signing_payload :: "pystr \<Rightarrow> pystr \<Rightarrow> pystr \<Rightarrow> instant \<Rightarrow> bytes res" where
  "signing_payload did pem nonce claimed_at =
     or_raise (encode_utf8 (dumps (signing_document did pem nonce claimed_at))) ValueErr"

definition make_claim ::
  "('pub, 'priv) crypto \<Rightarrow> runtime \<Rightarrow> 'priv device_identity \<Rightarrow> json \<Rightarrow> datetime option \<Rightarrow> bytes
     \<Rightarrow> device_claim res" where
  "make_claim c rt i nonce claimed_at rnd =
     bind_res (expect_string (DeviceError DevNonceEmpty) nonce) (\<lambda>nonce.
     bind_res (raise_if (py_strip nonce = []) (DeviceError DevNonceEmpty)) (\<lambda>_.
     bind_res (current_utc rt claimed_at) (\<lambda>when.
     bind_res (signing_payload (identity_device_id i) (identity_public_key_pem i) nonce when) (\<lambda>payload.
     Inr \<lparr>claim_device_id = identity_device_id i, claim_public_key_pem = identity_public_key_pem i,
          claim_nonce = nonce, claim_claimed_at = when,
          claim_signature_algorithm = fips_ready_algorithm, claim_crypto_profile = fips_ready_profile,
          claim_signature_hex = identity_sign c i payload rnd\<rparr>))))"

definition claim_from_dict :: "obj \<Rightarrow> device_claim res" where
  "claim_from_dict data =
     bind_res (dev_require_string data (lit ''device_id'')) (\<lambda>did.
     bind_res (dev_require_string data (lit ''public_key_pem'')) (\<lambda>pem.
     bind_res (dev_require_string data (lit ''nonce'')) (\<lambda>nonce.
     bind_res (bind_res (dev_require_string data (lit ''claimed_at'')) (dev_parse_time (lit ''claimed_at''))) (\<lambda>claimed_at.
     bind_res (dev_require_string data (lit ''signature_algorithm'')) (\<lambda>alg.
     bind_res (dev_require_string data (lit ''crypto_profile'')) (\<lambda>profile.
     bind_res (dev_require_string data (lit ''signature_hex'')) (\<lambda>sig_hex.
     bind_res (raise_if (alg \<noteq> fips_ready_algorithm) (DeviceError DevAlgorithm)) (\<lambda>_.
     bind_res (raise_if (profile \<noteq> fips_ready_profile) (DeviceError DevProfile)) (\<lambda>_.
     bind_res (raise_if (\<not> starts_with did device_id_prefix) (DeviceError DevIdNotUrn)) (\<lambda>_.
     Inr \<lparr>claim_device_id = did, claim_public_key_pem = pem, claim_nonce = nonce,
          claim_claimed_at = claimed_at, claim_signature_algorithm = alg,
          claim_crypto_profile = profile, claim_signature_hex = sig_hex\<rparr>))))))))))"

definition claim_to_dict :: "device_claim \<Rightarrow> obj" where
  "claim_to_dict m =
     [(lit ''device_id'', JStr (claim_device_id m)),
      (lit ''public_key_pem'', JStr (claim_public_key_pem m)),
      (lit ''nonce'', JStr (claim_nonce m)),
      (lit ''claimed_at'', JStr (isoformat_z (claim_claimed_at m))),
      (lit ''signature_algorithm'', JStr (claim_signature_algorithm m)),
      (lit ''crypto_profile'', JStr (claim_crypto_profile m)),
      (lit ''signature_hex'', JStr (claim_signature_hex m))]"

definition claim_verify :: "('pub, 'priv) crypto \<Rightarrow> device_claim \<Rightarrow> pystr option \<Rightarrow> unit res" where
  "claim_verify c m expected_nonce =
     bind_res (device_fingerprint c (claim_public_key_pem m)) (\<lambda>fingerprint.
     bind_res (raise_if (fingerprint \<noteq> claim_device_id m) (DeviceError DevFingerprintMismatch)) (\<lambda>_.
     bind_res (raise_if (case expected_nonce of None \<Rightarrow> False | Some n \<Rightarrow> claim_nonce m \<noteq> n)
                 (DeviceError DevNonceMismatch)) (\<lambda>_.
     bind_res (load_public_key c (claim_public_key_pem m)) (\<lambda>public_key.
     bind_res (or_raise (fromhex (claim_signature_hex m)) (DeviceError DevSignatureNotHex)) (\<lambda>signature.
     bind_res (signing_payload (claim_device_id m) (claim_public_key_pem m) (claim_nonce m) (claim_claimed_at m))
       (\<lambda>payload.
     raise_if (\<not> pss_verify c public_key 32 signature payload) (DeviceError DevSignatureInvalid)))))))"

section \<open>Keys\<close>

lemma load_public_key_iff:
  "load_public_key c pem = Inr k \<longleftrightarrow> contains pem pem_header \<and>
     (\<exists>s. encode_utf8 pem = Some s \<and> load_pem_public_key c s = Inr k) \<and> is_rsa_public c k \<and> 2048 \<le> key_size c k"
  by (auto simp: load_public_key_def res_simps not_less split: if_splits)

lemma load_public_key_errors:
  "load_errors_ok c \<Longrightarrow> load_public_key c pem = Inl x \<Longrightarrow> (\<exists>m. x = DeviceError m) \<or> x = UnsupportedAlgorithm"
  by (auto simp: load_public_key_def bind_res_Inl_iff except_res_def or_raise_Inl_iff
      split: sum.splits if_splits dest!: load_errors_okD)

lemma load_public_pem:
  assumes "public_pem_ok c" "is_rsa_public c k" "2048 \<le> key_size c k"
  shows "load_public_key c (public_pem c k) = Inr k"
  using assms by (simp add: load_public_key_iff public_pem_ok_def encode_utf8_ascii)

lemma identity_of_ok:
  assumes "keys_ok c" "is_rsa_private c p" "2048 \<le> key_size c (public_of c p)"
  shows "\<exists>i. identity_of c p = Inr i \<and> identity_private_key i = p
    \<and> identity_public_key_pem i = public_pem c (public_of c p)
    \<and> device_fingerprint c (identity_public_key_pem i) = Inr (identity_device_id i)"
proof -
  let ?k = "public_of c p"
  have "is_rsa_public c ?k" "public_pem_ok c" using assms by (simp_all add: keys_ok_def key_pair_ok_def)
  then have "load_public_key c (public_pem c ?k) = Inr ?k" using assms(3) by (simp add: load_public_pem)
  moreover have "public_key_pem_of c ?k = Inr (public_pem c ?k)"
    using \<open>public_pem_ok c\<close> by (simp add: public_key_pem_of_def public_pem_ok_def decode_utf8_ascii)
  ultimately show ?thesis by (simp add: identity_of_def device_fingerprint_def)
qed

section \<open>Payloads\<close>

lemma dump_strings_ascii: "\<forall>v \<in> snd ` set d. \<exists>s. v = JStr s \<Longrightarrow> is_ascii (dump (JObj d))"
proof -
  assume "\<forall>v \<in> snd ` set d. \<exists>s. v = JStr s"
  then have "\<forall>x \<in> set (map (\<lambda>(k, v). dump_str k @ 58 # dump v) d). is_ascii x"
    by (fastforce simp: dump_str_ascii simp del: dump_str_append)
  then show ?thesis by (simp add: is_ascii_join)
qed

lemma signing_payload_Inr:
  "signing_payload did pem nonce t = Inr (dumps (signing_document did pem nonce t))"
proof -
  have "is_ascii (dumps (signing_document did pem nonce t))"
    unfolding dumps_def signing_document_def canon.simps by (rule dump_strings_ascii) auto
  then show ?thesis by (simp add: signing_payload_def encode_utf8_ascii)
qed

lemma wf_str_isoformat_z: "valid_instant t \<Longrightarrow> wf_str (isoformat_z t)"
  using isoformat_z_text [of t] by (auto intro!: wf_str_ascii)

lemma isoformat_z_inj: "valid_instant s \<Longrightarrow> valid_instant t \<Longrightarrow> isoformat_z s = isoformat_z t \<Longrightarrow> s = t"
  by (metis dev_time.parse_isoformat_z sum.inject(2))

definition wf_signing :: "pystr \<Rightarrow> pystr \<Rightarrow> pystr \<Rightarrow> instant \<Rightarrow> bool" where
  "wf_signing did pem nonce t \<longleftrightarrow> wf_str did \<and> wf_str pem \<and> wf_str nonce \<and> valid_instant t"

lemma wf_signing_document: "wf_signing did pem nonce t \<Longrightarrow> wf_json F (signing_document did pem nonce t)"
  by (simp add: signing_document_def wf_signing_def wf_str_isoformat_z) (simp add: wf_str_ascii lit_def)

lemma canon_signing_document:
  "canon (signing_document did pem nonce t) = JObj
     [(lit ''claimed_at'', JStr (isoformat_z t)), (lit ''device_id'', JStr did),
      (lit ''nonce'', JStr nonce), (lit ''public_key_pem'', JStr pem)]"
  by (simp add: signing_document_def lit_def)

lemma signing_payload_inj:
  assumes "wf_signing d1 p1 n1 t1" "wf_signing d2 p2 n2 t2"
    and "signing_payload d1 p1 n1 t1 = signing_payload d2 p2 n2 t2"
  shows "d1 = d2 \<and> p1 = p2 \<and> n1 = n2 \<and> t1 = t2"
proof -
  from assms(3) have "dumps (signing_document d1 p1 n1 t1) = dumps (signing_document d2 p2 n2 t2)"
    by (simp add: signing_payload_Inr)
  then have "canon (signing_document d1 p1 n1 t1) = canon (signing_document d2 p2 n2 t2)"
    using dumps_eq_iff [OF wf_signing_document [OF assms(1)] wf_signing_document [OF assms(2)]] by blast
  then show ?thesis
    using isoformat_z_inj [of t1 t2] assms(1,2) by (simp add: canon_signing_document wf_signing_def)
qed

section \<open>Identities and claims\<close>

definition identity_ok :: "('pub, 'priv) crypto \<Rightarrow> 'priv device_identity \<Rightarrow> bool" where
  "identity_ok c i \<longleftrightarrow> identity_of c (identity_private_key i) = Inr i
     \<and> is_rsa_private c (identity_private_key i)
     \<and> identity_public_key_pem i = public_pem c (public_of c (identity_private_key i))
     \<and> load_public_key c (identity_public_key_pem i) = Inr (public_of c (identity_private_key i))
     \<and> device_fingerprint c (identity_public_key_pem i) = Inr (identity_device_id i)"

lemma identity_okD:
  assumes "identity_ok c i"
  shows "identity_of c (identity_private_key i) = Inr i" "is_rsa_private c (identity_private_key i)"
    "load_public_key c (identity_public_key_pem i) = Inr (public_of c (identity_private_key i))"
    "device_fingerprint c (identity_public_key_pem i) = Inr (identity_device_id i)"
  using assms unfolding identity_ok_def by blast+

lemma identity_of_identity_ok:
  assumes "keys_ok c" "is_rsa_private c p" "identity_of c p = Inr i"
  shows "identity_ok c i"
proof -
  note pem = assms(1) [unfolded keys_ok_def public_pem_ok_def, THEN conjunct1, THEN spec, of "public_of c p"]
  have pem_text: "public_key_pem_of c (public_of c p) = Inr (public_pem c (public_of c p))"
    using pem by (simp add: public_key_pem_of_def decode_utf8_ascii)
  with assms(3) have i: "identity_private_key i = p" "identity_public_key_pem i = public_pem c (public_of c p)"
    "device_fingerprint c (public_pem c (public_of c p)) = Inr (identity_device_id i)"
    by (auto simp: identity_of_def res_simps)
  from i(3) obtain k where k: "load_public_key c (public_pem c (public_of c p)) = Inr k"
    by (auto simp: device_fingerprint_def res_simps)
  then have "k = public_of c p" using pem by (auto simp: load_public_key_iff encode_utf8_ascii)
  with k i assms(2,3) show ?thesis by (simp add: identity_ok_def)
qed

lemma generate_identity_ok:
  "keys_ok c \<Longrightarrow> generate_ok c \<Longrightarrow> generate_identity c rnd = Inr i \<Longrightarrow> identity_ok c i"
  unfolding generate_identity_def by (erule identity_of_identity_ok) (simp_all add: generate_ok_def)

lemma loaded_identity_ok:
  "keys_ok c \<Longrightarrow> identity_from_private_key_pem c pem pw = Inr i \<Longrightarrow> identity_ok c i"
  by (auto simp: identity_from_private_key_pem_def res_simps intro: identity_of_identity_ok split: if_splits)

lemma claim_verify_iff:
  "claim_verify c m n = Inr () \<longleftrightarrow>
     (\<exists>k signature. load_public_key c (claim_public_key_pem m) = Inr k
        \<and> claim_device_id m = device_id_prefix @ lit ''sha256:'' @ sha256_hex (public_der c k)
        \<and> (case n of None \<Rightarrow> True | Some x \<Rightarrow> claim_nonce m = x)
        \<and> fromhex (claim_signature_hex m) = Some signature
        \<and> pss_verify c k 32 signature (dumps (signing_document (claim_device_id m)
             (claim_public_key_pem m) (claim_nonce m) (claim_claimed_at m))))"
  by (auto simp: claim_verify_def device_fingerprint_def signing_payload_Inr res_simps split: option.splits)

lemma claim_verify_errors:
  "load_errors_ok c \<Longrightarrow> claim_verify c m n = Inl x \<Longrightarrow> (\<exists>msg. x = DeviceError msg) \<or> x = UnsupportedAlgorithm"
  using load_public_key_errors [of c "claim_public_key_pem m" x]
  by (auto simp: claim_verify_def device_fingerprint_def signing_payload_Inr bind_res_Inl_iff or_raise_Inl_iff)

lemma make_claim_verifies:
  assumes "keys_ok c" "identity_ok c i" "current_utc rt stamp = Inr when" "nonblank nonce"
  shows "\<exists>m. make_claim c rt i (JStr nonce) stamp rnd = Inr m \<and> claim_device_id m = identity_device_id i
    \<and> claim_nonce m = nonce \<and> claim_claimed_at m = when \<and> claim_verify c m (Some nonce) = Inr ()"
proof -
  let ?p = "dumps (signing_document (identity_device_id i) (identity_public_key_pem i) nonce when)"
  let ?m = "\<lparr>claim_device_id = identity_device_id i, claim_public_key_pem = identity_public_key_pem i,
     claim_nonce = nonce, claim_claimed_at = when, claim_signature_algorithm = fips_ready_algorithm,
     claim_crypto_profile = fips_ready_profile, claim_signature_hex = identity_sign c i ?p rnd\<rparr>"
  have "make_claim c rt i (JStr nonce) stamp rnd = Inr ?m"
    using assms(3,4) by (simp add: make_claim_def signing_payload_Inr nonblank_def)
  moreover have "claim_verify c ?m (Some nonce) = Inr ()"
  proof -
    have "identity_device_id i = device_id_prefix @ lit ''sha256:'' @
        sha256_hex (public_der c (public_of c (identity_private_key i)))"
      using assms(2) by (auto simp: identity_ok_def device_fingerprint_def)
    moreover have "sign_ok c" using assms(1) by (simp add: keys_ok_def)
    then have "is_bytes (pss_sign c (identity_private_key i) 32 ?p rnd)"
      "pss_verify c (public_of c (identity_private_key i)) 32 (pss_sign c (identity_private_key i) 32 ?p rnd) ?p"
      using assms(2) by (simp_all add: sign_ok_def identity_ok_def)
    moreover have "load_public_key c (identity_public_key_pem i) = Inr (public_of c (identity_private_key i))"
      by (rule identity_okD(3) [OF assms(2)])
    ultimately show ?thesis by (simp add: claim_verify_iff identity_sign_def fromhex_bytes_hex)
  qed
  ultimately show ?thesis by (intro exI [of _ ?m]) simp
qed

section \<open>Claim documents\<close>

definition wf_claim :: "device_claim \<Rightarrow> bool" where
  "wf_claim m \<longleftrightarrow> nonblank (claim_device_id m) \<and> starts_with (claim_device_id m) device_id_prefix
     \<and> nonblank (claim_public_key_pem m) \<and> nonblank (claim_nonce m) \<and> valid_instant (claim_claimed_at m)
     \<and> claim_signature_algorithm m = fips_ready_algorithm \<and> claim_crypto_profile m = fips_ready_profile
     \<and> nonblank (claim_signature_hex m)"

lemma claim_from_dict_wf: "claim_from_dict d = Inr m \<Longrightarrow> wf_claim m"
  by (auto simp: claim_from_dict_def wf_claim_def res_simps dest: dev_time.parse_valid)

lemma iso_nonblank: "valid_instant t \<Longrightarrow> nonblank (isoformat_z t)"
  using isoformat_z_text [of t] by (auto intro!: nonblank_hd)

lemma claim_roundtrip: "wf_claim m \<Longrightarrow> claim_from_dict (claim_to_dict m) = Inr m"
  by (cases m) (simp add: claim_from_dict_def claim_to_dict_def wf_claim_def dev_string.require_found
      iso_nonblank dev_time.parse_isoformat_z)

interpretation claim_document: codec claim_to_dict claim_from_dict wf_claim
  by unfold_locales (rule claim_roundtrip)

section \<open>Properties\<close>

definition demo_identity :: "bool device_identity" where
  "demo_identity = \<lparr>identity_device_id = device_id_prefix @ lit ''sha256:'' @ sha256_hex [65],
     identity_public_key_pem = demo_pem True, identity_private_key = True\<rparr>"

lemma demo_load_public_key: "load_public_key demo_crypto (demo_pem k) = Inr k"
  using load_public_pem [OF demo_crypto_ok(2), of k] by (simp add: demo_crypto_def)

lemma demo_identity_generated: "generate_identity demo_crypto [] = Inr demo_identity"
proof -
  have "public_key_pem_of demo_crypto True = Inr (demo_pem True)"
    by (simp add: public_key_pem_of_def demo_crypto_def decode_utf8_ascii demo_pem_ascii)
  moreover have "generate_rsa demo_crypto 65537 2048 [] = True" "public_of demo_crypto True = True"
    "public_der demo_crypto True = [65]" by (simp_all add: demo_crypto_def demo_tag_def)
  ultimately show ?thesis
    by (simp add: generate_identity_def identity_of_def device_fingerprint_def demo_load_public_key demo_identity_def)
qed

lemma demo_identity_ok: "identity_ok demo_crypto demo_identity"
  by (rule generate_identity_ok [OF demo_keys_ok demo_crypto_ok(6) demo_identity_generated])

text \<open>
  C8. A claim made by a generated or loaded identity, for any nonce with a visible character and any
  time that can be read, verifies against that nonce; the claim carries the identity's device id.
\<close>

theorem own_claim_verifies:
  assumes "keys_ok c" and "generate_ok c"
    and "generate_identity c seed = Inr i \<or> identity_from_private_key_pem c pem password = Inr i"
    and "current_utc rt stamp = Inr when" and "nonblank nonce"
  shows "\<exists>m. make_claim c rt i (JStr nonce) stamp rnd = Inr m \<and> claim_device_id m = identity_device_id i
    \<and> claim_verify c m (Some nonce) = Inr ()"
  using make_claim_verifies [OF assms(1) _ assms(4,5)] generate_identity_ok [OF assms(1,2)]
    loaded_identity_ok [OF assms(1)] assms(3) by blast

theorem own_claim_verifies_witness:
  "\<exists>m. make_claim demo_crypto sample_runtime demo_identity (JStr (lit ''nonce-1'')) None [] = Inr m
    \<and> claim_verify demo_crypto m (Some (lit ''nonce-1'')) = Inr ()"
  using own_claim_verifies [OF demo_keys_ok demo_crypto_ok(6) disjI1 [OF demo_identity_generated],
      of sample_runtime None "wall_clock sample_runtime" "lit ''nonce-1''" "[]"]
  by (auto simp: is_space_def)

text \<open>
  Generating an identity always succeeds, and its device id is the prefix \<open>urn:srcos:device:\<close>, the
  word \<open>sha256:\<close> and the SHA-256 digest of the key's DER bytes.
\<close>

theorem generated_identity_named_by_key:
  assumes "keys_ok c" and "generate_ok c"
  shows "\<exists>i. generate_identity c seed = Inr i
    \<and> identity_device_id i = lit ''urn:srcos:device:sha256:'' @
        sha256_hex (public_der c (public_of c (identity_private_key i)))"
proof -
  from assms(2) have "is_rsa_private c (generate_rsa c 65537 2048 seed)"
    "2048 \<le> key_size c (public_of c (generate_rsa c 65537 2048 seed))" by (simp_all add: generate_ok_def)
  from identity_of_ok [OF assms(1) this] obtain i where i: "generate_identity c seed = Inr i"
    unfolding generate_identity_def by blast
  from generate_identity_ok [OF assms i] have "load_public_key c (identity_public_key_pem i) =
      Inr (public_of c (identity_private_key i))"
    "device_fingerprint c (identity_public_key_pem i) = Inr (identity_device_id i)"
    by (simp_all add: identity_okD)
  with i lit_append [of "''urn:srcos:device:''" "''sha256:''"] show ?thesis
    by (auto simp: device_fingerprint_def device_id_prefix_def)
qed

theorem generated_identity_named_by_key_witness:
  "\<exists>i. generate_identity demo_crypto [1] = Inr i"
  using generated_identity_named_by_key [OF demo_keys_ok demo_crypto_ok(6)] by blast

text \<open>
  A private key survives export: the PEM text of an identity loads, without a password, to the
  same identity, device id and public key included.
\<close>

theorem private_key_roundtrip:
  assumes "keys_ok c" and "private_pem_ok c" and "identity_from_private_key_pem c pem password = Inr i"
  shows "\<exists>text. private_key_pem c i = Inr text \<and> identity_from_private_key_pem c text None = Inr i"
proof -
  note ok = loaded_identity_ok [OF assms(1,3)]
  let ?t = "private_pem c (identity_private_key i)"
  from assms(2) have "is_ascii ?t" "load_pem_private_key c ?t None = Inr (identity_private_key i)"
    by (simp_all add: private_pem_ok_def)
  with ok show ?thesis
    by (simp add: private_key_pem_def identity_from_private_key_pem_def decode_utf8_ascii encode_utf8_ascii
        identity_ok_def)
qed

lemma demo_identity_loaded: "identity_from_private_key_pem demo_crypto [65] None = Inr demo_identity"
proof -
  have "load_pem_private_key demo_crypto [65] None = Inr True" "is_rsa_private demo_crypto True"
    by (simp_all add: demo_crypto_def demo_load_def demo_tag_def)
  then show ?thesis using demo_identity_ok
    by (simp add: identity_from_private_key_pem_def encode_utf8_ascii identity_ok_def demo_identity_def)
qed

theorem private_key_roundtrip_witness:
  "\<exists>text. private_key_pem demo_crypto demo_identity = Inr text
    \<and> identity_from_private_key_pem demo_crypto text None = Inr demo_identity"
  by (rule private_key_roundtrip [OF demo_keys_ok demo_crypto_ok(3) demo_identity_loaded])

text \<open>
  C9. \<open>verify\<close> accepts a claim exactly when its PEM loads to an RSA key of at least 2048 bits, its
  device id is that key's fingerprint, its nonce is the expected one if any, and the key verifies
  its signature over the canonical text of its device id, PEM, nonce and time.
\<close>

theorem claim_verification_exact:
  "claim_verify c m n = Inr () \<longleftrightarrow>
     (\<exists>k signature. load_public_key c (claim_public_key_pem m) = Inr k
        \<and> is_rsa_public c k \<and> 2048 \<le> key_size c k
        \<and> device_fingerprint c (claim_public_key_pem m) = Inr (claim_device_id m)
        \<and> (case n of None \<Rightarrow> True | Some x \<Rightarrow> claim_nonce m = x)
        \<and> fromhex (claim_signature_hex m) = Some signature
        \<and> pss_verify c k 32 signature (dumps (signing_document (claim_device_id m)
             (claim_public_key_pem m) (claim_nonce m) (claim_claimed_at m))))"
  unfolding claim_verify_iff device_fingerprint_def using load_public_key_iff by fastforce

text \<open>
  When the key loader fails as documented, \<open>verify\<close> fails with \<open>DeviceError\<close>, or lets
  \<open>UnsupportedAlgorithm\<close> through; rendering and encoding the payload cannot fail.
\<close>

theorem claim_verification_errors:
  assumes "load_errors_ok c" and "claim_verify c m n = Inl x"
  shows "(\<exists>msg. x = DeviceError msg) \<or> x = UnsupportedAlgorithm"
  by (rule claim_verify_errors [OF assms])

definition demo_bad_claim :: device_claim where
  "demo_bad_claim = \<lparr>claim_device_id = [], claim_public_key_pem = [], claim_nonce = [],
     claim_claimed_at = sample_time, claim_signature_algorithm = [], claim_crypto_profile = [],
     claim_signature_hex = []\<rparr>"

theorem claim_verification_errors_witness:
  "\<exists>msg. DeviceError DevNotPem = DeviceError msg"
proof -
  have "claim_verify demo_crypto demo_bad_claim None = Inl (DeviceError DevNotPem)"
    by (simp add: claim_verify_def device_fingerprint_def load_public_key_def demo_bad_claim_def
        pem_header_def)
  from claim_verification_errors [OF demo_crypto_ok(1) this] show ?thesis by simp
qed

text \<open>
  C24. The signed text of a claim determines the device id, the key, the nonce and the time, and is
  determined by them: over well-formed strings, two payloads are equal exactly when all four agree.
\<close>

theorem claim_payload_binds:
  assumes "wf_str d1" and "wf_str p1" and "wf_str n1" and "valid_instant t1"
    and "wf_str d2" and "wf_str p2" and "wf_str n2" and "valid_instant t2"
  shows "signing_payload d1 p1 n1 t1 = signing_payload d2 p2 n2 t2 \<longleftrightarrow>
    d1 = d2 \<and> p1 = p2 \<and> n1 = n2 \<and> t1 = t2"
  using signing_payload_inj [of d1 p1 n1 t1 d2 p2 n2 t2] assms by (auto simp: wf_signing_def)

theorem claim_payload_binds_witness:
  "signing_payload [] [] [97] sample_time \<noteq> signing_payload [] [] [98] sample_time"
  using claim_payload_binds [of "[]" "[]" "[97]" sample_time "[]" "[]" "[98]" sample_time]
  by (simp add: wf_str_def sample_time_def valid_instant_def in_range_def max_micros_def)

text \<open>
  C25. A fingerprint is \<open>urn:srcos:device:sha256:\<close> followed by 64 lowercase hexadecimal digits, whatever
  the key.
\<close>

theorem fingerprint_shape:
  assumes "device_fingerprint c pem = Inr f"
  shows "\<exists>digest. f = lit ''urn:srcos:device:sha256:'' @ digest \<and> length digest = 64
    \<and> (\<forall>x \<in> set digest. is_lower_hex x)"
proof -
  from assms obtain k where "f = device_id_prefix @ lit ''sha256:'' @ sha256_hex (public_der c k)"
    by (auto simp: device_fingerprint_def res_simps)
  then have "f = lit ''urn:srcos:device:sha256:'' @ sha256_hex (public_der c k)"
    using lit_append [of "''urn:srcos:device:''" "''sha256:''"] by (simp add: device_id_prefix_def)
  then show ?thesis using sha256_hex_lower [of _ "public_der c k"]
    by (intro exI [of _ "sha256_hex (public_der c k)"]) simp
qed

theorem fingerprint_shape_witness:
  "\<exists>digest. identity_device_id demo_identity = lit ''urn:srcos:device:sha256:'' @ digest \<and> length digest = 64"
proof -
  have "device_fingerprint demo_crypto (demo_pem True) = Inr (identity_device_id demo_identity)"
    using identity_okD(4) [OF demo_identity_ok] by (simp add: demo_identity_def)
  from fingerprint_shape [OF this] show ?thesis by blast
qed

text \<open>
  A claim that parses is rendered by \<open>to_dict\<close> to a document that parses to the same claim, its
  time included.
\<close>

theorem claim_render_parse:
  assumes "claim_from_dict d = Inr m"
  shows "claim_from_dict (claim_to_dict m) = Inr m"
  by (rule claim_document.decode_encode [OF claim_from_dict_wf [OF assms]])

definition sample_claim :: device_claim where
  "sample_claim = \<lparr>claim_device_id = device_id_prefix, claim_public_key_pem = lit ''p'',
     claim_nonce = lit ''n'', claim_claimed_at = sample_time,
     claim_signature_algorithm = fips_ready_algorithm, claim_crypto_profile = fips_ready_profile,
     claim_signature_hex = lit ''00''\<rparr>"

lemma wf_sample_claim: "wf_claim sample_claim"
  by (simp add: wf_claim_def sample_claim_def device_id_prefix_def is_space_def starts_with_Cons
      sample_time_def valid_instant_def in_range_def max_micros_def)

theorem claim_render_parse_witness:
  "claim_from_dict (claim_to_dict sample_claim) = Inr sample_claim"
  by (rule claim_render_parse [OF claim_roundtrip [OF wf_sample_claim]])

end
