(* ===== verification/Protocol_Token.thy ===== *)
theory Protocol_Token
  imports Protocol_Manifest Py_Fields
begin

text \<open>
  \<open>protocol.py\<close>: \<open>EnrollmentToken\<close>. A token is admitted for a manifest exactly when it is issued,
  unexpired, one-time, bound to the manifest's two release references, and of a purpose its boot
  mode allows. The two reference fields are kept as the JSON values the document holds: the code
  reads them unchecked and only ever compares them.
\<close>

section \<open>The token\<close>

record token =
  token_id :: pystr
  token_purpose :: pystr
  token_subject_kind :: pystr
  token_subject_id :: "pystr option"
  token_release_set_ref :: json
  token_boot_release_set_ref :: json
  token_one_time_use :: bool
  token_issued_at :: instant
  token_expires_at :: instant
  token_status :: pystr

definition token_purposes :: "pystr list" where
  "token_purposes = [lit ''enroll'', lit ''boot'', lit ''repair'', lit ''recovery'']"

definition token_statuses :: "pystr list" where
  "token_statuses = [lit ''issued'', lit ''redeemed'', lit ''expired'', lit ''revoked'']"

definition token_from_dict :: "obj \<Rightarrow> token res" where
  "token_from_dict data =
     bind_res (require_string data (lit ''token_id'')) (\<lambda>tid.
     bind_res (require_string data (lit ''purpose'')) (\<lambda>purpose.
     bind_res (raise_if (purpose \<notin> set token_purposes) (NlbootError (UnsupportedPurpose purpose))) (\<lambda>_.
     bind_res (expect_obj (NlbootError AudienceNotObject) (py_get data (lit ''audience''))) (\<lambda>audience.
     bind_res (require_string audience (lit ''subject_kind'')) (\<lambda>kind.
     bind_res (expect_opt_string (NlbootError SubjectIdNotString)
                 (py_get audience (lit ''subject_id''))) (\<lambda>subject.
     bind_res (bind_res (require_string data (lit ''issued_at'')) (parse_time (lit ''issued_at''))) (\<lambda>issued.
     bind_res (bind_res (require_string data (lit ''expires_at'')) (parse_time (lit ''expires_at''))) (\<lambda>expires.
     bind_res (expect_bool (NlbootError OneTimeUseNotBool) (py_get data (lit ''one_time_use''))) (\<lambda>one_time.
     bind_res (require_string data (lit ''status'')) (\<lambda>status.
     bind_res (raise_if (status \<notin> set token_statuses) (NlbootError (UnsupportedStatus status))) (\<lambda>_.
     Inr \<lparr>token_id = tid, token_purpose = purpose, token_subject_kind = kind,
          token_subject_id = subject, token_release_set_ref = py_get data (lit ''release_set_ref''),
          token_boot_release_set_ref = py_get data (lit ''boot_release_set_ref''),
          token_one_time_use = one_time, token_issued_at = issued, token_expires_at = expires,
          token_status = status\<rparr>)))))))))))"

text \<open>The table \<open>purpose_by_mode\<close>; a mode outside it is a \<open>KeyError\<close>.\<close>

definition valid_purposes :: "pystr \<Rightarrow> pystr list option" where
  "valid_purposes = map_of
     [(lit ''recovery'', [lit ''recovery'', lit ''repair'']),
      (lit ''installer'', [lit ''enroll'', lit ''boot'']),
      (lit ''ephemeral'', [lit ''boot'']),
      (lit ''bootstrap'', [lit ''enroll'', lit ''boot''])]"

definition token_validate_for_manifest ::
  "runtime \<Rightarrow> token \<Rightarrow> manifest \<Rightarrow> datetime option \<Rightarrow> unit res" where
  "token_validate_for_manifest rt t m now =
     bind_res (current_utc rt now) (\<lambda>current.
     bind_res (raise_if (token_status t \<noteq> lit ''issued'') (NlbootError (TokenNotIssued (token_status t)))) (\<lambda>_.
     bind_res (raise_if (token_expires_at t \<le> current) (NlbootError TokenExpired)) (\<lambda>_.
     bind_res (raise_if (\<not> token_one_time_use t) (NlbootError TokenNotOneTime)) (\<lambda>_.
     bind_res (raise_if (token_boot_release_set_ref t \<noteq> JStr (manifest_boot_release_set_id m))
                 (NlbootError TokenBootRefMismatch)) (\<lambda>_.
     bind_res (raise_if (token_release_set_ref t \<noteq> JStr (manifest_base_release_set_ref m))
                 (NlbootError TokenReleaseRefMismatch)) (\<lambda>_.
     bind_res (or_raise (valid_purposes (manifest_boot_mode m)) (KeyErr (manifest_boot_mode m))) (\<lambda>allowed.
     raise_if (token_purpose t \<notin> set allowed)
       (NlbootError (TokenPurposeInvalid (token_purpose t) (manifest_boot_mode m))))))))))"

section \<open>What a parsed token satisfies\<close>

definition wf_token :: "token \<Rightarrow> bool" where
  "wf_token t \<longleftrightarrow> nonblank (token_id t) \<and> nonblank (token_subject_kind t)
     \<and> token_purpose t \<in> set token_purposes \<and> token_status t \<in> set token_statuses
     \<and> valid_instant (token_issued_at t) \<and> valid_instant (token_expires_at t)"

lemma token_from_dict_wf: "token_from_dict d = Inr t \<Longrightarrow> wf_token t"
  by (auto simp: token_from_dict_def wf_token_def res_simps dest: proto_time.parse_valid)

text \<open>An exception is of the class the program documents, or the overflow of \<open>astimezone\<close>.\<close>

definition nlboot_or_overflow :: "exn \<Rightarrow> bool" where
  "nlboot_or_overflow x \<longleftrightarrow> (\<exists>m. x = NlbootError m) \<or> x = OverflowErr"

lemma nlboot_or_overflow_simps [simp]: "nlboot_or_overflow (NlbootError m)" "nlboot_or_overflow OverflowErr"
  by (simp_all add: nlboot_or_overflow_def)

lemma parse_time_errors: "parse_time k s = Inl e \<Longrightarrow> nlboot_or_overflow e"
  by (drule proto_time.parse_errors) auto

lemma parse_time_overflow:
  assumes "parse_time k s = Inl OverflowErr"
  shows "\<exists>l off. fromisoformat (normalize_z s) = Some (Aware l off) \<and> \<not> in_range (l - off)"
proof -
  from assms obtain x where x: "fromisoformat (normalize_z s) = Some x"
    by (cases "fromisoformat (normalize_z s)") (auto simp: parse_time_def)
  with assms show ?thesis
    by (cases x) (auto simp: parse_time_def to_utc_def or_raise_Inl_iff split: if_splits)
qed

lemma early_text_nonblank: "nonblank early_text"
  by (simp add: early_text_def is_space_def)

lemma early_text_overflows: "parse_time k early_text = Inl OverflowErr"
  by (rule proto_time.parse_overflow [of _ 0 3600000000])
     (simp_all add: normalize_early fromisoformat_early in_range_def)

lemma token_from_dict_errors: "token_from_dict d = Inl x \<Longrightarrow> nlboot_or_overflow x"
  by (auto simp: token_from_dict_def bind_res_Inl_iff proto_string.require_Inl_iff expect_Inl_iff
      dest: parse_time_errors expect_opt_string_Inl)

section \<open>When a token is admitted\<close>

text \<open>
  The contract of the validation, without its order of checks: what must hold of the token,
  the manifest and the time.
\<close>

definition purpose_allowed :: "pystr \<Rightarrow> pystr \<Rightarrow> bool" where
  "purpose_allowed mode purpose \<longleftrightarrow>
     (mode = lit ''recovery'' \<and> purpose \<in> {lit ''recovery'', lit ''repair''})
     \<or> (mode \<in> {lit ''installer'', lit ''bootstrap''} \<and> purpose \<in> {lit ''enroll'', lit ''boot''})
     \<or> (mode = lit ''ephemeral'' \<and> purpose = lit ''boot'')"

definition token_admits :: "token \<Rightarrow> manifest \<Rightarrow> instant \<Rightarrow> bool" where
  "token_admits t m current \<longleftrightarrow>
     token_status t = lit ''issued'' \<and> current < token_expires_at t \<and> token_one_time_use t
     \<and> token_boot_release_set_ref t = JStr (manifest_boot_release_set_id m)
     \<and> token_release_set_ref t = JStr (manifest_base_release_set_ref m)
     \<and> purpose_allowed (manifest_boot_mode m) (token_purpose t)"

lemma purpose_allowed_iff:
  "purpose_allowed mode purpose \<longleftrightarrow> (\<exists>allowed. valid_purposes mode = Some allowed \<and> purpose \<in> set allowed)"
  by (auto simp: purpose_allowed_def valid_purposes_def)

lemma valid_purposes_dom: "(\<exists>allowed. valid_purposes mode = Some allowed) \<longleftrightarrow> mode \<in> set boot_modes"
  by (auto simp: valid_purposes_def boot_modes_def)

lemma token_validate_iff:
  "token_validate_for_manifest rt t m now = Inr () \<longleftrightarrow>
     (\<exists>current. current_utc rt now = Inr current \<and> token_admits t m current)"
  by (auto simp: token_validate_for_manifest_def token_admits_def purpose_allowed_iff res_simps not_le)

lemma token_validate_nlboot:
  "token_validate_for_manifest rt t m now = Inl x \<Longrightarrow> current_utc rt now = Inr current \<Longrightarrow>
     manifest_boot_mode m \<in> set boot_modes \<Longrightarrow> \<exists>msg. x = NlbootError msg"
  using valid_purposes_dom [of "manifest_boot_mode m"]
  by (auto simp: token_validate_for_manifest_def bind_res_Inl_iff or_raise_Inl_iff)

text \<open>An expired token stays expired, and an admitted one was admitted at every earlier time.\<close>

lemma token_admits_earlier: "token_admits t m current \<Longrightarrow> earlier \<le> current \<Longrightarrow> token_admits t m earlier"
  by (auto simp: token_admits_def)

text \<open>A token's purpose decides between recovery and provisioning: no token serves both.\<close>

lemma purpose_separates:
  "purpose_allowed (lit ''recovery'') p \<Longrightarrow> mode \<noteq> lit ''recovery'' \<Longrightarrow> \<not> purpose_allowed mode p"
  by (auto simp: purpose_allowed_def)

section \<open>A document for every token\<close>

definition subject_json :: "pystr option \<Rightarrow> json" where
  "subject_json s = (case s of None \<Rightarrow> JNull | Some x \<Rightarrow> JStr x)"

definition token_doc :: "token \<Rightarrow> obj" where
  "token_doc t =
     [(lit ''token_id'', JStr (token_id t)),
      (lit ''purpose'', JStr (token_purpose t)),
      (lit ''audience'', JObj [(lit ''subject_kind'', JStr (token_subject_kind t)),
                               (lit ''subject_id'', subject_json (token_subject_id t))]),
      (lit ''release_set_ref'', token_release_set_ref t),
      (lit ''boot_release_set_ref'', token_boot_release_set_ref t),
      (lit ''one_time_use'', JBool (token_one_time_use t)),
      (lit ''issued_at'', JStr (isoformat_z (token_issued_at t))),
      (lit ''expires_at'', JStr (isoformat_z (token_expires_at t))),
      (lit ''status'', JStr (token_status t))]"

lemma isoformat_z_nonblank: "valid_instant t \<Longrightarrow> nonblank (isoformat_z t)"
  using isoformat_z_text [of t] by (auto intro!: nonblank_hd)

lemma token_words_nonblank:
  "w \<in> set token_purposes \<Longrightarrow> nonblank w" "w \<in> set token_statuses \<Longrightarrow> nonblank w"
  by (auto simp: token_purposes_def token_statuses_def nonblank_def py_strip_empty_iff lit_def is_space_def)

lemma token_from_doc: "wf_token t \<Longrightarrow> token_from_dict (token_doc t) = Inr t"
  by (cases t) (auto simp: token_from_dict_def token_doc_def wf_token_def subject_json_def
      proto_string.require_found token_words_nonblank isoformat_z_nonblank
      proto_time.parse_isoformat_z split: option.split)

interpretation token_document: codec token_doc token_from_dict wf_token
  by unfold_locales (rule token_from_doc)

section \<open>Properties\<close>

definition sample_expiry :: instant where
  "sample_expiry = Instant 63870000900000000"

definition sample_token :: token where
  "sample_token = \<lparr>token_id = lit ''urn:srcos:enrollment-token:m2'', token_purpose = lit ''recovery'',
     token_subject_kind = lit ''device'', token_subject_id = None,
     token_release_set_ref = JStr (lit ''urn:srcos:release-set:m2''),
     token_boot_release_set_ref = JStr (lit ''urn:srcos:boot-release-set:m2''),
     token_one_time_use = True, token_issued_at = sample_time, token_expires_at = sample_expiry,
     token_status = lit ''issued''\<rparr>"

lemma valid_sample_times [simp]: "valid_instant sample_time" "valid_instant sample_expiry"
  by (simp_all add: sample_time_def sample_expiry_def valid_instant_def in_range_def max_micros_def)

lemma sample_expiry_later: "sample_time < sample_expiry"
  by (simp add: sample_time_def sample_expiry_def)

lemma wf_sample_token: "wf_token sample_token"
  by (simp add: wf_token_def sample_token_def is_space_def token_purposes_def token_statuses_def)

lemma sample_token_admits: "token_admits sample_token sample_manifest sample_time"
  by (simp add: token_admits_def sample_token_def sample_manifest_def sample_expiry_later purpose_allowed_def)

text \<open>
  \<open>validate_for_manifest\<close> succeeds exactly when the current time can be determined and at that
  time the token is issued, unexpired, one-time, bound to the manifest's boot release and base
  release, and of a purpose the boot mode allows.
\<close>

theorem token_validation_exact:
  "token_validate_for_manifest rt t m now = Inr () \<longleftrightarrow>
     (\<exists>current. current_utc rt now = Inr current
        \<and> token_status t = lit ''issued'' \<and> current < token_expires_at t \<and> token_one_time_use t
        \<and> token_boot_release_set_ref t = JStr (manifest_boot_release_set_id m)
        \<and> token_release_set_ref t = JStr (manifest_base_release_set_ref m)
        \<and> purpose_allowed (manifest_boot_mode m) (token_purpose t))"
  unfolding token_validate_iff token_admits_def by blast

text \<open>
  No token serves both recovery and another mode: when it is admitted for a recovery manifest
  at some time, then it is refused at every time for every manifest of another mode.
\<close>

theorem token_purposes_disjoint:
  assumes "token_validate_for_manifest rt t m now = Inr ()"
    and "manifest_boot_mode m = lit ''recovery''" and "manifest_boot_mode m' \<noteq> lit ''recovery''"
  shows "token_validate_for_manifest rt' t m' now' \<noteq> Inr ()"
  using assms purpose_separates by (auto simp: token_validate_iff token_admits_def)

theorem token_purposes_disjoint_witness:
  "token_validate_for_manifest sample_runtime sample_token
     (sample_manifest\<lparr>manifest_boot_mode := lit ''installer''\<rparr>) (utc_now sample_time) \<noteq> Inr ()"
proof (rule token_purposes_disjoint)
  show "token_validate_for_manifest sample_runtime sample_token sample_manifest (utc_now sample_time) = Inr ()"
    using sample_token_admits by (simp add: token_validate_iff)
qed (simp_all add: sample_manifest_def)

text \<open>
  C15. When the token parser fails, it raises \<open>NlbootError\<close>, or it lets the \<open>OverflowError\<close> of
  \<open>astimezone\<close> through because one of the two timestamps, correct as ISO-8601, has an offset that
  takes it out of the calendar.
\<close>

theorem token_parser_errors:
  assumes "token_from_dict d = Inl x"
  shows "(\<exists>msg. x = NlbootError msg) \<or>
    (x = OverflowErr \<and> (\<exists>k \<in> {lit ''issued_at'', lit ''expires_at''}. \<exists>s l off. py_get d k = JStr s
       \<and> fromisoformat (normalize_z s) = Some (Aware l off) \<and> \<not> in_range (l - off)))"
proof (cases "x = OverflowErr")
  case True
  with assms obtain k where "k \<in> {lit ''issued_at'', lit ''expires_at''}"
    "bind_res (require_string d k) (parse_time k) = Inl OverflowErr"
    by (auto simp: token_from_dict_def bind_res_Inl_iff proto_string.require_Inl_iff expect_Inl_iff
        dest: expect_opt_string_Inl)
  with True show ?thesis
    by (auto simp: bind_res_Inl_iff proto_string.require_Inl_iff res_simps dest: parse_time_overflow)
next
  case False
  with token_from_dict_errors [OF assms] show ?thesis by (simp add: nlboot_or_overflow_def)
qed

text \<open>
  The overflow is reachable: a token that is well-formed but for an \<open>expires_at\<close> of
  \<open>0001-01-01T00:00:00+01:00\<close> makes the parser raise \<open>OverflowError\<close>, which is no \<open>ValueError\<close>.
\<close>

theorem token_overflow_escapes:
  assumes "wf_token t"
  shows "token_from_dict (dict_set (token_doc t) (lit ''expires_at'') (JStr early_text)) = Inl OverflowErr
    \<and> \<not> is_value_error OverflowErr"
  using assms by (auto simp: token_from_dict_def token_doc_def wf_token_def subject_json_def
      proto_string.require_found token_words_nonblank isoformat_z_nonblank
      proto_time.parse_isoformat_z early_text_overflows early_text_nonblank split: option.split)

theorem token_overflow_escapes_witness:
  "token_from_dict (dict_set (token_doc sample_token) (lit ''expires_at'') (JStr early_text)) = Inl OverflowErr"
  using token_overflow_escapes [OF wf_sample_token] by (rule conjunct1)

text \<open>That token's document is one on which the parser fails with the overflow.\<close>

definition early_token_doc :: obj where
  "early_token_doc = dict_set (token_doc sample_token) (lit ''expires_at'') (JStr early_text)"

theorem token_parser_errors_witness:
  "token_from_dict early_token_doc = Inl OverflowErr
    \<and> (\<exists>k \<in> {lit ''issued_at'', lit ''expires_at''}. \<exists>s l off. py_get early_token_doc k = JStr s
       \<and> fromisoformat (normalize_z s) = Some (Aware l off) \<and> \<not> in_range (l - off))"
proof -
  have "token_from_dict early_token_doc = Inl OverflowErr"
    using token_overflow_escapes [OF wf_sample_token] by (simp add: early_token_doc_def)
  with token_parser_errors [OF this] show ?thesis by blast
qed

text \<open>
  The token parser accepts exactly the well-formed tokens: every well-formed token has a
  document that parses to it, whatever its two release references hold.
\<close>

theorem token_parser_range: "(\<exists>d. token_from_dict d = Inr t) \<longleftrightarrow> wf_token t"
  using token_from_dict_wf token_document.decode_encode by blast

end
