(* ===== verification/Enrollment.thy ===== *)
theory Enrollment
  imports Device Protocol_Token
begin

text \<open>
  \<open>enrollment.py\<close>: one-time enrollment codes. The registry maps the hash of a code to a binding; the
  state is passed explicitly, an operation returns its result with the registry it leaves. The
  registry is a store of one-time grants, which is the interface the trace properties rest on.
\<close>

section \<open>Data\<close>

definition hash_code :: "pystr \<Rightarrow> pystr res" where
  "hash_code code = bind_res (or_raise (encode_utf8 code) ValueErr) (\<lambda>b. Inr (sha256_hex b))"

record code_binding =
  binding_code_hash :: pystr
  binding_purpose :: pystr
  binding_device_id :: pystr
  binding_nonce :: pystr
  binding_release_set_ref :: pystr
  binding_boot_release_set_ref :: pystr
  binding_artifact_refs :: "pystr list"
  binding_issued_at :: instant
  binding_expires_at :: instant
  binding_remaining_uses :: int

definition is_spent :: "code_binding \<Rightarrow> bool" where
  "is_spent b \<longleftrightarrow> binding_remaining_uses b \<le> 0"

record session_credential =
  session_id :: pystr
  session_device_id :: pystr
  session_purpose :: pystr
  session_release_set_ref :: pystr
  session_boot_release_set_ref :: pystr
  session_artifact_refs :: "pystr list"
  session_issued_at :: instant
  session_expires_at :: instant

type_synonym registry = "(pystr, code_binding) dict"

section \<open>Operations\<close>

text \<open>\<open>purpose not in {...}\<close> hashes its argument first.\<close>

definition expect_purpose :: "json \<Rightarrow> pystr res" where
  "expect_purpose v =
     (if \<not> hashable v then Inl TypeErr
      else bind_res (expect_string (EnrollmentError EnrPurpose) v) (\<lambda>p.
           bind_res (raise_if (p \<notin> set token_purposes) (EnrollmentError EnrPurpose)) (\<lambda>_. Inr p)))"

text \<open>\<open>try: claim.verify(...) except DeviceError\<close>\<close>

definition verify_claim :: "('pub, 'priv) crypto \<Rightarrow> device_claim \<Rightarrow> pystr \<Rightarrow> unit res" where
  "verify_claim c m nonce = except_res (claim_verify c m (Some nonce))
     (\<lambda>e. case e of DeviceError msg \<Rightarrow> Inl (EnrollmentError (EnrClaimInvalid msg)) | _ \<Rightarrow> Inl e)"

definition issue_binding ::
  "('pub, 'priv) crypto \<Rightarrow> runtime \<Rightarrow> device_claim \<Rightarrow> json \<Rightarrow> json \<Rightarrow> json \<Rightarrow> json list \<Rightarrow> int
     \<Rightarrow> datetime option \<Rightarrow> bytes \<Rightarrow> (pystr \<times> code_binding) res" where
  "issue_binding c rt m purpose release boot refs ttl now rnd =
     bind_res (expect_purpose purpose) (\<lambda>purpose.
     bind_res (raise_if (ttl \<le> 0) (EnrollmentError EnrTtl)) (\<lambda>_.
     bind_res (expect_nonempty (EnrollmentError EnrReleaseRef) release) (\<lambda>release.
     bind_res (expect_nonempty (EnrollmentError EnrBootReleaseRef) boot) (\<lambda>boot.
     bind_res (raise_if (refs = []) (EnrollmentError EnrArtifactRefs)) (\<lambda>_.
     bind_res (map_res (expect_nonempty (EnrollmentError EnrArtifactRefs)) refs) (\<lambda>refs.
     bind_res (verify_claim c m (claim_nonce m)) (\<lambda>_.
     bind_res (current_utc rt now) (\<lambda>issued_at.
     let code = b64url rnd in
     bind_res (hash_code code) (\<lambda>h.
     bind_res (or_raise (add_seconds issued_at ttl) OverflowErr) (\<lambda>expires_at.
     Inr (code, \<lparr>binding_code_hash = h, binding_purpose = purpose,
          binding_device_id = claim_device_id m, binding_nonce = claim_nonce m,
          binding_release_set_ref = release, binding_boot_release_set_ref = boot,
          binding_artifact_refs = refs, binding_issued_at = issued_at,
          binding_expires_at = expires_at, binding_remaining_uses = 1\<rparr>)))))))))))"

definition issue ::
  "('pub, 'priv) crypto \<Rightarrow> runtime \<Rightarrow> registry \<Rightarrow> device_claim \<Rightarrow> json \<Rightarrow> json \<Rightarrow> json \<Rightarrow> json list
     \<Rightarrow> int \<Rightarrow> datetime option \<Rightarrow> bytes \<Rightarrow> (pystr \<times> code_binding) res \<times> registry" where
  "issue c rt reg m purpose release boot refs ttl now rnd =
     (case issue_binding c rt m purpose release boot refs ttl now rnd of
        Inl e \<Rightarrow> (Inl e, reg)
      | Inr (code, b) \<Rightarrow> (Inr (code, b), dict_set reg (binding_code_hash b) b))"

text \<open>Every check of \<open>redeem\<close>, up to the statement that spends the code.\<close>

definition redeem_check ::
  "('pub, 'priv) crypto \<Rightarrow> runtime \<Rightarrow> registry \<Rightarrow> json \<Rightarrow> device_claim \<Rightarrow> json \<Rightarrow> datetime option
     \<Rightarrow> (code_binding \<times> instant) res" where
  "redeem_check c rt reg code m release now =
     bind_res (expect_nonempty (EnrollmentError EnrCodeEmpty) code) (\<lambda>code.
     bind_res (current_utc rt now) (\<lambda>current.
     bind_res (hash_code code) (\<lambda>h.
     bind_res (or_raise (dict_get reg h) (EnrollmentError EnrCodeUnknown)) (\<lambda>b.
     bind_res (raise_if (is_spent b) (EnrollmentError EnrCodeSpent)) (\<lambda>_.
     bind_res (raise_if (binding_expires_at b \<le> current) (EnrollmentError EnrCodeExpired)) (\<lambda>_.
     bind_res (raise_if (release \<noteq> JStr (binding_release_set_ref b)) (EnrollmentError EnrReleaseMismatch)) (\<lambda>_.
     bind_res (verify_claim c m (binding_nonce b)) (\<lambda>_.
     bind_res (raise_if (claim_device_id m \<noteq> binding_device_id b) (EnrollmentError EnrDeviceMismatch)) (\<lambda>_.
     Inr (b, current))))))))))"

definition spend :: "registry \<Rightarrow> code_binding \<Rightarrow> registry" where
  "spend reg b = dict_set reg (binding_code_hash b)
     (b\<lparr>binding_remaining_uses := binding_remaining_uses b - 1\<rparr>)"

definition credential_for :: "code_binding \<Rightarrow> instant \<Rightarrow> int \<Rightarrow> bytes \<Rightarrow> session_credential res" where
  "credential_for b current ttl rnd =
     bind_res (or_raise (add_seconds current ttl) OverflowErr) (\<lambda>expires_at.
     Inr \<lparr>session_id = lit ''urn:srcos:enrollment-session:'' @ bytes_hex rnd,
          session_device_id = binding_device_id b, session_purpose = binding_purpose b,
          session_release_set_ref = binding_release_set_ref b,
          session_boot_release_set_ref = binding_boot_release_set_ref b,
          session_artifact_refs = binding_artifact_refs b, session_issued_at = current,
          session_expires_at = expires_at\<rparr>)"

definition redeem ::
  "('pub, 'priv) crypto \<Rightarrow> runtime \<Rightarrow> registry \<Rightarrow> json \<Rightarrow> device_claim \<Rightarrow> json \<Rightarrow> int
     \<Rightarrow> datetime option \<Rightarrow> bytes \<Rightarrow> session_credential res \<times> registry" where
  "redeem c rt reg code m release ttl now rnd =
     (case redeem_check c rt reg code m release now of
        Inl e \<Rightarrow> (Inl e, reg)
      | Inr (b, current) \<Rightarrow> (credential_for b current ttl rnd, spend reg b))"

definition binding_for :: "registry \<Rightarrow> pystr \<Rightarrow> code_binding option res" where
  "binding_for reg code = bind_res (hash_code code) (\<lambda>h. Inr (dict_get reg h))"

definition issue_enrollment_token_payload :: "code_binding \<Rightarrow> pystr \<Rightarrow> pystr \<Rightarrow> obj" where
  "issue_enrollment_token_payload b tid subject_kind =
     [(lit ''token_id'', JStr tid),
      (lit ''purpose'', JStr (binding_purpose b)),
      (lit ''audience'', JObj [(lit ''subject_kind'', JStr subject_kind),
                               (lit ''subject_id'', JStr (binding_device_id b))]),
      (lit ''release_set_ref'', JStr (binding_release_set_ref b)),
      (lit ''boot_release_set_ref'', JStr (binding_boot_release_set_ref b)),
      (lit ''one_time_use'', JBool True),
      (lit ''issued_at'', JStr (isoformat_z (binding_issued_at b))),
      (lit ''expires_at'', JStr (isoformat_z (binding_expires_at b))),
      (lit ''status'', JStr (lit ''issued''))]"

section \<open>One-time grants\<close>

text \<open>
  The abstract contract: a store knows which keys have a live grant; granting makes one key live,
  spending a live key makes it dead, and nothing else changes.
\<close>

locale one_time_store =
  fixes inv :: "'s \<Rightarrow> bool"
    and live :: "'s \<Rightarrow> 'k \<Rightarrow> 'v option"
    and grant :: "'s \<Rightarrow> 'v \<Rightarrow> 's"
    and consume :: "'s \<Rightarrow> 'v \<Rightarrow> 's"
    and key :: "'v \<Rightarrow> 'k"
    and fresh :: "'v \<Rightarrow> bool"
  assumes grant_inv: "inv s \<Longrightarrow> fresh v \<Longrightarrow> inv (grant s v)"
    and consume_inv: "inv s \<Longrightarrow> live s (key v) = Some v \<Longrightarrow> inv (consume s v)"
    and live_grant: "fresh v \<Longrightarrow> live (grant s v) k = (if k = key v then Some v else live s k)"
    and live_consume: "inv s \<Longrightarrow> live s (key v) = Some v \<Longrightarrow>
           live (consume s v) k = (if k = key v then None else live s k)"
begin

lemma consumed_dead: "inv s \<Longrightarrow> live s (key v) = Some v \<Longrightarrow> live (consume s v) (key v) = None"
  by (simp add: live_consume)

lemma grant_bound: "fresh v \<Longrightarrow>
  (if live (grant s v) k = None then 0 else 1) \<le> (if live s k = None then 0 else 1) + (if k = key v then 1 else (0::nat))"
  by (simp add: live_grant)

lemma consume_bound: "inv s \<Longrightarrow> live s (key v) = Some v \<Longrightarrow>
  (if live (consume s v) k = None then 0 else 1) + (if k = key v then 1 else (0::nat)) = (if live s k = None then 0 else 1)"
  by (simp add: live_consume)

end

definition live_binding :: "registry \<Rightarrow> pystr \<Rightarrow> code_binding option" where
  "live_binding reg h =
     (case dict_get reg h of None \<Rightarrow> None | Some b \<Rightarrow> if is_spent b then None else Some b)"

text \<open>What holds of every binding the registry ever stores under a hash.\<close>

definition wf_binding :: "code_binding \<Rightarrow> bool" where
  "wf_binding b \<longleftrightarrow> binding_remaining_uses b \<in> {0, 1} \<and> binding_purpose b \<in> set token_purposes
     \<and> binding_release_set_ref b \<noteq> [] \<and> binding_boot_release_set_ref b \<noteq> []
     \<and> binding_artifact_refs b \<noteq> [] \<and> [] \<notin> set (binding_artifact_refs b)
     \<and> binding_issued_at b < binding_expires_at b \<and> valid_instant (binding_expires_at b)"

definition wf_registry :: "registry \<Rightarrow> bool" where
  "wf_registry reg \<longleftrightarrow> distinct (dict_keys reg)
     \<and> (\<forall>h b. dict_get reg h = Some b \<longrightarrow> binding_code_hash b = h \<and> wf_binding b)"

definition fresh_binding :: "code_binding \<Rightarrow> bool" where
  "fresh_binding b \<longleftrightarrow> wf_binding b \<and> binding_remaining_uses b = 1"

definition store_binding :: "registry \<Rightarrow> code_binding \<Rightarrow> registry" where
  "store_binding reg b = dict_set reg (binding_code_hash b) b"

lemma live_binding_Some:
  "live_binding reg h = Some b \<longleftrightarrow> dict_get reg h = Some b \<and> \<not> is_spent b"
  by (auto simp: live_binding_def split: option.splits if_splits)

lemma live_once:
  assumes "wf_registry reg" "live_binding reg h = Some b"
  shows "wf_binding b" "binding_remaining_uses b = 1" "binding_code_hash b = h"
proof -
  from assms have "wf_binding b \<and> binding_code_hash b = h" "\<not> is_spent b"
    by (auto simp: wf_registry_def live_binding_Some)
  then show "wf_binding b" "binding_remaining_uses b = 1" "binding_code_hash b = h"
    by (auto simp: wf_binding_def is_spent_def)
qed

interpretation grants: one_time_store wf_registry live_binding store_binding spend binding_code_hash fresh_binding
proof unfold_locales
  fix s v k
  show "wf_registry s \<Longrightarrow> fresh_binding v \<Longrightarrow> wf_registry (store_binding s v)"
    by (simp add: wf_registry_def store_binding_def fresh_binding_def)
  show "fresh_binding v \<Longrightarrow> live_binding (store_binding s v) k =
      (if k = binding_code_hash v then Some v else live_binding s k)"
    by (simp add: live_binding_def store_binding_def fresh_binding_def is_spent_def)
  assume inv: "wf_registry s" and live: "live_binding s (binding_code_hash v) = Some v"
  note v = live_once(1) [OF this] and one = live_once(2) [OF this]
  from v one have "wf_binding (v\<lparr>binding_remaining_uses := binding_remaining_uses v - 1\<rparr>)"
    by (simp add: wf_binding_def)
  with inv show "wf_registry (spend s v)" by (simp add: wf_registry_def spend_def)
  from one show "live_binding (spend s v) k = (if k = binding_code_hash v then None else live_binding s k)"
    by (simp add: live_binding_def spend_def is_spent_def)
qed

end
