(* ===== verification/Enrollment_Runs.thy ===== *)
theory Enrollment_Runs
  imports Enrollment
begin

text \<open>
  The life of a registry: each operation's exact success condition, the step relation of issues and
  redemptions in any order and with any clock, the runs it generates, the abstract specification they
  refine, and the properties of every run: a code is redeemed at most as often as it was issued, and
  only by the device, with the releases and in the time it was issued for.
\<close>

section \<open>Success of the operations\<close>

lemma verify_claim_Inr [simp]: "verify_claim c m nonce = Inr u \<longleftrightarrow> claim_verify c m (Some nonce) = Inr ()"
  by (cases "claim_verify c m (Some nonce)") (auto simp: verify_claim_def split: exn.splits)

lemma expect_purpose_Inr: "expect_purpose v = Inr p \<longleftrightarrow> v = JStr p \<and> p \<in> set token_purposes"
  by (auto simp: expect_purpose_def res_simps)

lemma nonempty_refs:
  "map_res (expect_nonempty e) refs = Inr rs \<longleftrightarrow> refs = map JStr rs \<and> [] \<notin> set rs"
proof (induction refs arbitrary: rs)
  case (Cons r refs)
  show ?case by (cases rs) (auto simp: res_simps Cons.IH)
qed (auto simp: res_simps)

lemma issue_binding_Inr:
  "issue_binding c rt m purpose release boot refs ttl now rnd = Inr (code, b) \<longleftrightarrow>
     purpose = JStr (binding_purpose b) \<and> binding_purpose b \<in> set token_purposes \<and> 0 < ttl
     \<and> release = JStr (binding_release_set_ref b) \<and> binding_release_set_ref b \<noteq> []
     \<and> boot = JStr (binding_boot_release_set_ref b) \<and> binding_boot_release_set_ref b \<noteq> []
     \<and> refs = map JStr (binding_artifact_refs b) \<and> binding_artifact_refs b \<noteq> []
     \<and> [] \<notin> set (binding_artifact_refs b)
     \<and> claim_verify c m (Some (claim_nonce m)) = Inr ()
     \<and> current_utc rt now = Inr (binding_issued_at b) \<and> code = b64url rnd
     \<and> hash_code code = Inr (binding_code_hash b)
     \<and> add_seconds (binding_issued_at b) ttl = Some (binding_expires_at b)
     \<and> binding_device_id b = claim_device_id m \<and> binding_nonce b = claim_nonce m
     \<and> binding_remaining_uses b = 1" (is "_ \<longleftrightarrow> ?ok")
proof
  assume "issue_binding c rt m purpose release boot refs ttl now rnd = Inr (code, b)"
  then show ?ok
    unfolding issue_binding_def bind_res_Inr_iff raise_if_Inr_iff Let_def
    by (elim exE conjE) (auto simp: expect_purpose_Inr expect_string_iffs nonempty_refs or_raise_Inr_iff)
next
  assume ok: ?ok
  then have "map_res (expect_nonempty (EnrollmentError EnrArtifactRefs)) refs = Inr (binding_artifact_refs b)"
    "verify_claim c m (claim_nonce m) = Inr ()" "expect_purpose purpose = Inr (binding_purpose b)" "refs \<noteq> []"
    by (simp_all add: nonempty_refs expect_purpose_Inr)
  with ok show "issue_binding c rt m purpose release boot refs ttl now rnd = Inr (code, b)"
    by (cases b) (auto simp: issue_binding_def Let_def simp del: verify_claim_Inr)
qed

lemma issue_fresh:
  assumes "issue_binding c rt m purpose release boot refs ttl now rnd = Inr (code, b)"
  shows "fresh_binding b"
  using assms add_seconds_later [of "binding_issued_at b" ttl "binding_expires_at b"]
    add_seconds_Some [of "binding_issued_at b" ttl "binding_expires_at b"]
  by (auto simp: issue_binding_Inr fresh_binding_def wf_binding_def)

lemma redeem_check_Inr:
  "redeem_check c rt reg code m release now = Inr (b, current) \<longleftrightarrow>
     (\<exists>s h. code = JStr s \<and> s \<noteq> [] \<and> hash_code s = Inr h \<and> dict_get reg h = Some b \<and> \<not> is_spent b)
     \<and> current_utc rt now = Inr current \<and> current < binding_expires_at b
     \<and> release = JStr (binding_release_set_ref b)
     \<and> claim_verify c m (Some (binding_nonce b)) = Inr ()
     \<and> claim_device_id m = binding_device_id b"
  by (auto simp: redeem_check_def res_simps not_le)

lemma issue_cases:
  "issue c rt reg m purpose release boot refs ttl now rnd = (r, reg') \<longleftrightarrow>
     (\<exists>code b. issue_binding c rt m purpose release boot refs ttl now rnd = Inr (code, b)
        \<and> r = Inr (code, b) \<and> reg' = store_binding reg b)
     \<or> (\<exists>e. issue_binding c rt m purpose release boot refs ttl now rnd = Inl e \<and> r = Inl e \<and> reg' = reg)"
  by (auto simp: issue_def store_binding_def split: sum.splits)

lemma redeem_cases:
  "redeem c rt reg code m release ttl now rnd = (r, reg') \<longleftrightarrow>
     (\<exists>b current. redeem_check c rt reg code m release now = Inr (b, current)
        \<and> r = credential_for b current ttl rnd \<and> reg' = spend reg b)
     \<or> (\<exists>e. redeem_check c rt reg code m release now = Inl e \<and> r = Inl e \<and> reg' = reg)"
  by (auto simp: redeem_def split: sum.splits)

lemma credential_for_Inr:
  "credential_for b current ttl rnd = Inr s \<Longrightarrow>
     session_device_id s = binding_device_id b \<and> session_purpose s = binding_purpose b
     \<and> session_release_set_ref s = binding_release_set_ref b
     \<and> session_boot_release_set_ref s = binding_boot_release_set_ref b
     \<and> session_artifact_refs s = binding_artifact_refs b \<and> session_issued_at s = current
     \<and> add_seconds current ttl = Some (session_expires_at s)"
  by (auto simp: credential_for_def res_simps)

lemma credential_for_Inl: "credential_for b current ttl rnd = Inl e \<Longrightarrow> e = OverflowErr"
  by (auto simp: credential_for_def bind_res_Inl_iff or_raise_Inl_iff)

section \<open>Steps and runs\<close>

datatype event =
    Issue runtime device_claim json json json "json list" int "datetime option" bytes
  | Redeem runtime json device_claim json int "datetime option" bytes

datatype outcome = Issued pystr code_binding | Redeemed session_credential | Failed exn

inductive enroll_step :: "('pub, 'priv) crypto \<Rightarrow> registry \<Rightarrow> event \<Rightarrow> outcome \<Rightarrow> registry \<Rightarrow> bool" for c where
  issue_ok: "issue c rt reg m purpose release boot refs ttl now rnd = (Inr (code, b), reg') \<Longrightarrow>
     enroll_step c reg (Issue rt m purpose release boot refs ttl now rnd) (Issued code b) reg'"
| issue_failed: "issue c rt reg m purpose release boot refs ttl now rnd = (Inl e, reg') \<Longrightarrow>
     enroll_step c reg (Issue rt m purpose release boot refs ttl now rnd) (Failed e) reg'"
| redeem_ok: "redeem c rt reg code m release ttl now rnd = (Inr s, reg') \<Longrightarrow>
     enroll_step c reg (Redeem rt code m release ttl now rnd) (Redeemed s) reg'"
| redeem_failed: "redeem c rt reg code m release ttl now rnd = (Inl e, reg') \<Longrightarrow>
     enroll_step c reg (Redeem rt code m release ttl now rnd) (Failed e) reg'"

inductive_cases redeemed_stepE: "enroll_step c reg e (Redeemed s) reg'"
inductive_cases issued_stepE: "enroll_step c reg e (Issued code b) reg'"

inductive enroll_run :: "('pub, 'priv) crypto \<Rightarrow> (event \<times> outcome) list \<Rightarrow> registry \<Rightarrow> bool" for c where
  start: "enroll_run c [] []"
| step: "enroll_run c tr reg \<Longrightarrow> enroll_step c reg e out reg' \<Longrightarrow> enroll_run c (tr @ [(e, out)]) reg'"

text \<open>The abstract specification: a map of live grants, issue adds one, redemption removes one.\<close>

definition session_of :: "code_binding \<Rightarrow> session_credential \<Rightarrow> bool" where
  "session_of b s \<longleftrightarrow> session_device_id s = binding_device_id b \<and> session_purpose s = binding_purpose b
     \<and> session_release_set_ref s = binding_release_set_ref b
     \<and> session_boot_release_set_ref s = binding_boot_release_set_ref b
     \<and> session_artifact_refs s = binding_artifact_refs b \<and> session_issued_at s < binding_expires_at b"

inductive grant_step :: "(pystr \<Rightarrow> code_binding option) \<Rightarrow> outcome \<Rightarrow> (pystr \<Rightarrow> code_binding option) \<Rightarrow> bool" where
  grant: "fresh_binding b \<Longrightarrow> grant_step G (Issued code b) (G(binding_code_hash b \<mapsto> b))"
| use: "G h = Some b \<Longrightarrow> session_of b s \<Longrightarrow> grant_step G (Redeemed s) (G(h := None))"
| refuse: "grant_step G (Failed e) G"
| lose: "G h = Some b \<Longrightarrow> grant_step G (Failed OverflowErr) (G(h := None))"

inductive grant_run :: "outcome list \<Rightarrow> (pystr \<Rightarrow> code_binding option) \<Rightarrow> bool" where
  grant_start: "grant_run [] (\<lambda>h. None)"
| grant_more: "grant_run outs G \<Longrightarrow> grant_step G out G' \<Longrightarrow> grant_run (outs @ [out]) G'"

text \<open>Which step grants the hash \<open>h\<close>, and which redeems it.\<close>

fun issues :: "pystr \<Rightarrow> event \<times> outcome \<Rightarrow> bool" where
  "issues h (e, Issued code b) = (binding_code_hash b = h)"
| "issues h (e, out) = False"

fun redeems :: "pystr \<Rightarrow> event \<times> outcome \<Rightarrow> bool" where
  "redeems h (Redeem rt (JStr code) m release ttl now rnd, Redeemed s) = (hash_code code = Inr h)"
| "redeems h (e, out) = False"

definition live_count :: "registry \<Rightarrow> pystr \<Rightarrow> nat" where
  "live_count reg h = (if live_binding reg h = None then 0 else 1)"

section \<open>What a step does\<close>

lemma issue_step_effect:
  "issue c rt reg m purpose release boot refs ttl now rnd = (Inr (code, b), reg') \<Longrightarrow>
     fresh_binding b \<and> reg' = store_binding reg b"
  unfolding issue_cases using issue_fresh by blast

lemma redeem_step_effect:
  assumes "redeem c rt reg code m release ttl now rnd = (r, reg')" "wf_registry reg"
  shows "(\<exists>b current s. code = JStr s \<and> hash_code s = Inr (binding_code_hash b)
        \<and> live_binding reg (binding_code_hash b) = Some b \<and> current_utc rt now = Inr current
        \<and> current < binding_expires_at b \<and> release = JStr (binding_release_set_ref b)
        \<and> claim_verify c m (Some (binding_nonce b)) = Inr () \<and> claim_device_id m = binding_device_id b
        \<and> r = credential_for b current ttl rnd \<and> reg' = spend reg b)
    \<or> (\<exists>e. r = Inl e \<and> reg' = reg)"
proof (cases "redeem_check c rt reg code m release now")
  case (Inl e)
  then show ?thesis using assms(1) by (intro disjI2 exI [of _ e]) (simp add: redeem_def)
next
  case (Inr p)
  obtain b current where p: "p = (b, current)" by (cases p)
  note ok = Inr [unfolded p]
  from ok [unfolded redeem_check_Inr] obtain s h where
    b: "code = JStr s" "hash_code s = Inr h" "dict_get reg h = Some b" "\<not> is_spent b" by blast
  from assms(2) b(3) have "binding_code_hash b = h" by (simp add: wf_registry_def)
  with b have "hash_code s = Inr (binding_code_hash b)" "live_binding reg (binding_code_hash b) = Some b"
    by (simp_all add: live_binding_Some)
  moreover from assms(1) ok have "r = credential_for b current ttl rnd" "reg' = spend reg b"
    by (simp_all add: redeem_def)
  ultimately show ?thesis using b(1) ok [unfolded redeem_check_Inr] by blast
qed

lemma step_wf:
  assumes "enroll_step c reg e out reg'" "wf_registry reg"
  shows "wf_registry reg'"
  using assms
proof cases
  case issue_ok
  from issue_step_effect [OF issue_ok(3)] show ?thesis using assms(2) grants.grant_inv by blast
next
  case redeem_ok
  from redeem_step_effect [OF redeem_ok(3) assms(2)] show ?thesis using assms(2) grants.consume_inv by blast
next
  case redeem_failed
  from redeem_step_effect [OF redeem_failed(3) assms(2)] show ?thesis using assms(2) grants.consume_inv by blast
qed (auto simp: issue_cases)

lemma store_live: "fresh_binding b \<Longrightarrow> live_binding (store_binding reg b) = (live_binding reg)(binding_code_hash b \<mapsto> b)"
  by (rule ext) (simp add: grants.live_grant)

lemma spend_live:
  "wf_registry reg \<Longrightarrow> live_binding reg (binding_code_hash b) = Some b \<Longrightarrow>
     live_binding (spend reg b) = (live_binding reg)(binding_code_hash b := None)"
  by (rule ext) (simp add: grants.live_consume)

lemma step_refines:
  assumes "enroll_step c reg e out reg'" "wf_registry reg"
  shows "grant_step (live_binding reg) out (live_binding reg')"
  using assms
proof cases
  case issue_ok
  from issue_step_effect [OF issue_ok(3)] show ?thesis unfolding issue_ok(2)
    using grant_step.grant store_live by metis
next
  case (redeem_ok rt code m release ttl now rnd s)
  from redeem_step_effect [OF redeem_ok(3) assms(2)] obtain b current where
    b: "live_binding reg (binding_code_hash b) = Some b" "current < binding_expires_at b"
    "Inr s = credential_for b current ttl rnd" "reg' = spend reg b" by blast
  from credential_for_Inr [OF b(3) [symmetric]] b(2) have "session_of b s" by (simp add: session_of_def)
  with b(1) show ?thesis unfolding redeem_ok(2) b(4) spend_live [OF assms(2) b(1)] by (rule grant_step.use)
next
  case (redeem_failed rt code m release ttl now rnd x)
  from redeem_step_effect [OF redeem_failed(3) assms(2)] show ?thesis
  proof (elim disjE exE conjE)
    fix b current s
    assume b: "live_binding reg (binding_code_hash b) = Some b" "Inl x = credential_for b current ttl rnd"
      "reg' = spend reg b"
    have "x = OverflowErr" using credential_for_Inl b(2) [symmetric] by blast
    with b(1) show ?thesis unfolding redeem_failed(2) b(3) spend_live [OF assms(2) b(1)]
      by (simp add: grant_step.lose)
  next
    fix y assume "reg' = reg"
    then show ?thesis unfolding redeem_failed(2) by (simp add: grant_step.refuse)
  qed
qed (auto simp: issue_cases intro: grant_step.refuse)

lemma step_counts:
  assumes "enroll_step c reg e out reg'" "wf_registry reg"
  shows "(if redeems h (e, out) then 1 else 0) + live_count reg' h
    \<le> (if issues h (e, out) then 1 else 0) + live_count reg h"
  using assms
proof cases
  case (issue_ok rt m purpose release boot refs ttl now rnd code b)
  from issue_step_effect [OF issue_ok(3)] grants.grant_bound [of b reg h] show ?thesis
    by (auto simp: issue_ok(1,2) live_count_def split: if_splits)
next
  case (redeem_ok rt code m release ttl now rnd s)
  from redeem_step_effect [OF redeem_ok(3) assms(2)] obtain b text1 where
    b: "code = JStr text1" "hash_code text1 = Inr (binding_code_hash b)"
      "live_binding reg (binding_code_hash b) = Some b" "reg' = spend reg b" by blast
  from grants.consume_bound [OF assms(2) b(3), of h] show ?thesis
    by (auto simp: redeem_ok(1,2) b(1,2,4) live_count_def split: if_splits)
next
  case (redeem_failed rt code m release ttl now rnd x)
  from redeem_step_effect [OF redeem_failed(3) assms(2)] show ?thesis
  proof (elim disjE exE conjE)
    fix b current text1 assume b: "live_binding reg (binding_code_hash b) = Some b" "reg' = spend reg b"
    from grants.consume_bound [OF assms(2) b(1), of h] show ?thesis
      by (simp add: redeem_failed(1,2) b(2) live_count_def split: if_splits)
  qed (simp add: redeem_failed(1,2))
qed (auto simp: issue_cases)

section \<open>Runs\<close>

lemma run_wf: "enroll_run c tr reg \<Longrightarrow> wf_registry reg"
  by (induction rule: enroll_run.induct) (auto simp: wf_registry_def dest: step_wf [unfolded wf_registry_def])

lemma run_counts:
  "enroll_run c tr reg \<Longrightarrow> length (filter (redeems h) tr) + live_count reg h \<le> length (filter (issues h) tr)"
proof (induction rule: enroll_run.induct)
  case (step tr reg e out reg')
  from step_counts [OF step.hyps(2) run_wf [OF step.hyps(1)], of h] step.IH show ?case
    by (simp split: if_splits)
qed (simp add: live_count_def live_binding_def)

text \<open>The binding as it was issued.\<close>

definition as_issued :: "code_binding \<Rightarrow> code_binding" where
  "as_issued b = b\<lparr>binding_remaining_uses := 1\<rparr>"

lemma run_origin:
  "enroll_run c tr reg \<Longrightarrow> dict_get reg h = Some b \<Longrightarrow> \<exists>e code. (e, Issued code (as_issued b)) \<in> set tr"
proof (induction arbitrary: b rule: enroll_run.induct)
  case (step tr reg e out reg')
  have old: ?case if "dict_get reg h = Some b'" "as_issued b = as_issued b'" for b'
    using step.IH [OF that(1)] that(2) by auto
  from step.hyps(2) show ?case
  proof cases
    case (issue_ok rt m purpose release boot refs ttl now rnd code b')
    note eff = issue_step_effect [OF issue_ok(3)]
    show ?thesis
    proof (cases "binding_code_hash b' = h")
      case True
      with step.prems eff have "b = b'" by (simp add: store_binding_def)
      moreover from eff have "as_issued b' = b'" by (cases b') (simp add: as_issued_def fresh_binding_def)
      ultimately show ?thesis by (auto simp: issue_ok(2))
    next
      case False
      with step.prems eff have "dict_get reg h = Some b" by (simp add: store_binding_def)
      then show ?thesis by (rule old) simp
    qed
  next
    case issue_failed
    with step.prems have "dict_get reg h = Some b" by (auto simp: issue_cases)
    then show ?thesis by (rule old) simp
  next
    case redeem_ok
    from redeem_step_effect [OF redeem_ok(3) run_wf [OF step.hyps(1)]] show ?thesis
      using step.prems old by (auto simp: spend_def as_issued_def live_binding_Some split: if_splits)
  next
    case redeem_failed
    from redeem_step_effect [OF redeem_failed(3) run_wf [OF step.hyps(1)]] show ?thesis
      using step.prems old by (auto simp: spend_def as_issued_def live_binding_Some split: if_splits)
  qed
qed simp

lemma run_prefix: "enroll_run c tr reg \<Longrightarrow> tr = pre @ [(e, out)] @ post \<Longrightarrow>
    \<exists>reg1 reg2. enroll_run c pre reg1 \<and> enroll_step c reg1 e out reg2"
proof (induction arbitrary: post rule: enroll_run.induct)
  case (step tr reg e' out' reg')
  show ?case
  proof (cases post rule: rev_cases)
    case Nil
    with step show ?thesis by auto
  next
    case (snoc post' x)
    with step.prems have "tr = pre @ [(e, out)] @ post'" by simp
    then show ?thesis by (rule step.IH)
  qed
qed simp

lemma hash_code_b64: "is_bytes rnd \<Longrightarrow> hash_code (b64url rnd) = Inr (sha256_hex (b64url rnd))"
  by (simp add: hash_code_def encode_utf8_ascii b64url_ascii)

section \<open>A concrete run\<close>

definition demo_claim :: device_claim where
  "demo_claim = \<lparr>claim_device_id = identity_device_id demo_identity,
     claim_public_key_pem = demo_pem True, claim_nonce = lit ''nonce-1'', claim_claimed_at = sample_time,
     claim_signature_algorithm = fips_ready_algorithm, claim_crypto_profile = fips_ready_profile,
     claim_signature_hex = bytes_hex (demo_sign True (dumps (signing_document
       (identity_device_id demo_identity) (demo_pem True) (lit ''nonce-1'') sample_time)))\<rparr>"

lemma demo_claim_verifies: "claim_verify demo_crypto demo_claim (Some (lit ''nonce-1'')) = Inr ()"
proof -
  have "is_bytes (demo_sign k s)" for k s by (simp add: is_bytes_def demo_sign_def demo_tag_def)
  moreover have "public_der demo_crypto True = [65]" by (simp add: demo_crypto_def demo_tag_def)
  ultimately show ?thesis
    by (simp add: claim_verify_iff demo_claim_def demo_load_public_key fromhex_bytes_hex)
       (simp add: demo_identity_def demo_crypto_def ex_bool_eq)
qed

definition demo_seed :: bytes where
  "demo_seed = [1, 2, 3]"

definition demo_code :: pystr where
  "demo_code = b64url demo_seed"

lemma hash_demo_code: "hash_code demo_code = Inr (sha256_hex demo_code)"
  unfolding demo_code_def by (rule hash_code_b64) (simp add: is_bytes_def demo_seed_def)

lemma demo_code_nonempty: "demo_code \<noteq> []"
  by (simp add: demo_code_def demo_seed_def)

definition demo_binding :: code_binding where
  "demo_binding = \<lparr>binding_code_hash = sha256_hex (demo_code), binding_purpose = lit ''recovery'',
     binding_device_id = identity_device_id demo_identity, binding_nonce = lit ''nonce-1'',
     binding_release_set_ref = lit ''urn:srcos:release-set:m2'',
     binding_boot_release_set_ref = lit ''urn:srcos:boot-release-set:m2'',
     binding_artifact_refs = [lit ''a''], binding_issued_at = sample_time,
     binding_expires_at = sample_expiry, binding_remaining_uses = 1\<rparr>"

definition demo_issue :: event where
  "demo_issue = Issue sample_runtime demo_claim (JStr (lit ''recovery''))
     (JStr (lit ''urn:srcos:release-set:m2'')) (JStr (lit ''urn:srcos:boot-release-set:m2''))
     [JStr (lit ''a'')] 900 None demo_seed"

lemma demo_issue_binding:
  "issue_binding demo_crypto sample_runtime demo_claim (JStr (lit ''recovery''))
     (JStr (lit ''urn:srcos:release-set:m2'')) (JStr (lit ''urn:srcos:boot-release-set:m2''))
     [JStr (lit ''a'')] 900 None demo_seed = Inr (demo_code, demo_binding)"
  using demo_claim_verifies
  by (simp add: issue_binding_Inr demo_binding_def token_purposes_def hash_demo_code demo_code_def [symmetric])
     (simp add: demo_claim_def sample_runtime_def add_seconds_def sample_time_def sample_expiry_def
        in_range_def max_micros_def)

lemma demo_issued:
  "issue demo_crypto sample_runtime [] demo_claim (JStr (lit ''recovery''))
     (JStr (lit ''urn:srcos:release-set:m2'')) (JStr (lit ''urn:srcos:boot-release-set:m2''))
     [JStr (lit ''a'')] 900 None demo_seed =
     (Inr (demo_code, demo_binding), store_binding [] demo_binding)"
  by (simp add: issue_def demo_issue_binding store_binding_def)

lemma demo_check:
  "redeem_check demo_crypto sample_runtime (store_binding [] demo_binding) (JStr (demo_code))
     demo_claim (JStr (lit ''urn:srcos:release-set:m2'')) None = Inr (demo_binding, sample_time)"
  using demo_claim_verifies
  by (simp add: redeem_check_Inr hash_demo_code demo_code_nonempty store_binding_def demo_binding_def
      is_spent_def sample_expiry_later) (simp add: demo_claim_def sample_runtime_def)

definition demo_session :: session_credential where
  "demo_session = \<lparr>session_id = lit ''urn:srcos:enrollment-session:'' @ bytes_hex [7],
     session_device_id = binding_device_id demo_binding, session_purpose = binding_purpose demo_binding,
     session_release_set_ref = binding_release_set_ref demo_binding,
     session_boot_release_set_ref = binding_boot_release_set_ref demo_binding,
     session_artifact_refs = binding_artifact_refs demo_binding, session_issued_at = sample_time,
     session_expires_at = sample_expiry\<rparr>"

lemma demo_redeemed:
  "redeem demo_crypto sample_runtime (store_binding [] demo_binding) (JStr (demo_code)) demo_claim
     (JStr (lit ''urn:srcos:release-set:m2'')) 900 None [7] =
     (Inr demo_session, spend (store_binding [] demo_binding) demo_binding)"
  by (simp add: redeem_def demo_check credential_for_def demo_session_def add_seconds_def sample_time_def
      sample_expiry_def in_range_def max_micros_def)

definition demo_redeem :: event where
  "demo_redeem = Redeem sample_runtime (JStr (demo_code)) demo_claim
     (JStr (lit ''urn:srcos:release-set:m2'')) 900 None [7]"

lemma demo_run:
  "enroll_run demo_crypto ([(demo_issue, Issued (demo_code) demo_binding)] @ [(demo_redeem, Redeemed demo_session)])
     (spend (store_binding [] demo_binding) demo_binding)"
proof (rule enroll_run.step)
  have "enroll_step demo_crypto [] demo_issue (Issued (demo_code) demo_binding) (store_binding [] demo_binding)"
    unfolding demo_issue_def by (rule issue_ok [OF demo_issued])
  from enroll_run.step [OF start this]
  show "enroll_run demo_crypto [(demo_issue, Issued (demo_code) demo_binding)] (store_binding [] demo_binding)"
    by simp
  show "enroll_step demo_crypto (store_binding [] demo_binding) demo_redeem (Redeemed demo_session)
      (spend (store_binding [] demo_binding) demo_binding)"
    unfolding demo_redeem_def by (rule redeem_ok [OF demo_redeemed])
qed

section \<open>Properties\<close>

text \<open>
  C1. In every run of a registry, whatever the order of issues and redemptions, the clocks and the
  arguments, a code is redeemed at most as often as it was issued: a code issued once gives at most
  one credential.
\<close>

theorem codes_single_use:
  assumes "enroll_run c tr reg"
  shows "length (filter (redeems h) tr) \<le> length (filter (issues h) tr)"
  using run_counts [OF assms, of h] by simp

theorem codes_single_use_witness:
  "length (filter (redeems (sha256_hex demo_code))
       ([(demo_issue, Issued demo_code demo_binding)] @ [(demo_redeem, Redeemed demo_session)]))
     \<le> length (filter (issues (sha256_hex demo_code))
       ([(demo_issue, Issued demo_code demo_binding)] @ [(demo_redeem, Redeemed demo_session)]))"
  by (rule codes_single_use [OF demo_run])

text \<open>
  C2. A credential is authorised by an earlier issue: when a run contains a redemption, then before it
  a binding was issued under the hash of that code; the redeeming claim verifies against the bound
  nonce and is of the bound device, the release argument is the bound one, the time is before the
  bound expiry, and the credential carries the binding's device, purpose, releases and artifacts.
\<close>

theorem redemption_authorised:
  assumes "enroll_run c tr reg"
    and "tr = pre @ [(Redeem rt code m release ttl now rnd, Redeemed s)] @ post"
  shows "\<exists>e code' b pw. (e, Issued code' b) \<in> set pre \<and> code = JStr pw \<and> hash_code pw = Inr (binding_code_hash b)
    \<and> claim_verify c m (Some (binding_nonce b)) = Inr () \<and> claim_device_id m = binding_device_id b
    \<and> release = JStr (binding_release_set_ref b) \<and> session_of b s"
proof -
  from run_prefix [OF assms] obtain reg1 reg2 where
    pre: "enroll_run c pre reg1" and "enroll_step c reg1 (Redeem rt code m release ttl now rnd) (Redeemed s) reg2"
    by blast
  then have "redeem c rt reg1 code m release ttl now rnd = (Inr s, reg2)" by (auto elim: redeemed_stepE)
  from redeem_step_effect [OF this run_wf [OF pre]] obtain b current pw where
    b: "code = JStr pw" "hash_code pw = Inr (binding_code_hash b)"
      "live_binding reg1 (binding_code_hash b) = Some b" "current < binding_expires_at b"
      "release = JStr (binding_release_set_ref b)" "claim_verify c m (Some (binding_nonce b)) = Inr ()"
      "claim_device_id m = binding_device_id b" "Inr s = credential_for b current ttl rnd"
    by blast
  from run_origin [OF pre] b(3) obtain e code' where "(e, Issued code' (as_issued b)) \<in> set pre"
    unfolding live_binding_Some by blast
  moreover from credential_for_Inr [OF b(8) [symmetric]] b(4) have "session_of (as_issued b) s"
    by (simp add: session_of_def as_issued_def)
  ultimately show ?thesis using b
    by (intro exI [of _ e] exI [of _ code'] exI [of _ "as_issued b"] exI [of _ pw]) (simp add: as_issued_def)
qed

theorem redemption_authorised_witness:
  "\<exists>e code' b. (e, Issued code' b) \<in> set [(demo_issue, Issued demo_code demo_binding)] \<and> session_of b demo_session"
proof -
  have "[(demo_issue, Issued demo_code demo_binding)] @ [(demo_redeem, Redeemed demo_session)] =
      [(demo_issue, Issued demo_code demo_binding)] @
      [(Redeem sample_runtime (JStr demo_code) demo_claim (JStr (lit ''urn:srcos:release-set:m2'')) 900 None [7],
        Redeemed demo_session)] @ []"
    by (simp add: demo_redeem_def)
  from redemption_authorised [OF demo_run this] show ?thesis by blast
qed

text \<open>
  C3. The registry refines the abstract specification of one-time grants: the outcomes of every run are
  a run of that specification, ending in the registry's map of live bindings.
\<close>

theorem registry_refines_grants:
  assumes "enroll_run c tr reg"
  shows "grant_run (map snd tr) (live_binding reg)"
  using assms
proof (induction rule: enroll_run.induct)
  case start
  have "live_binding [] = (\<lambda>h. None)" by (rule ext) (simp add: live_binding_def)
  then show ?case by (simp add: grant_start)
next
  case (step tr reg e out reg')
  from grant_more [OF step.IH step_refines [OF step.hyps(2) run_wf [OF step.hyps(1)]]] show ?case by simp
qed

theorem registry_refines_grants_witness:
  "grant_run [Issued demo_code demo_binding, Redeemed demo_session]
     (live_binding (spend (store_binding [] demo_binding) demo_binding))"
  using registry_refines_grants [OF demo_run] by simp

text \<open>
  C26. Every registry a run reaches stores each binding under its own hash, with zero or one remaining
  use, a supported purpose, non-empty references and an expiry after the issue.
\<close>

theorem reachable_registry_sound:
  assumes "enroll_run c tr reg" and "dict_get reg h = Some b"
  shows "binding_code_hash b = h \<and> binding_remaining_uses b \<in> {0, 1}
    \<and> binding_purpose b \<in> set token_purposes \<and> binding_release_set_ref b \<noteq> []
    \<and> binding_boot_release_set_ref b \<noteq> [] \<and> binding_artifact_refs b \<noteq> []
    \<and> binding_issued_at b < binding_expires_at b"
  using run_wf [OF assms(1)] assms(2) by (auto simp: wf_registry_def wf_binding_def)

theorem reachable_registry_sound_witness:
  "binding_remaining_uses (demo_binding\<lparr>binding_remaining_uses := 0\<rparr>) \<in> {0, 1}"
proof -
  have "dict_get (spend (store_binding [] demo_binding) demo_binding) (binding_code_hash demo_binding) =
      Some (demo_binding\<lparr>binding_remaining_uses := 0\<rparr>)"
    by (simp add: spend_def store_binding_def) (simp add: demo_binding_def)
  from reachable_registry_sound [OF demo_run this] show ?thesis by blast
qed

text \<open>
  C27. Replay fails closed: after a successful redemption, redeeming the same code again, with any claim,
  release, lifetime and time that can be read, raises the already-redeemed error and changes nothing.
\<close>

theorem replay_refused:
  assumes "wf_registry reg" and "redeem c rt reg code m release ttl now rnd = (Inr s, reg')"
    and "current_utc rt' now' = Inr current"
  shows "redeem c rt' reg' code m' release' ttl' now' rnd' = (Inl (EnrollmentError EnrCodeSpent), reg')"
proof -
  from redeem_step_effect [OF assms(2,1)] obtain b pw where
    b: "code = JStr pw" "hash_code pw = Inr (binding_code_hash b)"
      "live_binding reg (binding_code_hash b) = Some b" "reg' = spend reg b" by blast
  from assms(2) have "pw \<noteq> []"
    unfolding redeem_cases redeem_check_Inr using b(1) by auto
  moreover note live_once(2) [OF assms(1) b(3)]
  ultimately show ?thesis using assms(3) b(1,2)
    by (simp add: redeem_def redeem_check_def b(4) spend_def is_spent_def)
qed

theorem replay_refused_witness:
  "redeem demo_crypto sample_runtime (spend (store_binding [] demo_binding) demo_binding) (JStr demo_code)
     demo_claim (JStr []) 1 None [] =
     (Inl (EnrollmentError EnrCodeSpent), spend (store_binding [] demo_binding) demo_binding)"
proof (rule replay_refused [OF _ demo_redeemed])
  show "wf_registry (store_binding [] demo_binding)"
    using grants.grant_inv [of "[]" demo_binding] issue_fresh [OF demo_issue_binding]
    by (simp add: wf_registry_def)
  show "current_utc sample_runtime None = Inr (wall_clock sample_runtime)" by simp
qed

text \<open>
  C28. An issued code can be used: until its expiry, redeeming it with the very claim it was issued for and
  the bound release gives a credential. The same claim serves both calls, so the registry does not
  ask for the fresh claim that the documentation of \<open>redeem\<close> speaks of.
\<close>

theorem issued_code_redeemable:
  assumes "issue c rt reg m purpose release boot refs ttl now rnd = (Inr (code, b), reg')" and "code \<noteq> []"
    and "current_utc rt' now' = Inr current" and "current < binding_expires_at b"
    and "add_seconds current ttl' = Some expires"
  shows "\<exists>s. redeem c rt' reg' (JStr code) m release ttl' now' rnd' = (Inr s, spend reg' b)
    \<and> session_of b s \<and> session_expires_at s = expires"
proof -
  from assms(1) have ib: "issue_binding c rt m purpose release boot refs ttl now rnd = Inr (code, b)"
    and reg': "reg' = store_binding reg b" by (auto simp: issue_cases)
  note i = ib [unfolded issue_binding_Inr]
  have "redeem_check c rt' reg' (JStr code) m release now' = Inr (b, current)"
    unfolding redeem_check_Inr using i assms(2-4)
    by (auto simp: reg' store_binding_def is_spent_def)
  then show ?thesis using assms(4,5)
    by (simp add: redeem_def credential_for_def session_of_def)
qed

theorem issued_code_redeemable_witness:
  "\<exists>s. session_of demo_binding s \<and> session_expires_at s = sample_expiry"
proof -
  have "add_seconds sample_time 900 = Some sample_expiry"
    by (simp add: add_seconds_def sample_time_def sample_expiry_def in_range_def max_micros_def)
  moreover have "current_utc sample_runtime None = Inr sample_time" by (simp add: sample_runtime_def)
  moreover have "sample_time < binding_expires_at demo_binding"
    by (simp add: demo_binding_def sample_expiry_later)
  ultimately show ?thesis
    using issued_code_redeemable [OF demo_issued demo_code_nonempty, of sample_runtime None sample_time 900 sample_expiry]
    by blast
qed

text \<open>
  A refused operation leaves the registry as it was: a failed issue always, a failed redemption
  unless it fails with the overflow of the credential's expiry.
\<close>

theorem refused_operations_change_nothing:
  assumes "enroll_step c reg e (Failed x) reg'" and "x \<noteq> OverflowErr"
  shows "reg' = reg"
  using assms
proof cases
  case redeem_failed
  with assms(2) credential_for_Inl show ?thesis unfolding redeem_cases by fastforce
qed (auto simp: issue_cases)

theorem refused_operations_change_nothing_witness:
  "enroll_step demo_crypto [] (Redeem sample_runtime (JStr []) demo_claim (JStr []) 1 None [])
     (Failed (EnrollmentError EnrCodeEmpty)) [] \<and> ([] :: registry) = []"
proof -
  have "redeem demo_crypto sample_runtime [] (JStr []) demo_claim (JStr []) 1 None [] =
      (Inl (EnrollmentError EnrCodeEmpty), [])"
    by (simp add: redeem_def redeem_check_def)
  note step = redeem_failed [OF this]
  from step refused_operations_change_nothing [OF step] show ?thesis by simp
qed

text \<open>
  C29. The exception: when every check of \<open>redeem\<close> passes but the credential's expiry leaves the calendar,
  the code is spent first, so the caller gets \<open>OverflowError\<close>, no credential, and a dead code.
\<close>

theorem overflow_loses_code:
  assumes "wf_registry reg" and "redeem_check c rt reg code m release now = Inr (b, current)"
    and "add_seconds current ttl = None"
  shows "\<exists>reg'. redeem c rt reg code m release ttl now rnd = (Inl OverflowErr, reg')
    \<and> live_binding reg (binding_code_hash b) = Some b \<and> live_binding reg' (binding_code_hash b) = None"
proof -
  from assms(2) [unfolded redeem_check_Inr] obtain h where h: "dict_get reg h = Some b" "\<not> is_spent b" by blast
  with assms(1) have live: "live_binding reg (binding_code_hash b) = Some b"
    by (auto simp: live_binding_Some wf_registry_def)
  from grants.consumed_dead [OF assms(1) live] live assms(2,3) show ?thesis
    by (simp add: redeem_def credential_for_def)
qed

theorem overflow_loses_code_witness:
  "\<exists>reg'. redeem demo_crypto sample_runtime (store_binding [] demo_binding) (JStr demo_code) demo_claim
     (JStr (lit ''urn:srcos:release-set:m2'')) 1000000000000 None [7] = (Inl OverflowErr, reg')"
proof -
  have "wf_registry (store_binding [] demo_binding)"
    using grants.grant_inv [of "[]" demo_binding] issue_fresh [OF demo_issue_binding]
    by (simp add: wf_registry_def)
  moreover have "add_seconds sample_time 1000000000000 = None"
    by (simp add: add_seconds_def sample_time_def in_range_def max_micros_def)
  ultimately show ?thesis using overflow_loses_code [OF _ demo_check] by blast
qed

text \<open>
  C30. Issuing stores the binding under the SHA-256 of the code's UTF-8 text, with the claim's device and
  nonce, one use, and the expiry \<open>ttl\<close> seconds after the issue; \<open>binding_for\<close> finds it by the code, and
  the bindings of other hashes are untouched.
\<close>

theorem issue_stores_binding:
  assumes "issue c rt reg m purpose release boot refs ttl now rnd = (Inr (code, b), reg')"
  shows "binding_for reg' code = Inr (Some b) \<and> binding_device_id b = claim_device_id m
    \<and> binding_nonce b = claim_nonce m \<and> binding_remaining_uses b = 1 \<and> code = b64url rnd
    \<and> add_seconds (binding_issued_at b) ttl = Some (binding_expires_at b)
    \<and> claim_verify c m (Some (claim_nonce m)) = Inr ()
    \<and> (\<forall>h \<in> - {binding_code_hash b}. dict_get reg' h = dict_get reg h)"
proof -
  from assms have ib: "issue_binding c rt m purpose release boot refs ttl now rnd = Inr (code, b)"
    and reg': "reg' = store_binding reg b" by (auto simp: issue_cases)
  from ib [unfolded issue_binding_Inr] show ?thesis
    by (auto simp: reg' binding_for_def store_binding_def)
qed

theorem issue_stores_binding_witness:
  "binding_for (store_binding [] demo_binding) demo_code = Inr (Some demo_binding)"
  using issue_stores_binding [OF demo_issued] by blast

section \<open>The bridge to enrollment tokens\<close>

text \<open>
  C31. The payload rendered from an issued binding is a valid enrollment token: it parses, and the token
  is admitted for a manifest exactly when the manifest has the bound releases and a mode that the
  bound purpose serves, before the bound expiry.
\<close>

theorem payload_is_valid_token:
  assumes "fresh_binding b" and "valid_instant (binding_issued_at b)" and "nonblank tid" and "nonblank kind"
  shows "\<exists>t. token_from_dict (issue_enrollment_token_payload b tid kind) = Inr t
    \<and> token_id t = tid \<and> token_subject_id t = Some (binding_device_id b)
    \<and> (\<forall>m current. token_admits t m current \<longleftrightarrow> current < binding_expires_at b
         \<and> manifest_boot_release_set_id m = binding_boot_release_set_ref b
         \<and> manifest_base_release_set_ref m = binding_release_set_ref b
         \<and> purpose_allowed (manifest_boot_mode m) (binding_purpose b))"
proof -
  let ?t = "\<lparr>token_id = tid, token_purpose = binding_purpose b, token_subject_kind = kind,
     token_subject_id = Some (binding_device_id b), token_release_set_ref = JStr (binding_release_set_ref b),
     token_boot_release_set_ref = JStr (binding_boot_release_set_ref b), token_one_time_use = True,
     token_issued_at = binding_issued_at b, token_expires_at = binding_expires_at b,
     token_status = lit ''issued''\<rparr>"
  have "wf_token ?t"
    using assms by (simp add: wf_token_def fresh_binding_def wf_binding_def token_statuses_def)
  moreover have "issue_enrollment_token_payload b tid kind = token_doc ?t"
    by (simp add: issue_enrollment_token_payload_def token_doc_def subject_json_def)
  ultimately have "token_from_dict (issue_enrollment_token_payload b tid kind) = Inr ?t"
    by (simp add: token_from_doc)
  moreover have "token_admits ?t m current \<longleftrightarrow> current < binding_expires_at b
         \<and> manifest_boot_release_set_id m = binding_boot_release_set_ref b
         \<and> manifest_base_release_set_ref m = binding_release_set_ref b
         \<and> purpose_allowed (manifest_boot_mode m) (binding_purpose b)" for m current
    by (auto simp: token_admits_def)
  ultimately show ?thesis by (intro exI [of _ ?t]) simp
qed

theorem payload_is_valid_token_witness:
  "\<exists>t. token_from_dict (issue_enrollment_token_payload demo_binding (lit ''t'') (lit ''device'')) = Inr t
    \<and> token_admits t sample_manifest sample_time"
proof -
  have "valid_instant (binding_issued_at demo_binding)" by (simp add: demo_binding_def)
  from payload_is_valid_token [OF issue_fresh [OF demo_issue_binding] this, of "lit ''t''" "lit ''device''"]
  obtain t where t: "token_from_dict (issue_enrollment_token_payload demo_binding (lit ''t'') (lit ''device'')) = Inr t"
    "\<forall>m current. token_admits t m current \<longleftrightarrow> current < binding_expires_at demo_binding
         \<and> manifest_boot_release_set_id m = binding_boot_release_set_ref demo_binding
         \<and> manifest_base_release_set_ref m = binding_release_set_ref demo_binding
         \<and> purpose_allowed (manifest_boot_mode m) (binding_purpose demo_binding)"
    by (auto simp: is_space_def)
  then have "token_admits t sample_manifest sample_time"
    by (simp add: demo_binding_def sample_manifest_def sample_expiry_later purpose_allowed_def)
  with t(1) show ?thesis by blast
qed

end
