(* ===== verification/Protocol_Plan.thy ===== *)
theory Protocol_Plan
  imports Protocol_Token
begin

text \<open>
  \<open>protocol.py\<close>: \<open>BootPlan\<close> and \<open>build_boot_plan\<close>. A plan is produced exactly when the token is
  admitted for the manifest; it never executes, never allows unsigned artifacts, carries the
  manifest's data and the token's id, and names the menu entry that matches the manifest.
\<close>

section \<open>The plan\<close>

record boot_plan =
  plan_action :: pystr
  plan_manifest_id :: pystr
  plan_boot_release_set_id :: pystr
  plan_release_set_ref :: pystr
  plan_artifacts :: "(pystr, pystr) dict"
  plan_authorized_by :: pystr
  plan_signature_algorithm :: pystr
  plan_crypto_profile :: pystr
  plan_policy_ref :: pystr
  plan_allowed_operations :: "pystr list"
  plan_proof_requirements :: "pystr list"
  plan_offline_fallback :: obj
  plan_execute :: bool
  plan_selected_entry_id :: "pystr option"
  plan_boot_menu :: "boot_menu option"
  plan_required_proofs :: "pystr list"

text \<open>The default of the field \<open>required_proofs\<close>.\<close>

definition default_required_proofs :: "pystr list" where
  "default_required_proofs = [lit ''manifest-signature-verified'', lit ''enrollment-token-bound'',
     lit ''boot-menu-bound-when-present'', lit ''execute-false'']"

definition strings_json :: "pystr list \<Rightarrow> json" where
  "strings_json xs = JList (map JStr xs)"

definition plan_to_dict :: "boot_plan \<Rightarrow> obj" where
  "plan_to_dict p =
     [(lit ''action'', JStr (plan_action p)),
      (lit ''manifest_id'', JStr (plan_manifest_id p)),
      (lit ''boot_release_set_id'', JStr (plan_boot_release_set_id p)),
      (lit ''release_set_ref'', JStr (plan_release_set_ref p)),
      (lit ''artifacts'', JObj (map (\<lambda>(k, v). (k, JStr v)) (plan_artifacts p))),
      (lit ''authorized_by'', JStr (plan_authorized_by p)),
      (lit ''signature_algorithm'', JStr (plan_signature_algorithm p)),
      (lit ''crypto_profile'', JStr (plan_crypto_profile p)),
      (lit ''policy_ref'', JStr (plan_policy_ref p)),
      (lit ''allowed_operations'', strings_json (plan_allowed_operations p)),
      (lit ''proof_requirements'', strings_json (plan_proof_requirements p)),
      (lit ''offline_fallback'', JObj (plan_offline_fallback p)),
      (lit ''execute'', JBool (plan_execute p)),
      (lit ''selected_entry_id'', subject_json (plan_selected_entry_id p)),
      (lit ''boot_menu'', case plan_boot_menu p of None \<Rightarrow> JNull | Some m \<Rightarrow> JObj (menu_to_dict m)),
      (lit ''required_proofs'', strings_json (plan_required_proofs p))]"

definition policy_ref_for_mode :: "pystr \<Rightarrow> pystr" where
  "policy_ref_for_mode mode = lit ''policy://sourceos/nlboot/'' @ mode @ lit ''/safe-plan-v1''"

definition allowed_operations_for_mode :: "pystr \<Rightarrow> pystr list res" where
  "allowed_operations_for_mode mode = or_raise (map_of
     [(lit ''recovery'', [lit ''present-menu'', lit ''verify-artifacts'', lit ''plan-recovery'', lit ''plan-rollback'']),
      (lit ''installer'', [lit ''present-menu'', lit ''verify-artifacts'', lit ''plan-install'']),
      (lit ''ephemeral'', [lit ''present-menu'', lit ''verify-artifacts'', lit ''plan-ephemeral-boot'']),
      (lit ''bootstrap'', [lit ''present-menu'', lit ''verify-artifacts'', lit ''plan-bootstrap''])] mode)
     (KeyErr mode)"

definition proof_requirements_for_mode :: "pystr \<Rightarrow> pystr list" where
  "proof_requirements_for_mode mode =
     [lit ''verified_manifest_signature'', lit ''validated_one_time_token'',
      lit ''artifact_ref_manifest'', lit ''boot_plan_record''] @
     (if mode \<in> {lit ''recovery'', lit ''installer''}
      then [lit ''device_claim_record'', lit ''post_action_fingerprint'']
      else [lit ''session_fingerprint''])"

definition offline_fallback_for_mode :: "pystr \<Rightarrow> obj" where
  "offline_fallback_for_mode mode =
     [(lit ''enabled'', JBool (mode \<in> {lit ''recovery'', lit ''ephemeral''})),
      (lit ''strategy'', JStr (if mode \<in> {lit ''recovery'', lit ''ephemeral''}
         then lit ''last-known-good-signed-boot-release-set'' else lit ''none'')),
      (lit ''requires_signature_verification'', JBool True),
      (lit ''allows_unsigned_artifacts'', JBool False)]"

definition action_by_mode :: "pystr \<Rightarrow> pystr res" where
  "action_by_mode mode = or_raise (map_of
     [(lit ''recovery'', lit ''boot-recovery''),
      (lit ''installer'', lit ''boot-installer''),
      (lit ''ephemeral'', lit ''boot-ephemeral''),
      (lit ''bootstrap'', lit ''bootstrap-only'')] mode) (KeyErr mode)"

definition selected_entry :: "manifest \<Rightarrow> pystr option res" where
  "selected_entry m =
     (case manifest_boot_menu m of
        None \<Rightarrow> Inr None
      | Some menu \<Rightarrow>
          bind_res (menu_validate_for_manifest menu m) (\<lambda>_.
          bind_res (default_entry menu) (\<lambda>e. Inr (Some (entry_id e)))))"

definition build_boot_plan :: "runtime \<Rightarrow> manifest \<Rightarrow> token \<Rightarrow> datetime option \<Rightarrow> boot_plan res" where
  "build_boot_plan rt m t now =
     bind_res (token_validate_for_manifest rt t m now) (\<lambda>_.
     bind_res (selected_entry m) (\<lambda>selected.
     bind_res (action_by_mode (manifest_boot_mode m)) (\<lambda>action.
     bind_res (allowed_operations_for_mode (manifest_boot_mode m)) (\<lambda>operations.
     Inr \<lparr>plan_action = action,
          plan_manifest_id = manifest_id m,
          plan_boot_release_set_id = manifest_boot_release_set_id m,
          plan_release_set_ref = manifest_base_release_set_ref m,
          plan_artifacts = manifest_artifacts m,
          plan_authorized_by = token_id t,
          plan_signature_algorithm = manifest_signature_algorithm m,
          plan_crypto_profile = manifest_crypto_profile m,
          plan_policy_ref = policy_ref_for_mode (manifest_boot_mode m),
          plan_allowed_operations = operations,
          plan_proof_requirements = proof_requirements_for_mode (manifest_boot_mode m),
          plan_offline_fallback = offline_fallback_for_mode (manifest_boot_mode m),
          plan_execute = False,
          plan_selected_entry_id = selected,
          plan_boot_menu = manifest_boot_menu m,
          plan_required_proofs = default_required_proofs\<rparr>))))"

section \<open>When a plan exists\<close>

lemma mode_tables:
  "(\<exists>a. action_by_mode mode = Inr a) \<longleftrightarrow> mode \<in> set boot_modes"
  "(\<exists>ops. allowed_operations_for_mode mode = Inr ops) \<longleftrightarrow> mode \<in> set boot_modes"
  by (auto simp: action_by_mode_def allowed_operations_for_mode_def boot_modes_def res_simps)

lemma wf_manifest_mode: "wf_manifest m \<Longrightarrow> manifest_boot_mode m \<in> set boot_modes"
  by (simp add: wf_manifest_def wf_manifest_fields_def)

lemma selected_entry_wf:
  assumes "wf_manifest m"
  shows "\<exists>s. selected_entry m = Inr s"
proof (cases "manifest_boot_menu m")
  case (Some menu)
  from wf_manifestD(3,4) [OF assms Some] default_entry_wf [of menu]
  show ?thesis by (auto simp: selected_entry_def Some)
qed (simp add: selected_entry_def)

lemma selected_entry_Some:
  "selected_entry m = Inr (Some i) \<Longrightarrow> \<exists>menu e. manifest_boot_menu m = Some menu \<and>
     e \<in> set (menu_entries menu) \<and> entry_id e = i \<and> i = menu_default_entry_id menu \<and> matches_manifest e m"
  by (auto simp: selected_entry_def default_entry_def menu_validate_Inr_iff res_simps
      split: option.splits dest: find_entry_Inr)

lemma selected_entry_None: "selected_entry m = Inr None \<longleftrightarrow> manifest_boot_menu m = None"
  by (auto simp: selected_entry_def res_simps split: option.splits)

lemma build_boot_plan_iff:
  assumes "wf_manifest m"
  shows "(\<exists>p. build_boot_plan rt m t now = Inr p) \<longleftrightarrow>
    (\<exists>current. current_utc rt now = Inr current \<and> token_admits t m current)"
  using selected_entry_wf [OF assms] mode_tables [of "manifest_boot_mode m"] wf_manifest_mode [OF assms]
  unfolding token_validate_iff [symmetric] by (fastforce simp: build_boot_plan_def res_simps)

lemma build_boot_plan_Inr:
  "build_boot_plan rt m t now = Inr p \<Longrightarrow>
     \<exists>current. current_utc rt now = Inr current \<and> token_admits t m current"
  unfolding token_validate_iff [symmetric] by (auto simp: build_boot_plan_def res_simps)

lemma build_boot_plan_nlboot:
  assumes "wf_manifest m" "current_utc rt now = Inr current" "build_boot_plan rt m t now = Inl x"
  shows "\<exists>msg. x = NlbootError msg"
  using assms(3) mode_tables [of "manifest_boot_mode m"] wf_manifest_mode [OF assms(1)]
    selected_entry_wf [OF assms(1)] token_validate_nlboot [OF _ assms(2) wf_manifest_mode [OF assms(1)]]
  by (auto simp: build_boot_plan_def bind_res_Inl_iff)

section \<open>What a plan carries\<close>

definition plan_is_inert :: "boot_plan \<Rightarrow> bool" where
  "plan_is_inert p \<longleftrightarrow> \<not> plan_execute p
     \<and> py_get (plan_offline_fallback p) (lit ''allows_unsigned_artifacts'') = JBool False
     \<and> py_get (plan_offline_fallback p) (lit ''requires_signature_verification'') = JBool True
     \<and> (\<forall>operation \<in> set (plan_allowed_operations p).
          operation \<in> {lit ''present-menu'', lit ''verify-artifacts''}
          \<or> starts_with operation (lit ''plan-''))"

lemma allowed_operations_inert:
  "allowed_operations_for_mode mode = Inr ops \<Longrightarrow> operation \<in> set ops \<Longrightarrow>
     operation \<in> {lit ''present-menu'', lit ''verify-artifacts''} \<or> starts_with operation (lit ''plan-'')"
  by (auto simp: allowed_operations_for_mode_def res_simps starts_with_def lit_def split: if_splits)

lemma build_boot_plan_inert: "build_boot_plan rt m t now = Inr p \<Longrightarrow> plan_is_inert p"
  by (auto simp: build_boot_plan_def plan_is_inert_def res_simps offline_fallback_for_mode_def
      dest: allowed_operations_inert)

definition plan_carries :: "boot_plan \<Rightarrow> manifest \<Rightarrow> token \<Rightarrow> bool" where
  "plan_carries p m t \<longleftrightarrow>
     plan_manifest_id p = manifest_id m
     \<and> plan_boot_release_set_id p = manifest_boot_release_set_id m
     \<and> plan_release_set_ref p = manifest_base_release_set_ref m
     \<and> plan_artifacts p = manifest_artifacts m
     \<and> plan_authorized_by p = token_id t
     \<and> plan_boot_menu p = manifest_boot_menu m"

lemma build_boot_plan_carries: "build_boot_plan rt m t now = Inr p \<Longrightarrow> plan_carries p m t"
  by (auto simp: build_boot_plan_def plan_carries_def res_simps)

lemma build_boot_plan_selected:
  "build_boot_plan rt m t now = Inr p \<Longrightarrow> selected_entry m = Inr (plan_selected_entry_id p)"
  by (auto simp: build_boot_plan_def res_simps)

lemma plan_same_action_same_mode:
  "action_by_mode m1 = Inr a \<Longrightarrow> action_by_mode m2 = Inr a \<Longrightarrow> m1 = m2"
  by (auto simp: action_by_mode_def res_simps split: if_splits)

lemma build_boot_plan_action:
  "build_boot_plan rt m t now = Inr p \<Longrightarrow> action_by_mode (manifest_boot_mode m) = Inr (plan_action p)"
  by (auto simp: build_boot_plan_def res_simps)

section \<open>Properties\<close>

lemma sample_plan_exists:
  "\<exists>p. build_boot_plan sample_runtime sample_manifest sample_token (utc_now sample_time) = Inr p"
  using sample_token_admits by (simp add: build_boot_plan_iff [OF wf_sample_manifest])

text \<open>
  C11. For a parsed manifest a plan is built exactly when the token is admitted at the current
  time: none of the mode tables can fail, and the menu never blocks it.
\<close>

theorem plan_built_iff_admitted:
  assumes "manifest_from_dict d = Inr m"
  shows "(\<exists>p. build_boot_plan rt m t now = Inr p) \<longleftrightarrow>
    (\<exists>current. current_utc rt now = Inr current \<and> token_admits t m current)"
  by (rule build_boot_plan_iff [OF manifest_from_dict_wf [OF assms]])

theorem plan_built_iff_admitted_witness:
  "(\<exists>p. build_boot_plan sample_runtime sample_manifest sample_token (utc_now sample_time) = Inr p) \<longleftrightarrow>
    (\<exists>current. current_utc sample_runtime (utc_now sample_time) = Inr current
       \<and> token_admits sample_token sample_manifest current)"
  by (rule plan_built_iff_admitted [OF manifest_from_doc [OF wf_sample_manifest]])

text \<open>
  C10. A plan never executes: its execute flag is false, its fallback refuses unsigned artifacts and
  requires signatures, and every operation it allows only presents, verifies or plans.
\<close>

theorem plan_never_executes:
  assumes "build_boot_plan rt m t now = Inr p"
  shows "\<not> plan_execute p
    \<and> py_get (plan_offline_fallback p) (lit ''allows_unsigned_artifacts'') = JBool False
    \<and> py_get (plan_offline_fallback p) (lit ''requires_signature_verification'') = JBool True
    \<and> (\<forall>operation \<in> set (plan_allowed_operations p).
           operation \<in> {lit ''present-menu'', lit ''verify-artifacts''} \<or> starts_with operation (lit ''plan-''))"
  using build_boot_plan_inert [OF assms] by (simp_all add: plan_is_inert_def)

theorem plan_never_executes_witness:
  "\<exists>p. build_boot_plan sample_runtime sample_manifest sample_token (utc_now sample_time) = Inr p
     \<and> \<not> plan_execute p"
  using sample_plan_exists plan_never_executes by blast

text \<open>
  C12. A plan is bound to what authorised it: it carries the manifest's id, releases, artifacts and
  menu and the token's id, its action determines the boot mode, and the entry it selects is the
  menu's default entry, which matches the manifest.
\<close>

theorem plan_bound_to_inputs:
  assumes "build_boot_plan rt m t now = Inr p"
  shows "plan_carries p m t
    \<and> (\<forall>mode. action_by_mode mode = Inr (plan_action p) \<longleftrightarrow> mode = manifest_boot_mode m)
    \<and> (case plan_selected_entry_id p of
         None \<Rightarrow> manifest_boot_menu m = None
       | Some i \<Rightarrow> \<exists>menu e. manifest_boot_menu m = Some menu \<and> e \<in> set (menu_entries menu) \<and> entry_id e = i
           \<and> i = menu_default_entry_id menu \<and> matches_manifest e m)"
proof (intro conjI)
  show "plan_carries p m t" by (rule build_boot_plan_carries [OF assms])
  show "\<forall>mode. action_by_mode mode = Inr (plan_action p) \<longleftrightarrow> mode = manifest_boot_mode m"
    using build_boot_plan_action [OF assms] plan_same_action_same_mode by metis
next
  note sel = build_boot_plan_selected [OF assms]
  show "case plan_selected_entry_id p of
         None \<Rightarrow> manifest_boot_menu m = None
       | Some i \<Rightarrow> \<exists>menu e. manifest_boot_menu m = Some menu \<and> e \<in> set (menu_entries menu) \<and> entry_id e = i
           \<and> i = menu_default_entry_id menu \<and> matches_manifest e m"
  proof (cases "plan_selected_entry_id p")
    case None
    with sel selected_entry_None [of m] show ?thesis by simp
  next
    case (Some i)
    with sel have "selected_entry m = Inr (Some i)" by simp
    from selected_entry_Some [OF this] show ?thesis unfolding Some option.case .
  qed
qed

theorem plan_bound_to_inputs_witness:
  "\<exists>p. build_boot_plan sample_runtime sample_manifest sample_token (utc_now sample_time) = Inr p
     \<and> plan_carries p sample_manifest sample_token"
  using sample_plan_exists plan_bound_to_inputs by blast

text \<open>
  C13. On a parsed manifest the planner fails with \<open>NlbootError\<close>, or with the very exception of converting
  the caller's time to UTC: an \<open>OverflowError\<close> for an aware time at the ends of the calendar, whatever
  the system time zone raises for a naive one.
\<close>

theorem plan_errors_documented:
  assumes "manifest_from_dict d = Inr m" and "build_boot_plan rt m t now = Inl x"
  shows "(\<exists>msg. x = NlbootError msg \<and> (\<exists>current. current_utc rt now = Inr current))
    \<or> (current_utc rt now = Inl x
        \<and> (x = OverflowErr \<or> (\<exists>local. now = Some (Naive local) \<and> local_zone rt local = Inl x)))"
proof (cases "current_utc rt now")
  case (Inl y)
  with assms(2) have "x = y" by (simp add: build_boot_plan_def token_validate_for_manifest_def)
  with Inl show ?thesis
    by (auto simp: current_utc_def or_raise_Inl_iff split: option.splits datetime.splits)
next
  case (Inr current)
  with build_boot_plan_nlboot [OF manifest_from_dict_wf [OF assms(1)] Inr assms(2)] show ?thesis by blast
qed

text \<open>An expired token, and a time whose offset takes it out of the calendar.\<close>

lemma sample_plan_errors:
  "build_boot_plan sample_runtime sample_manifest sample_token (utc_now sample_expiry) =
     Inl (NlbootError TokenExpired)"
  "build_boot_plan sample_runtime sample_manifest sample_token (Some (Aware 0 1)) = Inl OverflowErr"
  by (simp add: build_boot_plan_def token_validate_for_manifest_def sample_token_def)
     (simp add: build_boot_plan_def token_validate_for_manifest_def current_utc_def to_utc_def in_range_def)

theorem plan_errors_documented_witness:
  "(\<exists>x msg. build_boot_plan sample_runtime sample_manifest sample_token (utc_now sample_expiry) = Inl x
      \<and> x = NlbootError msg)
   \<and> (\<exists>x. build_boot_plan sample_runtime sample_manifest sample_token (Some (Aware 0 1)) = Inl x
      \<and> current_utc sample_runtime (Some (Aware 0 1)) = Inl x \<and> x = OverflowErr)"
  using plan_errors_documented [OF manifest_from_doc [OF wf_sample_manifest] sample_plan_errors(1)]
    plan_errors_documented [OF manifest_from_doc [OF wf_sample_manifest] sample_plan_errors(2)]
    sample_plan_errors by simp

end
