(* ===== verification/Json_Files.thy ===== *)
theory Json_Files
  imports Py_Json_Wf Py_Fields
begin

text \<open>
  The interface every reader of a JSON file in the program rests on: the command and the three tools each
  have one of their own (\<open>load_json\<close> and its variants), which differ in what a failure becomes and in
  what is done with the value. The lemmas about reading files are proved once here.
\<close>

section \<open>Canonical texts have no line breaks\<close>

abbreviation no_cr :: "pystr \<Rightarrow> bool" where
  "no_cr s \<equiv> 13 \<notin> set s"

lemma no_cr_digits: "no_cr (dropWhile is_digit s) \<Longrightarrow> no_cr s"
proof -
  assume "no_cr (dropWhile is_digit s)"
  moreover have "no_cr (takeWhile is_digit s)" by (auto dest: set_takeWhileD simp: is_digit_def)
  ultimately have "13 \<notin> set (takeWhile is_digit s) \<union> set (dropWhile is_digit s)" by simp
  then show ?thesis by (metis set_append takeWhile_dropWhile_id)
qed

lemma scan_int_part_no_cr: "scan_int_part s = Some (x, r) \<Longrightarrow> no_cr r \<Longrightarrow> no_cr s"
  by (auto simp: scan_int_part_def is_digit_def split: list.splits if_splits dest!: no_cr_digits)

lemma scan_frac_no_cr: "scan_frac s = (x, r) \<Longrightarrow> no_cr r \<Longrightarrow> no_cr s"
  by (auto simp: scan_frac_def expect_Some_iff split: option.splits list.splits if_splits
      dest!: no_cr_digits)

lemma scan_exp_no_cr: "scan_exp s = (x, r) \<Longrightarrow> no_cr r \<Longrightarrow> no_cr s"
  by (auto simp: scan_exp_def Let_def is_digit_def split: option.splits list.splits if_splits
      dest!: no_cr_digits)

lemma scan_number_no_cr: "scan_number F t = Inr (v, []) \<Longrightarrow> no_cr t"
  by (auto simp: scan_number_def scan_sign_def Let_def expect_Some_iff
      split: option.splits prod.splits if_splits
      dest!: scan_int_part_no_cr scan_frac_no_cr scan_exp_no_cr)

lemma no_cr_join: "no_cr sep \<Longrightarrow> \<forall>x \<in> set xs. no_cr x \<Longrightarrow> no_cr (join sep xs)"
  using set_join [of sep xs] by blast

lemma dump_str_no_cr: "no_cr (dump_str s)"
proof -
  have "no_cr (hex_digits 4 n)" for n
    using hex_digits_lower [of _ 4 n] by (fastforce simp: is_lower_hex_def)
  then have "no_cr (esc_char c)" for c by (auto simp: esc_char_def u_escape_def)
  then show ?thesis by (auto simp: dump_str_def esc_body_def)
qed

lemma dump_no_cr: "wf_json F v \<Longrightarrow> no_cr (dump v)"
proof (induction v)
  case (JInt i)
  have "no_cr (nat_digits n)" for n using nat_digits_digit [of 13 n] by (auto simp: is_digit_def)
  then show ?case by (auto simp: str_int_def)
next
  case (JFloat t)
  then show ?case by (auto simp: wf_float_def dump_float_def lit_def dest!: scan_number_no_cr)
next
  case (JList xs)
  then show ?case using no_cr_join [of "[44]" "map dump xs"] by (auto simp: list_all_iff)
next
  case (JObj d)
  then have "\<forall>kv \<in> set d. no_cr (dump (snd kv))" by (auto simp: list_all_iff)
  then have "\<forall>x \<in> set (map (\<lambda>(k, v). dump_str k @ 58 # dump v) d). no_cr x"
    by (auto simp: dump_str_no_cr simp del: dump_str_append)
  then show ?case using no_cr_join [of "[44]"] by simp
qed (auto simp: lit_def dump_str_no_cr)

lemma read_text_dumps: "wf_json F v \<Longrightarrow> read_text (dumps v) = Some (dumps v)"
  using dump_no_cr [OF wf_json_canon]
  by (simp add: read_text_def decode_utf8_ascii dumps_ascii) (metis dumps_def translate_newlines_id)

section \<open>Decoding\<close>

text \<open>
  \<open>json.loads\<close> of a text: a \<open>JSONDecodeError\<close>, which some readers catch, or the exception of a limit of
  the interpreter, which is none. The scanner's own fuel never runs out (\<open>json_loads_fuel\<close>).
\<close>

datatype decode_failure = DecodeErr | Raised exn

definition decode_json :: "runtime \<Rightarrow> pystr \<Rightarrow> decode_failure + json" where
  "decode_json rt s =
     (case limit_error rt s of
        Some e \<Rightarrow> Inl (Raised e)
      | None \<Rightarrow> (case json_loads (float_repr rt) s of Inl e \<Rightarrow> Inl DecodeErr | Inr v \<Rightarrow> Inr v))"

text \<open>What a reader makes of the two kinds of failure.\<close>

definition on_failure :: "'e \<Rightarrow> (exn \<Rightarrow> 'e) \<Rightarrow> decode_failure + 'a \<Rightarrow> 'e + 'a" where
  "on_failure bad io r =
     (case r of Inl DecodeErr \<Rightarrow> Inl bad | Inl (Raised e) \<Rightarrow> Inl (io e) | Inr v \<Rightarrow> Inr v)"

lemma bind_res_Inr [simp]: "bind_res r Inr = r"
  by (cases r) simp_all

lemma on_failure_Inr_iff [res_simps]: "on_failure bad io r = Inr v \<longleftrightarrow> r = Inr v"
  by (auto simp: on_failure_def split: sum.splits decode_failure.splits)

lemma decode_json_Inr_iff:
  "decode_json rt s = Inr v \<longleftrightarrow> limit_error rt s = None \<and> json_loads (float_repr rt) s = Inr v"
  by (auto simp: decode_json_def split: option.splits sum.splits)

text \<open>The two limits raise nothing else.\<close>

definition limits_ok :: "runtime \<Rightarrow> bool" where
  "limits_ok rt \<longleftrightarrow> (\<forall>s e. limit_error rt s = Some e \<longrightarrow> e \<in> {ValueErr, RecursionErr})"

lemma decode_json_raised: "limits_ok rt \<Longrightarrow> decode_json rt s = Inl (Raised e) \<Longrightarrow> e \<in> {ValueErr, RecursionErr}"
  unfolding limits_ok_def decode_json_def by (auto split: option.splits sum.splits)

section \<open>Readers of JSON files\<close>

text \<open>
  \<open>files\<close> holds the bytes of a path or the exception of reading it, \<open>present p\<close> that the reader gets as
  far as opening \<open>p\<close>; \<open>io\<close> and \<open>bad\<close> are the reader's failures, \<open>finish\<close> what it does with the value.
\<close>

locale json_file =
  fixes rt :: runtime
    and files :: "pystr \<Rightarrow> bytes res"
    and present :: "pystr \<Rightarrow> bool"
    and io :: "exn \<Rightarrow> 'e"
    and bad :: "pystr \<Rightarrow> 'e"
    and finish :: "pystr \<Rightarrow> json \<Rightarrow> 'e + 'a"
    and read :: "pystr \<Rightarrow> 'e + 'a"
  assumes read_law: "present p \<Longrightarrow> read p =
    (case files p of
       Inl e \<Rightarrow> Inl (io e)
     | Inr content \<Rightarrow>
         (case read_text content of
            None \<Rightarrow> Inl (io ValueErr)
          | Some s \<Rightarrow> bind_res (on_failure (bad p) io (decode_json rt s)) (finish p)))"
begin

text \<open>A document written in canonical form, within the limits, reads back with sorted keys.\<close>

lemma read_dumps:
  assumes "files p = Inr (dumps v)" "wf_json (float_repr rt) v" "limit_error rt (dumps v) = None" "present p"
  shows "read p = finish p (canon v)"
  by (simp add: read_law [OF assms(4)] assms(1,3) read_text_dumps [OF assms(2)]
      json_loads_dumps [OF assms(2)] decode_json_def on_failure_def)

text \<open>Whatever a file holds, the value passed on is well formed.\<close>

lemma read_wf:
  assumes "float_repr_ok (float_repr rt)" "read p = Inr x" "present p"
  shows "\<exists>v. wf_json (float_repr rt) v \<and> finish p v = Inr x"
  using assms(2) unfolding read_law [OF assms(3)]
  by (auto simp: res_simps decode_json_Inr_iff split: sum.splits option.splits
      intro: json_loads_wf [OF assms(1) read_text_is_text])

text \<open>How reading fails.\<close>

lemma read_fails:
  assumes "limits_ok rt" "read p = Inl x" "present p"
  shows "(\<exists>e. files p = Inl e \<and> x = io e) \<or> x \<in> {io ValueErr, io RecursionErr, bad p}
    \<or> (\<exists>v. finish p v = Inl x)"
  using assms(2) unfolding read_law [OF assms(3)]
  by (auto simp: bind_res_Inl_iff on_failure_def split: sum.splits option.splits decode_failure.splits
      dest: decode_json_raised [OF assms(1)])

end

end
