(* ===== verification/Verify.thy ===== *)
theory Verify
  imports Py_Fields Py_Json_Wf Crypto_Lib Protocol_Manifest
begin

text \<open>
  \<open>verify.py\<close>: trusted keys and their life cycle, the payloads that are signed, signature
  verification and trust bundles. Loading keys is all or nothing; a bundle's keys come from a
  document that a live root key signed; the signed text fixes everything the parsers read.
\<close>

section \<open>Trusted keys\<close>

definition verify_parse_time :: "pystr \<Rightarrow> pystr \<Rightarrow> instant res" where
  "verify_parse_time field value =
     bind_res (or_raise (fromisoformat (normalize_z value)) (VerificationError (KeyTimeNotIso field)))
       (\<lambda>parsed. case parsed of
          Naive l \<Rightarrow> Inl (VerificationError (KeyTimeNoTimezone field))
        | Aware l off \<Rightarrow> or_raise (to_utc l off) OverflowErr)"

interpretation key_time: time_field "verify_parse_time field" "VerificationError (KeyTimeNotIso field)"
    "VerificationError (KeyTimeNoTimezone field)" for field
  by unfold_locales (auto simp: verify_parse_time_def split: option.split datetime.split)

record trusted_key =
  key_ref :: pystr
  key_algorithm :: pystr
  key_public_key_pem :: pystr
  key_status :: pystr
  key_not_before :: "instant option"
  key_not_after :: "instant option"
  key_revoked_at :: "instant option"
  key_revocation_reason :: "pystr option"

definition key_statuses :: "pystr list" where
  "key_statuses = [lit ''active'', lit ''retired'', lit ''revoked'']"

text \<open>\<open>status not in {...}\<close> hashes the value first.\<close>

definition expect_status :: "json \<Rightarrow> pystr res" where
  "expect_status v =
     (if \<not> hashable v then Inl TypeErr
      else bind_res (expect_string (VerificationError KeyStatus) v) (\<lambda>s.
           bind_res (raise_if (s \<notin> set key_statuses) (VerificationError KeyStatus)) (\<lambda>_. Inr s)))"

text \<open>A time bound that is not a string is ignored.\<close>

definition key_time_bound :: "obj \<Rightarrow> pystr \<Rightarrow> instant option res" where
  "key_time_bound data field =
     (case py_get data field of
        JStr s \<Rightarrow> bind_res (verify_parse_time field s) (\<lambda>t. Inr (Some t))
      | _ \<Rightarrow> Inr None)"

definition trusted_key_from_dict :: "obj \<Rightarrow> trusted_key res" where
  "trusted_key_from_dict data =
     bind_res (expect_nonempty (VerificationError KeyRefMissing) (py_get data (lit ''key_ref''))) (\<lambda>ref.
     bind_res (raise_if (py_get data (lit ''algorithm'') \<noteq> JStr fips_ready_algorithm)
                 (VerificationError KeyAlgorithm)) (\<lambda>_.
     bind_res (expect_string (VerificationError KeyPemMissing) (py_get data (lit ''public_key_pem''))) (\<lambda>pem.
     bind_res (raise_if (\<not> contains pem pem_header) (VerificationError KeyPemMissing)) (\<lambda>_.
     bind_res (expect_status (get_or data (lit ''status'') (JStr (lit ''active'')))) (\<lambda>status.
     bind_res (expect_opt_string (VerificationError RevocationReasonNotString)
                 (py_get data (lit ''revocation_reason''))) (\<lambda>reason.
     bind_res (key_time_bound data (lit ''not_before'')) (\<lambda>not_before.
     bind_res (key_time_bound data (lit ''not_after'')) (\<lambda>not_after.
     bind_res (key_time_bound data (lit ''revoked_at'')) (\<lambda>revoked_at.
     Inr \<lparr>key_ref = ref, key_algorithm = fips_ready_algorithm, key_public_key_pem = pem,
          key_status = status, key_not_before = not_before, key_not_after = not_after,
          key_revoked_at = revoked_at, key_revocation_reason = reason\<rparr>)))))))))"

definition validate_lifecycle :: "runtime \<Rightarrow> trusted_key \<Rightarrow> datetime option \<Rightarrow> unit res" where
  "validate_lifecycle rt k now =
     bind_res (current_utc rt now) (\<lambda>current.
     bind_res (raise_if (key_status k = lit ''revoked'' \<or> key_revoked_at k \<noteq> None)
                 (VerificationError (KeyRevoked (key_ref k)))) (\<lambda>_.
     bind_res (raise_if (key_status k \<noteq> lit ''active'') (VerificationError (KeyNotActive (key_ref k)))) (\<lambda>_.
     bind_res (raise_if (case key_not_before k of None \<Rightarrow> False | Some t \<Rightarrow> current < t)
                 (VerificationError (KeyNotYetActive (key_ref k)))) (\<lambda>_.
     raise_if (case key_not_after k of None \<Rightarrow> False | Some t \<Rightarrow> t \<le> current)
       (VerificationError (KeyExpired (key_ref k)))))))"

section \<open>Signed payloads\<close>

text \<open>\<open>{k: v for k, v in data.items() if k not in excluded}\<close>, then the canonical text.\<close>

definition without :: "pystr list \<Rightarrow> obj \<Rightarrow> obj" where
  "without excluded data = filter (\<lambda>(k, v). k \<notin> set excluded) data"

definition canonical_payload :: "obj \<Rightarrow> bytes res" where
  "canonical_payload data =
     or_raise (encode_utf8 (dumps (JObj (without [lit ''signature_hex''] data)))) ValueErr"

definition canonical_trust_bundle_payload :: "obj \<Rightarrow> bytes res" where
  "canonical_trust_bundle_payload data =
     or_raise (encode_utf8 (dumps (JObj (without [lit ''signature_hex'', lit ''signatures''] data)))) ValueErr"

section \<open>Verification\<close>

definition verify_rsa_pss_sha256 ::
  "('pub, 'priv) crypto \<Rightarrow> bytes \<Rightarrow> pystr \<Rightarrow> trusted_key \<Rightarrow> unit res" where
  "verify_rsa_pss_sha256 c payload signature_hex k =
     bind_res (or_raise (fromhex signature_hex) (VerificationError SignatureNotHex)) (\<lambda>signature.
     bind_res (or_raise (encode_utf8 (key_public_key_pem k)) ValueErr) (\<lambda>pem.
     bind_res (load_pem_public_key c pem) (\<lambda>public_key.
     bind_res (raise_if (\<not> is_rsa_public c public_key) (VerificationError KeyNotRsa)) (\<lambda>_.
     bind_res (raise_if (key_size c public_key < 2048) (VerificationError KeyTooSmall)) (\<lambda>_.
     raise_if (\<not> pss_verify c public_key 32 signature payload) (VerificationError SignatureInvalid))))))"

fun load_keys :: "runtime \<Rightarrow> datetime option \<Rightarrow> json list \<Rightarrow> (pystr, trusted_key) dict
    \<Rightarrow> (pystr, trusted_key) dict res" where
  "load_keys rt now [] loaded = Inr loaded"
| "load_keys rt now (item # items) loaded =
     bind_res (expect_obj (VerificationError KeyEntryNotObject) item) (\<lambda>d.
     bind_res (trusted_key_from_dict d) (\<lambda>key.
     bind_res (validate_lifecycle rt key now) (\<lambda>_.
     load_keys rt now items (dict_set loaded (key_ref key) key))))"

definition load_trusted_keys :: "runtime \<Rightarrow> obj \<Rightarrow> datetime option \<Rightarrow> (pystr, trusted_key) dict res" where
  "load_trusted_keys rt data now =
     bind_res (expect_list (VerificationError KeysNotArray) (py_get data (lit ''keys''))) (\<lambda>keys.
     load_keys rt now keys [])"

definition load_verified_trust_bundle ::
  "('pub, 'priv) crypto \<Rightarrow> runtime \<Rightarrow> obj \<Rightarrow> (pystr, trusted_key) dict \<Rightarrow> datetime option
     \<Rightarrow> (pystr, trusted_key) dict res" where
  "load_verified_trust_bundle c rt data root_keys now =
     bind_res (expect_nonempty (VerificationError BundleIdMissing) (py_get data (lit ''bundle_id''))) (\<lambda>_.
     bind_res (expect_nonempty (VerificationError BundleSignerMissing) (py_get data (lit ''signer_ref''))) (\<lambda>signer_ref.
     bind_res (expect_nonempty (VerificationError BundleSignatureMissing)
                 (py_get data (lit ''signature_hex''))) (\<lambda>signature_hex.
     bind_res (raise_if (py_get data (lit ''signature_algorithm'') \<noteq> JStr fips_ready_algorithm)
                 (VerificationError BundleAlgorithm)) (\<lambda>_.
     bind_res (raise_if (py_get data (lit ''crypto_profile'') \<noteq> JStr fips_ready_profile)
                 (VerificationError BundleProfile)) (\<lambda>_.
     bind_res (or_raise (dict_get root_keys signer_ref) (VerificationError (NoRootKey signer_ref))) (\<lambda>signer.
     bind_res (validate_lifecycle rt signer now) (\<lambda>_.
     bind_res (canonical_trust_bundle_payload data) (\<lambda>payload.
     bind_res (verify_rsa_pss_sha256 c payload signature_hex signer) (\<lambda>_.
     load_trusted_keys rt data now)))))))))"

section \<open>The life cycle\<close>

definition key_live :: "trusted_key \<Rightarrow> instant \<Rightarrow> bool" where
  "key_live k current \<longleftrightarrow> key_status k = lit ''active'' \<and> key_revoked_at k = None
     \<and> (\<forall>t. key_not_before k = Some t \<longrightarrow> t \<le> current)
     \<and> (\<forall>t. key_not_after k = Some t \<longrightarrow> current < t)"

lemma validate_lifecycle_iff:
  "validate_lifecycle rt k now = Inr () \<longleftrightarrow> (\<exists>current. current_utc rt now = Inr current \<and> key_live k current)"
  by (auto simp: validate_lifecycle_def key_live_def res_simps not_less not_le split: option.splits)

lemma trusted_key_from_dict_sound:
  assumes "trusted_key_from_dict d = Inr k"
  shows "key_ref k \<noteq> []" "key_algorithm k = fips_ready_algorithm"
    "contains (key_public_key_pem k) pem_header" "key_status k \<in> set key_statuses"
  using assms by (auto simp: trusted_key_from_dict_def expect_status_def res_simps split: if_splits)

lemma load_keys_sound:
  "load_keys rt now items loaded = Inr keys \<Longrightarrow>
     \<exists>ks. list_all2 (\<lambda>v k. \<exists>d. v = JObj d \<and> trusted_key_from_dict d = Inr k
            \<and> validate_lifecycle rt k now = Inr ()) items ks
        \<and> keys = fold (\<lambda>(r, k) d. dict_set d r k) (map (\<lambda>k. (key_ref k, k)) ks) loaded"
proof (induction items arbitrary: loaded)
  case (Cons item items)
  from Cons.prems obtain d k where item: "item = JObj d" "trusted_key_from_dict d = Inr k"
    "validate_lifecycle rt k now = Inr ()" and rest: "load_keys rt now items (dict_set loaded (key_ref k) k) = Inr keys"
    by (auto simp: res_simps)
  from Cons.IH [OF rest] obtain ks where
    "list_all2 (\<lambda>v k. \<exists>d. v = JObj d \<and> trusted_key_from_dict d = Inr k
        \<and> validate_lifecycle rt k now = Inr ()) items ks"
    "keys = fold (\<lambda>(r, k) d. dict_set d r k) (map (\<lambda>k. (key_ref k, k)) ks) (dict_set loaded (key_ref k) k)"
    by blast
  with item show ?case by (intro exI [of _ "k # ks"]) auto
qed simp

definition key_listed :: "json list \<Rightarrow> trusted_key \<Rightarrow> bool" where
  "key_listed items k \<longleftrightarrow> (\<exists>d. JObj d \<in> set items \<and> trusted_key_from_dict d = Inr k)"

lemma load_trusted_keys_sound:
  assumes "load_trusted_keys rt data now = Inr keys" "dict_get keys r = Some k"
  shows "key_ref k = r \<and> (\<exists>items. py_get data (lit ''keys'') = JList items \<and> key_listed items k)
    \<and> validate_lifecycle rt k now = Inr ()"
proof -
  from assms(1) obtain items where items: "py_get data (lit ''keys'') = JList items"
    "load_keys rt now items [] = Inr keys" by (auto simp: load_trusted_keys_def res_simps)
  from load_keys_sound [OF items(2)] obtain ks where
    ks: "list_all2 (\<lambda>v k. \<exists>d. v = JObj d \<and> trusted_key_from_dict d = Inr k
            \<and> validate_lifecycle rt k now = Inr ()) items ks"
      "keys = fold (\<lambda>(r, k) d. dict_set d r k) (map (\<lambda>k. (key_ref k, k)) ks) []" by blast
  have "(r, k) \<in> set (map (\<lambda>k. (key_ref k, k)) ks)"
    by (rule dict.get_fold_put_in) (rule assms(2) [unfolded ks(2)])
  then have k: "k \<in> set ks" "key_ref k = r" by (simp_all add: image_iff)
  from list_all2_right [OF ks(1) k(1)] obtain d where "JObj d \<in> set items"
    "trusted_key_from_dict d = Inr k" "validate_lifecycle rt k now = Inr ()"
    by blast
  with items(1) k(2) show ?thesis by (auto simp: key_listed_def)
qed

lemma verify_rsa_pss_iff:
  "verify_rsa_pss_sha256 c payload sig k = Inr () \<longleftrightarrow>
     (\<exists>signature pem pub. fromhex sig = Some signature \<and> encode_utf8 (key_public_key_pem k) = Some pem
        \<and> load_pem_public_key c pem = Inr pub \<and> is_rsa_public c pub \<and> 2048 \<le> key_size c pub
        \<and> pss_verify c pub 32 signature payload)"
  by (auto simp: verify_rsa_pss_sha256_def res_simps not_less)

section \<open>Properties\<close>

text \<open>A key document, its key, and a bundle that lists it.\<close>

definition sample_key :: trusted_key where
  "sample_key = \<lparr>key_ref = lit ''urn:srcos:key:root'', key_algorithm = fips_ready_algorithm,
     key_public_key_pem = demo_pem True, key_status = lit ''active'', key_not_before = None,
     key_not_after = None, key_revoked_at = None, key_revocation_reason = None\<rparr>"

definition sample_key_doc :: obj where
  "sample_key_doc = [(lit ''key_ref'', JStr (lit ''urn:srcos:key:root'')),
     (lit ''algorithm'', JStr fips_ready_algorithm), (lit ''public_key_pem'', JStr (demo_pem True))]"

definition sample_keys_doc :: obj where
  "sample_keys_doc = [(lit ''keys'', JList [JObj sample_key_doc])]"

lemma demo_pem_header: "contains (demo_pem k) pem_header"
  by (simp add: demo_pem_def pem_header_def contains_prefix)

lemma sample_key_parses: "trusted_key_from_dict sample_key_doc = Inr sample_key"
  by (simp add: trusted_key_from_dict_def sample_key_doc_def sample_key_def expect_status_def
      key_statuses_def key_time_bound_def demo_pem_header)

lemma sample_key_live: "key_live sample_key current"
  by (simp add: key_live_def sample_key_def)

lemma sample_keys_load:
  "load_trusted_keys sample_runtime sample_keys_doc None = Inr [(lit ''urn:srcos:key:root'', sample_key)]"
proof -
  have "validate_lifecycle sample_runtime sample_key None = Inr ()"
    by (simp add: validate_lifecycle_iff sample_key_live)
  then show ?thesis
    by (simp add: load_trusted_keys_def sample_keys_doc_def sample_key_parses) (simp add: sample_key_def)
qed

text \<open>
  C21. \<open>validate_lifecycle\<close> accepts a key exactly when the time is known and the key is active, has
  no revocation time, has started and has not ended; the start is inclusive, the end exclusive.
\<close>

theorem lifecycle_exact:
  "validate_lifecycle rt k now = Inr () \<longleftrightarrow>
     (\<exists>current. current_utc rt now = Inr current \<and> key_status k = lit ''active'' \<and> key_revoked_at k = None
        \<and> (case key_not_before k of None \<Rightarrow> True | Some t \<Rightarrow> t \<le> current)
        \<and> (case key_not_after k of None \<Rightarrow> True | Some t \<Rightarrow> current < t))"
  unfolding validate_lifecycle_iff key_live_def by (auto split: option.splits)

text \<open>
  Every key that \<open>load_trusted_keys\<close> returns is stored under its own reference, was parsed from
  an entry of the document, uses the FIPS-ready algorithm and is live at the current time.
\<close>

theorem loaded_keys_live:
  assumes "load_trusted_keys rt data now = Inr keys" and "dict_get keys r = Some k"
  shows "key_ref k = r \<and> key_algorithm k = fips_ready_algorithm
    \<and> (\<exists>items. py_get data (lit ''keys'') = JList items \<and> key_listed items k)
    \<and> (\<exists>current. current_utc rt now = Inr current \<and> key_live k current)"
  using load_trusted_keys_sound [OF assms] trusted_key_from_dict_sound(2)
  by (auto simp: key_listed_def validate_lifecycle_iff)

theorem loaded_keys_live_witness:
  "key_ref sample_key = lit ''urn:srcos:key:root'' \<and> (\<exists>current. key_live sample_key current)"
  using loaded_keys_live [OF sample_keys_load, of "lit ''urn:srcos:key:root''" sample_key] by auto

text \<open>
  C22. Loading is all or nothing: when it succeeds, every entry of the document is an object that
  parses to a live key, so one revoked, expired or malformed entry refuses the whole document.
\<close>

theorem key_loading_all_or_nothing:
  assumes "load_trusted_keys rt data now = Inr keys" and "py_get data (lit ''keys'') = JList items"
    and "item \<in> set items"
  shows "\<exists>d k current. item = JObj d \<and> trusted_key_from_dict d = Inr k
    \<and> current_utc rt now = Inr current \<and> key_live k current"
proof -
  from assms(1,2) have "load_keys rt now items [] = Inr keys" by (simp add: load_trusted_keys_def)
  from load_keys_sound [OF this] obtain ks where
    "list_all2 (\<lambda>v k. \<exists>d. v = JObj d \<and> trusted_key_from_dict d = Inr k
       \<and> validate_lifecycle rt k now = Inr ()) items ks" by blast
  from list_all2_left [OF this assms(3)] show ?thesis
    unfolding validate_lifecycle_iff by blast
qed

theorem key_loading_all_or_nothing_witness:
  "\<exists>d k current. JObj sample_key_doc = JObj d \<and> trusted_key_from_dict d = Inr k
    \<and> current_utc sample_runtime None = Inr current \<and> key_live k current"
  by (rule key_loading_all_or_nothing [OF sample_keys_load, of "[JObj sample_key_doc]"])
     (simp_all add: sample_keys_doc_def)

text \<open>
  C6. A trust bundle's keys are returned only when the bundle names a root key that is live and whose
  RSA key, of at least 2048 bits, verifies the bundle's own signature, the bytes of \<open>signature_hex\<close>, over
  the bundle's canonical payload.
\<close>

theorem bundle_signed_by_root:
  assumes "load_verified_trust_bundle c rt data root_keys now = Inr keys"
  shows "\<exists>signer_ref signer current payload signature_hex signature pem pub.
    py_get data (lit ''signature_hex'') = JStr signature_hex \<and> fromhex signature_hex = Some signature
    \<and> py_get data (lit ''signer_ref'') = JStr signer_ref \<and> dict_get root_keys signer_ref = Some signer
    \<and> current_utc rt now = Inr current \<and> key_live signer current
    \<and> canonical_trust_bundle_payload data = Inr payload
    \<and> encode_utf8 (key_public_key_pem signer) = Some pem \<and> load_pem_public_key c pem = Inr pub
    \<and> is_rsa_public c pub \<and> 2048 \<le> key_size c pub \<and> pss_verify c pub 32 signature payload
    \<and> load_trusted_keys rt data now = Inr keys"
proof -
  from assms obtain signer_ref signature_hex signer payload where
    b: "py_get data (lit ''signature_hex'') = JStr signature_hex"
      "py_get data (lit ''signer_ref'') = JStr signer_ref" "dict_get root_keys signer_ref = Some signer"
      "validate_lifecycle rt signer now = Inr ()" "canonical_trust_bundle_payload data = Inr payload"
      "verify_rsa_pss_sha256 c payload signature_hex signer = Inr ()"
      "load_trusted_keys rt data now = Inr keys"
    by (auto simp: load_verified_trust_bundle_def res_simps)
  with b(4) [unfolded validate_lifecycle_iff] b(6) [unfolded verify_rsa_pss_iff] show ?thesis by blast
qed

definition sample_bundle_doc :: obj where
  "sample_bundle_doc = sample_keys_doc @
     [(lit ''bundle_id'', JStr (lit ''b'')), (lit ''signer_ref'', JStr (lit ''urn:srcos:key:root'')),
      (lit ''signature_algorithm'', JStr fips_ready_algorithm), (lit ''crypto_profile'', JStr fips_ready_profile)]"

definition sample_bundle_payload :: bytes where
  "sample_bundle_payload = dumps (JObj sample_bundle_doc)"

definition sample_bundle :: obj where
  "sample_bundle = sample_bundle_doc @
     [(lit ''signature_hex'', JStr (bytes_hex (demo_sign True sample_bundle_payload)))]"

lemma sample_wf_strs: "is_ascii (lit s) \<Longrightarrow> wf_str (lit s)"
  by (rule wf_str_ascii)

lemma wf_sample_bundle_doc: "wf_json F (JObj sample_bundle_doc)"
  by (simp add: sample_bundle_doc_def sample_keys_doc_def sample_key_doc_def fips_ready_algorithm_def
      fips_ready_profile_def demo_pem_ascii wf_str_ascii)
     (simp add: wf_str_ascii lit_def)

lemma is_bytes_demo_sign: "is_bytes (demo_sign k m)"
  by (simp add: is_bytes_def demo_sign_def demo_tag_def)

lemma sample_bundle_loads:
  "load_verified_trust_bundle demo_crypto sample_runtime sample_bundle
     [(lit ''urn:srcos:key:root'', sample_key)] None = Inr [(lit ''urn:srcos:key:root'', sample_key)]"
proof -
  have "without [lit ''signature_hex'', lit ''signatures''] sample_bundle = sample_bundle_doc"
    by (simp add: sample_bundle_def sample_bundle_doc_def sample_keys_doc_def without_def)
  then have payload: "canonical_trust_bundle_payload sample_bundle = Inr sample_bundle_payload"
    by (simp only: canonical_trust_bundle_payload_def sample_bundle_payload_def
        encode_dumps [OF wf_sample_bundle_doc] or_raise_simps)
  have "validate_lifecycle sample_runtime sample_key None = Inr ()"
    by (simp add: validate_lifecycle_iff sample_key_live)
  moreover have "verify_rsa_pss_sha256 demo_crypto sample_bundle_payload
      (bytes_hex (demo_sign True sample_bundle_payload)) sample_key = Inr ()"
    by (simp add: verify_rsa_pss_iff fromhex_bytes_hex is_bytes_demo_sign sample_key_def
        encode_utf8_ascii demo_pem_ascii demo_crypto_def demo_load_def ex_bool_eq)
  moreover have "bytes_hex (demo_sign True sample_bundle_payload) \<noteq> []"
    by (simp add: demo_sign_def flip: length_0_conv)
  moreover have "load_trusted_keys sample_runtime sample_bundle None =
      Inr [(lit ''urn:srcos:key:root'', sample_key)]"
    using sample_keys_load by (simp add: load_trusted_keys_def sample_bundle_def sample_bundle_doc_def sample_keys_doc_def)
  ultimately show ?thesis
    by (simp add: load_verified_trust_bundle_def payload)
       (simp add: sample_bundle_def sample_bundle_doc_def sample_keys_doc_def)
qed

theorem bundle_signed_by_root_witness:
  "\<exists>payload signature_hex signature pub. canonical_trust_bundle_payload sample_bundle = Inr payload
    \<and> py_get sample_bundle (lit ''signature_hex'') = JStr signature_hex
    \<and> fromhex signature_hex = Some signature \<and> pss_verify demo_crypto pub 32 signature payload"
  using bundle_signed_by_root [OF sample_bundle_loads] by blast

text \<open>
  A key entry whose status is a list or an object does not fail with \<open>VerificationError\<close>: the set
  membership test hashes the status, and its \<open>TypeError\<close> is no \<open>ValueError\<close>.
\<close>

theorem unhashable_status_escapes:
  assumes "\<not> hashable status"
  shows "trusted_key_from_dict (dict_set sample_key_doc (lit ''status'') status) = Inl TypeErr
    \<and> \<not> is_value_error TypeErr"
  using assms by (simp add: trusted_key_from_dict_def sample_key_doc_def expect_status_def demo_pem_header)

theorem unhashable_status_escapes_witness:
  "trusted_key_from_dict (dict_set sample_key_doc (lit ''status'') (JList [])) = Inl TypeErr"
  using unhashable_status_escapes [of "JList []"] by simp

text \<open>
  C23. A time bound that is present but not a string is dropped: a key document that parses is parsed to
  a key without that bound, so a number in \<open>not_after\<close> means no expiry and one in \<open>revoked_at\<close> no
  revocation.
\<close>

theorem non_string_bounds_ignored:
  assumes "trusted_key_from_dict d = Inr k"
  shows "((\<forall>s. py_get d (lit ''not_after'') \<noteq> JStr s) \<longleftrightarrow> key_not_after k = None)
    \<and> ((\<forall>s. py_get d (lit ''not_before'') \<noteq> JStr s) \<longleftrightarrow> key_not_before k = None)
    \<and> ((\<forall>s. py_get d (lit ''revoked_at'') \<noteq> JStr s) \<longleftrightarrow> key_revoked_at k = None)"
proof -
  have bound: "(\<forall>s. py_get d f \<noteq> JStr s) \<longleftrightarrow> b = None" if "key_time_bound d f = Inr b" for f b
    using that by (auto simp: key_time_bound_def res_simps split: json.splits)
  from assms have "key_time_bound d (lit ''not_after'') = Inr (key_not_after k)"
    "key_time_bound d (lit ''not_before'') = Inr (key_not_before k)"
    "key_time_bound d (lit ''revoked_at'') = Inr (key_revoked_at k)"
    by (auto simp: trusted_key_from_dict_def res_simps)
  then show ?thesis using bound by blast
qed

theorem non_string_bounds_ignored_witness:
  "key_not_after sample_key = None"
proof -
  have "trusted_key_from_dict (dict_set sample_key_doc (lit ''not_after'') (JInt 1)) = Inr sample_key"
    using sample_key_parses
    by (simp add: trusted_key_from_dict_def sample_key_doc_def key_time_bound_def)
  from non_string_bounds_ignored [OF this] show ?thesis by simp
qed

end
