(* ===== verification/Signed_Documents.thy ===== *)
theory Signed_Documents
  imports Verify "HOL-Library.Multiset"
begin

text \<open>
  What a signature over the canonical payload fixes. Two documents with the same payload agree on
  every signed field up to the order of keys, and the parsers read no more than that: they return
  the same manifest but for the signature field and the order of artifacts, and the same keys.
\<close>

section \<open>Documents that agree on a field\<close>

definition agree_at :: "obj \<Rightarrow> obj \<Rightarrow> pystr \<Rightarrow> bool" where
  "agree_at d1 d2 k \<longleftrightarrow> map_option canon (dict_get d1 k) = map_option canon (dict_get d2 k)"

lemma canon_atoms [simp]:
  "canon v = JNull \<longleftrightarrow> v = JNull" "JNull = canon v \<longleftrightarrow> v = JNull"
  "canon v = JBool b \<longleftrightarrow> v = JBool b" "JBool b = canon v \<longleftrightarrow> v = JBool b"
  "canon v = JInt i \<longleftrightarrow> v = JInt i" "JInt i = canon v \<longleftrightarrow> v = JInt i"
  "canon v = JFloat t \<longleftrightarrow> v = JFloat t" "JFloat t = canon v \<longleftrightarrow> v = JFloat t"
  "canon v = JStr s \<longleftrightarrow> v = JStr s" "JStr s = canon v \<longleftrightarrow> v = JStr s"
  by (cases v; auto)+

lemma dict_get_canon_obj:
  assumes "distinct (map fst d)" "canon (JObj d) = JObj d'"
  shows "dict_get d' k = map_option canon (dict_get d k)"
proof -
  let ?m = "map (\<lambda>(k, v). (k, canon v)) d"
  from assms(2) have "d' = sort_key fst ?m" by simp
  moreover from assms(1) have "distinct (map fst ?m)" by (simp only: keys_map_snd)
  ultimately have "dict_get d' k = dict_get ?m k" by (simp only: dict_get_def map_of_sort_key)
  then show ?thesis by (simp only: dict_get_map)
qed

lemma canon_obj_agree:
  assumes "distinct (map fst d1)" "distinct (map fst d2)" "canon (JObj d1) = canon (JObj d2)"
  shows "agree_at d1 d2 k"
proof -
  obtain d' where d': "canon (JObj d1) = JObj d'" by simp
  show ?thesis
    using dict_get_canon_obj [OF assms(1) d', of k] dict_get_canon_obj [OF assms(2), of d' k] d' assms(3)
    by (simp add: agree_at_def del: canon.simps)
qed

lemma agree_get_or: "agree_at d1 d2 k \<Longrightarrow> canon (get_or d1 k v) = canon (get_or d2 k v)"
  by (auto simp: agree_at_def get_or_def split: option.splits)

lemma canon_eq_cases:
  assumes "canon v = canon w"
  shows "v = w \<or> (\<exists>xs ys. v = JList xs \<and> w = JList ys) \<or> (\<exists>a b. v = JObj a \<and> w = JObj b)"
  using assms by (cases v; cases w) auto

lemma canon_list: "canon (JList xs) = canon (JList ys) \<Longrightarrow> list_all2 (\<lambda>v w. canon v = canon w) xs ys"
  by (auto simp: list_all2_conv_all_nth dest: map_eq_imp_length_eq) (metis nth_map map_eq_imp_length_eq)

lemma agree_require_string: "agree_at d1 d2 k \<Longrightarrow> require_string d1 k = require_string d2 k"
  using canon_eq_cases [OF agree_get_or, of d1 d2 k JNull] by (auto simp: require_string_def)

lemma agree_expect:
  assumes "agree_at d1 d2 k"
  shows "expect_bool e (get_or d1 k v) = expect_bool e (get_or d2 k v)"
    "expect_string e (get_or d1 k v) = expect_string e (get_or d2 k v)"
    "expect_nonempty e (get_or d1 k v) = expect_nonempty e (get_or d2 k v)"
    "expect_opt_string e (get_or d1 k v) = expect_opt_string e (get_or d2 k v)"
  using canon_eq_cases [OF agree_get_or [OF assms], of v] by auto

section \<open>Well-formed documents\<close>

lemma wf_json_get: "wf_json F (JObj d) \<Longrightarrow> dict_get d k = Some v \<Longrightarrow> wf_json F v"
proof -
  assume wf: "wf_json F (JObj d)" and "dict_get d k = Some v"
  then have "(k, v) \<in> set d" by (simp add: dict_get_SomeD)
  with wf show ?thesis by (auto simp: list_all_iff)
qed

lemma wf_json_get_or: "wf_json F (JObj d) \<Longrightarrow> wf_json F (py_get d k)"
  using wf_json_get [of F d k] by (cases "dict_get d k") (simp_all add: get_or_def)

lemma wf_json_item: "wf_json F (JList xs) \<Longrightarrow> v \<in> set xs \<Longrightarrow> wf_json F v"
  by (simp add: list_all_iff)

lemma wf_json_distinct: "wf_json F (JObj d) \<Longrightarrow> distinct (map fst d)"
  by simp

lemma wf_json_without: "wf_json F (JObj d) \<Longrightarrow> wf_json F (JObj (without ks d))"
  by (auto simp: without_def list_all_iff distinct_map_filter)

lemma dict_get_without: "dict_get (without ks d) k = (if k \<in> set ks then None else dict_get d k)"
  by (simp add: without_def dict_get_filter)

section \<open>Equal payloads\<close>

lemma encode_dumps_inj:
  assumes "wf_json F v" "wf_json F w"
    and "or_raise (encode_utf8 (dumps v)) e = Inr p" "or_raise (encode_utf8 (dumps w)) e' = Inr p"
  shows "canon v = canon w"
  using assms dumps_eq_iff [OF assms(1,2)] by (simp add: encode_dumps)

lemma payload_agree:
  assumes wf: "wf_json F (JObj d1)" "wf_json F (JObj d2)"
    and "or_raise (encode_utf8 (dumps (JObj (without ks d1)))) e = Inr p"
    and "or_raise (encode_utf8 (dumps (JObj (without ks d2)))) e' = Inr p"
    and "k \<notin> set ks"
  shows "agree_at d1 d2 k"
proof -
  note w = wf_json_without [OF wf(1), of ks] wf_json_without [OF wf(2), of ks]
  from encode_dumps_inj [OF w assms(3,4)]
  have "agree_at (without ks d1) (without ks d2) k"
    by (rule canon_obj_agree [OF wf_json_distinct [OF w(1)] wf_json_distinct [OF w(2)]])
  with assms(5) show ?thesis by (simp add: agree_at_def dict_get_without)
qed

lemma canonical_payload_wf:
  "wf_json F (JObj d) \<Longrightarrow> canonical_payload d = Inr (dumps (JObj (without [lit ''signature_hex''] d)))"
  by (simp only: canonical_payload_def encode_dumps [OF wf_json_without] or_raise_simps)

section \<open>The parsers read only the signed fields\<close>

lemma entry_agree: "(\<And>k. agree_at d1 d2 k) \<Longrightarrow> entry_from_dict d1 = entry_from_dict d2"
  by (simp add: entry_from_dict_def agree_require_string [of d1 d2] agree_expect(1) [of d1 d2])

lemma canon_same_obj:
  assumes "wf_json F v" "wf_json F w" "canon v = canon w"
  shows "(\<exists>d1 d2. v = JObj d1 \<and> w = JObj d2 \<and> (\<forall>k. agree_at d1 d2 k))
    \<or> (\<forall>e. expect_obj e v = Inl e \<and> expect_obj e w = Inl e)"
  using canon_eq_cases [OF assms(3)]
proof (elim disjE exE conjE)
  assume vw: "v = w"
  show ?thesis by (cases v) (auto simp: vw [symmetric] agree_at_def)
next
  fix a b assume "v = JObj a" "w = JObj b"
  with assms have "agree_at a b k" for k by (intro canon_obj_agree) simp_all
  with \<open>v = JObj a\<close> \<open>w = JObj b\<close> show ?thesis by blast
qed auto

lemma parse_entries_agree:
  "list_all2 (\<lambda>v w. canon v = canon w) xs ys \<Longrightarrow> list_all (wf_json F) xs \<Longrightarrow> list_all (wf_json F) ys \<Longrightarrow>
     parse_entries xs seen es = parse_entries ys seen es"
proof (induction arbitrary: seen es rule: list_all2_induct)
  case (Cons v xs w ys)
  have "wf_json F v" "wf_json F w" using Cons.prems by simp_all
  from canon_same_obj [OF this Cons.hyps(1)] show ?case
  proof (elim disjE exE conjE)
    fix d1 d2 assume d: "v = JObj d1" "w = JObj d2" "\<forall>k. agree_at d1 d2 k"
    then have "entry_from_dict d1 = entry_from_dict d2" by (blast intro: entry_agree)
    with d Cons show ?thesis by simp
  qed auto
qed simp

lemma agree_list:
  assumes "agree_at d1 d2 k" "wf_json F (JObj d1)" "wf_json F (JObj d2)"
  shows "(\<exists>xs ys. py_get d1 k = JList xs \<and> py_get d2 k = JList ys \<and> list_all (wf_json F) xs
      \<and> list_all (wf_json F) ys \<and> list_all2 (\<lambda>v w. canon v = canon w) xs ys)
    \<or> (\<forall>e. expect_list e (py_get d1 k) = Inl e \<and> expect_list e (py_get d2 k) = Inl e)"
proof -
  note c = agree_get_or [OF assms(1), of JNull]
  note w = wf_json_get_or [OF assms(2), of k] wf_json_get_or [OF assms(3), of k]
  show ?thesis
  proof (cases "\<exists>xs. py_get d1 k = JList xs")
    case True
    then obtain xs where xs: "py_get d1 k = JList xs" by blast
    obtain ys where ys: "py_get d2 k = JList ys" using c unfolding xs by (cases "py_get d2 k") auto
    from canon_list [of xs ys] c xs ys w show ?thesis by (simp del: canon.simps)
  next
    case False
    with canon_eq_cases [OF c] show ?thesis by (auto simp: expect_Inl_iff)
  qed
qed

lemma menu_agree:
  assumes "\<And>k. agree_at d1 d2 k" "wf_json F (JObj d1)" "wf_json F (JObj d2)"
  shows "menu_from_dict d1 = menu_from_dict d2"
  using agree_list [OF assms(1) [of "lit ''entries''"] assms(2,3)]
proof (elim disjE exE conjE)
  fix xs ys assume l: "py_get d1 (lit ''entries'') = JList xs" "py_get d2 (lit ''entries'') = JList ys"
    "list_all (wf_json F) xs" "list_all (wf_json F) ys" "list_all2 (\<lambda>v w. canon v = canon w) xs ys"
  then have "parse_entries xs {} [] = parse_entries ys {} []" "xs = [] \<longleftrightarrow> ys = []"
    by (blast intro: parse_entries_agree) (use l(5) in \<open>auto dest: list_all2_lengthD\<close>)
  with l show ?thesis by (simp add: menu_from_dict_def agree_require_string [OF assms(1)])
qed (simp add: menu_from_dict_def agree_require_string [OF assms(1)])

lemma agree_is_str: "agree_at d1 d2 k \<Longrightarrow> py_get d1 k = JStr s \<longleftrightarrow> py_get d2 k = JStr s"
  using canon_eq_cases [OF agree_get_or, of d1 d2 k JNull] by auto

lemma agree_expect_status:
  "agree_at d1 d2 k \<Longrightarrow> expect_status (get_or d1 k v) = expect_status (get_or d2 k v)"
  using canon_eq_cases [OF agree_get_or, of d1 d2 k v] by (auto simp: expect_status_def)

lemma agree_time_bound: "agree_at d1 d2 k \<Longrightarrow> key_time_bound d1 k = key_time_bound d2 k"
  using canon_eq_cases [OF agree_get_or, of d1 d2 k JNull] by (auto simp: key_time_bound_def)

lemma key_agree: "(\<And>k. agree_at d1 d2 k) \<Longrightarrow> trusted_key_from_dict d1 = trusted_key_from_dict d2"
  by (simp add: trusted_key_from_dict_def agree_is_str [of d1 d2] agree_expect [of d1 d2]
      agree_expect_status [of d1 d2] agree_time_bound [of d1 d2])

lemma load_keys_agree:
  "list_all2 (\<lambda>v w. canon v = canon w) xs ys \<Longrightarrow> list_all (wf_json F) xs \<Longrightarrow> list_all (wf_json F) ys \<Longrightarrow>
     load_keys rt now xs loaded = load_keys rt now ys loaded"
proof (induction arbitrary: loaded rule: list_all2_induct)
  case (Cons v xs w ys)
  have "wf_json F v" "wf_json F w" using Cons.prems by simp_all
  from canon_same_obj [OF this Cons.hyps(1)] show ?case
  proof (elim disjE exE conjE)
    fix d1 d2 assume d: "v = JObj d1" "w = JObj d2" "\<forall>k. agree_at d1 d2 k"
    then have "trusted_key_from_dict d1 = trusted_key_from_dict d2" by (blast intro: key_agree)
    with d Cons show ?thesis by simp
  qed auto
qed simp

lemma load_trusted_keys_agree:
  assumes "agree_at d1 d2 (lit ''keys'')" "wf_json F (JObj d1)" "wf_json F (JObj d2)"
  shows "load_trusted_keys rt d1 now = load_trusted_keys rt d2 now"
  using agree_list [OF assms]
proof (elim disjE exE conjE)
  fix xs ys assume l: "py_get d1 (lit ''keys'') = JList xs" "py_get d2 (lit ''keys'') = JList ys"
    "list_all (wf_json F) xs" "list_all (wf_json F) ys" "list_all2 (\<lambda>v w. canon v = canon w) xs ys"
  then have "load_keys rt now xs [] = load_keys rt now ys []" by (blast intro: load_keys_agree)
  with l show ?thesis by (simp add: load_trusted_keys_def)
qed (simp add: load_trusted_keys_def)

section \<open>Manifests with the same payload\<close>

text \<open>
  A value without objects is fixed by its canonical form; the order of the keys of an object is not.
\<close>

fun no_objects :: "json \<Rightarrow> bool" where
  "no_objects (JObj d) = False"
| "no_objects (JList xs) = list_all no_objects xs"
| "no_objects v = True"

lemma no_objects_canon: "no_objects v \<Longrightarrow> canon v = v"
  by (induction v) (simp_all add: list_all_iff map_idI)

lemma canon_no_objects: "canon w = v \<Longrightarrow> no_objects v \<Longrightarrow> w = v"
proof (induction w arbitrary: v)
  case (JList xs)
  have "canon x = x" if "x \<in> set xs" for x
    using JList.IH [OF that refl] JList.prems that by (auto simp: list_all_iff)
  with JList show ?case by (simp add: map_idI)
qed auto

lemma no_objects_agree: "canon v = canon w \<Longrightarrow> no_objects v \<Longrightarrow> v = w"
  using canon_no_objects [of w v] by (simp add: no_objects_canon)

text \<open>The value a document gives an artifact.\<close>

definition artifact_value :: "obj \<Rightarrow> pystr \<Rightarrow> json" where
  "artifact_value d k = (case py_get d (lit ''artifacts'') of JObj a \<Rightarrow> py_get a k | _ \<Rightarrow> JNull)"

text \<open>
  Equal but for the signature field, the order of the artifacts, and the rendering of artifacts that the
  document \<open>d\<close> gives a value with an object in it.
\<close>

definition same_manifest :: "obj \<Rightarrow> manifest \<Rightarrow> manifest \<Rightarrow> bool" where
  "same_manifest d m1 m2 \<longleftrightarrow>
     m2 = m1\<lparr>manifest_signature_hex := manifest_signature_hex m2, manifest_artifacts := manifest_artifacts m2\<rparr>
     \<and> (\<forall>k. k \<in> set required_artifacts \<or> no_objects (artifact_value d k) \<longrightarrow>
          dict_get (manifest_artifacts m1) k = dict_get (manifest_artifacts m2) k)
     \<and> dom (dict_get (manifest_artifacts m1)) = dom (dict_get (manifest_artifacts m2))"

lemma menu_validate_cong:
  "menu_validate_for_manifest menu (m\<lparr>manifest_signature_hex := h, manifest_artifacts := a\<rparr>) =
     menu_validate_for_manifest menu m"
  by (simp add: menu_validate_for_manifest_def matches_manifest_def)

lemma menu_ok_cong: "menu_ok (m\<lparr>manifest_signature_hex := h, manifest_artifacts := a\<rparr>) = menu_ok m"
  by (simp add: menu_ok_def menu_validate_cong split: option.split)

lemma agree_missing:
  assumes "\<And>k. agree_at a1 a2 k"
  shows "missing_artifacts a1 = missing_artifacts a2"
proof -
  have "nonempty_str (py_get a1 k) = nonempty_str (py_get a2 k)" for k
    using agree_is_str [OF assms] by (auto simp: nonempty_str_iff)
  then show ?thesis by (simp add: missing_artifacts_def)
qed

lemma agree_artifacts:
  assumes a: "\<And>k. agree_at a1 a2 k" and "missing_artifacts a1 = []"
  shows "k \<in> set required_artifacts \<or> no_objects (py_get a1 k) \<Longrightarrow>
      dict_get (map (\<lambda>(k, v). (k, py_str v)) a1) k = dict_get (map (\<lambda>(k, v). (k, py_str v)) a2) k"
    and "dom (dict_get (map (\<lambda>(k, v). (k, py_str v)) a1)) = dom (dict_get (map (\<lambda>(k, v). (k, py_str v)) a2))"
proof -
  assume "k \<in> set required_artifacts \<or> no_objects (py_get a1 k)"
  with assms(2) have n: "no_objects (py_get a1 k)" by (auto simp: missing_artifacts_Nil nonempty_str_iff)
  show "dict_get (map (\<lambda>(k, v). (k, py_str v)) a1) k = dict_get (map (\<lambda>(k, v). (k, py_str v)) a2) k"
  proof (cases "dict_get a1 k")
    case None
    with a [of k] show ?thesis by (simp add: agree_at_def dict_get_map)
  next
    case (Some v)
    with a [of k] obtain w where w: "dict_get a2 k = Some w" "canon v = canon w"
      by (cases "dict_get a2 k") (auto simp: agree_at_def)
    from n Some have "no_objects v" by (simp add: get_or_def)
    with w(2) have "v = w" by (rule no_objects_agree)
    with Some w(1) show ?thesis by (simp add: dict_get_map)
  qed
next
  have "dict_get a1 k = None \<longleftrightarrow> dict_get a2 k = None" for k
    using a [of k] by (auto simp: agree_at_def)
  then show "dom (dict_get (map (\<lambda>(k, v). (k, py_str v)) a1)) = dom (dict_get (map (\<lambda>(k, v). (k, py_str v)) a2))"
    by (auto simp: dom_def dict_get_map)
qed

lemma menu_field_agree:
  assumes "agree_at d1 d2 (lit ''boot_menu'')" "wf_json F (JObj d1)" "wf_json F (JObj d2)"
  shows "menu_field d1 = menu_field d2"
proof -
  note w = wf_json_get_or [OF assms(2), of "lit ''boot_menu''"] wf_json_get_or [OF assms(3), of "lit ''boot_menu''"]
  note c = agree_get_or [OF assms(1), of JNull]
  from canon_same_obj [OF w c] show ?thesis
  proof (elim disjE exE conjE)
    fix a b assume ab: "py_get d1 (lit ''boot_menu'') = JObj a" "py_get d2 (lit ''boot_menu'') = JObj b"
      "\<forall>k. agree_at a b k"
    with w have "menu_from_dict a = menu_from_dict b" by (intro menu_agree [of a b F]) simp_all
    with ab show ?thesis by (simp add: menu_field_def)
  next
    assume "\<forall>e. expect_obj e (py_get d1 (lit ''boot_menu'')) = Inl e \<and> expect_obj e (py_get d2 (lit ''boot_menu'')) = Inl e"
    then show ?thesis using canon_eq_cases [OF c] by (auto simp: menu_field_def expect_Inl_iff)
  qed
qed

lemma manifest_agree:
  assumes agree: "\<And>k. k \<noteq> lit ''signature_hex'' \<Longrightarrow> agree_at d1 d2 k"
    and wf: "wf_json F (JObj d1)" "wf_json F (JObj d2)"
    and m1: "manifest_from_dict d1 = Inr m1" and sig: "require_string d2 (lit ''signature_hex'') = Inr h"
  shows "\<exists>m2. manifest_from_dict d2 = Inr m2 \<and> same_manifest d1 m1 m2"
proof -
  have req: "require_string d2 k = require_string d1 k" if "k \<noteq> lit ''signature_hex''" for k
    using agree_require_string [OF agree [OF that]] by simp
  from m1 obtain a1 where a1: "py_get d1 (lit ''artifacts'') = JObj a1" "missing_artifacts a1 = []"
    "manifest_artifacts m1 = map (\<lambda>(k, v). (k, py_str v)) a1"
    by (auto simp: manifest_from_dict_iff artifacts_read_def)
  have "agree_at d1 d2 (lit ''artifacts'')" by (rule agree) simp
  note c = agree_get_or [OF this, of JNull]
  from canon_same_obj [OF wf_json_get_or [OF wf(1)] wf_json_get_or [OF wf(2)] c] a1(1)
  obtain a2 where a2: "py_get d2 (lit ''artifacts'') = JObj a2" "\<And>k. agree_at a1 a2 k" by auto
  have menu: "menu_field d2 = menu_field d1"
    using menu_field_agree [OF agree wf] by simp
  let ?a = "map (\<lambda>(k, v). (k, py_str v)) a2"
  let ?m = "m1\<lparr>manifest_signature_hex := h, manifest_artifacts := ?a\<rparr>"
  have "manifest_from_dict d2 = Inr ?m"
    using m1 menu sig req agree_missing [OF a2(2)] a1 a2(1)
    by (simp add: manifest_from_dict_iff artifacts_read_def menu_ok_cong)
  moreover have "same_manifest d1 m1 ?m"
    using agree_artifacts(1) [OF a2(2) a1(2)] agree_artifacts(2) [OF a2(2) a1(2)]
    by (simp add: same_manifest_def artifact_value_def a1(1,3))
  ultimately show ?thesis by blast
qed

section \<open>The order of keys\<close>

text \<open>Dictionaries have distinct keys, at every depth.\<close>

fun keys_distinct :: "json \<Rightarrow> bool" where
  "keys_distinct (JList xs) = list_all keys_distinct xs"
| "keys_distinct (JObj d) = (distinct (dict_keys d) \<and> list_all (\<lambda>(k, v). keys_distinct v) d)"
| "keys_distinct v = True"

text \<open>\<open>w\<close> is \<open>v\<close> with the keys of every object, at every depth, in any order.\<close>

function reordered :: "json \<Rightarrow> json \<Rightarrow> bool" where
  "reordered (JList xs) w =
     (case w of
        JList ys \<Rightarrow> length xs = length ys \<and> list_all (\<lambda>(x, y). reordered x y) (zip xs ys)
      | _ \<Rightarrow> False)"
| "reordered (JObj d) w =
     (case w of
        JObj e \<Rightarrow> set (dict_keys d) = set (dict_keys e) \<and>
          list_all (\<lambda>(k, x). case dict_get e k of None \<Rightarrow> False | Some y \<Rightarrow> reordered x y) d
      | _ \<Rightarrow> False)"
| "reordered JNull w = (w = JNull)"
| "reordered (JBool b) w = (w = JBool b)"
| "reordered (JInt i) w = (w = JInt i)"
| "reordered (JFloat t) w = (w = JFloat t)"
| "reordered (JStr s) w = (w = JStr s)"
  by pat_completeness auto
termination
proof (relation "measure (\<lambda>(v, w). size v)", goal_cases)
  case (2 xs w ys z x y)
  then have "x \<in> set xs" by (auto dest: set_zip_leftD)
  then have "size x \<le> size_list size xs" by (rule size_list_estimation') simp
  then show ?case by simp
next
  case (3 d w e z k x y)
  then have "(k, x) \<in> set d" by simp
  then have "size x \<le> size_list (size_prod (\<lambda>x. 0) size) d" by (rule size_list_estimation') simp
  then show ?case by simp
qed simp

text \<open>The canonical form is determined by what the keys are bound to.\<close>

lemma canon_obj_eqI:
  assumes "distinct (dict_keys d)" "distinct (dict_keys e)" "\<And>k. agree_at d e k"
  shows "canon (JObj d) = canon (JObj e)"
proof -
  let ?c = "map (\<lambda>(k, v). (k, canon v))"
  have dist: "distinct (map fst (?c d))" "distinct (map fst (?c e))"
    using assms(1,2) by (simp_all only: keys_map_snd)
  have "map_of (?c d) = map_of (?c e)"
    using assms(3) by (auto simp: agree_at_def dict_get_def map_of_map)
  then have "set (?c d) = set (?c e)"
    by (simp only: map_of_inject_set [OF dist])
  moreover have "distinct (?c d)" "distinct (?c e)" using dist unfolding distinct_map by blast+
  ultimately have "mset (?c d) = mset (?c e)" by (simp only: set_eq_iff_mset_eq_distinct)
  then have "sort_key fst (?c d) = sort_key fst (?c e)"
    using distinct_map [THEN iffD1, OF dist(1)] by (intro sort_key_inj_key_eq) simp_all
  then show ?thesis by simp
qed

lemma reordered_canon: "reordered v w \<Longrightarrow> keys_distinct v \<Longrightarrow> keys_distinct w \<Longrightarrow> canon v = canon w"
proof (induction v w rule: reordered.induct)
  case (1 xs w)
  from "1.prems"(1) obtain ys where w: "w = JList ys" "length xs = length ys"
    "list_all (\<lambda>(x, y). reordered x y) (zip xs ys)"
    by (auto split: json.splits)
  have "map canon xs = map canon ys"
  proof (rule nth_equalityI)
    fix i assume "i < length (map canon xs)"
    then have i: "i < length xs" "i < length ys" using w(2) by simp_all
    then have "(xs ! i, ys ! i) \<in> set (zip xs ys)" by (auto simp: set_zip w(2))
    moreover from this w(3) have "reordered (xs ! i) (ys ! i)" by (auto simp: list_all_iff)
    ultimately have "keys_distinct (xs ! i) \<Longrightarrow> keys_distinct (ys ! i) \<Longrightarrow> canon (xs ! i) = canon (ys ! i)"
      by (intro "1.IH" [OF w(1) _ refl])
    with "1.prems"(2,3) i w(1)
    show "map canon xs ! i = map canon ys ! i" by (simp add: list_all_length)
  qed (simp add: w(2))
  then show ?case by (simp add: w(1))
next
  case (2 d w)
  from "2.prems"(1) obtain e where w: "w = JObj e" "set (dict_keys d) = set (dict_keys e)"
    and r: "\<And>k x. (k, x) \<in> set d \<Longrightarrow> \<exists>y. dict_get e k = Some y \<and> reordered x y"
    by (fastforce simp: list_all_iff split: json.splits option.splits)
  have "agree_at d e k" for k
  proof (cases "dict_get d k")
    case None
    then have "k \<notin> set (dict_keys e)" using w(2) by (simp add: dict_get_def map_of_eq_None_iff)
    then have "dict_get e k = None" by (simp add: dict_get_def map_of_eq_None_iff)
    with None show ?thesis by (simp add: agree_at_def)
  next
    case (Some x)
    then have x: "(k, x) \<in> set d" by (rule dict_get_SomeD)
    from r [OF this] obtain y where y: "dict_get e k = Some y" "reordered x y" by blast
    have "keys_distinct x" "keys_distinct y"
      using "2.prems"(2,3) x dict_get_SomeD [OF y(1)] w(1) by (auto simp: list_all_iff)
    from "2.IH" [OF w(1) x refl y this] Some y(1) show ?thesis by (simp add: agree_at_def)
  qed
  with "2.prems"(2,3) w(1) show ?case by (simp add: canon_obj_eqI del: canon.simps)
qed simp_all

lemma canon_without:
  assumes "canon (JObj d) = canon (JObj e)" "distinct (dict_keys d)" "distinct (dict_keys e)"
  shows "canon (JObj (without ks d)) = canon (JObj (without ks e))"
proof (rule canon_obj_eqI)
  show "agree_at (without ks d) (without ks e) k" for k
    using canon_obj_agree [OF assms(2,3,1), of k] by (simp add: agree_at_def dict_get_without)
qed (use assms(2,3) in \<open>simp_all add: without_def distinct_map_filter\<close>)

section \<open>Properties\<close>

text \<open>
  C5. The signature binds the manifest: when two well-formed documents have the same canonical payload
  and one of them parses, the other parses as soon as it has some signature text, and to the same
  manifest up to that text, the order of the artifacts and the rendering of artifacts whose value has
  an object in it. Every artifact that is a string, required or not, is the same.
\<close>

theorem signature_binds_manifest:
  assumes "wf_json F (JObj d1)" and "wf_json F (JObj d2)"
    and "canonical_payload d1 = Inr p" and "canonical_payload d2 = Inr p"
    and "manifest_from_dict d1 = Inr m1" and "require_string d2 (lit ''signature_hex'') = Inr h"
  shows "\<exists>m2. manifest_from_dict d2 = Inr m2 \<and> same_manifest d1 m1 m2"
proof (rule manifest_agree [OF _ assms(1,2,5,6)])
  fix k assume "k \<noteq> lit ''signature_hex''"
  then show "agree_at d1 d2 k"
    using payload_agree [OF assms(1,2) assms(3,4) [unfolded canonical_payload_def], of k] by simp
qed

text \<open>
  C18. The signature binds a trust bundle: two well-formed bundles with the same signed payload list the
  same keys, so load to the same keys or fail with the same error at any time.
\<close>

theorem signature_binds_bundle:
  assumes "wf_json F (JObj d1)" and "wf_json F (JObj d2)"
    and "canonical_trust_bundle_payload d1 = Inr p" and "canonical_trust_bundle_payload d2 = Inr p"
  shows "load_trusted_keys rt d1 now = load_trusted_keys rt d2 now"
proof (rule load_trusted_keys_agree [OF _ assms(1,2)])
  show "agree_at d1 d2 (lit ''keys'')"
    using payload_agree [OF assms(1,2) assms(3,4) [unfolded canonical_trust_bundle_payload_def],
        of "lit ''keys''"] by simp
qed

text \<open>
  C19. The canonical payload of a well-formed document is a JSON text that reads back as the document
  without its signature, keys sorted: nothing that is signed is lost in the rendering.
\<close>

theorem payload_reads_back:
  assumes "wf_json F (JObj d)"
  shows "\<exists>p. canonical_payload d = Inr p
    \<and> json_loads F p = Inr (canon (JObj (without [lit ''signature_hex''] d)))"
  using canonical_payload_wf [OF assms] json_loads_dumps [OF wf_json_without [OF assms]] by blast

lemma filter_dict_set:
  "\<not> P k \<Longrightarrow> filter (\<lambda>(k, v). P k) (dict_set d k v) = filter (\<lambda>(k, v). P k) d"
  by (induction d k v rule: dict_set.induct) auto

lemma payload_perm:
  assumes "distinct (dict_keys d)" and "mset d' = mset d"
  shows "canonical_payload (dict_set d' (lit ''signature_hex'') v) = canonical_payload d"
proof -
  let ?c = "\<lambda>d. map (\<lambda>(k, v). (k, canon v)) (without [lit ''signature_hex''] d)"
  have "without [lit ''signature_hex''] (dict_set d' (lit ''signature_hex'') v) = without [lit ''signature_hex''] d'"
    unfolding without_def by (rule filter_dict_set) simp
  moreover have "sort_key fst (?c d') = sort_key fst (?c d)"
  proof (rule sort_key_inj_key_eq)
    have "mset (?c d') = mset (?c d)" using assms(2) by (simp add: without_def)
    then show "mset (?c d') = mset (sort_key fst (?c d))" by simp
    have "distinct (map fst (?c d))"
      using assms(1) by (simp only: keys_map_snd) (simp add: without_def distinct_map_filter)
    then have "inj_on fst (set (?c d))" by (rule distinct_map [THEN iffD1, THEN conjunct2])
    with \<open>mset (?c d') = mset (?c d)\<close> show "inj_on fst (set (?c d'))" by (metis set_mset_mset)
    show "sorted (map fst (sort_key fst (?c d)))" by simp
  qed
  ultimately show ?thesis by (simp add: canonical_payload_def dumps_def)
qed

text \<open>
  C20. The payload depends neither on the signature field nor on the order of keys, at any depth: two
  documents that differ in the order of the keys of their objects, nested ones included, and in the
  signature have the same payload.
\<close>

theorem payload_order_independent:
  assumes "reordered (JObj d) (JObj d')" and "keys_distinct (JObj d)" and "keys_distinct (JObj d')"
  shows "canonical_payload (dict_set d' (lit ''signature_hex'') v) = canonical_payload d"
proof -
  have "canon (JObj d) = canon (JObj d')" by (rule reordered_canon [OF assms])
  then have "canon (JObj (without [lit ''signature_hex''] d)) = canon (JObj (without [lit ''signature_hex''] d'))"
    by (rule canon_without) (use assms(2,3) in simp_all)
  moreover have "without [lit ''signature_hex''] (dict_set d' (lit ''signature_hex'') v) = without [lit ''signature_hex''] d'"
    unfolding without_def by (rule filter_dict_set) simp
  ultimately show ?thesis by (simp add: canonical_payload_def dumps_def del: canon.simps)
qed

section \<open>Witnesses\<close>

definition sample_doc :: obj where
  "sample_doc = manifest_doc sample_manifest"

definition sample_doc_resigned :: obj where
  "sample_doc_resigned = dict_set (rev sample_doc) (lit ''signature_hex'') (JStr (lit ''0a''))"

lemma wf_sample_doc: "wf_json F (JObj sample_doc)"
  by (simp add: sample_doc_def manifest_doc_def sample_manifest_def menu_to_dict_def sample_menu_def
      entry_to_dict_def sample_entry_def sample_rollback_entry_def fips_ready_algorithm_def
      fips_ready_profile_def) (simp add: wf_str_ascii lit_def)

lemma wf_sample_doc_resigned: "wf_json F (JObj sample_doc_resigned)"
proof -
  have "list_all (\<lambda>(k, v). wf_str k \<and> wf_json F v) (dict_set (rev sample_doc) k v)"
    if "wf_str k" "wf_json F v" for k v
    using that wf_sample_doc [of F] set_dict_set [of "rev sample_doc" k v] by (auto simp: list_all_iff)
  moreover have "wf_str (lit ''signature_hex'')" "wf_str (lit ''0a'')" by (simp_all add: wf_str_ascii lit_def)
  moreover have "distinct (dict_keys sample_doc_resigned)"
    unfolding sample_doc_resigned_def
    by (rule distinct_dict_set) (use wf_json_distinct [OF wf_sample_doc [of F]] in \<open>simp add: rev_map [symmetric]\<close>)
  ultimately show ?thesis by (simp add: sample_doc_resigned_def)
qed

text \<open>The same document with its keys, and those of the nested object, in another order.\<close>

definition nested_doc :: obj where
  "nested_doc = [(lit ''boot_mode'', JStr (lit ''recovery'')),
     (lit ''artifacts'', JObj [(lit ''initrd_ref'', JStr (lit ''i'')), (lit ''kernel_ref'', JStr (lit ''k''))])]"

definition nested_doc_reordered :: obj where
  "nested_doc_reordered =
     [(lit ''artifacts'', JObj [(lit ''kernel_ref'', JStr (lit ''k'')), (lit ''initrd_ref'', JStr (lit ''i''))]),
      (lit ''boot_mode'', JStr (lit ''recovery''))]"

theorem payload_order_independent_witness:
  "nested_doc_reordered \<noteq> nested_doc
    \<and> canonical_payload (dict_set nested_doc_reordered (lit ''signature_hex'') (JStr (lit ''00'')))
        = canonical_payload nested_doc"
proof
  show "nested_doc_reordered \<noteq> nested_doc" by (simp add: nested_doc_def nested_doc_reordered_def)
  show "canonical_payload (dict_set nested_doc_reordered (lit ''signature_hex'') (JStr (lit ''00'')))
        = canonical_payload nested_doc"
    by (rule payload_order_independent) (auto simp: nested_doc_def nested_doc_reordered_def)
qed

theorem payload_reads_back_witness:
  "\<exists>p. canonical_payload sample_doc = Inr p"
  using payload_reads_back [OF wf_sample_doc] by blast

text \<open>The sample bundle signed, its keys in another order, with another signature field.\<close>

definition sample_bundle_resigned :: obj where
  "sample_bundle_resigned = (lit ''signatures'', JList [JStr (lit ''0a'')]) # rev sample_bundle_doc"

lemma wf_sample_bundle_resigned: "wf_json F (JObj sample_bundle_resigned)"
proof -
  have "wf_str (lit ''signatures'')" "wf_str (lit ''0a'')" by (simp_all add: wf_str_ascii lit_def)
  moreover have "lit ''signatures'' \<notin> fst ` set sample_bundle_doc"
    by (simp add: sample_bundle_doc_def sample_keys_doc_def)
  ultimately show ?thesis
    using wf_sample_bundle_doc [of F] by (simp add: sample_bundle_resigned_def list_all_iff rev_map [symmetric])
qed

lemma sample_bundle_payloads:
  "canonical_trust_bundle_payload sample_bundle_doc = Inr sample_bundle_payload"
  "canonical_trust_bundle_payload sample_bundle_resigned = Inr sample_bundle_payload"
proof -
  let ?ks = "[lit ''signature_hex'', lit ''signatures'']"
  have w: "without ?ks sample_bundle_doc = sample_bundle_doc"
    "without ?ks sample_bundle_resigned = rev sample_bundle_doc"
    by (simp_all add: sample_bundle_resigned_def sample_bundle_doc_def sample_keys_doc_def without_def)
  have "agree_at (rev sample_bundle_doc) sample_bundle_doc k" for k
    using wf_json_distinct [OF wf_sample_bundle_doc]
    by (simp add: agree_at_def sample_bundle_doc_def sample_keys_doc_def)
  then have "canon (JObj (rev sample_bundle_doc)) = canon (JObj sample_bundle_doc)"
    by (rule canon_obj_eqI [rotated 2]) (use wf_json_distinct [OF wf_sample_bundle_doc] in \<open>simp_all add: rev_map [symmetric]\<close>)
  then have "dumps (JObj (rev sample_bundle_doc)) = sample_bundle_payload"
    by (simp only: dumps_def sample_bundle_payload_def)
  with encode_dumps [OF wf_sample_bundle_doc]
  show "canonical_trust_bundle_payload sample_bundle_doc = Inr sample_bundle_payload"
    "canonical_trust_bundle_payload sample_bundle_resigned = Inr sample_bundle_payload"
    by (simp_all only: canonical_trust_bundle_payload_def w sample_bundle_payload_def or_raise_simps)
qed

theorem signature_binds_bundle_witness:
  "sample_bundle_resigned \<noteq> sample_bundle_doc
    \<and> load_trusted_keys sample_runtime sample_bundle_resigned None
        = Inr [(lit ''urn:srcos:key:root'', sample_key)]"
proof
  show "sample_bundle_resigned \<noteq> sample_bundle_doc"
    by (simp add: sample_bundle_resigned_def sample_bundle_doc_def sample_keys_doc_def)
  have "load_trusted_keys sample_runtime sample_bundle_doc None = Inr [(lit ''urn:srcos:key:root'', sample_key)]"
    using sample_keys_load by (simp add: load_trusted_keys_def sample_bundle_doc_def sample_keys_doc_def)
  then show "load_trusted_keys sample_runtime sample_bundle_resigned None
      = Inr [(lit ''urn:srcos:key:root'', sample_key)]"
    using signature_binds_bundle [OF wf_sample_bundle_resigned wf_sample_bundle_doc sample_bundle_payloads(2,1)]
    by simp
qed

theorem signature_binds_manifest_witness:
  "\<exists>m2. manifest_from_dict sample_doc_resigned = Inr m2 \<and> same_manifest sample_doc sample_manifest m2"
proof -
  obtain p where p: "canonical_payload sample_doc = Inr p"
    using canonical_payload_wf [OF wf_sample_doc] by blast
  have "canonical_payload sample_doc_resigned = canonical_payload sample_doc"
    unfolding sample_doc_resigned_def
    by (rule payload_perm) (use wf_json_distinct [OF wf_sample_doc] in simp_all)
  with p have p2: "canonical_payload sample_doc_resigned = Inr p" by simp
  have "manifest_from_dict sample_doc = Inr sample_manifest"
    unfolding sample_doc_def by (rule manifest_from_doc [OF wf_sample_manifest])
  moreover have "require_string sample_doc_resigned (lit ''signature_hex'') = Inr (lit ''0a'')"
    by (rule proto_string.require_found) (simp_all add: sample_doc_resigned_def is_space_def)
  ultimately show ?thesis
    by (rule signature_binds_manifest [OF wf_sample_doc wf_sample_doc_resigned p p2])
qed

end
