(* ===== verification/Document_Files.thy ===== *)
theory Document_Files
  imports Json_Files Signed_Documents Protocol_Token
begin

text \<open>
  Documents kept in files: a document written in canonical form is read back with its keys sorted, and
  neither the signed payload nor the parsed manifest notices the sorting.
\<close>

section \<open>Sorting the keys changes nothing that is signed or parsed\<close>

lemma sort_key_sorted: "sorted (map f xs) \<Longrightarrow> sort_key f xs = xs"
  by (induction xs) (auto intro: insort_is_Cons)

lemma canon_idem [simp]: "canon (canon v) = canon v"
proof (induction v)
  case (JObj d)
  have "map (\<lambda>(k, v). (k, canon v)) (map (\<lambda>(k, v). (k, canon v)) d) = map (\<lambda>(k, v). (k, canon v)) d"
    using JObj.IH by (fastforce simp: case_prod_beta)
  then show ?case
    by (simp add: sort_key_map_snd [symmetric] sort_key_sorted del: map_map)
qed simp_all

lemma without_canon:
  "canon (JObj d) = JObj d' \<Longrightarrow> canon (JObj (without ks d)) = JObj (without ks d')"
proof -
  assume "canon (JObj d) = JObj d'"
  then have d': "d' = sort_key fst (map (\<lambda>(k, v). (k, canon v)) d)" by simp
  have "without ks (map (\<lambda>(k, v). (k, canon v)) d) = map (\<lambda>(k, v). (k, canon v)) (without ks d)"
    by (induction d) (auto simp: without_def)
  then show ?thesis by (simp add: d' without_def filter_sort)
qed

lemma canonical_payload_canon:
  assumes "canon (JObj d) = JObj d'"
  shows "canonical_payload d' = canonical_payload d"
  using without_canon [OF assms, of "[lit ''signature_hex'']"]
  by (metis canonical_payload_def canon_idem dumps_def)

text \<open>The manifest of a document is the manifest of its sorted form, up to the order of artifacts.\<close>

lemma manifest_canon:
  assumes "wf_json F (JObj d)" "canon (JObj d) = JObj d'" "manifest_from_dict d = Inr m"
  shows "\<exists>m'. manifest_from_dict d' = Inr m' \<and> same_manifest d m m'"
proof -
  have wf': "wf_json F (JObj d')" using wf_json_canon [OF assms(1)] unfolding assms(2) .
  have agree: "agree_at d d' k" for k
    by (rule canon_obj_agree [OF wf_json_distinct [OF assms(1)] wf_json_distinct [OF wf']])
       (metis assms(2) canon_idem)
  from assms(3) have "require_string d (lit ''signature_hex'') = Inr (manifest_signature_hex m)"
    by (auto simp: manifest_from_dict_iff)
  with agree_require_string [OF agree] have "require_string d' (lit ''signature_hex'') = Inr (manifest_signature_hex m)"
    by metis
  from manifest_agree [OF _ assms(1) wf' assms(3) this] agree show ?thesis by blast
qed

lemma same_manifest_admits:
  assumes "same_manifest d m m'"
  shows "token_admits t m' current \<longleftrightarrow> token_admits t m current"
proof -
  from assms have m': "m' = m\<lparr>manifest_signature_hex := manifest_signature_hex m',
      manifest_artifacts := manifest_artifacts m'\<rparr>" by (simp add: same_manifest_def)
  have "manifest_boot_release_set_id m' = manifest_boot_release_set_id m"
    "manifest_base_release_set_ref m' = manifest_base_release_set_ref m"
    "manifest_boot_mode m' = manifest_boot_mode m"
    by (subst m', simp)+
  then show ?thesis by (simp add: token_admits_def)
qed

end
