(* ===== verification/Cli.thy ===== *)
theory Cli
  imports Protocol_Plan Document_Files
begin

text \<open>
  \<open>cli.py\<close>: the command \<open>nlboot-plan\<close>. Files are a function from paths to their bytes or the exception
  of reading them; the result of \<open>main\<close> is its exit code and standard output, or the exception that
  leaves it. A plan is printed only for a manifest that a live trusted key signed.
\<close>

section \<open>The command\<close>

definition load_json :: "runtime \<Rightarrow> (pystr \<Rightarrow> bytes res) \<Rightarrow> pystr \<Rightarrow> obj res" where
  "load_json rt files path =
     bind_res (files path) (\<lambda>content.
     bind_res (or_raise (read_text content) ValueErr) (\<lambda>s.
     bind_res (on_failure ValueErr (\<lambda>e. e) (decode_json rt s)) (\<lambda>data.
     expect_obj (NlbootError NotJsonObject) data)))"

interpretation document: json_file rt files "\<lambda>p. True" "\<lambda>e. e" "\<lambda>p. ValueErr"
    "\<lambda>p. expect_obj (NlbootError NotJsonObject)" "load_json rt files" for rt files
  by unfold_locales (auto simp: load_json_def split: sum.split option.split)

definition verify_manifest_document ::
  "('pub, 'priv) crypto \<Rightarrow> runtime \<Rightarrow> obj \<Rightarrow> obj \<Rightarrow> bool \<Rightarrow> unit res" where
  "verify_manifest_document c rt doc keys_doc require_fips =
     bind_res (raise_if (require_fips \<and>
                 (py_get doc (lit ''signature_algorithm'') \<noteq> JStr fips_ready_algorithm
                  \<or> py_get doc (lit ''crypto_profile'') \<noteq> JStr fips_ready_profile))
                 (VerificationError RequireFips)) (\<lambda>_.
     bind_res (expect_string (VerificationError SignerRefNotString)
                 (py_get doc (lit ''signer_ref''))) (\<lambda>signer_ref.
     bind_res (expect_string (VerificationError SignatureNotString)
                 (py_get doc (lit ''signature_hex''))) (\<lambda>signature_hex.
     bind_res (load_trusted_keys rt keys_doc None) (\<lambda>trusted_keys.
     bind_res (or_raise (dict_get trusted_keys signer_ref) (VerificationError (NoTrustedKey signer_ref))) (\<lambda>key.
     bind_res (raise_if (JStr (key_algorithm key) \<noteq> py_get doc (lit ''signature_algorithm''))
                 (VerificationError KeyAlgorithmMismatch)) (\<lambda>_.
     bind_res (canonical_payload doc) (\<lambda>payload.
     verify_rsa_pss_sha256 c payload signature_hex key)))))))"

record cli_args =
  arg_manifest :: pystr
  arg_token :: pystr
  arg_trusted_keys :: pystr
  arg_require_fips :: bool
  arg_now :: "pystr option"

text \<open>\<open>--now\<close>: absent or empty means the wall clock.\<close>

definition parse_now :: "runtime \<Rightarrow> pystr option \<Rightarrow> datetime option res" where
  "parse_now rt now =
     (case now of
        None \<Rightarrow> Inr None
      | Some s \<Rightarrow>
          if s = [] then Inr None
          else bind_res (or_raise (fromisoformat (normalize_z s)) ValueErr) (\<lambda>parsed.
               bind_res (current_utc rt (Some parsed)) (\<lambda>t. Inr (utc_now t))))"

text \<open>The body of the \<open>try\<close> statement.\<close>

definition make_plan ::
  "('pub, 'priv) crypto \<Rightarrow> runtime \<Rightarrow> (pystr \<Rightarrow> bytes res) \<Rightarrow> cli_args \<Rightarrow> boot_plan res" where
  "make_plan c rt files args =
     bind_res (parse_now rt (arg_now args)) (\<lambda>now.
     bind_res (load_json rt files (arg_manifest args)) (\<lambda>doc.
     bind_res (load_json rt files (arg_trusted_keys args)) (\<lambda>keys_doc.
     bind_res (verify_manifest_document c rt doc keys_doc (arg_require_fips args)) (\<lambda>_.
     bind_res (manifest_from_dict doc) (\<lambda>m.
     bind_res (load_json rt files (arg_token args)) (\<lambda>token_data.
     bind_res (token_from_dict token_data) (\<lambda>t.
     build_boot_plan rt m t now)))))))"

definition plan_report :: "boot_plan \<Rightarrow> pystr" where
  "plan_report p = dumps_indent (JObj [(lit ''ok'', JBool True), (lit ''plan'', JObj (plan_to_dict p))]) @ [10]"

text \<open>
  Every class the \<open>except\<close> clause names is a \<open>ValueError\<close>; any other exception leaves \<open>main\<close>.
\<close>

definition main ::
  "('pub, 'priv) crypto \<Rightarrow> runtime \<Rightarrow> (pystr \<Rightarrow> bytes res) \<Rightarrow> cli_args \<Rightarrow> (int \<times> pystr) res" where
  "main c rt files args =
     (case make_plan c rt files args of
        Inl e \<Rightarrow> if is_value_error e then Inr (2, []) else Inl e
      | Inr p \<Rightarrow> Inr (0, plan_report p))"

section \<open>What success means\<close>

lemma main_success: "main c rt files args = Inr (0, out) \<longleftrightarrow>
    (\<exists>p. make_plan c rt files args = Inr p \<and> out = plan_report p)"
  by (auto simp: main_def split: sum.splits)

lemma verify_manifest_document_Inr:
  "verify_manifest_document c rt d keys_doc fips = Inr () \<longleftrightarrow>
     (fips \<longrightarrow> py_get d (lit ''signature_algorithm'') = JStr fips_ready_algorithm
        \<and> py_get d (lit ''crypto_profile'') = JStr fips_ready_profile)
     \<and> (\<exists>signer_ref signature_hex keys key payload.
          py_get d (lit ''signer_ref'') = JStr signer_ref \<and> py_get d (lit ''signature_hex'') = JStr signature_hex
          \<and> load_trusted_keys rt keys_doc None = Inr keys \<and> dict_get keys signer_ref = Some key
          \<and> py_get d (lit ''signature_algorithm'') = JStr (key_algorithm key)
          \<and> canonical_payload d = Inr payload \<and> verify_rsa_pss_sha256 c payload signature_hex key = Inr ())"
  by (auto simp: verify_manifest_document_def res_simps)

text \<open>The manifest document was signed by a listed key that is live at the wall clock.\<close>

definition signed_by_live_key :: "('pub, 'priv) crypto \<Rightarrow> runtime \<Rightarrow> obj \<Rightarrow> obj \<Rightarrow> bool" where
  "signed_by_live_key c rt d keys_doc \<longleftrightarrow>
     (\<exists>items key payload signature_hex signature pem pub.
        py_get keys_doc (lit ''keys'') = JList items \<and> key_listed items key \<and> key_live key (wall_clock rt)
        \<and> py_get d (lit ''signer_ref'') = JStr (key_ref key)
        \<and> py_get d (lit ''signature_hex'') = JStr signature_hex \<and> fromhex signature_hex = Some signature
        \<and> encode_utf8 (key_public_key_pem key) = Some pem \<and> load_pem_public_key c pem = Inr pub
        \<and> is_rsa_public c pub \<and> 2048 \<le> key_size c pub
        \<and> canonical_payload d = Inr payload \<and> pss_verify c pub 32 signature payload)"

lemma verified_signed:
  assumes "verify_manifest_document c rt d keys_doc fips = Inr ()"
  shows "signed_by_live_key c rt d keys_doc"
proof -
  from assms [unfolded verify_manifest_document_Inr] obtain signer_ref signature_hex keys key payload where
    v: "py_get d (lit ''signer_ref'') = JStr signer_ref" "py_get d (lit ''signature_hex'') = JStr signature_hex"
      "load_trusted_keys rt keys_doc None = Inr keys" "dict_get keys signer_ref = Some key"
      "canonical_payload d = Inr payload" "verify_rsa_pss_sha256 c payload signature_hex key = Inr ()"
    by blast
  from load_trusted_keys_sound [OF v(3,4)] obtain items where
    k: "key_ref key = signer_ref" "py_get keys_doc (lit ''keys'') = JList items" "key_listed items key"
      "key_live key (wall_clock rt)"
    by (auto simp: validate_lifecycle_iff)
  from v(6) [unfolded verify_rsa_pss_iff] v(1,2,5) k show ?thesis
    unfolding signed_by_live_key_def by blast
qed

lemma make_plan_Inr:
  "make_plan c rt files args = Inr p \<longleftrightarrow>
     (\<exists>now d keys_doc m token_data t.
        parse_now rt (arg_now args) = Inr now \<and> load_json rt files (arg_manifest args) = Inr d
        \<and> load_json rt files (arg_trusted_keys args) = Inr keys_doc
        \<and> verify_manifest_document c rt d keys_doc (arg_require_fips args) = Inr ()
        \<and> manifest_from_dict d = Inr m \<and> load_json rt files (arg_token args) = Inr token_data
        \<and> token_from_dict token_data = Inr t \<and> build_boot_plan rt m t now = Inr p)"
  by (auto simp: make_plan_def res_simps)

lemma parsed_fips_fields:
  "manifest_from_dict d = Inr m \<Longrightarrow> py_get d (lit ''signature_algorithm'') = JStr fips_ready_algorithm
     \<and> py_get d (lit ''crypto_profile'') = JStr fips_ready_profile"
  by (auto simp: manifest_from_dict_iff proto_string.require_Inr_iff)

section \<open>What failure means\<close>

definition benign :: "exn \<Rightarrow> bool" where
  "benign e \<longleftrightarrow> is_value_error e \<or> e \<in> {TypeErr, OverflowErr, UnsupportedAlgorithm, RecursionErr, OsErr}"

lemma benign_simps [simp]:
  "benign (NlbootError m)" "benign (VerificationError v)" "benign ValueErr" "benign TypeErr"
  "benign OverflowErr" "benign UnsupportedAlgorithm" "benign RecursionErr" "benign OsErr"
  by (simp_all add: benign_def)

text \<open>Reading a file fails as \<open>read_text\<close> does, and the system time zone as \<open>astimezone\<close> does.\<close>

definition files_ok :: "(pystr \<Rightarrow> bytes res) \<Rightarrow> bool" where
  "files_ok files \<longleftrightarrow> (\<forall>p e. files p = Inl e \<longrightarrow> e \<in> {OsErr, ValueErr})"

definition zone_ok :: "runtime \<Rightarrow> bool" where
  "zone_ok rt \<longleftrightarrow> (\<forall>l e. local_zone rt l = Inl e \<longrightarrow> e \<in> {OsErr, ValueErr, OverflowErr})"

lemma zone_okD: "local_zone rt l = Inl e \<Longrightarrow> zone_ok rt \<Longrightarrow> benign e"
proof -
  assume "local_zone rt l = Inl e" "zone_ok rt"
  hence "e \<in> {OsErr, ValueErr, OverflowErr}" unfolding zone_ok_def by blast
  thus "benign e" by auto
qed

lemma files_okD: "files p = Inl e \<Longrightarrow> files_ok files \<Longrightarrow> benign e"
proof -
  assume "files p = Inl e" "files_ok files"
  hence "e \<in> {OsErr, ValueErr}" unfolding files_ok_def by blast
  thus "benign e" by auto
qed

lemma current_utc_benign: "zone_ok rt \<Longrightarrow> current_utc rt now = Inl e \<Longrightarrow> benign e"
  by (auto simp: current_utc_def or_raise_Inl_iff split: option.splits datetime.splits dest!: zone_okD)

lemma parse_now_benign: "zone_ok rt \<Longrightarrow> parse_now rt now = Inl e \<Longrightarrow> benign e"
  by (auto simp: parse_now_def bind_res_Inl_iff or_raise_Inl_iff dest: current_utc_benign
      split: option.splits if_splits)

lemma load_json_benign:
  assumes "limits_ok rt" "files_ok files" "load_json rt files p = Inl e"
  shows "benign e"
  using document.read_fails [OF assms(1,3)] files_okD [OF _ assms(2)] by (auto simp: expect_Inl_iff)

lemma key_parse_benign: "trusted_key_from_dict d = Inl e \<Longrightarrow> benign e"
proof -
  have "key_time_bound d f = Inl e \<Longrightarrow> benign e" for f e
    using key_time.parse_errors by (fastforce simp: key_time_bound_def bind_res_Inl_iff split: json.splits)
  moreover have "expect_status v = Inl e \<Longrightarrow> benign e" for v e
    by (auto simp: expect_status_def bind_res_Inl_iff split: if_splits dest: expect_string_Inl)
  ultimately show "trusted_key_from_dict d = Inl e \<Longrightarrow> benign e"
    by (auto simp: trusted_key_from_dict_def bind_res_Inl_iff dest: expect_string_Inl expect_opt_string_Inl)
qed

lemma validate_lifecycle_benign: "zone_ok rt \<Longrightarrow> validate_lifecycle rt k now = Inl e \<Longrightarrow> benign e"
  by (auto simp: validate_lifecycle_def bind_res_Inl_iff dest: current_utc_benign)

lemma load_keys_benign: "zone_ok rt \<Longrightarrow> load_keys rt now items loaded = Inl e \<Longrightarrow> benign e"
proof (induction items arbitrary: loaded)
  case (Cons item items)
  then show ?case
    by (auto simp: bind_res_Inl_iff expect_Inl_iff dest: key_parse_benign validate_lifecycle_benign)
qed simp

lemma verify_rsa_benign:
  "load_errors_ok c \<Longrightarrow> verify_rsa_pss_sha256 c payload s k = Inl e \<Longrightarrow> benign e"
  by (auto simp: verify_rsa_pss_sha256_def bind_res_Inl_iff or_raise_Inl_iff dest!: load_errors_okD)

lemma verify_manifest_benign:
  assumes "load_errors_ok c" "zone_ok rt" "verify_manifest_document c rt d keys_doc fips = Inl e"
  shows "benign e"
  using assms verify_rsa_benign [OF assms(1)] load_keys_benign [OF assms(2)]
  by (auto simp: verify_manifest_document_def load_trusted_keys_def canonical_payload_def bind_res_Inl_iff
      or_raise_Inl_iff expect_Inl_iff dest: expect_string_Inl)

lemma make_plan_benign:
  assumes "load_errors_ok c" "zone_ok rt" "files_ok files" "limits_ok rt" "make_plan c rt files args = Inl e"
  shows "benign e"
proof -
  have plan: "benign x" if "manifest_from_dict d = Inr m" "build_boot_plan rt m t now = Inl x" for d m t now x
  proof (cases "current_utc rt now")
    case (Inl y)
    with that(2) have "x = y" by (simp add: build_boot_plan_def token_validate_for_manifest_def)
    with current_utc_benign [OF assms(2) Inl] show ?thesis by simp
  next
    case (Inr current)
    from build_boot_plan_nlboot [OF manifest_from_dict_wf [OF that(1)] Inr that(2)] show ?thesis by auto
  qed
  have "benign x" if "token_from_dict d = Inl x" for d x
    using token_from_dict_errors [OF that] by (auto simp: nlboot_or_overflow_def)
  moreover have "benign x" if "manifest_from_dict d = Inl x" for d x
    using manifest_from_dict_nlboot [OF that] by auto
  ultimately show ?thesis
    using assms(5) parse_now_benign [OF assms(2)] load_json_benign [OF assms(4,3)]
      verify_manifest_benign [OF assms(1,2)] plan
    unfolding make_plan_def bind_res_Inl_iff by metis
qed

section \<open>A signed release is planned\<close>

text \<open>A file written in canonical form loads as its document with sorted keys.\<close>

lemma load_json_dumps:
  assumes "files p = Inr (dumps (JObj d))" "wf_json (float_repr rt) (JObj d)"
    and "limit_error rt (dumps (JObj d)) = None" "canon (JObj d) = JObj d'"
  shows "load_json rt files p = Inr d'"
  using document.read_dumps [where files = files, OF assms(1-3)] unfolding assms(4) by simp

text \<open>The document carries a signature of its payload by the key \<open>p\<close>, and the keys list that key.\<close>

definition signed_with ::
  "('pub, 'priv) crypto \<Rightarrow> runtime \<Rightarrow> 'priv \<Rightarrow> bytes \<Rightarrow> obj \<Rightarrow> obj \<Rightarrow> bool" where
  "signed_with c rt p rnd d keys_doc \<longleftrightarrow>
     (\<exists>payload keys key. canonical_payload d = Inr payload
        \<and> py_get d (lit ''signature_hex'') = JStr (bytes_hex (pss_sign c p 32 payload rnd))
        \<and> load_trusted_keys rt keys_doc None = Inr keys
        \<and> py_get d (lit ''signer_ref'') = JStr (key_ref key) \<and> dict_get keys (key_ref key) = Some key
        \<and> key_public_key_pem key = public_pem c (public_of c p))"

lemma signed_with_verifies:
  assumes "keys_ok c" "is_rsa_private c p" "2048 \<le> key_size c (public_of c p)"
    and "signed_with c rt p rnd d keys_doc" "manifest_from_dict d = Inr m"
  shows "verify_manifest_document c rt d keys_doc fips = Inr ()"
proof -
  from assms(4) obtain payload keys key where
    s: "canonical_payload d = Inr payload"
      "py_get d (lit ''signature_hex'') = JStr (bytes_hex (pss_sign c p 32 payload rnd))"
      "load_trusted_keys rt keys_doc None = Inr keys"
      "py_get d (lit ''signer_ref'') = JStr (key_ref key)" "dict_get keys (key_ref key) = Some key"
      "key_public_key_pem key = public_pem c (public_of c p)"
    unfolding signed_with_def by blast
  have "is_rsa_public c (public_of c p)" "is_bytes (pss_sign c p 32 payload rnd)"
    "pss_verify c (public_of c p) 32 (pss_sign c p 32 payload rnd) payload"
    "is_ascii (public_pem c (public_of c p))"
    "load_pem_public_key c (public_pem c (public_of c p)) = Inr (public_of c p)"
    using assms(1,2) by (simp_all add: keys_ok_def key_pair_ok_def sign_ok_def public_pem_ok_def)
  with assms(3) s(6) have "verify_rsa_pss_sha256 c payload (bytes_hex (pss_sign c p 32 payload rnd)) key = Inr ()"
    by (simp add: verify_rsa_pss_iff fromhex_bytes_hex encode_utf8_ascii)
  moreover have "key_algorithm key = fips_ready_algorithm"
    using load_trusted_keys_sound [OF s(3,5)] trusted_key_from_dict_sound(2) by (auto simp: key_listed_def)
  ultimately show ?thesis
    using s parsed_fips_fields [OF assms(5)] by (simp add: verify_manifest_document_Inr)
qed

lemma signed_planned:
  assumes "keys_ok c" "is_rsa_private c p" "2048 \<le> key_size c (public_of c p)"
    and "load_json rt files (arg_manifest args) = Inr d" "load_json rt files (arg_trusted_keys args) = Inr keys_doc"
    and "load_json rt files (arg_token args) = Inr token_data" "parse_now rt (arg_now args) = Inr now"
    and "signed_with c rt p rnd d keys_doc" "manifest_from_dict d = Inr m"
    and "token_from_dict token_data = Inr t" "current_utc rt now = Inr current" "token_admits t m current"
  shows "\<exists>p. make_plan c rt files args = Inr p \<and> build_boot_plan rt m t now = Inr p"
proof -
  obtain p where "build_boot_plan rt m t now = Inr p"
    using build_boot_plan_iff [OF manifest_from_dict_wf [OF assms(9)], of rt t now] assms(11,12) by auto
  with assms(4-7,9,10) signed_with_verifies [OF assms(1-3,8,9)] show ?thesis
    by (simp add: make_plan_def)
qed

section \<open>A concrete release\<close>

definition demo_payload :: bytes where
  "demo_payload = dumps (JObj (without [lit ''signature_hex''] sample_doc))"

definition demo_doc :: obj where
  "demo_doc = dict_set sample_doc (lit ''signature_hex'') (JStr (bytes_hex (demo_sign True demo_payload)))"

definition demo_files :: "pystr \<Rightarrow> bytes res" where
  "demo_files path =
     (if path = lit ''manifest.json'' then Inr (dumps (JObj demo_doc))
      else if path = lit ''keys.json'' then Inr (dumps (JObj sample_keys_doc))
      else if path = lit ''token.json'' then Inr (dumps (JObj (token_doc sample_token)))
      else Inl OsErr)"

definition demo_args :: cli_args where
  "demo_args = \<lparr>arg_manifest = lit ''manifest.json'', arg_token = lit ''token.json'',
     arg_trusted_keys = lit ''keys.json'', arg_require_fips = True, arg_now = None\<rparr>"

lemma wf_sample_keys_doc: "wf_json F (JObj sample_keys_doc)"
  by (simp add: sample_keys_doc_def sample_key_doc_def fips_ready_algorithm_def demo_pem_ascii wf_str_ascii)
     (simp add: wf_str_ascii lit_def)

lemma wf_sample_token_doc: "wf_json F (JObj (token_doc sample_token))"
proof -
  have "wf_str (isoformat_z sample_time)" "wf_str (isoformat_z sample_expiry)"
    using isoformat_z_text [of sample_time] isoformat_z_text [of sample_expiry] by (auto intro!: wf_str_ascii)
  then show ?thesis by (simp add: token_doc_def sample_token_def subject_json_def) (simp add: wf_str_ascii lit_def)
qed

lemma wf_demo_doc: "wf_json F (JObj demo_doc)"
proof -
  have "wf_str (bytes_hex s)" for s
    by (rule wf_str_ascii) (auto simp: bytes_hex_def is_ascii_def dest!: hex_digits_ascii [unfolded is_ascii_def, rule_format])
  moreover have "wf_str (lit ''signature_hex'')" by (simp add: wf_str_ascii lit_def)
  ultimately have "list_all (\<lambda>(k, v). wf_str k \<and> wf_json F v) demo_doc"
    using wf_sample_doc [of F] set_dict_set [of sample_doc "lit ''signature_hex''"
        "JStr (bytes_hex (demo_sign True demo_payload))"]
    by (auto simp: list_all_iff demo_doc_def)
  moreover have "distinct (dict_keys demo_doc)"
    unfolding demo_doc_def by (rule distinct_dict_set [OF wf_json_distinct [OF wf_sample_doc]])
  ultimately show ?thesis by simp
qed

lemma demo_doc_payload: "canonical_payload demo_doc = Inr demo_payload"
  using payload_perm [of sample_doc sample_doc] wf_json_distinct [OF wf_sample_doc]
    canonical_payload_wf [OF wf_sample_doc] by (simp add: demo_doc_def demo_payload_def)

lemma demo_doc_parses: "\<exists>m. manifest_from_dict demo_doc = Inr m \<and> same_manifest sample_doc sample_manifest m"
proof (rule manifest_agree [OF _ wf_sample_doc wf_demo_doc])
  show "manifest_from_dict sample_doc = Inr sample_manifest"
    unfolding sample_doc_def by (rule manifest_from_doc [OF wf_sample_manifest])
  let ?h = "bytes_hex (demo_sign True demo_payload)"
  have "?h \<noteq> []" by (simp add: demo_sign_def flip: length_0_conv)
  then have "is_lower_hex (hd ?h)" by (intro bytes_hex_lower [OF hd_in_set])
  with \<open>?h \<noteq> []\<close> have "nonblank ?h"
    by (intro nonblank_hd) (auto simp: is_lower_hex_def is_space_def)
  then show "require_string demo_doc (lit ''signature_hex'') = Inr (bytes_hex (demo_sign True demo_payload))"
    by (intro proto_string.require_found) (simp_all add: demo_doc_def)
qed (simp add: agree_at_def demo_doc_def)

lemma canon_sample_token: "\<exists>d. canon (JObj (token_doc sample_token)) = JObj d \<and> token_from_dict d = Inr sample_token"
proof -
  let ?d = "[(lit ''audience'', JObj [(lit ''subject_id'', JNull), (lit ''subject_kind'', JStr (lit ''device''))]),
      (lit ''boot_release_set_ref'', token_boot_release_set_ref sample_token),
      (lit ''expires_at'', JStr (isoformat_z sample_expiry)), (lit ''issued_at'', JStr (isoformat_z sample_time)),
      (lit ''one_time_use'', JBool True), (lit ''purpose'', JStr (lit ''recovery'')),
      (lit ''release_set_ref'', token_release_set_ref sample_token), (lit ''status'', JStr (lit ''issued'')),
      (lit ''token_id'', JStr (token_id sample_token))]"
  have "canon (JObj (token_doc sample_token)) = JObj ?d"
    by (simp add: token_doc_def sample_token_def subject_json_def lit_def)
  moreover have "token_from_dict ?d = Inr sample_token"
    using token_from_doc [OF wf_sample_token]
    by (simp add: token_from_dict_def token_doc_def require_string_def sample_token_def subject_json_def)
  ultimately show ?thesis by blast
qed

lemma sample_keys_canon:
  assumes "canon (JObj sample_keys_doc) = JObj d"
  shows "load_trusted_keys sample_runtime d None = Inr [(lit ''urn:srcos:key:root'', sample_key)]"
proof -
  have wf: "wf_json F (JObj d)" for F using wf_json_canon [OF wf_sample_keys_doc] unfolding assms .
  have "agree_at d sample_keys_doc k" for k
    by (rule canon_obj_agree [OF wf_json_distinct [OF wf] wf_json_distinct [OF wf_sample_keys_doc]])
       (metis assms canon_idem)
  from load_trusted_keys_agree [OF this wf wf_sample_keys_doc] sample_keys_load show ?thesis by simp
qed

text \<open>What the three files hold, and that the manifest's signature is by the key the key file lists.\<close>

lemma demo_release:
  "\<exists>d keys_doc token_data m.
     load_json sample_runtime demo_files (arg_manifest demo_args) = Inr d
     \<and> load_json sample_runtime demo_files (arg_trusted_keys demo_args) = Inr keys_doc
     \<and> load_json sample_runtime demo_files (arg_token demo_args) = Inr token_data
     \<and> signed_with demo_crypto sample_runtime True [] d keys_doc
     \<and> manifest_from_dict d = Inr m \<and> token_from_dict token_data = Inr sample_token
     \<and> token_admits sample_token m (wall_clock sample_runtime)"
proof -
  obtain m0 where m0: "manifest_from_dict demo_doc = Inr m0" "same_manifest sample_doc sample_manifest m0"
    using demo_doc_parses by blast
  obtain d where d: "canon (JObj demo_doc) = JObj d" by simp
  obtain m where m: "manifest_from_dict d = Inr m" "same_manifest demo_doc m0 m"
    using manifest_canon [OF wf_demo_doc d m0(1)] by blast
  obtain keys_doc where k: "canon (JObj sample_keys_doc) = JObj keys_doc" by simp
  obtain token_data where t: "canon (JObj (token_doc sample_token)) = JObj token_data"
    "token_from_dict token_data = Inr sample_token" using canon_sample_token by blast
  have files: "load_json sample_runtime demo_files (arg_manifest demo_args) = Inr d"
    "load_json sample_runtime demo_files (arg_trusted_keys demo_args) = Inr keys_doc"
    "load_json sample_runtime demo_files (arg_token demo_args) = Inr token_data"
    by (rule load_json_dumps [OF _ wf_demo_doc _ d] load_json_dumps [OF _ wf_sample_keys_doc _ k]
        load_json_dumps [OF _ wf_sample_token_doc _ t(1)];
        simp add: demo_files_def demo_args_def sample_runtime_def)+
  have field: "py_get d f = canon (py_get demo_doc f)" for f
    using dict_get_canon_obj [OF wf_json_distinct [OF wf_demo_doc] d, of f]
    by (simp add: get_or_def split: option.split)
  have "py_get demo_doc (lit ''signer_ref'') = JStr (key_ref sample_key)"
    by (simp add: demo_doc_def sample_doc_def manifest_doc_def sample_manifest_def sample_key_def)
  moreover have "canonical_payload d = Inr demo_payload"
    by (simp add: canonical_payload_canon [OF d] demo_doc_payload)
  moreover have "key_public_key_pem sample_key = public_pem demo_crypto (public_of demo_crypto True)"
    "pss_sign demo_crypto True 32 demo_payload [] = demo_sign True demo_payload"
    by (simp_all add: sample_key_def demo_crypto_def)
  ultimately have "signed_with demo_crypto sample_runtime True [] d keys_doc"
    unfolding signed_with_def using sample_keys_canon [OF k]
    by (intro exI [of _ demo_payload] exI [of _ "[(lit ''urn:srcos:key:root'', sample_key)]"]
        exI [of _ sample_key])
      (simp add: field, simp add: demo_doc_def sample_key_def)
  moreover have "token_admits sample_token m (wall_clock sample_runtime)"
    using sample_token_admits same_manifest_admits [OF m0(2)] same_manifest_admits [OF m(2)]
    by (simp add: sample_runtime_def)
  ultimately show ?thesis using files m(1) t(2) by blast
qed

lemma demo_planned: "\<exists>out. main demo_crypto sample_runtime demo_files demo_args = Inr (0, out)"
proof -
  obtain d keys_doc token_data m where
    "load_json sample_runtime demo_files (arg_manifest demo_args) = Inr d"
    "load_json sample_runtime demo_files (arg_trusted_keys demo_args) = Inr keys_doc"
    "load_json sample_runtime demo_files (arg_token demo_args) = Inr token_data"
    "signed_with demo_crypto sample_runtime True [] d keys_doc" "manifest_from_dict d = Inr m"
    "token_from_dict token_data = Inr sample_token" "token_admits sample_token m (wall_clock sample_runtime)"
    using demo_release by blast
  from signed_planned [OF demo_keys_ok _ _ this(1-3) _ this(4-6) _ this(7)] show ?thesis
    by (auto simp: main_success demo_crypto_def demo_args_def parse_now_def)
qed

section \<open>Properties\<close>

text \<open>
  C4. The command exits with 0 only after verifying: the manifest file holds a document that a live
  trusted key signed with RSA-PSS, it parses, the token file's token admits it at the time used, and
  the printed plan is the one built from them, which does not execute.
\<close>

theorem planned_only_when_signed:
  assumes "main c rt files args = Inr (0, out)"
  shows "\<exists>d keys_doc m token_data t now current p.
    load_json rt files (arg_manifest args) = Inr d \<and> load_json rt files (arg_trusted_keys args) = Inr keys_doc
    \<and> signed_by_live_key c rt d keys_doc \<and> manifest_from_dict d = Inr m
    \<and> load_json rt files (arg_token args) = Inr token_data \<and> token_from_dict token_data = Inr t
    \<and> parse_now rt (arg_now args) = Inr now \<and> current_utc rt now = Inr current \<and> token_admits t m current
    \<and> build_boot_plan rt m t now = Inr p \<and> \<not> plan_execute p \<and> out = plan_report p"
proof -
  from assms obtain p where p: "make_plan c rt files args = Inr p" "out = plan_report p"
    unfolding main_success by blast
  from p(1) [unfolded make_plan_Inr] obtain now d keys_doc m token_data t where
    s: "parse_now rt (arg_now args) = Inr now" "load_json rt files (arg_manifest args) = Inr d"
      "load_json rt files (arg_trusted_keys args) = Inr keys_doc"
      "verify_manifest_document c rt d keys_doc (arg_require_fips args) = Inr ()"
      "manifest_from_dict d = Inr m" "load_json rt files (arg_token args) = Inr token_data"
      "token_from_dict token_data = Inr t" "build_boot_plan rt m t now = Inr p" by blast
  from s(8) build_boot_plan_iff [OF manifest_from_dict_wf [OF s(5)]] obtain current where
    "current_utc rt now = Inr current" "token_admits t m current" by blast
  moreover have "\<not> plan_execute p" using build_boot_plan_inert [OF s(8)] by (simp add: plan_is_inert_def)
  ultimately show ?thesis using s verified_signed [OF s(4)] p(2) by blast
qed

theorem planned_only_when_signed_witness:
  "\<exists>d keys_doc. load_json sample_runtime demo_files (lit ''manifest.json'') = Inr d
     \<and> signed_by_live_key demo_crypto sample_runtime d keys_doc"
proof -
  obtain out where "main demo_crypto sample_runtime demo_files demo_args = Inr (0, out)"
    using demo_planned by blast
  from planned_only_when_signed [OF this] show ?thesis by (auto simp: demo_args_def)
qed

text \<open>
  C7. A signed release is planned: when the manifest file holds a document that a trusted live RSA key
  of at least 2048 bits signed, the manifest and the token parse, and the token admits the manifest
  at the time used, that of \<open>--now\<close> or the wall clock, the command exits with 0 and prints the plan.
\<close>

theorem signed_release_planned:
  assumes "keys_ok c" and "is_rsa_private c p" and "2048 \<le> key_size c (public_of c p)"
    and "load_json rt files (arg_manifest args) = Inr d"
    and "load_json rt files (arg_trusted_keys args) = Inr keys_doc"
    and "load_json rt files (arg_token args) = Inr token_data" and "parse_now rt (arg_now args) = Inr now"
    and "signed_with c rt p rnd d keys_doc" and "manifest_from_dict d = Inr m"
    and "token_from_dict token_data = Inr t" and "current_utc rt now = Inr current" and "token_admits t m current"
  shows "\<exists>plan. build_boot_plan rt m t now = Inr plan \<and> main c rt files args = Inr (0, plan_report plan)"
  using signed_planned [OF assms] by (auto simp: main_success)

theorem signed_release_planned_witness:
  "\<exists>plan. main demo_crypto sample_runtime demo_files demo_args = Inr (0, plan_report plan)"
proof -
  obtain d keys_doc token_data m where
    "load_json sample_runtime demo_files (arg_manifest demo_args) = Inr d"
    "load_json sample_runtime demo_files (arg_trusted_keys demo_args) = Inr keys_doc"
    "load_json sample_runtime demo_files (arg_token demo_args) = Inr token_data"
    "signed_with demo_crypto sample_runtime True [] d keys_doc" "manifest_from_dict d = Inr m"
    "token_from_dict token_data = Inr sample_token" "token_admits sample_token m (wall_clock sample_runtime)"
    using demo_release by blast
  from signed_release_planned [OF demo_keys_ok _ _ this(1-3) _ this(4-6) _ this(7)] show ?thesis
    by (auto simp: demo_crypto_def demo_args_def parse_now_def)
qed

text \<open>
  C33. \<open>--require-fips\<close> never changes what is planned: a run with it exits with 0 and a report exactly
  when the run without it does, because the manifest parser accepts the FIPS-ready profile alone.
\<close>

theorem require_fips_redundant:
  "main c rt files (args\<lparr>arg_require_fips := True\<rparr>) = Inr (0, out) \<longleftrightarrow>
     main c rt files (args\<lparr>arg_require_fips := False\<rparr>) = Inr (0, out)"
  unfolding main_success make_plan_Inr verify_manifest_document_Inr using parsed_fips_fields
  by (fastforce simp del: not_None_eq)

text \<open>
  C34. A run ends in one of three ways: exit code 0, exit code 2 with nothing printed, or an exception
  the command does not catch, and that is a \<open>TypeError\<close>, an \<open>OverflowError\<close>, an unsupported key
  algorithm, a \<open>RecursionError\<close> of the JSON decoder or an unreadable file.
\<close>

theorem run_outcomes:
  assumes "load_errors_ok c" and "zone_ok rt" and "files_ok files" and "limits_ok rt"
  shows "case main c rt files args of
      Inr (code, out) \<Rightarrow> code = 0 \<or> (code = 2 \<and> out = [])
    | Inl e \<Rightarrow> e \<in> {TypeErr, OverflowErr, UnsupportedAlgorithm, RecursionErr, OsErr}"
proof (cases "make_plan c rt files args")
  case (Inl e)
  with make_plan_benign [OF assms Inl] show ?thesis by (auto simp: main_def benign_def)
qed (simp add: main_def)

text \<open>A run whose manifest is nested too deeply for the interpreter.\<close>

definition shallow_runtime :: runtime where
  "shallow_runtime = sample_runtime\<lparr>limit_error := (\<lambda>s. if starts_with s [91, 91] then Some RecursionErr else None)\<rparr>"

definition nested_files :: "pystr \<Rightarrow> bytes res" where
  "nested_files path = Inr [91, 91, 93, 93]"

lemma shallow_runtime_ok: "zone_ok shallow_runtime" "limits_ok shallow_runtime" "files_ok nested_files"
  by (simp_all add: zone_ok_def limits_ok_def files_ok_def nested_files_def shallow_runtime_def
      sample_runtime_def or_raise_Inl_iff)

lemma nested_escapes: "main demo_crypto shallow_runtime nested_files demo_args = Inl RecursionErr"
proof -
  have "read_text [91, 91, 93, 93] = Some [91, 91, 93, 93]"
    by (simp add: read_text_def decode_utf8_ascii is_ascii_def)
  then have "load_json shallow_runtime nested_files path = Inl RecursionErr" for path
    by (simp add: load_json_def nested_files_def decode_json_def on_failure_def shallow_runtime_def starts_with_def)
  then show ?thesis by (simp add: main_def make_plan_def parse_now_def demo_args_def)
qed

theorem run_outcomes_witness:
  "\<exists>e. main demo_crypto shallow_runtime nested_files demo_args = Inl e
     \<and> e \<in> {TypeErr, OverflowErr, UnsupportedAlgorithm, RecursionErr, OsErr}"
  using run_outcomes [OF demo_crypto_ok(1) shallow_runtime_ok(1,3,2), of demo_args] nested_escapes by simp

section \<open>What the signature leaves open\<close>

lemma loaded_wf:
  assumes "float_repr_ok (float_repr rt)" "load_json rt files p = Inr d"
  shows "wf_json (float_repr rt) (JObj d)"
  using document.read_wf [where files = files, OF assms TrueI] by (auto simp: expect_Inr_iff)

lemma same_manifest_plan:
  assumes "same_manifest d m m'" "build_boot_plan rt m t now = Inr p" "build_boot_plan rt m' t now' = Inr p'"
  shows "p' = p\<lparr>plan_artifacts := manifest_artifacts m'\<rparr> \<and> plan_artifacts p = manifest_artifacts m"
proof -
  from assms(1) obtain h a where m': "m' = m\<lparr>manifest_signature_hex := h, manifest_artifacts := a\<rparr>"
    by (auto simp: same_manifest_def)
  then have "selected_entry m' = selected_entry m" by (simp add: selected_entry_def menu_validate_cong split: option.split)
  with assms(2,3) m' show ?thesis by (auto simp: build_boot_plan_def res_simps)
qed

lemma payload_fixes_manifest:
  assumes "float_repr_ok (float_repr rt)"
    and "load_json rt files p = Inr d" "load_json rt files' p' = Inr d'"
    and "canonical_payload d = canonical_payload d'"
    and "manifest_from_dict d = Inr m" "manifest_from_dict d' = Inr m'"
  shows "same_manifest d m m'"
proof -
  note wf = loaded_wf [OF assms(1,2)] loaded_wf [OF assms(1,3)]
  obtain payload where payload: "canonical_payload d = Inr payload" "canonical_payload d' = Inr payload"
    using canonical_payload_wf [OF wf(1)] assms(4) by auto
  have sig: "require_string d' (lit ''signature_hex'') = Inr (manifest_signature_hex m')"
    using assms(6) by (auto simp: manifest_from_dict_iff)
  have "agree_at d d' k" if "k \<noteq> lit ''signature_hex''" for k
    using payload_agree [OF wf payload [unfolded canonical_payload_def]] that by simp
  from manifest_agree [OF this wf assms(5) sig] assms(6) show ?thesis by auto
qed

text \<open>
  C32. The signed payload fixes the printed plan: two runs that exit with 0, on manifest files with the same
  payload and on the same token, print plans that agree in everything but the order of the artifacts
  and the rendering of optional artifacts whose value in the manifest has an object in it.
\<close>

theorem payload_fixes_plan:
  assumes "float_repr_ok (float_repr rt)"
    and "main c rt files args = Inr (0, out)" and "main c rt files' args' = Inr (0, out')"
    and "load_json rt files (arg_manifest args) = Inr d" and "load_json rt files' (arg_manifest args') = Inr d'"
    and "canonical_payload d = canonical_payload d'"
    and "load_json rt files (arg_token args) = load_json rt files' (arg_token args')"
  shows "\<exists>p p'. out = plan_report p \<and> out' = plan_report p' \<and> p' = p\<lparr>plan_artifacts := plan_artifacts p'\<rparr>
    \<and> dom (dict_get (plan_artifacts p)) = dom (dict_get (plan_artifacts p'))
    \<and> (\<forall>k. k \<in> set required_artifacts \<or> no_objects (artifact_value d k) \<longrightarrow>
          dict_get (plan_artifacts p) k = dict_get (plan_artifacts p') k)"
proof -
  from assms(2) [unfolded main_success make_plan_Inr] assms(4) obtain m token_data t now p where
    r: "manifest_from_dict d = Inr m" "load_json rt files (arg_token args) = Inr token_data"
      "token_from_dict token_data = Inr t" "build_boot_plan rt m t now = Inr p" "out = plan_report p" by auto
  from assms(3) [unfolded main_success make_plan_Inr] assms(5,7) r(2,3) obtain m' now' p' where
    r': "manifest_from_dict d' = Inr m'" "build_boot_plan rt m' t now' = Inr p'" "out' = plan_report p'" by auto
  have same: "same_manifest d m m'" by (rule payload_fixes_manifest [OF assms(1,4,5,6) r(1) r'(1)])
  from same_manifest_plan [OF same r(4) r'(2)] same r(5) r'(3) show ?thesis
    by (intro exI [of _ p] exI [of _ p']) (auto simp: same_manifest_def)
qed

lemma sample_float_repr: "float_repr_ok (float_repr sample_runtime)"
  by (simp add: float_repr_ok_def sample_runtime_def wf_float_def)

theorem payload_fixes_plan_witness:
  "\<exists>p. main demo_crypto sample_runtime demo_files demo_args = Inr (0, plan_report p)"
proof -
  obtain out where out: "main demo_crypto sample_runtime demo_files demo_args = Inr (0, out)"
    using demo_planned by blast
  obtain d where "load_json sample_runtime demo_files (arg_manifest demo_args) = Inr d"
    using demo_release by blast
  from payload_fixes_plan [OF sample_float_repr out out this this refl refl] out show ?thesis by auto
qed

end
