(* ===== verification/Py_Value.thy ===== *)
theory Py_Value
  imports Py_Json Py_Errors
begin

text \<open>
  What the repository's tools do with JSON values they do not check: subscripts, attribute access,
  iteration, membership and \<open>==\<close>, with the \<open>TypeError\<close>, \<open>KeyError\<close> and \<open>AttributeError\<close> they raise.
\<close>

section \<open>Subscripts and attributes\<close>

text \<open>\<open>d[k]\<close> of a dictionary, and \<open>v.get(k, default)\<close> of any value: only a dictionary has \<open>get\<close>.\<close>

definition get_item :: "obj \<Rightarrow> pystr \<Rightarrow> json res" where
  "get_item d k = or_raise (dict_get d k) (KeyErr k)"

fun attr_get :: "json \<Rightarrow> pystr \<Rightarrow> json \<Rightarrow> json res" where
  "attr_get (JObj d) k v = Inr (get_or d k v)"
| "attr_get w k v = Inl AttributeErr"

lemma attr_get_Inr_iff [res_simps]: "attr_get w k v = Inr x \<longleftrightarrow> (\<exists>d. w = JObj d \<and> x = get_or d k v)"
  by (cases w) auto

lemma attr_get_Inl_iff: "attr_get w k v = Inl e \<longleftrightarrow> e = AttributeErr \<and> (\<forall>d. w \<noteq> JObj d)"
  by (cases w) auto

section \<open>Iteration\<close>

text \<open>\<open>for x in v\<close>: the items of a list, the keys of a dictionary, the characters of a string.\<close>

fun py_iter :: "json \<Rightarrow> json list res" where
  "py_iter (JList xs) = Inr xs"
| "py_iter (JObj d) = Inr (map JStr (dict_keys d))"
| "py_iter (JStr s) = Inr (map (\<lambda>c. JStr [c]) s)"
| "py_iter v = Inl TypeErr"

lemma py_iter_Inl: "py_iter v = Inl e \<Longrightarrow> e = TypeErr"
  by (cases v) auto

section \<open>Equality\<close>

text \<open>
  \<open>==\<close> of two values read from JSON. \<open>True\<close> is 1, and a float equals an integer when that is its
  value: \<open>fint t\<close> is the integer the float with \<open>repr\<close> \<open>t\<close> denotes, if it denotes one. Inside a
  container an item equals itself, and the decoder shares one \<open>nan\<close>.
\<close>

fun py_num :: "(pystr \<Rightarrow> int option) \<Rightarrow> json \<Rightarrow> int option" where
  "py_num fint (JBool b) = Some (if b then 1 else 0)"
| "py_num fint (JInt i) = Some i"
| "py_num fint (JFloat t) = fint t"
| "py_num fint v = None"

abbreviation is_nan :: "json \<Rightarrow> bool" where
  "is_nan v \<equiv> v = JFloat (lit ''nan'')"

definition scalar_eq :: "(pystr \<Rightarrow> int option) \<Rightarrow> json \<Rightarrow> json \<Rightarrow> bool" where
  "scalar_eq fint v w \<longleftrightarrow>
     (case (py_num fint v, py_num fint w) of
        (Some i, Some j) \<Rightarrow> i = j
      | (None, None) \<Rightarrow> v = w \<and> \<not> is_nan v
      | _ \<Rightarrow> False)"

function py_eq :: "(pystr \<Rightarrow> int option) \<Rightarrow> json \<Rightarrow> json \<Rightarrow> bool" where
  "py_eq fint (JList xs) w =
     (case w of
        JList ys \<Rightarrow> length xs = length ys \<and>
          list_all (\<lambda>(x, y). is_nan x \<and> is_nan y \<or> py_eq fint x y) (zip xs ys)
      | _ \<Rightarrow> False)"
| "py_eq fint (JObj d) w =
     (case w of
        JObj d' \<Rightarrow> length d = length d' \<and>
          list_all (\<lambda>(k, x). case dict_get d' k of
              None \<Rightarrow> False | Some y \<Rightarrow> is_nan x \<and> is_nan y \<or> py_eq fint x y) d
      | _ \<Rightarrow> False)"
| "py_eq fint JNull w = scalar_eq fint JNull w"
| "py_eq fint (JBool b) w = scalar_eq fint (JBool b) w"
| "py_eq fint (JInt i) w = scalar_eq fint (JInt i) w"
| "py_eq fint (JFloat t) w = scalar_eq fint (JFloat t) w"
| "py_eq fint (JStr s) w = scalar_eq fint (JStr s) w"
  by pat_completeness auto
termination
proof (relation "measure (\<lambda>(fint, v, w). size v)", goal_cases)
  case (2 fint xs w ys z x y)
  then have "x \<in> set xs" by (auto dest: set_zip_leftD)
  then have "size x \<le> size_list size xs" by (rule size_list_estimation') simp
  then show ?case by simp
next
  case (3 fint d w d' z k x y)
  then have "(k, x) \<in> set d" by simp
  then have "size x \<le> size_list (size_prod (\<lambda>x. 0) size) d" by (rule size_list_estimation') simp
  then show ?case by simp
qed simp

text \<open>\<open>x in xs\<close> for a list: some item is the same object or equal.\<close>

definition py_in_list :: "(pystr \<Rightarrow> int option) \<Rightarrow> json \<Rightarrow> json list \<Rightarrow> bool" where
  "py_in_list fint x xs \<longleftrightarrow> list_ex (\<lambda>y. is_nan x \<and> is_nan y \<or> py_eq fint x y) xs"

lemma py_eq_str [simp]: "py_eq fint (JStr s) w \<longleftrightarrow> w = JStr s"
  by (cases w) (auto simp: scalar_eq_def split: option.splits)

lemma py_eq_str_right [simp]: "py_eq fint v (JStr s) \<longleftrightarrow> v = JStr s"
  by (cases v) (auto simp: scalar_eq_def split: option.splits)

end
