(* ===== verification/Sbom.thy ===== *)
theory Sbom
  imports Py_Fields Py_Value Py_Repr Json_Files
begin

text \<open>
  \<open>tools/cargo_metadata_to_spdx.py\<close>: the software bill of materials of a release, from the output of
  \<open>cargo metadata\<close>. The metadata is any JSON value, so every subscript, attribute and iteration may
  fail. The relationships lead from each workspace member to every other package, and the document
  does not depend on the order or repetition of the members.
\<close>

section \<open>Packages\<close>

definition package_external_ref :: "obj \<Rightarrow> json list res" where
  "package_external_ref package =
     (let checksum = py_get package (lit ''checksum'') in
      if \<not> truthy checksum then Inr []
      else
        bind_res (get_item package (lit ''name'')) (\<lambda>name.
        bind_res (get_item package (lit ''version'')) (\<lambda>version.
        Inr [JObj [(lit ''referenceCategory'', JStr (lit ''PACKAGE-MANAGER'')),
                   (lit ''referenceType'', JStr (lit ''purl'')),
                   (lit ''referenceLocator'',
                    JStr (lit ''pkg:cargo/'' @ py_str name @ lit ''@'' @ py_str version
                          @ lit ''?checksum='' @ py_str checksum))]])))"

text \<open>\<open>f"SPDXRef-Package-{name...}-{version...}"\<close>; only a string has \<open>replace\<close>.\<close>

definition package_id :: "json \<Rightarrow> json \<Rightarrow> pystr res" where
  "package_id name version =
     bind_res (expect_string AttributeErr name) (\<lambda>n.
     bind_res (expect_string AttributeErr version) (\<lambda>v.
     Inr (lit ''SPDXRef-Package-''
          @ py_replace (lit ''.'') (lit ''-'') (py_replace (lit ''_'') (lit ''-'') n)
          @ lit ''-'' @ py_replace (lit ''.'') (lit ''-'') v)))"

definition or_noassertion :: "json \<Rightarrow> json" where
  "or_noassertion v = (if truthy v then v else JStr (lit ''NOASSERTION''))"

fun package_to_spdx :: "json \<Rightarrow> obj res" where
  "package_to_spdx (JObj package) =
     bind_res (get_item package (lit ''name'')) (\<lambda>name.
     let version = get_or package (lit ''version'') (JStr (lit ''UNKNOWN'')) in
     bind_res (package_id name version) (\<lambda>i.
     let source = or_noassertion (py_get package (lit ''source''));
         license_value = or_noassertion (py_get package (lit ''license'')) in
     bind_res (package_external_ref package) (\<lambda>refs.
     Inr [(lit ''SPDXID'', JStr i), (lit ''name'', name), (lit ''versionInfo'', version),
          (lit ''downloadLocation'', source), (lit ''filesAnalyzed'', JBool False),
          (lit ''licenseConcluded'', license_value), (lit ''licenseDeclared'', license_value),
          (lit ''copyrightText'', JStr (lit ''NOASSERTION'')), (lit ''externalRefs'', JList refs)])))"
| "package_to_spdx v = Inl TypeErr"

section \<open>The document\<close>

text \<open>The body of the inner loop: the id of the package, if the member \<open>root\<close> names it.\<close>

definition root_id_of :: "(pystr \<Rightarrow> int option) \<Rightarrow> json \<Rightarrow> json \<Rightarrow> pystr list res" where
  "root_id_of fint root package =
     bind_res (attr_get package (lit ''id'') JNull) (\<lambda>i.
     if py_eq fint i root then
       (case package of
          JObj d \<Rightarrow> bind_res (get_item d (lit ''name'')) (\<lambda>name.
            bind_res (package_id name (get_or d (lit ''version'') (JStr (lit ''UNKNOWN'')))) (\<lambda>s. Inr [s]))
        | _ \<Rightarrow> Inl TypeErr)
     else Inr [])"

text \<open>\<open>root_package_ids\<close> is a set: \<open>sorted\<close> lists each id once, in order.\<close>

definition root_package_ids ::
  "(pystr \<Rightarrow> int option) \<Rightarrow> json list \<Rightarrow> json list \<Rightarrow> pystr list res" where
  "root_package_ids fint members packages =
     bind_res (map_res (\<lambda>root. map_res (root_id_of fint root) packages) members) (\<lambda>ids.
     Inr (sort (remdups (concat (concat ids)))))"

definition depends_on :: "pystr \<Rightarrow> pystr \<Rightarrow> json" where
  "depends_on root_id i = JObj [(lit ''spdxElementId'', JStr root_id),
     (lit ''relationshipType'', JStr (lit ''DEPENDS_ON'')), (lit ''relatedSpdxElement'', JStr i)]"

text \<open>\<open>package["SPDXID"]\<close> of a package the loop above built is a string.\<close>

definition spdx_id :: "obj \<Rightarrow> pystr" where
  "spdx_id package = (case py_get package (lit ''SPDXID'') of JStr s \<Rightarrow> s | _ \<Rightarrow> [])"

definition relationships :: "pystr list \<Rightarrow> obj list \<Rightarrow> json list" where
  "relationships root_ids packages =
     concat (map (\<lambda>root_id. map (\<lambda>package. depends_on root_id (spdx_id package))
       (filter (\<lambda>package. spdx_id package \<noteq> root_id) packages)) root_ids)"

definition sbom_document :: "pystr \<Rightarrow> obj list \<Rightarrow> json list \<Rightarrow> obj" where
  "sbom_document document_name packages rels =
     [(lit ''spdxVersion'', JStr (lit ''SPDX-2.3'')), (lit ''dataLicense'', JStr (lit ''CC0-1.0'')),
      (lit ''SPDXID'', JStr (lit ''SPDXRef-DOCUMENT'')), (lit ''name'', JStr document_name),
      (lit ''documentNamespace'', JStr (lit ''https://sourceos.local/sbom/'' @ document_name)),
      (lit ''creationInfo'',
        JObj [(lit ''creators'', JList [JStr (lit ''Tool: nlboot cargo_metadata_to_spdx.py'')]),
              (lit ''created'', JStr (lit ''1970-01-01T00:00:00Z'')),
              (lit ''comment'',
               JStr (lit ''Deterministic operator-test SBOM generated from cargo metadata.''))]),
      (lit ''packages'', JList (map JObj packages)), (lit ''relationships'', JList rels)]"

text \<open>
  The outer loop runs over the members, the inner one iterates over the packages again, which is
  only evaluated when there is a member.
\<close>

definition build_sbom :: "(pystr \<Rightarrow> int option) \<Rightarrow> json \<Rightarrow> pystr \<Rightarrow> obj res" where
  "build_sbom fint metadata document_name =
     bind_res (attr_get metadata (lit ''packages'') (JList [])) (\<lambda>listed.
     bind_res (py_iter listed) (\<lambda>items.
     bind_res (map_res package_to_spdx items) (\<lambda>packages.
     bind_res (attr_get metadata (lit ''workspace_members'') (JList [])) (\<lambda>w.
     bind_res (py_iter w) (\<lambda>members.
     bind_res (root_package_ids fint members items) (\<lambda>root_ids.
     Inr (sbom_document document_name packages (relationships root_ids packages))))))))"

text \<open>\<open>main\<close>: the text written to the output file.\<close>

definition load_metadata :: "runtime \<Rightarrow> (pystr \<Rightarrow> bytes res) \<Rightarrow> pystr \<Rightarrow> json res" where
  "load_metadata rt files path =
     bind_res (files path) (\<lambda>content.
     bind_res (or_raise (read_text content) ValueErr) (\<lambda>s.
     on_failure ValueErr (\<lambda>e. e) (decode_json rt s)))"

interpretation metadata: json_file rt files "\<lambda>p. True" "\<lambda>e. e" "\<lambda>p. ValueErr" "\<lambda>p. Inr"
    "load_metadata rt files" for rt files
  by unfold_locales (auto simp: load_metadata_def split: sum.split option.split)

definition sbom_main ::
  "runtime \<Rightarrow> (pystr \<Rightarrow> int option) \<Rightarrow> (pystr \<Rightarrow> bytes res) \<Rightarrow> pystr \<Rightarrow> pystr \<Rightarrow> pystr res" where
  "sbom_main rt fint files path document_name =
     bind_res (load_metadata rt files path) (\<lambda>metadata.
     bind_res (build_sbom fint metadata document_name) (\<lambda>sbom.
     Inr (dumps_indent (JObj sbom) @ [10])))"

section \<open>Root packages\<close>

lemma package_to_spdx_Inr:
  assumes "package_to_spdx v = Inr p"
  shows "\<exists>d name. v = JObj d \<and> get_item d (lit ''name'') = Inr name
    \<and> package_id name (get_or d (lit ''version'') (JStr (lit ''UNKNOWN''))) = Inr (spdx_id p)"
  using assms by (cases v) (auto simp: res_simps Let_def spdx_id_def)

lemma root_id_of_package:
  assumes "package_to_spdx v = Inr p"
  shows "\<exists>d. v = JObj d
    \<and> root_id_of fint root v = Inr (if py_eq fint (py_get d (lit ''id'')) root then [spdx_id p] else [])"
  using package_to_spdx_Inr [OF assms] by (auto simp: root_id_of_def)

text \<open>The package of \<open>item\<close> is named by a workspace member.\<close>

definition is_member :: "(pystr \<Rightarrow> int option) \<Rightarrow> json list \<Rightarrow> json \<Rightarrow> bool" where
  "is_member fint members item \<longleftrightarrow>
     (case item of JObj d \<Rightarrow> \<exists>root \<in> set members. py_eq fint (py_get d (lit ''id'')) root | _ \<Rightarrow> False)"

definition member_ids :: "(pystr \<Rightarrow> int option) \<Rightarrow> json list \<Rightarrow> json list \<Rightarrow> obj list \<Rightarrow> pystr set" where
  "member_ids fint members items packages =
     {spdx_id p | item p. (item, p) \<in> set (zip items packages) \<and> is_member fint members item}"

definition root_ids_of :: "(pystr \<Rightarrow> int option) \<Rightarrow> json \<Rightarrow> json list \<Rightarrow> obj list \<Rightarrow> pystr list list" where
  "root_ids_of fint root items packages =
     map2 (\<lambda>item p. if is_member fint [root] item then [spdx_id p] else []) items packages"

lemma root_ids_of_row:
  assumes "list_all2 (\<lambda>item p. package_to_spdx item = Inr p) items packages"
  shows "map_res (root_id_of fint root) items = Inr (root_ids_of fint root items packages)"
  using assms
proof (induction rule: list_all2_induct)
  case (Cons item items p packages)
  from root_id_of_package [OF Cons.hyps(1), of fint root] Cons.IH show ?case
    by (auto simp: root_ids_of_def is_member_def)
qed (simp add: root_ids_of_def)

lemma is_member_single:
  "is_member fint members item \<longleftrightarrow> (\<exists>root \<in> set members. is_member fint [root] item)"
  by (simp add: is_member_def split: json.split)

lemma set_root_ids_of:
  "set (concat (root_ids_of fint root items packages)) = member_ids fint [root] items packages"
proof (rule set_eqI)
  fix x
  have "x \<in> set (concat (root_ids_of fint root items packages)) \<longleftrightarrow>
      (\<exists>(item, p) \<in> set (zip items packages). is_member fint [root] item \<and> x = spdx_id p)"
    by (auto simp: root_ids_of_def split: if_splits)
  then show "x \<in> set (concat (root_ids_of fint root items packages)) \<longleftrightarrow> x \<in> member_ids fint [root] items packages"
    unfolding member_ids_def by blast
qed

lemma member_ids_Union:
  "member_ids fint members items packages = (\<Union>root \<in> set members. member_ids fint [root] items packages)"
proof -
  have "member_ids fint members items packages = {spdx_id p | item p. (item, p) \<in> set (zip items packages)
      \<and> (\<exists>root \<in> set members. is_member fint [root] item)}"
    unfolding member_ids_def is_member_single [of fint members] ..
  also have "\<dots> = (\<Union>root \<in> set members. member_ids fint [root] items packages)"
    unfolding member_ids_def by blast
  finally show ?thesis .
qed

lemma root_package_ids_set:
  assumes "map_res package_to_spdx items = Inr packages"
  shows "root_package_ids fint members items = Inr (sorted_list_of_set (member_ids fint members items packages))"
proof -
  have rows: "map_res (\<lambda>root. map_res (root_id_of fint root) items) members =
      Inr (map (\<lambda>root. root_ids_of fint root items packages) members)"
    using root_ids_of_row [OF assms [unfolded map_res_Inr_iff]] by (intro map_res_all)
  have "set (concat (concat (map (\<lambda>root. root_ids_of fint root items packages) members))) =
      (\<Union>root \<in> set members. set (concat (root_ids_of fint root items packages)))" by simp
  then have "set (concat (concat (map (\<lambda>root. root_ids_of fint root items packages) members))) =
      member_ids fint members items packages"
    by (simp only: set_root_ids_of member_ids_Union [of fint members])
  with rows show ?thesis
    by (simp only: root_package_ids_def bind_res_simps sorted_list_of_set_sort_remdups [symmetric])
qed

lemma finite_member_ids [simp]: "finite (member_ids fint members items packages)"
proof (rule finite_subset)
  show "member_ids fint members items packages \<subseteq> spdx_id ` snd ` set (zip items packages)"
    by (force simp: member_ids_def)
qed simp

lemma set_relationships:
  "set (relationships roots packages) =
     {depends_on r i | r i. r \<in> set roots \<and> i \<in> spdx_id ` set packages \<and> i \<noteq> r}"
  by (auto simp: relationships_def)

section \<open>Properties\<close>

text \<open>
  C37. The relationships of a bill of materials lead from every package a workspace member names to
  every package of another id, and no others; the packages are the listed ones in their order.
\<close>

theorem sbom_relationships:
  assumes "build_sbom fint metadata document_name = Inr sbom"
  shows "\<exists>d items members packages rels.
    metadata = JObj d \<and> py_iter (get_or d (lit ''packages'') (JList [])) = Inr items
    \<and> py_iter (get_or d (lit ''workspace_members'') (JList [])) = Inr members
    \<and> map_res package_to_spdx items = Inr packages
    \<and> py_get sbom (lit ''packages'') = JList (map JObj packages)
    \<and> py_get sbom (lit ''relationships'') = JList rels
    \<and> set rels = {depends_on r i | r i. r \<in> member_ids fint members items packages
                     \<and> i \<in> spdx_id ` set packages \<and> i \<noteq> r}"
proof -
  from assms obtain d items packages members root_ids where
    b: "metadata = JObj d" "py_iter (get_or d (lit ''packages'') (JList [])) = Inr items"
      "map_res package_to_spdx items = Inr packages"
      "py_iter (get_or d (lit ''workspace_members'') (JList [])) = Inr members"
      "root_package_ids fint members items = Inr root_ids"
      "sbom = sbom_document document_name packages (relationships root_ids packages)"
    unfolding build_sbom_def bind_res_Inr_iff attr_get_Inr_iff by blast
  from root_package_ids_set [OF b(3), of fint members] b(5)
  have "root_ids = sorted_list_of_set (member_ids fint members items packages)" by simp
  then have "set root_ids = member_ids fint members items packages" by (simp del: sorted_list_of_set_eq_Nil_iff)
  with b set_relationships [of root_ids packages] show ?thesis
    by (intro exI [of _ d] exI [of _ items] exI [of _ members] exI [of _ packages]
        exI [of _ "relationships root_ids packages"]) (simp add: sbom_document_def)
qed

text \<open>
  C38. The bill of materials is deterministic: it depends on the set of workspace members only, not on
  their order or how often one is listed.
\<close>

theorem sbom_member_order:
  assumes "set members = set members'"
  shows "build_sbom fint (JObj (dict_set d (lit ''workspace_members'') (JList members))) document_name =
    build_sbom fint (JObj (dict_set d (lit ''workspace_members'') (JList members'))) document_name"
proof -
  have "member_ids fint members items packages = member_ids fint members' items packages" for items packages
    by (simp only: member_ids_Union [of fint members] member_ids_Union [of fint members'] assms)
  then have "root_package_ids fint members items = root_package_ids fint members' items"
    if "map_res package_to_spdx items = Inr packages" for items packages
    by (simp add: root_package_ids_set [OF that])
  then show ?thesis
    by (auto simp: build_sbom_def intro!: bind_res_cong)
qed

section \<open>Witnesses\<close>

definition sample_package :: json where
  "sample_package = JObj [(lit ''name'', JStr (lit ''nlboot_client'')), (lit ''id'', JStr (lit ''a''))]"

definition other_package :: json where
  "other_package = JObj [(lit ''name'', JStr (lit ''serde'')), (lit ''version'', JStr (lit ''1.0'')),
     (lit ''checksum'', JStr (lit ''00''))]"

definition sample_metadata :: obj where
  "sample_metadata = [(lit ''packages'', JList [sample_package, other_package]),
     (lit ''workspace_members'', JList [JStr (lit ''a'')])]"

lemma sample_sbom: "\<exists>sbom. build_sbom (\<lambda>t. None) (JObj sample_metadata) (lit ''x'') = Inr sbom"
proof -
  have "\<exists>p. package_to_spdx sample_package = Inr p" "\<exists>p. package_to_spdx other_package = Inr p"
    by (simp_all add: sample_package_def other_package_def package_id_def package_external_ref_def get_item_def
        Let_def)
  then obtain packages where "map_res package_to_spdx [sample_package, other_package] = Inr packages" by auto
  with root_package_ids_set [OF this, of "\<lambda>t. None" "[JStr (lit ''a'')]"] show ?thesis
    by (simp add: build_sbom_def sample_metadata_def)
qed

theorem sbom_relationships_witness:
  "\<exists>sbom rels. build_sbom (\<lambda>t. None) (JObj sample_metadata) (lit ''x'') = Inr sbom
     \<and> py_get sbom (lit ''relationships'') = JList rels"
  using sample_sbom sbom_relationships by blast

theorem sbom_member_order_witness:
  "build_sbom (\<lambda>t. None) (JObj (dict_set sample_metadata (lit ''workspace_members'')
       (JList [JStr (lit ''a''), JStr (lit ''a'')]))) [] =
   build_sbom (\<lambda>t. None) (JObj (dict_set sample_metadata (lit ''workspace_members'') (JList [JStr (lit ''a'')]))) []"
  by (rule sbom_member_order) simp

text \<open>
  A package that has a checksum and no version ends the tool with a \<open>KeyError\<close>, although a missing
  version is \<open>UNKNOWN\<close> everywhere else.
\<close>

theorem checksum_without_version:
  "package_to_spdx (JObj [(lit ''name'', JStr n), (lit ''checksum'', JStr (lit ''00''))]) =
     Inl (KeyErr (lit ''version''))"
  by (simp add: package_id_def package_external_ref_def get_item_def)

end
