(* ===== verification/Lifecycle_Contracts.thy ===== *)
theory Lifecycle_Contracts
  imports Py_Fields Py_Value Py_Repr Json_Files
begin

text \<open>
  \<open>tools/validate_lifecycle_contracts.py\<close>: the check of the three life cycle schemas and examples.
  A failed requirement is a \<open>ValidationError\<close>, which \<open>main\<close> turns into exit code 1; any other
  exception leaves \<open>main\<close>. Exit code 0 means that the examples keep the safety settings.
\<close>

section \<open>The validator\<close>

datatype lifecycle_msg =
    MissingFile pystr             \<comment> \<open>\<open>missing file: {path}\<close>\<close>
  | InvalidJson pystr             \<comment> \<open>\<open>invalid JSON in {path}: {exc}\<close>\<close>
  | ExpectedObject pystr          \<comment> \<open>\<open>expected JSON object in {path}\<close>\<close>
  | Requirement pystr pystr       \<comment> \<open>\<open>{path}: {text}\<close>\<close>

datatype failure = ValidationErr lifecycle_msg | Uncaught exn

type_synonym 'a checked = "failure + 'a"

definition uncaught :: "'a res \<Rightarrow> 'a checked" where
  "uncaught r = (case r of Inl e \<Rightarrow> Inl (Uncaught e) | Inr x \<Rightarrow> Inr x)"

definition load_contract ::
  "runtime \<Rightarrow> (pystr \<Rightarrow> bool) \<Rightarrow> (pystr \<Rightarrow> bytes res) \<Rightarrow> pystr \<Rightarrow> obj checked" where
  "load_contract rt path_exists files path =
     bind_res (raise_if (\<not> path_exists path) (ValidationErr (MissingFile path))) (\<lambda>_.
     bind_res (uncaught (files path)) (\<lambda>content.
     bind_res (uncaught (or_raise (read_text content) ValueErr)) (\<lambda>s.
     bind_res (on_failure (ValidationErr (InvalidJson path)) Uncaught (decode_json rt s)) (\<lambda>payload.
     case payload of JObj d \<Rightarrow> Inr d | _ \<Rightarrow> Inl (ValidationErr (ExpectedObject path))))))"

interpretation contract: json_file rt files path_exists Uncaught "\<lambda>p. ValidationErr (InvalidJson p)"
    "\<lambda>p v. case v of JObj d \<Rightarrow> Inr d | _ \<Rightarrow> Inl (ValidationErr (ExpectedObject p))"
    "load_contract rt path_exists files" for rt files path_exists
  by unfold_locales (auto simp: load_contract_def uncaught_def split: sum.split option.split)

definition require :: "bool \<Rightarrow> pystr \<Rightarrow> string \<Rightarrow> unit checked" where
  "require condition path text = raise_if (\<not> condition) (ValidationErr (Requirement path (lit text)))"

text \<open>\<open>d.get(k, {}).get(f)\<close>, and \<open>str(d.get(k, "")).startswith(p)\<close>.\<close>

definition section_get :: "obj \<Rightarrow> string \<Rightarrow> string \<Rightarrow> json \<Rightarrow> json checked" where
  "section_get d k f v = uncaught (attr_get (get_or d (lit k) (JObj [])) (lit f) v)"

definition id_starts :: "obj \<Rightarrow> string \<Rightarrow> string \<Rightarrow> bool" where
  "id_starts d k p = starts_with (py_str (get_or d (lit k) (JStr []))) (lit p)"

definition require_flag :: "obj \<Rightarrow> string \<Rightarrow> string \<Rightarrow> bool \<Rightarrow> pystr \<Rightarrow> string \<Rightarrow> unit checked" where
  "require_flag d k f b path text =
     bind_res (section_get d k f JNull) (\<lambda>v. require (v = JBool b) path text)"

definition check_release_set :: "obj \<Rightarrow> pystr \<Rightarrow> unit checked" where
  "check_release_set d path =
     bind_res (require (id_starts d ''releaseSetId'' ''urn:srcos:release-set:'') path ''invalid releaseSetId'') (\<lambda>_.
     bind_res (section_get d ''signing'' ''signatureRef'' (JStr [])) (\<lambda>v.
     bind_res (uncaught (expect_string AttributeErr v)) (\<lambda>ref.
     bind_res (require (starts_with ref (lit ''urn:srcos:signature:'')) path ''signatureRef required'') (\<lambda>_.
     bind_res (require_flag d ''rollback'' ''lastKnownGoodRequired'' True path ''last-known-good rollback required'') (\<lambda>_.
     require_flag d ''evidence'' ''emitFingerprint'' True path ''fingerprint evidence required'')))))"

definition check_boot_release_set :: "obj \<Rightarrow> pystr \<Rightarrow> unit checked" where
  "check_boot_release_set d path =
     bind_res (require (id_starts d ''bootReleaseSetId'' ''urn:srcos:boot-release-set:'') path
                 ''invalid bootReleaseSetId'') (\<lambda>_.
     bind_res (require_flag d ''authorization'' ''oneTimeUseRequired'' True path ''one-time enrollment required'') (\<lambda>_.
     bind_res (require_flag d ''authorization'' ''deviceClaimRequired'' True path ''device claim required'') (\<lambda>_.
     bind_res (require_flag d ''offlineFallback'' ''allowUnsignedFallback'' False path
                 ''unsigned fallback must be denied'') (\<lambda>_.
     require_flag d ''proofs'' ''emitAdapterRecord'' True path ''adapter evidence required''))))"

definition check_lifecycle_record :: "obj \<Rightarrow> pystr \<Rightarrow> unit checked" where
  "check_lifecycle_record d path =
     bind_res (require (id_starts d ''recordId'' ''urn:srcos:lifecycle-state-record:'') path ''invalid recordId'') (\<lambda>_.
     bind_res (require_flag d ''transition'' ''allowed'' True path ''example transition should be allowed'') (\<lambda>_.
     bind_res (require_flag d ''policy'' ''approvalRequired'' True path ''lifecycle approval required'') (\<lambda>_.
     require_flag d ''sideEffects'' ''hostMutation'' False path ''signing example must not mutate host'')))"

definition validate_pair ::
  "runtime \<Rightarrow> (pystr \<Rightarrow> bool) \<Rightarrow> (pystr \<Rightarrow> bytes res) \<Rightarrow> string \<Rightarrow> pystr \<Rightarrow> pystr \<Rightarrow> unit checked" where
  "validate_pair rt path_exists files kind schema_path example_path =
     bind_res (load_contract rt path_exists files schema_path) (\<lambda>schema.
     bind_res (load_contract rt path_exists files example_path) (\<lambda>example.
     bind_res (require (py_get schema (lit ''$schema'') = JStr (lit ''https://json-schema.org/draft/2020-12/schema''))
                 schema_path ''must use JSON Schema draft 2020-12'') (\<lambda>_.
     bind_res (require (py_get schema (lit ''type'') = JStr (lit ''object'')) schema_path
                 ''must describe an object'') (\<lambda>_.
     bind_res (section_get schema ''properties'' ''kind'' (JObj [])) (\<lambda>kind_schema.
     bind_res (uncaught (attr_get kind_schema (lit ''const'') JNull)) (\<lambda>const.
     bind_res (require (const = JStr (lit kind)) schema_path (''kind const must be '' @ kind)) (\<lambda>_.
     bind_res (require (py_get example (lit ''schemaVersion'') = JStr (lit ''v0.1'')) example_path
                 ''schemaVersion must be v0.1'') (\<lambda>_.
     bind_res (require (py_get example (lit ''kind'') = JStr (lit kind)) example_path (''kind must be '' @ kind)) (\<lambda>_.
     if kind = ''ReleaseSet'' then check_release_set example example_path
     else if kind = ''BootReleaseSet'' then check_boot_release_set example example_path
     else if kind = ''LifecycleStateRecord'' then check_lifecycle_record example example_path
     else Inr ())))))))))"

definition pairs :: "(string \<times> pystr \<times> pystr) list" where
  "pairs =
     [(''ReleaseSet'', lit ''schemas/release-set.schema.v0.1.json'', lit ''examples/release_set.m2_demo.json''),
      (''BootReleaseSet'', lit ''schemas/boot-release-set.schema.v0.1.json'',
       lit ''examples/boot_release_set.m2_demo_recovery.json''),
      (''LifecycleStateRecord'', lit ''schemas/lifecycle-state-record.schema.v0.1.json'',
       lit ''examples/lifecycle_state_record.m2_demo_signed.json'')]"

text \<open>The loop of \<open>main\<close>: the kinds reported as good, and the failure that ended it.\<close>

fun validate_pairs ::
  "runtime \<Rightarrow> (pystr \<Rightarrow> bool) \<Rightarrow> (pystr \<Rightarrow> bytes res) \<Rightarrow>
     (string \<times> pystr \<times> pystr) list \<Rightarrow> string list \<times> failure option" where
  "validate_pairs rt path_exists files [] = ([], None)"
| "validate_pairs rt path_exists files ((kind, schema_path, example_path) # rest) =
     (case validate_pair rt path_exists files kind schema_path example_path of
        Inl x \<Rightarrow> ([], Some x)
      | Inr u \<Rightarrow> (let (ok, x) = validate_pairs rt path_exists files rest in (kind # ok, x)))"

definition lifecycle_main ::
  "runtime \<Rightarrow> (pystr \<Rightarrow> bool) \<Rightarrow> (pystr \<Rightarrow> bytes res) \<Rightarrow> (int \<times> string list) res" where
  "lifecycle_main rt path_exists files =
     (case validate_pairs rt path_exists files pairs of
        (ok, None) \<Rightarrow> Inr (0, map (\<lambda>kind. ''ok: '' @ kind) ok @ [''OK: NLBoot lifecycle contracts validated''])
      | (ok, Some (ValidationErr m)) \<Rightarrow> Inr (1, map (\<lambda>kind. ''ok: '' @ kind) ok)
      | (ok, Some (Uncaught e)) \<Rightarrow> Inl e)"

section \<open>What passing means\<close>

lemma checked_Inr_iff [res_simps]:
  "uncaught r = Inr x \<longleftrightarrow> r = Inr x"
  "require b path text = Inr u \<longleftrightarrow> b"
  by (auto simp: uncaught_def require_def split: sum.splits)

text \<open>The member \<open>f\<close> of the member \<open>k\<close> of a document.\<close>

definition member_at :: "obj \<Rightarrow> string \<Rightarrow> string \<Rightarrow> json \<Rightarrow> bool" where
  "member_at d k f v \<longleftrightarrow> (\<exists>s. py_get d (lit k) = JObj s \<and> py_get s (lit f) = v)"

lemma require_flag_Inr [res_simps]:
  "require_flag d k f b path text = Inr u \<longleftrightarrow> member_at d k f (JBool b)"
  by (auto simp: require_flag_def section_get_def res_simps member_at_def get_or_def split: option.splits)

definition release_set_ok :: "obj \<Rightarrow> bool" where
  "release_set_ok d \<longleftrightarrow> id_starts d ''releaseSetId'' ''urn:srcos:release-set:''
     \<and> (\<exists>ref. member_at d ''signing'' ''signatureRef'' (JStr ref) \<and> starts_with ref (lit ''urn:srcos:signature:''))
     \<and> member_at d ''rollback'' ''lastKnownGoodRequired'' (JBool True)
     \<and> member_at d ''evidence'' ''emitFingerprint'' (JBool True)"

definition boot_release_set_ok :: "obj \<Rightarrow> bool" where
  "boot_release_set_ok d \<longleftrightarrow> id_starts d ''bootReleaseSetId'' ''urn:srcos:boot-release-set:''
     \<and> member_at d ''authorization'' ''oneTimeUseRequired'' (JBool True)
     \<and> member_at d ''authorization'' ''deviceClaimRequired'' (JBool True)
     \<and> member_at d ''offlineFallback'' ''allowUnsignedFallback'' (JBool False)
     \<and> member_at d ''proofs'' ''emitAdapterRecord'' (JBool True)"

definition lifecycle_record_ok :: "obj \<Rightarrow> bool" where
  "lifecycle_record_ok d \<longleftrightarrow> id_starts d ''recordId'' ''urn:srcos:lifecycle-state-record:''
     \<and> member_at d ''transition'' ''allowed'' (JBool True)
     \<and> member_at d ''policy'' ''approvalRequired'' (JBool True)
     \<and> member_at d ''sideEffects'' ''hostMutation'' (JBool False)"

text \<open>A text member that is absent reads as the empty text, which has no such prefix.\<close>

lemma section_text:
  assumes "p \<noteq> []"
  shows "(\<exists>v s. section_get d k f (JStr []) = Inr v \<and> v = JStr s \<and> starts_with s p)
    \<longleftrightarrow> (\<exists>s. member_at d k f (JStr s) \<and> starts_with s p)"
proof -
  have "section_get d k f (JStr []) = Inr (JStr s) \<longleftrightarrow> member_at d k f (JStr s)" if "s \<noteq> []" for s
    using that by (cases "dict_get d (lit k)")
      (auto simp: section_get_def res_simps member_at_def get_or_def split: option.splits)
  moreover have "s \<noteq> []" if "starts_with s p" for s using that assms by (auto simp: starts_with_def)
  ultimately show ?thesis by blast
qed

lemma check_release_set_iff: "check_release_set d path = Inr u \<longleftrightarrow> release_set_ok d"
  using section_text [of "lit ''urn:srcos:signature:''" d "''signing''" "''signatureRef''"]
  unfolding check_release_set_def release_set_ok_def bind_res_Inr_iff checked_Inr_iff require_flag_Inr
    expect_string_iffs by simp blast

lemma check_iffs:
  "check_boot_release_set d path = Inr u \<longleftrightarrow> boot_release_set_ok d"
  "check_lifecycle_record d path = Inr u \<longleftrightarrow> lifecycle_record_ok d"
  by (simp_all add: check_boot_release_set_def boot_release_set_ok_def check_lifecycle_record_def
      lifecycle_record_ok_def res_simps)

lemma validate_pair_loads:
  assumes "validate_pair rt path_exists files kind schema_path example_path = Inr u"
  shows "\<exists>schema example. load_contract rt path_exists files schema_path = Inr schema
    \<and> load_contract rt path_exists files example_path = Inr example
    \<and> py_get example (lit ''kind'') = JStr (lit kind)
    \<and> (kind = ''ReleaseSet'' \<longrightarrow> release_set_ok example)
    \<and> (kind = ''BootReleaseSet'' \<longrightarrow> boot_release_set_ok example)
    \<and> (kind = ''LifecycleStateRecord'' \<longrightarrow> lifecycle_record_ok example)"
  using assms unfolding validate_pair_def bind_res_Inr_iff checked_Inr_iff
  by (elim exE conjE) (auto simp: check_release_set_iff check_iffs split: if_splits)

lemma validate_pairs_all:
  "validate_pairs rt path_exists files ps = (ok, None) \<Longrightarrow> (kind, schema_path, example_path) \<in> set ps \<Longrightarrow>
     validate_pair rt path_exists files kind schema_path example_path = Inr ()"
  by (induction ps arbitrary: ok) (auto split: sum.splits prod.splits)

lemma lifecycle_main_0:
  "lifecycle_main rt path_exists files = Inr (0, out) \<longleftrightarrow> (\<exists>ok. validate_pairs rt path_exists files pairs = (ok, None)
     \<and> out = map (\<lambda>kind. ''ok: '' @ kind) ok @ [''OK: NLBoot lifecycle contracts validated''])"
  by (auto simp: lifecycle_main_def split: prod.splits option.splits failure.splits)

section \<open>Properties\<close>

text \<open>
  C35. When the validator ends with 0, the three examples exist, are of their kind and keep the safety
  settings: the release set is signed and keeps the last known good, the boot release set demands
  one-time enrollment and a device claim and denies unsigned fallback, and the life cycle record was
  approved and does not change the host.
\<close>

theorem lifecycle_contracts_hold:
  assumes "lifecycle_main rt path_exists files = Inr (0, out)"
  shows "\<exists>rel boot rec.
    load_contract rt path_exists files (lit ''examples/release_set.m2_demo.json'') = Inr rel
    \<and> py_get rel (lit ''kind'') = JStr (lit ''ReleaseSet'') \<and> release_set_ok rel
    \<and> load_contract rt path_exists files (lit ''examples/boot_release_set.m2_demo_recovery.json'') = Inr boot
    \<and> py_get boot (lit ''kind'') = JStr (lit ''BootReleaseSet'') \<and> boot_release_set_ok boot
    \<and> load_contract rt path_exists files (lit ''examples/lifecycle_state_record.m2_demo_signed.json'') = Inr rec
    \<and> py_get rec (lit ''kind'') = JStr (lit ''LifecycleStateRecord'') \<and> lifecycle_record_ok rec"
proof -
  from assms obtain ok where "validate_pairs rt path_exists files pairs = (ok, None)"
    unfolding lifecycle_main_0 by blast
  note pair = validate_pair_loads [OF validate_pairs_all [OF this]]
  show ?thesis
    using pair [of "''ReleaseSet''"] pair [of "''BootReleaseSet''"] pair [of "''LifecycleStateRecord''"]
    by (fastforce simp: pairs_def)
qed

text \<open>
  A section that is present and no object is no \<open>ValidationError\<close>: the attribute access on it raises
  \<open>AttributeError\<close>, which the validator does not catch.
\<close>

theorem non_object_section_escapes:
  assumes "py_get d (lit k) = v" and "v \<noteq> JNull" and "\<forall>s. v \<noteq> JObj s"
  shows "require_flag d k f b path text = Inl (Uncaught AttributeErr)"
proof -
  have "get_or d (lit k) (JObj []) = v" using assms(1,2) by (auto simp: get_or_def split: option.splits)
  with assms(3) show ?thesis by (cases v) (simp_all add: require_flag_def section_get_def uncaught_def)
qed

theorem non_object_section_escapes_witness:
  "require_flag [(lit ''rollback'', JList [])] ''rollback'' ''lastKnownGoodRequired'' True [] [] =
     Inl (Uncaught AttributeErr)"
  by (rule non_object_section_escapes [where v = "JList []"]) simp_all

section \<open>Contracts that pass\<close>

text \<open>Schemas and examples with the members the validator reads, keys in order.\<close>

definition demo_schema :: "string \<Rightarrow> obj" where
  "demo_schema kind = [(lit ''$schema'', JStr (lit ''https://json-schema.org/draft/2020-12/schema'')),
     (lit ''properties'', JObj [(lit ''kind'', JObj [(lit ''const'', JStr (lit kind))])]),
     (lit ''type'', JStr (lit ''object''))]"

definition demo_release_set :: obj where
  "demo_release_set = [(lit ''evidence'', JObj [(lit ''emitFingerprint'', JBool True)]),
     (lit ''kind'', JStr (lit ''ReleaseSet'')), (lit ''releaseSetId'', JStr (lit ''urn:srcos:release-set:m2'')),
     (lit ''rollback'', JObj [(lit ''lastKnownGoodRequired'', JBool True)]),
     (lit ''schemaVersion'', JStr (lit ''v0.1'')),
     (lit ''signing'', JObj [(lit ''signatureRef'', JStr (lit ''urn:srcos:signature:m2''))])]"

definition demo_boot_release_set :: obj where
  "demo_boot_release_set = [(lit ''authorization'', JObj [(lit ''deviceClaimRequired'', JBool True),
       (lit ''oneTimeUseRequired'', JBool True)]),
     (lit ''bootReleaseSetId'', JStr (lit ''urn:srcos:boot-release-set:m2'')),
     (lit ''kind'', JStr (lit ''BootReleaseSet'')),
     (lit ''offlineFallback'', JObj [(lit ''allowUnsignedFallback'', JBool False)]),
     (lit ''proofs'', JObj [(lit ''emitAdapterRecord'', JBool True)]),
     (lit ''schemaVersion'', JStr (lit ''v0.1''))]"

definition demo_record :: obj where
  "demo_record = [(lit ''kind'', JStr (lit ''LifecycleStateRecord'')),
     (lit ''policy'', JObj [(lit ''approvalRequired'', JBool True)]),
     (lit ''recordId'', JStr (lit ''urn:srcos:lifecycle-state-record:m2'')),
     (lit ''schemaVersion'', JStr (lit ''v0.1'')),
     (lit ''sideEffects'', JObj [(lit ''hostMutation'', JBool False)]),
     (lit ''transition'', JObj [(lit ''allowed'', JBool True)])]"

definition contract_files :: "pystr \<Rightarrow> bytes res" where
  "contract_files path =
     (if path = lit ''schemas/release-set.schema.v0.1.json'' then Inr (dumps (JObj (demo_schema ''ReleaseSet'')))
      else if path = lit ''schemas/boot-release-set.schema.v0.1.json'' then Inr (dumps (JObj (demo_schema ''BootReleaseSet'')))
      else if path = lit ''schemas/lifecycle-state-record.schema.v0.1.json'' then Inr (dumps (JObj (demo_schema ''LifecycleStateRecord'')))
      else if path = lit ''examples/release_set.m2_demo.json'' then Inr (dumps (JObj demo_release_set))
      else if path = lit ''examples/boot_release_set.m2_demo_recovery.json'' then Inr (dumps (JObj demo_boot_release_set))
      else if path = lit ''examples/lifecycle_state_record.m2_demo_signed.json'' then Inr (dumps (JObj demo_record))
      else Inl OsErr)"

definition sorted_doc :: "obj \<Rightarrow> bool" where
  "sorted_doc d \<longleftrightarrow> wf_json (float_repr sample_runtime) (JObj d) \<and> canon (JObj d) = JObj d"

lemma load_contract_dumps:
  assumes "sorted_doc d" "files path = Inr (dumps (JObj d))" "path_exists path"
  shows "load_contract sample_runtime path_exists files path = Inr d"
  using contract.read_dumps [of files path "JObj d" sample_runtime path_exists] assms
  by (simp add: sorted_doc_def sample_runtime_def del: canon.simps)

lemma demo_sorted:
  "is_ascii (lit kind) \<Longrightarrow> sorted_doc (demo_schema kind)"
  "sorted_doc demo_release_set" "sorted_doc demo_boot_release_set" "sorted_doc demo_record"
  unfolding sorted_doc_def
  by (simp_all add: demo_schema_def demo_release_set_def demo_boot_release_set_def demo_record_def wf_str_ascii lit_def)

lemma demo_schema_pair:
  assumes "load_contract rt path_exists files s = Inr (demo_schema kind)"
    and "load_contract rt path_exists files x = Inr d"
    and "py_get d (lit ''schemaVersion'') = JStr (lit ''v0.1'')" "py_get d (lit ''kind'') = JStr (lit kind)"
    and "(if kind = ''ReleaseSet'' then check_release_set d x
          else if kind = ''BootReleaseSet'' then check_boot_release_set d x
          else if kind = ''LifecycleStateRecord'' then check_lifecycle_record d x else Inr ()) = Inr ()"
  shows "validate_pair rt path_exists files kind s x = Inr ()"
  using assms by (simp add: validate_pair_def demo_schema_def section_get_def uncaught_def require_def)

lemma contracts_pass: "\<exists>out. lifecycle_main sample_runtime (\<lambda>p. True) contract_files = Inr (0, out)"
proof -
  have rel: "release_set_ok demo_release_set"
    by (simp add: release_set_ok_def demo_release_set_def id_starts_def member_at_def)
       (simp add: lit_def starts_with_def)
  have boot: "boot_release_set_ok demo_boot_release_set"
    by (simp add: boot_release_set_ok_def demo_boot_release_set_def id_starts_def member_at_def)
       (simp add: lit_def starts_with_def)
  have rec: "lifecycle_record_ok demo_record"
    by (simp add: lifecycle_record_ok_def demo_record_def id_starts_def member_at_def)
       (simp add: lit_def starts_with_def)
  let ?load = "load_contract sample_runtime (\<lambda>p. True) contract_files"
  have schema: "?load s = Inr (demo_schema kind)"
    if "contract_files s = Inr (dumps (JObj (demo_schema kind)))" "is_ascii (lit kind)" for s kind
    using demo_sorted(1) [OF that(2)] that(1) by (rule load_contract_dumps) simp
  have loads:
    "?load (lit ''examples/release_set.m2_demo.json'') = Inr demo_release_set"
    "?load (lit ''examples/boot_release_set.m2_demo_recovery.json'') = Inr demo_boot_release_set"
    "?load (lit ''examples/lifecycle_state_record.m2_demo_signed.json'') = Inr demo_record"
    by (rule load_contract_dumps, rule demo_sorted, simp add: contract_files_def, simp)+
  have "validate_pair sample_runtime (\<lambda>p. True) contract_files ''ReleaseSet''
      (lit ''schemas/release-set.schema.v0.1.json'') (lit ''examples/release_set.m2_demo.json'') = Inr ()"
  proof (rule demo_schema_pair [OF schema loads(1)])
    show "is_ascii (lit ''ReleaseSet'')" by (simp add: lit_def)
  qed (use rel in \<open>simp_all add: contract_files_def check_release_set_iff\<close>, simp_all add: demo_release_set_def)
  moreover have "validate_pair sample_runtime (\<lambda>p. True) contract_files ''BootReleaseSet''
      (lit ''schemas/boot-release-set.schema.v0.1.json'') (lit ''examples/boot_release_set.m2_demo_recovery.json'') = Inr ()"
  proof (rule demo_schema_pair [OF schema loads(2)])
    show "is_ascii (lit ''BootReleaseSet'')" by (simp add: lit_def)
  qed (use boot in \<open>simp_all add: contract_files_def check_iffs\<close>, simp_all add: demo_boot_release_set_def)
  moreover have "validate_pair sample_runtime (\<lambda>p. True) contract_files ''LifecycleStateRecord''
      (lit ''schemas/lifecycle-state-record.schema.v0.1.json'') (lit ''examples/lifecycle_state_record.m2_demo_signed.json'') = Inr ()"
  proof (rule demo_schema_pair [OF schema loads(3)])
    show "is_ascii (lit ''LifecycleStateRecord'')" by (simp add: lit_def)
  qed (use rec in \<open>simp_all add: contract_files_def check_iffs\<close>, simp_all add: demo_record_def)
  ultimately show ?thesis by (simp add: lifecycle_main_0 pairs_def)
qed

theorem lifecycle_contracts_hold_witness:
  "\<exists>boot. load_contract sample_runtime (\<lambda>p. True) contract_files
       (lit ''examples/boot_release_set.m2_demo_recovery.json'') = Inr boot
     \<and> member_at boot ''offlineFallback'' ''allowUnsignedFallback'' (JBool False)"
proof -
  obtain out where "lifecycle_main sample_runtime (\<lambda>p. True) contract_files = Inr (0, out)"
    using contracts_pass by blast
  from lifecycle_contracts_hold [OF this] show ?thesis by (auto simp: boot_release_set_ok_def)
qed

end
