(* ===== verification/Contract_Schemas.thy ===== *)
theory Contract_Schemas
  imports Py_Value Json_Files
begin

text \<open>
  \<open>tools/validate_contract_schemas.py\<close>: a fixture against the keys its schema requires. Neither file is
  checked to hold an object, so the checks run on any JSON value. Exit code 0 means that the schema
  has the standard keys and that the fixture has every key the schema requires.
\<close>

section \<open>The validator\<close>

text \<open>The line printed when the tool stops, one constructor per \<open>print\<close>.\<close>

datatype contract_line =
    MissingPath pystr                  \<comment> \<open>\<open>ERROR: missing {path}\<close>\<close>
  | NotJson                            \<comment> \<open>\<open>ERROR: invalid JSON: {exc}\<close>\<close>
  | MissingKeys pystr "pystr list"     \<comment> \<open>\<open>ERROR: {path} missing keys {missing}\<close>\<close>
  | TypeNotObject pystr                \<comment> \<open>\<open>ERROR: {path} type must be object\<close>\<close>
  | MissingRequired pystr json         \<comment> \<open>\<open>ERROR: {path} missing required key {key}\<close>\<close>
  | ServiceMismatch json pystr         \<comment> \<open>\<open>ERROR: fixture service_id ... != ...\<close>\<close>

text \<open>\<open>return 1\<close> after a line, or an exception that leaves \<open>main\<close>.\<close>

datatype contract_stop = Return1 contract_line | Leaves exn

type_synonym 'a step = "contract_stop + 'a"

definition leaves :: "'a res \<Rightarrow> 'a step" where
  "leaves r = (case r of Inl e \<Rightarrow> Inl (Leaves e) | Inr x \<Rightarrow> Inr x)"

definition required_keys :: "pystr list" where
  "required_keys = [lit ''$schema'', lit ''$id'', lit ''title'', lit ''type'', lit ''properties'']"

definition checks :: "(pystr \<times> pystr \<times> pystr) list" where
  "checks = [(lit ''schemas/boot-evidence.schema.json'', lit ''fixtures/boot-evidence.valid.json'',
              lit ''svc.managed.boot-evidence'')]"

text \<open>\<open>json.loads(path.read_text(encoding="utf-8"))\<close> under \<open>except json.JSONDecodeError\<close>.\<close>

definition read_json :: "runtime \<Rightarrow> (pystr \<Rightarrow> bytes res) \<Rightarrow> pystr \<Rightarrow> json step" where
  "read_json rt files path =
     bind_res (leaves (files path)) (\<lambda>content.
     bind_res (leaves (or_raise (read_text content) ValueErr)) (\<lambda>s.
     on_failure (Return1 NotJson) Leaves (decode_json rt s)))"

interpretation contract_file: json_file rt files "\<lambda>p. True" Leaves "\<lambda>p. Return1 NotJson" "\<lambda>p. Inr"
    "read_json rt files" for rt files
  by unfold_locales (auto simp: read_json_def leaves_def split: sum.split option.split)

text \<open>\<open>set(v)\<close> hashes every item of the iteration.\<close>

definition set_of :: "json \<Rightarrow> json list res" where
  "set_of v = bind_res (py_iter v) (\<lambda>xs. if list_all hashable xs then Inr xs else Inl TypeErr)"

definition missing_keys :: "json list \<Rightarrow> pystr list" where
  "missing_keys present = sort (filter (\<lambda>k. JStr k \<notin> set present) required_keys)"

text \<open>\<open>key in v\<close>\<close>

fun contains_key :: "(pystr \<Rightarrow> int option) \<Rightarrow> json \<Rightarrow> json \<Rightarrow> bool res" where
  "contains_key fint key (JObj d) =
     (if hashable key then Inr (case key of JStr s \<Rightarrow> dict_get d s \<noteq> None | _ \<Rightarrow> False) else Inl TypeErr)"
| "contains_key fint key (JList xs) = Inr (py_in_list fint key xs)"
| "contains_key fint key (JStr s) = (case key of JStr k \<Rightarrow> Inr (contains s k) | _ \<Rightarrow> Inl TypeErr)"
| "contains_key fint key v = Inl TypeErr"

text \<open>The loop over \<open>schema.get("required", [])\<close>.\<close>

fun require_keys :: "(pystr \<Rightarrow> int option) \<Rightarrow> pystr \<Rightarrow> json \<Rightarrow> json list \<Rightarrow> unit step" where
  "require_keys fint path fixture [] = Inr ()"
| "require_keys fint path fixture (key # keys) =
     bind_res (leaves (contains_key fint key fixture)) (\<lambda>b.
     bind_res (raise_if (\<not> b) (Return1 (MissingRequired path key))) (\<lambda>_.
     require_keys fint path fixture keys))"

definition check_contract ::
  "runtime \<Rightarrow> (pystr \<Rightarrow> int option) \<Rightarrow> (pystr \<Rightarrow> bool) \<Rightarrow> (pystr \<Rightarrow> bytes res) \<Rightarrow>
     pystr \<times> pystr \<times> pystr \<Rightarrow> unit step" where
  "check_contract rt fint path_exists files = (\<lambda>(schema_path, fixture_path, service_id).
     bind_res (raise_if (\<not> path_exists schema_path) (Return1 (MissingPath schema_path))) (\<lambda>_.
     bind_res (raise_if (\<not> path_exists fixture_path) (Return1 (MissingPath fixture_path))) (\<lambda>_.
     bind_res (read_json rt files schema_path) (\<lambda>schema.
     bind_res (read_json rt files fixture_path) (\<lambda>fixture.
     bind_res (leaves (set_of schema)) (\<lambda>present.
     bind_res (raise_if (missing_keys present \<noteq> [])
                 (Return1 (MissingKeys schema_path (missing_keys present)))) (\<lambda>_.
     bind_res (leaves (attr_get schema (lit ''type'') JNull)) (\<lambda>t.
     bind_res (raise_if (t \<noteq> JStr (lit ''object'')) (Return1 (TypeNotObject schema_path))) (\<lambda>_.
     bind_res (leaves (attr_get schema (lit ''required'') (JList []))) (\<lambda>r.
     bind_res (leaves (py_iter r)) (\<lambda>keys.
     bind_res (require_keys fint fixture_path fixture keys) (\<lambda>_.
     bind_res (leaves (attr_get fixture (lit ''service_id'') JNull)) (\<lambda>s.
     raise_if (s \<noteq> JStr service_id) (Return1 (ServiceMismatch s service_id)))))))))))))))"

text \<open>\<open>main\<close>: the exit code, and the line of the failure when there is one.\<close>

definition schemas_main ::
  "runtime \<Rightarrow> (pystr \<Rightarrow> int option) \<Rightarrow> (pystr \<Rightarrow> bool) \<Rightarrow> (pystr \<Rightarrow> bytes res) \<Rightarrow>
     (int \<times> contract_line option) res" where
  "schemas_main rt fint path_exists files =
     (case map_res (check_contract rt fint path_exists files) checks of
        Inr us \<Rightarrow> Inr (0, None)
      | Inl (Return1 l) \<Rightarrow> Inr (1, Some l)
      | Inl (Leaves e) \<Rightarrow> Inl e)"

section \<open>What passing means\<close>

lemma leaves_Inr_iff [res_simps]: "leaves r = Inr x \<longleftrightarrow> r = Inr x"
  by (auto simp: leaves_def split: sum.splits)

lemma require_keys_Inr:
  "require_keys fint path fixture keys = Inr u \<longleftrightarrow> (\<forall>k \<in> set keys. contains_key fint k fixture = Inr True)"
  by (induction keys) (auto simp: res_simps)

lemma missing_keys_Nil: "missing_keys present = [] \<longleftrightarrow> (\<forall>k \<in> set required_keys. JStr k \<in> set present)"
proof -
  have "sort ks = [] \<longleftrightarrow> ks = []" for ks :: "pystr list" by (metis length_0_conv length_sort)
  then show ?thesis unfolding missing_keys_def by (simp only: filter_empty_conv not_not)
qed

lemma set_of_obj: "set_of (JObj d) = Inr (map JStr (dict_keys d))"
  by (simp add: set_of_def list_all_iff)

text \<open>The schema and the fixture agree.\<close>

definition contract_ok :: "obj \<Rightarrow> obj \<Rightarrow> pystr \<Rightarrow> bool" where
  "contract_ok schema fixture service_id \<longleftrightarrow>
     (\<forall>k \<in> set required_keys. k \<in> set (dict_keys schema))
     \<and> py_get schema (lit ''type'') = JStr (lit ''object'')
     \<and> (\<exists>keys. py_iter (get_or schema (lit ''required'') (JList [])) = Inr keys
          \<and> (\<forall>k \<in> set keys. \<exists>s. k = JStr s \<and> dict_get fixture s \<noteq> None))
     \<and> py_get fixture (lit ''service_id'') = JStr service_id"

lemma contains_key_obj:
  "contains_key fint k (JObj d) = Inr True \<longleftrightarrow> (\<exists>s. k = JStr s \<and> dict_get d s \<noteq> None)"
  by (cases k) auto

lemma keys_of_strings: "JStr k \<in> set (map JStr (dict_keys d)) \<longleftrightarrow> k \<in> set (dict_keys d)"
  by auto

lemma ex_unit: "(\<exists>u. P u) \<longleftrightarrow> P ()"
  by (metis old.unit.exhaust)

lemma check_contract_Inr:
  "check_contract rt fint path_exists files (schema_path, fixture_path, service_id) = Inr u \<longleftrightarrow>
     path_exists schema_path \<and> path_exists fixture_path
     \<and> (\<exists>schema fixture. read_json rt files schema_path = Inr (JObj schema)
          \<and> read_json rt files fixture_path = Inr (JObj fixture) \<and> contract_ok schema fixture service_id)"
proof
  assume "check_contract rt fint path_exists files (schema_path, fixture_path, service_id) = Inr u"
  then obtain sv fv present t r keys i where
    v: "path_exists schema_path" "path_exists fixture_path" "read_json rt files schema_path = Inr sv"
      "read_json rt files fixture_path = Inr fv" "set_of sv = Inr present" "missing_keys present = []"
      "attr_get sv (lit ''type'') JNull = Inr t" "t = JStr (lit ''object'')"
      "attr_get sv (lit ''required'') (JList []) = Inr r" "py_iter r = Inr keys"
      "require_keys fint fixture_path fv keys = Inr ()" "attr_get fv (lit ''service_id'') JNull = Inr i"
      "i = JStr service_id"
    unfolding check_contract_def prod.case bind_res_Inr_iff leaves_Inr_iff raise_if_Inr_iff not_not ex_unit
    by blast
  from v(7,12) obtain schema fixture where o: "sv = JObj schema" "fv = JObj fixture"
    unfolding attr_get_Inr_iff by blast
  note c = v [unfolded o attr_get.simps sum.inject]
  from c(9,10) have keys: "py_iter (get_or schema (lit ''required'') (JList [])) = Inr keys" by simp
  from c(5,6) have "\<forall>k \<in> set required_keys. k \<in> set (dict_keys schema)"
    unfolding set_of_obj sum.inject missing_keys_Nil keys_of_strings [symmetric] by blast
  moreover have "\<forall>k \<in> set keys. \<exists>s. k = JStr s \<and> dict_get fixture s \<noteq> None"
    using c(11) unfolding require_keys_Inr contains_key_obj .
  ultimately have "contract_ok schema fixture service_id"
    using keys c(7,8,12,13) unfolding contract_ok_def by blast
  with c(1-4) show "path_exists schema_path \<and> path_exists fixture_path
     \<and> (\<exists>schema fixture. read_json rt files schema_path = Inr (JObj schema)
          \<and> read_json rt files fixture_path = Inr (JObj fixture) \<and> contract_ok schema fixture service_id)" by blast
next
  assume r: "path_exists schema_path \<and> path_exists fixture_path
     \<and> (\<exists>schema fixture. read_json rt files schema_path = Inr (JObj schema)
          \<and> read_json rt files fixture_path = Inr (JObj fixture) \<and> contract_ok schema fixture service_id)"
  then obtain schema fixture keys where
    c: "path_exists schema_path" "path_exists fixture_path" "read_json rt files schema_path = Inr (JObj schema)"
      "read_json rt files fixture_path = Inr (JObj fixture)"
      "\<forall>k \<in> set required_keys. k \<in> set (dict_keys schema)" "py_get schema (lit ''type'') = JStr (lit ''object'')"
      "py_iter (get_or schema (lit ''required'') (JList [])) = Inr keys"
      "\<forall>k \<in> set keys. \<exists>s. k = JStr s \<and> dict_get fixture s \<noteq> None"
      "py_get fixture (lit ''service_id'') = JStr service_id"
    unfolding contract_ok_def by blast
  have "missing_keys (map JStr (dict_keys schema)) = []"
    using c(5) unfolding missing_keys_Nil keys_of_strings .
  moreover have "require_keys fint fixture_path (JObj fixture) keys = Inr ()"
    using c(8) unfolding require_keys_Inr contains_key_obj .
  ultimately show "check_contract rt fint path_exists files (schema_path, fixture_path, service_id) = Inr u"
    using c by (simp add: check_contract_def leaves_def set_of_obj)
qed

section \<open>Properties\<close>

text \<open>
  C36. The tool ends with 0 exactly when both files exist and hold objects, the schema has the standard
  keys and describes an object, the fixture has every key the schema requires, all of them texts,
  and it is of the service \<open>svc.managed.boot-evidence\<close>.
\<close>

theorem schemas_valid_iff:
  "(\<exists>line. schemas_main rt fint path_exists files = Inr (0, line)) \<longleftrightarrow>
     path_exists (lit ''schemas/boot-evidence.schema.json'')
     \<and> path_exists (lit ''fixtures/boot-evidence.valid.json'')
     \<and> (\<exists>schema fixture. read_json rt files (lit ''schemas/boot-evidence.schema.json'') = Inr (JObj schema)
          \<and> read_json rt files (lit ''fixtures/boot-evidence.valid.json'') = Inr (JObj fixture)
          \<and> contract_ok schema fixture (lit ''svc.managed.boot-evidence''))"
proof -
  have "(\<exists>line. schemas_main rt fint path_exists files = Inr (0, line)) \<longleftrightarrow>
      (\<exists>u. check_contract rt fint path_exists files (hd checks) = Inr u)"
    by (auto simp: schemas_main_def checks_def bind_res_def split: sum.splits contract_stop.splits)
  then show ?thesis by (simp add: checks_def check_contract_Inr)
qed

end
