(* ===== verification/Spec2Isabelle.thy ===== *)
theory Spec2Isabelle
  imports Enrollment_Runs Cli Sbom Lifecycle_Contracts Contract_Schemas
begin

text \<open>
  A model of the Python part of \<open>nlboot\<close>, the planner for signed network boot, with the theorems that
  make it correct.

  \<^bold>\<open>The program.\<close> A release is a signed boot manifest (\<open>src/src/nlboot/protocol.py\<close>), possibly with a
  boot menu. A device enrolls: it makes a key pair and a signed claim (\<open>device.py\<close>), gets a one-time
  code for the claim and redeems it for a session credential (\<open>enrollment.py\<close>), and the operator
  renders the code's binding as an enrollment token. The command \<open>nlboot-plan\<close> (\<open>cli.py\<close>) reads a
  manifest, a document of trusted keys and a token, verifies the manifest's signature (\<open>verify.py\<close>),
  checks the token against the manifest and prints a boot plan, which only describes what could be
  done. Three tools under \<open>src/tools\<close> produce and check the evidence of a release.

  \<^bold>\<open>The language.\<close> \<open>Py_Prelude\<close> holds results (\<open>Inl\<close> an exception, \<open>Inr\<close> a value; \<open>bind_res\<close> is
  sequencing), dictionaries as association lists in insertion order, and the locales \<open>keyed_store\<close> and
  \<open>codec\<close>. A \<open>str\<close> is a list of code points, \<open>bytes\<close> a list of numbers below 256. \<open>Py_Str\<close> has the string
  and byte operations, \<open>Py_Utf8\<close> encoding, decoding and \<open>read_text\<close>, \<open>Py_Sha256\<close> the hash on 32 bit
  words, \<open>Py_Calendar\<close> and \<open>Py_Time\<close> datetimes as microseconds with \<open>fromisoformat\<close> and \<open>isoformat\<close>,
  \<open>Py_Json\<close> and \<open>Py_Json_Parse\<close> JSON values with \<open>json.dumps\<close> and \<open>json.loads\<close>, \<open>Py_Repr\<close> \<open>str\<close> of a
  JSON value, \<open>Py_Value\<close> subscripts, iteration and \<open>==\<close> of unchecked values. \<open>Py_Errors\<close> lists every
  exception: one constructor per \<open>raise\<close> statement with the values its message interpolates, and the
  exceptions of the library the code can meet. \<open>Py_Json_Roundtrip\<close>, \<open>Py_Json_Wf\<close> and
  \<open>Py_Time_Roundtrip\<close> show that canonical JSON reads back as the document with sorted keys, that
  \<open>json.loads\<close> of a decoded text yields documents for which this holds, and that timestamps read back.

  \<^bold>\<open>The components.\<close>
  \<open>Py_Fields\<close>: the two interfaces \<open>_require_string\<close> and \<open>_parse_time\<close>, each written in several modules,
  as the locales \<open>string_field\<close> and \<open>time_field\<close>; each module's version is an interpretation. The
  record \<open>runtime\<close> is what a run takes from its surroundings: clock, system time zone, \<open>repr\<close> of
  floats, limits of the JSON decoder.
  \<open>Protocol_Menu\<close>, \<open>Protocol_Manifest\<close>, \<open>Protocol_Token\<close>, \<open>Protocol_Plan\<close>: the classes and functions of
  \<open>protocol.py\<close> in its order. The parsers are characterised by well-formedness predicates (their range
  is exactly the well-formed records), token validation by \<open>token_admits\<close>, and the planner by the
  tables of its modes; a plan exists exactly when the token is admitted, is bound to its inputs and
  never executes.
  \<open>Crypto_Lib\<close>: the \<open>cryptography\<close> package as a record of functions that every definition using it takes
  as an argument, its documented behaviour as named hypotheses, and a concrete instance that
  satisfies them.
  \<open>Verify\<close>: trusted keys, their life cycle, canonical payloads, RSA-PSS verification and trust bundles.
  \<open>Signed_Documents\<close>: what a signature fixes, by the round trip of canonical JSON: two documents with
  the same payload parse to the same manifest or the same keys, and the order of keys, at any depth,
  does not change the payload. \<open>Json_Files\<close>: the locale \<open>json_file\<close>
  of a reader of JSON files, interpreted for the reader of the command and of each tool, with what
  it returns for a written document. \<open>Document_Files\<close>: signed documents in files.
  \<open>Device\<close>: identities, fingerprints, claims; a claim an identity makes verifies, and the exact
  condition of verification.
  \<open>Enrollment\<close>: the registry with its state passed explicitly; the locale \<open>one_time_store\<close> is the
  contract of one-time codes. \<open>Enrollment_Runs\<close>: events and runs of the registry, the invariant of
  reachable registries, the abstract grants the runs refine, single use and authorisation.
  \<open>Cli\<close>: the command, over files given as a function from paths to bytes or the exception of reading
  them; when it prints a plan, that it prints one for every signed release, and how it can fail.
  \<open>Sbom\<close>, \<open>Lifecycle_Contracts\<close>, \<open>Contract_Schemas\<close>: the tools \<open>cargo_metadata_to_spdx.py\<close>,
  \<open>validate_lifecycle_contracts.py\<close> and \<open>validate_contract_schemas.py\<close>.

  \<^bold>\<open>Fuel.\<close> Only the JSON scanner is bounded: \<open>json_loads\<close> gives it one more than twice the length of the
  text. A value consumes at least one character between two nested calls of the same kind and at
  most two calls are made per character, so the scanner never runs out (\<open>json_loads_fuel\<close>). Every
  other loop is structural or has a measure. The limits of the real decoder are part of the
  \<open>runtime\<close>: \<open>limit_error\<close> gives, for a text, the \<open>RecursionError\<close> of too deep nesting or the
  \<open>ValueError\<close> of an integer with too many digits, and every reader of JSON files raises it. Both
  limits are settings of the interpreter, so they are not fixed here.

  \<^bold>\<open>Not modelled.\<close> The texts of messages, which are constructors with their values. Argument parsing,
  which is a record of parsed arguments. Output to stderr and the writing of files: the standard
  output or the text to write is the result. The recursion limit while \<open>json.dumps\<close> and \<open>str\<close> render a
  nested document that was decoded within the limit, and the exhaustion of memory. The clock is one
  instant for a whole run of the command, although the code asks for it several times. The digits of
  floats: a float is the text of its \<open>repr\<close>, given by the runtime, and the integer it may equal is a
  parameter of \<open>py_eq\<close>. Datetimes other than UTC instants in the fields of claims, tokens and keys,
  which the code converts on entry. \<open>__init__.py\<close>, which re-exports names. The Rust client, a program
  of its own, and schemas, examples, tests, packaging and workflows, which hold no Python logic.

  \<^bold>\<open>Behaviour worth knowing.\<close> An unhashable key status and a timestamp at the ends of the calendar leave
  the parsers as \<open>TypeError\<close> and \<open>OverflowError\<close>; a time bound of a key that is no string is dropped; a
  credential expiry out of range costs the code; \<open>--require-fips\<close> changes nothing, because the manifest
  parser accepts the FIPS-ready profile alone; a package with a checksum and no version ends the SBOM
  tool; a file nested too deeply ends the command with a \<open>RecursionError\<close>. Each is a theorem of its
  component.
\<close>

end
